(* ===== verification/BSP_Prelude.thy ===== *)
theory BSP_Prelude
  imports Main "HOL-Library.Word"
begin

text \<open>
  Shared vocabulary of the development: the C integer types, the kernel's errno values and
  results, single-bit and field masks (\<open>BIT\<close>, \<open>GENMASK\<close>, \<open>__ffs\<close>), the decimal formatting and
  parsing the drivers do through \<open>sprintf\<close>, \<open>sscanf\<close> and \<open>kstrtoint\<close>, and the lemmas about them
  that the component theories use.

  A C \<open>int\<close> is a 32-bit word too (\<open>s32\<close>): comparing an \<open>int\<close> with a \<open>u32\<close> converts it to
  unsigned without changing a bit, so such a comparison is \<open>\<le>\<close> on words; a signed comparison
  is written with \<open>sint\<close>.
\<close>

unbundle bit_operations_syntax

section \<open>Integer types and errors\<close>

type_synonym u8 = "8 word"
type_synonym u16 = "16 word"
type_synonym u32 = "32 word"
type_synonym u64 = "64 word"
type_synonym s32 = "32 word"

text \<open>
  The error numbers the drivers return themselves, and \<open>Errno n\<close> for one handed through from
  a kernel call. A function that returns \<open>-E\<close> or a value is modelled by \<open>Inl E\<close> or \<open>Inr value\<close>.
\<close>

datatype errno =
    EIO | ENOENT | ENXIO | EBUSY | EEXIST | ENODEV | EINVAL | ENOTTY | ENOSPC | EFAULT | ENOMEM
  | ERANGE | EOPNOTSUPP | ETIMEDOUT | Errno nat

fun errno_code :: "errno \<Rightarrow> nat" where
  "errno_code EIO = 5"
| "errno_code ENOENT = 2"
| "errno_code ENXIO = 6"
| "errno_code EBUSY = 16"
| "errno_code EEXIST = 17"
| "errno_code ENODEV = 19"
| "errno_code EINVAL = 22"
| "errno_code ENOTTY = 25"
| "errno_code ENOSPC = 28"
| "errno_code EFAULT = 14"
| "errno_code ENOMEM = 12"
| "errno_code ERANGE = 34"
| "errno_code EOPNOTSUPP = 95"
| "errno_code ETIMEDOUT = 110"
| "errno_code (Errno n) = n"

text \<open>The value of a C \<open>int\<close> that holds \<open>-E\<close>.\<close>

definition neg_errno :: "errno \<Rightarrow> s32" where
  "neg_errno e = - of_nat (errno_code e)"

type_synonym 'a result = "errno + 'a"

definition is_ok :: "'a result \<Rightarrow> bool" where
  "is_ok r = (case r of Inl _ \<Rightarrow> False | Inr _ \<Rightarrow> True)"

lemma is_ok_simps [simp]: "is_ok (Inr x)" "\<not> is_ok (Inl e)"
  by (simp_all add: is_ok_def)

lemma not_ok_iff: "\<not> is_ok r \<longleftrightarrow> (\<exists>e. r = Inl e)"
  by (auto simp: is_ok_def split: sum.splits)

named_theorems tab_defs "platform tables, unfolded to evaluate a claim about them"

section \<open>Single bits and fields of a 32-bit register\<close>

definition BIT :: "nat \<Rightarrow> u32" where
  "BIT n = push_bit n 1"

definition GENMASK :: "nat \<Rightarrow> nat \<Rightarrow> u32" where
  "GENMASK h l = push_bit l (mask (h + 1 - l))"

text \<open>The index of the least set bit; the kernel leaves \<open>__ffs(0)\<close> undefined, here it is 32.\<close>

definition ffs :: "u32 \<Rightarrow> nat" where
  "ffs w = length (takeWhile (\<lambda>i. \<not> bit w i) [0..<32])"

lemma bit_BIT [bit_simps]: "bit (BIT n) k \<longleftrightarrow> n = k \<and> k < 32"
  by (auto simp: BIT_def bit_simps)

lemma bit_u32_lt: "bit (w :: u32) n \<Longrightarrow> n < 32"
  using bit_imp_le_length [of w n] by simp

lemma BIT_0_iff: "BIT n = 0 \<longleftrightarrow> 32 \<le> n"
proof
  assume "BIT n = 0"
  then have "\<not> bit (BIT n) n" by simp
  then show "32 \<le> n" by (simp add: bit_BIT)
next
  assume "32 \<le> n"
  then show "BIT n = 0" by (intro bit_word_eqI) (auto simp: bit_BIT)
qed

lemma and_BIT_0_iff: "w AND BIT n = 0 \<longleftrightarrow> \<not> bit w n"
proof
  assume h: "w AND BIT n = 0"
  show "\<not> bit w n"
  proof
    assume b: "bit w n"
    then have "bit (w AND BIT n) n" by (simp add: bit_simps bit_u32_lt)
    with h show False by simp
  qed
next
  assume "\<not> bit w n"
  then show "w AND BIT n = 0" by (intro bit_word_eqI) (auto simp: bit_simps)
qed

lemma ffs_least:
  assumes "(w :: u32) \<noteq> 0"
  shows "bit w (ffs w)" and "ffs w < 32" and "i < ffs w \<Longrightarrow> \<not> bit w i"
proof -
  let ?P = "\<lambda>i. \<not> bit w i" and ?xs = "[0..<32] :: nat list"
  have "\<exists>n. bit w n"
  proof (rule ccontr)
    assume "\<not> ?thesis"
    then have "w = 0" by (intro bit_word_eqI) simp
    with assms show False ..
  qed
  then obtain n where n: "bit w n" ..
  then have "n < 32" by (rule bit_u32_lt)
  with n have ex: "\<exists>x \<in> set ?xs. \<not> ?P x" by auto
  have lt: "length (takeWhile ?P ?xs) < length ?xs"
  proof (rule ccontr)
    assume "\<not> ?thesis"
    then have "length (takeWhile ?P ?xs) = length ?xs"
      using length_takeWhile_le [of ?P ?xs] by simp
    then have "takeWhile ?P ?xs = ?xs"
      by (metis takeWhile_eq_take take_all order_refl)
    with ex show False by (metis takeWhile_eq_all_conv)
  qed
  then show 1: "ffs w < 32" by (simp add: ffs_def)
  from lt have "\<not> ?P (?xs ! length (takeWhile ?P ?xs))" by (rule nth_length_takeWhile)
  with 1 show "bit w (ffs w)" by (simp add: ffs_def)
  show "\<not> bit w i" if "i < ffs w" for i
  proof -
    from that have "takeWhile ?P ?xs ! i = ?xs ! i"
      by (simp add: ffs_def takeWhile_nth)
    moreover from that have "?P (takeWhile ?P ?xs ! i)"
      by (metis ffs_def nth_mem set_takeWhileD)
    ultimately show ?thesis using that 1 by simp
  qed
qed

text \<open>
  Writing a value into the field \<open>m\<close> whose lowest bit is \<open>s\<close>, as the drivers do:
  \<open>(reg & ~m) | ((v << s) & m)\<close>.
\<close>

definition field_put :: "u32 \<Rightarrow> nat \<Rightarrow> u32 \<Rightarrow> u32 \<Rightarrow> u32" where
  "field_put m s v r = (r AND NOT m) OR (push_bit s v AND m)"

definition field_get :: "u32 \<Rightarrow> nat \<Rightarrow> u32 \<Rightarrow> u32" where
  "field_get m s r = drop_bit s (r AND m)"

lemma field_get_put: "field_get m s (field_put m s v r) = v AND drop_bit s m"
  by (rule bit_word_eqI)
    (auto simp: field_get_def field_put_def bit_simps dest: bit_u32_lt)

lemma field_put_frame: "field_put m s v r AND NOT m = r AND NOT m"
  by (rule bit_word_eqI) (auto simp: field_put_def bit_simps)

lemma and_eq_0_bitD: "(a :: u32) AND b = 0 \<Longrightarrow> bit a n \<Longrightarrow> \<not> bit b n"
proof
  assume z: "a AND b = 0"
  assume "bit a n" and "bit b n"
  then have "bit (a AND b) n" by (simp add: bit_and_iff)
  with z show False by simp
qed

lemma field_get_other:
  assumes "m AND m' = 0"
  shows "field_get m' s' (field_put m s v r) = field_get m' s' r"
  by (rule bit_word_eqI)
    (auto simp: field_get_def field_put_def bit_simps
      dest: bit_u32_lt and_eq_0_bitD [OF assms])

lemma unat_ucast_u8 [simp]: "unat (ucast (w :: u8) :: u32) = unat w"
  using unsigned_less [of w, where ?'a = nat]
  by (simp add: unsigned_ucast_eq take_bit_nat_eq_self)

lemma unat_ucast_u32 [simp]: "unat (ucast (w :: u32) :: u64) = unat w"
  using unsigned_less [of w, where ?'a = nat]
  by (simp add: unsigned_ucast_eq take_bit_nat_eq_self)

lemma sint_small:
  assumes "unat (w :: s32) < 2 ^ 31"
  shows "sint w = int (unat w)"
proof -
  from assms have "uint w < 2 ^ 31"
    by (metis of_nat_less_iff of_nat_numeral of_nat_power uint_nat)
  moreover have "- (2 ^ 31) \<le> uint w" by (rule order_trans [OF _ uint_ge_0]) simp
  ultimately have "sint w = uint w" by (simp add: sint_uint signed_take_bit_int_eq_self_iff)
  then show ?thesis by simp
qed

lemma sint_nonneg:
  assumes "0 \<le> sint (w :: s32)"
  shows "sint w = int (unat w)"
proof -
  have "sint w < 2 ^ 31" using sint_lt [of w] by simp
  with assms have "take_bit 32 (sint w) = sint w" by (simp add: take_bit_int_eq_self_iff)
  then have "uint w = sint w" by (simp add: uint_sint)
  then show ?thesis by simp
qed

lemma sint_of_nat: "n < 2 ^ 31 \<Longrightarrow> sint (of_nat n :: s32) = int n"
  by (subst sint_small) (simp_all add: unat_of_nat)

section \<open>Decimal numbers in names and attribute values\<close>

definition digit_char :: "nat \<Rightarrow> char" where
  "digit_char d = char_of (48 + d)"

definition is_digit :: "char \<Rightarrow> bool" where
  "is_digit c = (48 \<le> (of_char c :: nat) \<and> (of_char c :: nat) \<le> 57)"

definition digit_val :: "char \<Rightarrow> nat" where
  "digit_val c = of_char c - 48"

text \<open>The conversion \<open>%u\<close> of \<open>sprintf\<close>.\<close>

fun dec :: "nat \<Rightarrow> string" where
  "dec n = (if n < 10 then [digit_char n] else dec (n div 10) @ [digit_char (n mod 10)])"

declare dec.simps [simp del]

lemma dec_small:
  "dec 0 = ''0''" "dec (Suc 0) = ''1''" "dec 2 = ''2''" "dec 3 = ''3''" "dec 4 = ''4''"
  "dec 5 = ''5''" "dec 6 = ''6''" "dec 7 = ''7''" "dec 8 = ''8''" "dec 9 = ''9''"
  "dec (Suc (Suc 0)) = ''2''"
  by code_simp+

text \<open>The conversion \<open>%d\<close> of an \<open>int\<close>.\<close>

definition dec_int :: "int \<Rightarrow> string" where
  "dec_int i = (if i < 0 then CHR ''-'' # dec (nat (- i)) else dec (nat i))"

text \<open>The conversion \<open>%x\<close> of \<open>sprintf\<close>.\<close>

definition hex_char :: "nat \<Rightarrow> char" where
  "hex_char d = (if d < 10 then digit_char d else char_of (87 + d))"

fun hex :: "nat \<Rightarrow> string" where
  "hex n = (if n < 16 then [hex_char n] else hex (n div 16) @ [hex_char (n mod 16)])"

declare hex.simps [simp del]

fun digits_val :: "nat \<Rightarrow> string \<Rightarrow> nat" where
  "digits_val acc [] = acc"
| "digits_val acc (c # cs) = digits_val (10 * acc + digit_val c) cs"

lemma of_char_digit_char: "d < 10 \<Longrightarrow> (of_char (digit_char d) :: nat) = 48 + d"
  by (simp add: digit_char_def of_char_of)

lemma is_digit_digit_char [simp]: "d < 10 \<Longrightarrow> is_digit (digit_char d)"
  by (simp add: is_digit_def of_char_digit_char)

lemma digit_val_digit_char [simp]: "d < 10 \<Longrightarrow> digit_val (digit_char d) = d"
  by (simp add: digit_val_def of_char_digit_char)

lemma digits_val_append: "digits_val a (xs @ ys) = digits_val (digits_val a xs) ys"
  by (induction xs arbitrary: a) auto

lemma dec_is_digit: "c \<in> set (dec n) \<Longrightarrow> is_digit c"
proof (induction n rule: dec.induct)
  case (1 n)
  then show ?case
    by (cases "n < 10") (auto simp: dec.simps [of n])
qed

lemma dec_nonempty [simp]: "dec n \<noteq> []"
  by (subst dec.simps) simp

lemma digits_val_dec: "digits_val 0 (dec n) = n"
proof (induction n rule: dec.induct)
  case (1 n)
  show ?case
  proof (cases "n < 10")
    case True
    then show ?thesis by (simp add: dec.simps [of n])
  next
    case False
    with 1 have "digits_val 0 (dec (n div 10)) = n div 10" by simp
    with False show ?thesis
      by (simp add: dec.simps [of n] digits_val_append)
  qed
qed

lemma dec_inj: "dec m = dec n \<longleftrightarrow> m = n"
  by (metis digits_val_dec)

lemma takeWhile_digits_dec:
  "takeWhile is_digit (dec n @ s) = dec n @ takeWhile is_digit s"
  using dec_is_digit by (intro takeWhile_append2) blast

text \<open>
  \<open>sscanf(s, "<prefix>%d...", &n)\<close>: match the literal prefix, then an optional minus sign and
  digits; \<open>None\<close> when no number was converted. The converted value is stored into a C \<open>int\<close>.
  Literal text after the conversion does not change the number of conversions.
\<close>

definition scan_digits :: "string \<Rightarrow> nat option" where
  "scan_digits s = (let ds = takeWhile is_digit s in if ds = [] then None else Some (digits_val 0 ds))"

definition sscanf_d :: "string \<Rightarrow> string \<Rightarrow> s32 option" where
  "sscanf_d pre s =
     (if take (length pre) s = pre
      then (let r = drop (length pre) s
            in if r \<noteq> [] \<and> hd r = CHR ''-''
               then map_option (\<lambda>n. - of_nat n) (scan_digits (tl r))
               else map_option of_nat (scan_digits r))
      else None)"

lemma is_digit_minus: "\<not> is_digit CHR ''-''"
  by (simp add: is_digit_def)

lemma dec_hd_digit: "is_digit (hd (dec n))"
  using dec_is_digit [of "hd (dec n)" n] by simp

lemma scan_digits_dec:
  assumes "s = [] \<or> \<not> is_digit (hd s)"
  shows "scan_digits (dec n @ s) = Some n"
proof -
  have "takeWhile is_digit s = []" using assms by (cases s) auto
  then show ?thesis
    by (simp add: scan_digits_def Let_def takeWhile_digits_dec digits_val_dec)
qed

lemma sscanf_d_dec:
  assumes "s = [] \<or> \<not> is_digit (hd s)"
  shows "sscanf_d pre (pre @ dec n @ s) = Some (of_nat n)"
proof -
  have "hd (dec n @ s) \<noteq> CHR ''-''"
    using dec_hd_digit [of n] is_digit_minus by (auto simp: hd_append)
  with assms show ?thesis
    by (simp add: sscanf_d_def Let_def scan_digits_dec)
qed

text \<open>
  \<open>kstrtoint(s, 10, &v)\<close>: an optional sign, at least one digit, at most one trailing newline and
  nothing else (\<open>-EINVAL\<close>); a value that does not fit an \<open>int\<close> is \<open>-ERANGE\<close>.
\<close>

definition strip_nl :: "string \<Rightarrow> string" where
  "strip_nl s = (if s \<noteq> [] \<and> last s = CHR 0x0A then butlast s else s)"

definition kstrto_digits :: "string \<Rightarrow> nat result" where
  "kstrto_digits s =
     (if s \<noteq> [] \<and> list_all is_digit s then Inr (digits_val 0 s) else Inl EINVAL)"

definition kstrtoint :: "string \<Rightarrow> int result" where
  "kstrtoint buf =
     (let s = strip_nl buf;
          neg = (s \<noteq> [] \<and> hd s = CHR ''-'');
          body = (if s \<noteq> [] \<and> (hd s = CHR ''-'' \<or> hd s = CHR ''+'') then tl s else s)
      in case kstrto_digits body of
           Inl e \<Rightarrow> Inl e
         | Inr n \<Rightarrow>
             let v = (if neg then - int n else int n)
             in if - (2 ^ 31) \<le> v \<and> v < 2 ^ 31 then Inr v else Inl ERANGE)"

lemma strip_nl_dec [simp]: "strip_nl (dec n @ ''\<newline>'') = dec n" "strip_nl (dec n) = dec n"
proof -
  show "strip_nl (dec n @ ''\<newline>'') = dec n" by (simp add: strip_nl_def)
  have "is_digit (last (dec n))" using dec_is_digit [of "last (dec n)" n] by simp
  then have "last (dec n) \<noteq> CHR 0x0A" by (auto simp: is_digit_def)
  then show "strip_nl (dec n) = dec n" by (simp add: strip_nl_def)
qed

lemma kstrtoint_dec:
  assumes "n < 2 ^ 31"
  shows "kstrtoint (dec n @ ''\<newline>'') = Inr (int n)"
proof -
  have "hd (dec n) \<noteq> CHR ''-''" and "hd (dec n) \<noteq> CHR ''+''"
    using dec_hd_digit [of n] by (auto simp: is_digit_def)
  moreover have "list_all is_digit (dec n)"
    using dec_is_digit by (auto simp: list_all_iff)
  ultimately show ?thesis
    using assms by (simp add: kstrtoint_def kstrto_digits_def digits_val_dec Let_def)
qed

text \<open>A number in a name is delimited by the character after it.\<close>

lemma dec_append_inj:
  assumes "dec a @ s = dec b @ t" and "s = [] \<or> \<not> is_digit (hd s)" and "t = [] \<or> \<not> is_digit (hd t)"
  shows "a = b \<and> s = t"
proof -
  have stop: "takeWhile is_digit (dec n @ r) = dec n" if "r = [] \<or> \<not> is_digit (hd r)" for n r
    using that dec_is_digit by (cases r) (auto simp: takeWhile_digits_dec)
  from stop [OF assms(2), of a] stop [OF assms(3), of b] assms(1) have d: "dec a = dec b"
    by (simp only:)
  with assms(1) have "s = t" by (simp only: same_append_eq)
  with d show ?thesis by (simp only: dec_inj)
qed

text \<open>A long list of numbers is checked for duplicates by sorting it.\<close>

lemma distinct_by_sort: "successively (<) (sort (xs :: 'a :: linorder list)) \<Longrightarrow> distinct xs"
  by (metis successively_conv_sorted_wrt strict_sorted_iff distinct_sort transp_on_less)

end
