(* ===== verification/Platform_Types.thy ===== *)
theory Platform_Types
  imports BSP_Prelude
begin

text \<open>
  The per-SKU descriptors: the structs of \<open>kmods/platform/nh_platform.h\<close> and of the subsystem
  headers it includes, one record per struct. An array is a list next to its length field where
  the struct has one, a pointer that may be NULL is an \<open>option\<close>. Fields whose C name occurs in
  two structs carry the struct's initials here (\<open>pg_\<close> for \<open>xcvr_port_group\<close>, \<open>r_\<close> for
  \<open>port_led_range\<close>).
\<close>

section \<open>Fan card (nh_fpga_fan.h)\<close>

record fan =
  status_offset :: u32
  status_change_flags_offset :: u32
  inner_tach :: u32
  outer_tach :: u32
  pwrgood :: u32
  module_id_mask :: u32
  module_id_shift :: u32
  ctrl_good_led_bit :: u32
  ctrl_fail_led_bit :: u32
  pwm_offset :: u32
  inner_tach_offset :: u32
  outer_tach_offset :: u32

record fan_card_status_addr =
  num_fan_controllers :: u32
  ctrl_offset :: u32
  card_type_mask :: u32
  pwm_mask :: u32
  inner_tach_mask :: u32
  outer_tach_mask :: u32
  tach_time_unit_ns :: u32
  num_rotors :: u32
  fans :: "fan list"

definition FAN_MODULE_ID_ABSENT :: u8 where "FAN_MODULE_ID_ABSENT = 0xF"
definition FAN_MODULE_ID_DUAL_ROTOR :: u8 where "FAN_MODULE_ID_DUAL_ROTOR = 0x7"
definition FAN_CARD_TYPE_INVALID :: u32 where "FAN_CARD_TYPE_INVALID = 0x0"
definition FAN_CARD_TYPE_RAPTOR_2RU_12V :: u32 where "FAN_CARD_TYPE_RAPTOR_2RU_12V = 0x1"
definition FAN_TACH_TIME_UNIT_NS :: u32 where "FAN_TACH_TIME_UNIT_NS = 3920"

section \<open>Port LEDs (nh_fpga_port_led.h)\<close>

datatype port_led_color = PORT_LED_BLUE | PORT_LED_AMBER

fun color_name :: "port_led_color \<Rightarrow> string" where
  "color_name PORT_LED_BLUE = ''blue''"
| "color_name PORT_LED_AMBER = ''amber''"

record port_led_range =
  r_start_port :: u32
  r_end_port :: u32
  r_offset :: u32
  bits_per_port :: u8
  color_bit_offset :: u8

record port_led_color_addr =
  num_ranges :: u32
  ranges :: "port_led_range list"

section \<open>Status LEDs (nh_fpga_led_core.h)\<close>

datatype nh_led_type =
    NH_LED_TYPE_PSU | NH_LED_TYPE_FAN | NH_LED_TYPE_SYS | NH_LED_TYPE_MGMT_QSFP

fun led_type_index :: "nh_led_type \<Rightarrow> nat" where
  "led_type_index NH_LED_TYPE_PSU = 0"
| "led_type_index NH_LED_TYPE_FAN = 1"
| "led_type_index NH_LED_TYPE_SYS = 2"
| "led_type_index NH_LED_TYPE_MGMT_QSFP = 3"

record nh_led_core_info =
  led_name :: "string option"
  color_offset :: u8
  color_field_width :: u8
  blink_bit :: u8
  colors :: "u8 list"

text \<open>What C stores in the rows a designated initialiser leaves out.\<close>

definition zero_led_info :: nh_led_core_info where
  "zero_led_info = \<lparr>led_name = None, color_offset = 0, color_field_width = 0, blink_bit = 0,
     colors = [0, 0, 0, 0, 0, 0, 0, 0]\<rparr>"

record nh_led_core_config =
  led_info :: "nh_led_core_info list"
  color_names :: "string list"
  num_colors_per_led :: u8
  num_leds :: u8
  control_offset :: u32

section \<open>Transceivers (nh_xcvr_ctrl.h)\<close>

record xcvr_port_group =
  pg_start_port :: u32
  pg_end_port :: u32
  reset_reg_offset :: u32
  lp_mode_reg_offset :: u32
  pg_present_reg_offset :: u32
  fixed_bits :: bool
  pg_reset_bit :: u32
  pg_lp_mode_bit :: u32
  pg_present_bit :: u32
  reset_active_high :: bool
  no_lp_mode :: bool

record xcvr_ctrl_config =
  groups :: "xcvr_port_group list option"
  num_groups :: u32
  id_to_slot :: "u32 list option"
  id_to_slot_len :: u32

section \<open>I2C muxes, ASIC temperature, PSUs, interrupts\<close>

record mux_config =
  mc_logical_master :: s32
  num_channels :: s32
  reg_offset :: u32
  description :: string

record asic_temp_config =
  status_reg_offset :: u32
  max_mask :: u32
  max_shift :: u32
  min_mask :: u32
  min_shift :: u32

record psu_fw_cfg =
  fw_logical_master :: u8
  mux_channels :: "u8 list option"
  device_addr :: u16
  version_reg :: u8
  read_len :: u8
  payload_offset :: u8

definition NH_FPGA_PSU_OFFSET_UNSET :: u32 where "NH_FPGA_PSU_OFFSET_UNSET = 0xFFFFFFFF"

record psu_present_cfg =
  psu_reg_offset :: u32
  num_psus :: u8
  active_low :: bool
  present_masks :: "u32 list"
  fw_cfg :: "psu_fw_cfg option"

record nh_fpga_msi_domain_cfg =
  chip_name :: string
  ier_offset :: u32
  isr_offset :: u32
  first_master :: s32
  last_master :: s32
  first_hw_irq :: u8

record nh_fpga_irq_cfg =
  domains :: "nh_fpga_msi_domain_cfg list"
  num_domains :: s32
  i2c_csr_base :: u32
  i2c_csr_channel_size :: u32
  ref_clk_hz :: u32
  min_fpga_version :: u16

section \<open>The platform descriptor (nh_platform.h)\<close>

record nh_platform_cfg =
  pf_device_id :: u16
  pf_name :: string
  led_core_cfg :: "nh_led_core_config option"
  fan_cfg :: "fan_card_status_addr option"
  port_led_cfg :: "(port_led_color \<Rightarrow> port_led_color_addr) option"
  num_ports_per_led :: u32
  dual_color_per_led :: bool
  led_to_id :: "u32 list option"
  led_to_id_len :: u32
  xcvr_cfg :: "xcvr_ctrl_config option"
  mux_cfg :: "mux_config list option"
  mux_count :: s32
  asic_temp_cfg :: "asic_temp_config option"
  psu_cfg :: "psu_present_cfg option"
  irq_cfg :: "nh_fpga_irq_cfg option"

text \<open>An array and the length field that describes it agree (\<open>ARRAY_SIZE\<close> in the tables).\<close>

definition fan_table_ok :: "fan_card_status_addr \<Rightarrow> bool" where
  "fan_table_ok c = (length (fans c) = unat (num_fan_controllers c))"

definition range_table_ok :: "port_led_color_addr \<Rightarrow> bool" where
  "range_table_ok c = (length (ranges c) = unat (num_ranges c))"

end
