(* ===== verification/Platform_Base.thy ===== *)
theory Platform_Base
  imports Platform_Types
begin

text \<open>
  What the platform tables share: the PCI device ids, the row abbreviations the tables below are
  written with, and the two tables of \<open>kmods/platform/m4062nhp_common.c\<close>.
\<close>

definition NH_FPGA_VENDOR_XILINX :: u16 where "NH_FPGA_VENDOR_XILINX = 0x10ee"
definition NH_FPGA_DEVICE_CF2 :: u16 where "NH_FPGA_DEVICE_CF2 = 0x7016"
definition NH_FPGA_DEVICE_M4062NHP_FPGA0 :: u16 where "NH_FPGA_DEVICE_M4062NHP_FPGA0 = 0x7018"
definition NH_FPGA_DEVICE_M4062NHP_FPGA1 :: u16 where "NH_FPGA_DEVICE_M4062NHP_FPGA1 = 0x7019"
definition NH_FPGA_DEVICE_M4061NHP :: u16 where "NH_FPGA_DEVICE_M4061NHP = 0x7022"
definition NH_FPGA_DEVICE_M4340NHP :: u16 where "NH_FPGA_DEVICE_M4340NHP = 0x7024"

lemmas device_id_defs [tab_defs] =
  NH_FPGA_DEVICE_CF2_def NH_FPGA_DEVICE_M4062NHP_FPGA0_def NH_FPGA_DEVICE_M4062NHP_FPGA1_def
  NH_FPGA_DEVICE_M4061NHP_def NH_FPGA_DEVICE_M4340NHP_def

text \<open>A row \<open>{ start_port, end_port, offset, bits_per_port, color_bit_offset }\<close>.\<close>

definition led_range :: "u32 \<Rightarrow> u32 \<Rightarrow> u32 \<Rightarrow> u8 \<Rightarrow> u8 \<Rightarrow> port_led_range" where
  [tab_defs]: "led_range s e off bpp cbo = \<lparr>r_start_port = s, r_end_port = e, r_offset = off,
     bits_per_port = bpp, color_bit_offset = cbo\<rparr>"

text \<open>A row of a status LED table; \<open>.colors = {c}\<close> leaves the other colours zero.\<close>

definition led_row :: "string \<Rightarrow> u8 \<Rightarrow> u8 \<Rightarrow> u8 \<Rightarrow> u8 \<Rightarrow> nh_led_core_info" where
  [tab_defs]: "led_row nm off w bl c = \<lparr>led_name = Some nm, color_offset = off, color_field_width = w,
     blink_bit = bl, colors = [c, 0, 0, 0, 0, 0, 0, 0]\<rparr>"

definition m4062nhp_led_to_id :: "u32 list" where
  "m4062nhp_led_to_id = [
    0, 3, 4, 11, 12, 19, 20, 27, 28, 35, 36, 43, 44, 51, 52, 59,
    60, 67, 68, 75, 76, 83, 84, 91, 92, 99, 100, 107, 108, 115, 116, 123,
    124, 5, 6, 13, 14, 21, 22, 29, 30, 37, 38, 45, 46, 53, 54, 61,
    62, 69, 70, 77, 78, 85, 86, 93, 94, 101, 102, 109, 110, 117, 118, 125,
    126, 7, 8, 15, 16, 23, 24, 31, 32, 39, 40, 47, 48, 55, 56, 63,
    64, 71, 72, 79, 80, 87, 88, 95, 96, 103, 104, 111, 112, 119, 120, 127,
    128, 1, 2, 9, 10, 17, 18, 25, 26, 33, 34, 41, 42, 49, 50, 57,
    58, 65, 66, 73, 74, 81, 82, 89, 90, 97, 98, 105, 106, 113, 114, 121,
    122]"

definition m4062nhp_xcvr_id_to_slot :: "u32 list" where
  "m4062nhp_xcvr_id_to_slot = [
    0, 1, 2, 33, 34, 35, 36, 97, 98, 3, 4, 37, 38, 39, 40, 99,
    100, 5, 6, 41, 42, 43, 44, 101, 102, 7, 8, 45, 46, 47, 48, 103,
    104, 9, 10, 49, 50, 51, 52, 105, 106, 11, 12, 53, 54, 55, 56, 107,
    108, 13, 14, 57, 58, 59, 60, 109, 110, 15, 16, 61, 62, 63, 64, 111,
    112, 17, 18, 65, 66, 67, 68, 113, 114, 19, 20, 69, 70, 71, 72, 115,
    116, 21, 22, 73, 74, 75, 76, 117, 118, 23, 24, 77, 78, 79, 80, 119,
    120, 25, 26, 81, 82, 83, 84, 121, 122, 27, 28, 85, 86, 87, 88, 123,
    124, 29, 30, 89, 90, 91, 92, 125, 126, 31, 32, 93, 94, 95, 96, 127,
    128]"

text \<open>Both tables are permutations of 0 to 128 that keep 0 in its place.\<close>

lemma m4062nhp_perms_distinct: "distinct m4062nhp_led_to_id" "distinct m4062nhp_xcvr_id_to_slot"
  by (rule distinct_by_sort; code_simp)+

lemma m4062nhp_perms_bound:
  "list_all (\<lambda>x. x \<le> 128) m4062nhp_led_to_id" "list_all (\<lambda>x. x \<le> 128) m4062nhp_xcvr_id_to_slot"
  by code_simp+

lemma m4062nhp_perms_length [simp]:
  "length m4062nhp_led_to_id = 129" "length m4062nhp_xcvr_id_to_slot = 129"
  by (simp_all add: m4062nhp_led_to_id_def m4062nhp_xcvr_id_to_slot_def)

end
