(* ===== verification/Platform_cf2.thy ===== *)
theory Platform_cf2
  imports Platform_Base
begin

text \<open>The platform descriptor of \<open>kmods/platform/cf2.c\<close>, table by table.\<close>

definition cf2_mux :: "mux_config list" where
  "cf2_mux = [
    \<lparr>mc_logical_master = 0, num_channels = 5, reg_offset = 0x0018, description = ''MUX control''\<rparr>]"

definition cf2_msi_domains :: "nh_fpga_msi_domain_cfg list" where
  "cf2_msi_domains = [
    \<lparr>chip_name = ''cf2-msi-0'', ier_offset = 0x20, isr_offset = 0x24, first_master = 0,
      last_master = 10, first_hw_irq = 8\<rparr>]"

definition cf2_irq_cfg :: "nh_fpga_irq_cfg" where
  "cf2_irq_cfg = \<lparr>domains = cf2_msi_domains, num_domains = of_nat (length cf2_msi_domains),
     i2c_csr_base = 0x40000, i2c_csr_channel_size = 0x200, ref_clk_hz = 25000000, min_fpga_version = 0x01\<rparr>"

definition nh_platform_cf2 :: "nh_platform_cfg" where
  "nh_platform_cf2 = \<lparr>pf_device_id = NH_FPGA_DEVICE_CF2, pf_name = ''CF2'',
     led_core_cfg = None, fan_cfg = None,
     port_led_cfg = None, num_ports_per_led = 0, dual_color_per_led = False,
     led_to_id = None, led_to_id_len = 0,
     xcvr_cfg = None, mux_cfg = Some cf2_mux, mux_count = of_nat (length cf2_mux),
     asic_temp_cfg = None, psu_cfg = None, irq_cfg = Some cf2_irq_cfg\<rparr>"

lemmas cf2_tables [tab_defs] =
  cf2_mux_def cf2_msi_domains_def cf2_irq_cfg_def
  nh_platform_cf2_def

end
