(* ===== verification/Platform_m4061nhp.thy ===== *)
theory Platform_m4061nhp
  imports Platform_Base
begin

text \<open>The platform descriptor of \<open>kmods/platform/m4061nhp.c\<close>, table by table.\<close>

definition m4061nhp_led_info :: "nh_led_core_info list" where
  "m4061nhp_led_info = [
    led_row ''psu_led'' 1 1 2 0,
    led_row ''psu_led'' 0 1 2 1,
    led_row ''fan_led'' 5 1 6 0,
    led_row ''fan_led'' 4 1 6 1,
    led_row ''sys_led'' 9 1 10 0,
    led_row ''sys_led'' 8 1 10 1,
    zero_led_info,
    zero_led_info]"

definition m4061nhp_led_color_names :: "string list" where
  "m4061nhp_led_color_names = [''amber'', ''blue'']"

definition m4061nhp_led_config :: "nh_led_core_config" where
  "m4061nhp_led_config = \<lparr>led_info = m4061nhp_led_info, color_names = m4061nhp_led_color_names,
     num_colors_per_led = 1, num_leds = 2, control_offset = 0x9c\<rparr>"

definition m4061nhp_fans :: "fan list" where
  "m4061nhp_fans = [
    \<lparr>status_offset = 0x00A4, status_change_flags_offset = 0x0194, inner_tach = 0,
      outer_tach = 0, pwrgood = BIT 12, module_id_mask = GENMASK 11 8, module_id_shift = 8,
      ctrl_good_led_bit = BIT 1, ctrl_fail_led_bit = BIT 0, pwm_offset = 0x0240,
      inner_tach_offset = 0x00B4, outer_tach_offset = 0x00B4\<rparr>,
    \<lparr>status_offset = 0x00A4, status_change_flags_offset = 0x0194, inner_tach = 0,
      outer_tach = 0, pwrgood = BIT 20, module_id_mask = GENMASK 19 16, module_id_shift = 16,
      ctrl_good_led_bit = BIT 3, ctrl_fail_led_bit = BIT 2, pwm_offset = 0x0244,
      inner_tach_offset = 0x00B8, outer_tach_offset = 0x00B8\<rparr>,
    \<lparr>status_offset = 0x00A4, status_change_flags_offset = 0x0194, inner_tach = 0,
      outer_tach = 0, pwrgood = BIT 28, module_id_mask = GENMASK 27 24, module_id_shift = 24,
      ctrl_good_led_bit = BIT 5, ctrl_fail_led_bit = BIT 4, pwm_offset = 0x0248,
      inner_tach_offset = 0x00BC, outer_tach_offset = 0x00BC\<rparr>,
    \<lparr>status_offset = 0x00A8, status_change_flags_offset = 0x0198, inner_tach = 0,
      outer_tach = 0, pwrgood = BIT 4, module_id_mask = GENMASK 3 0, module_id_shift = 0,
      ctrl_good_led_bit = BIT 7, ctrl_fail_led_bit = BIT 6, pwm_offset = 0x024C,
      inner_tach_offset = 0x00C0, outer_tach_offset = 0x00C0\<rparr>,
    \<lparr>status_offset = 0x00A8, status_change_flags_offset = 0x0198, inner_tach = 0,
      outer_tach = 0, pwrgood = BIT 12, module_id_mask = GENMASK 11 8, module_id_shift = 8,
      ctrl_good_led_bit = BIT 9, ctrl_fail_led_bit = BIT 8, pwm_offset = 0x0250,
      inner_tach_offset = 0x00C4, outer_tach_offset = 0x00C4\<rparr>]"

definition m4061nhp_fan :: "fan_card_status_addr" where
  "m4061nhp_fan = \<lparr>num_fan_controllers = of_nat (length m4061nhp_fans), ctrl_offset = 0x00A0,
      card_type_mask = GENMASK 2 0, pwm_mask = 0xFF, inner_tach_mask = 0x0000FFFF,
      outer_tach_mask = 0xFFFF0000, tach_time_unit_ns = 5840, num_rotors = 2,
      fans = m4061nhp_fans\<rparr>"

definition m4061nhp_amber_ranges :: "port_led_range list" where
  "m4061nhp_amber_ranges = [
    led_range 1 8 0x60 4 0,
    led_range 9 16 0x64 4 0,
    led_range 17 24 0x68 4 0,
    led_range 25 32 0x6C 4 0,
    led_range 33 40 0x70 4 0,
    led_range 41 48 0x74 4 0,
    led_range 49 56 0x78 4 0,
    led_range 57 64 0x7C 4 0,
    led_range 65 65 0x9C 4 20]"

definition m4061nhp_blue_ranges :: "port_led_range list" where
  "m4061nhp_blue_ranges = [
    led_range 1 8 0x60 4 1,
    led_range 9 16 0x64 4 1,
    led_range 17 24 0x68 4 1,
    led_range 25 32 0x6C 4 1,
    led_range 33 40 0x70 4 1,
    led_range 41 48 0x74 4 1,
    led_range 49 56 0x78 4 1,
    led_range 57 64 0x7C 4 1,
    led_range 65 65 0x9C 4 21]"

definition m4061nhp_port_led :: "port_led_color \<Rightarrow> port_led_color_addr" where
  "m4061nhp_port_led = (\<lambda>c. case c of
     PORT_LED_AMBER \<Rightarrow> \<lparr>num_ranges = of_nat (length m4061nhp_amber_ranges), ranges = m4061nhp_amber_ranges\<rparr>
   | PORT_LED_BLUE \<Rightarrow> \<lparr>num_ranges = of_nat (length m4061nhp_blue_ranges), ranges = m4061nhp_blue_ranges\<rparr>)"

definition m4061nhp_xcvr_groups :: "xcvr_port_group list" where
  "m4061nhp_xcvr_groups = [
    \<lparr>pg_start_port = 1, pg_end_port = 32, reset_reg_offset = 0x0, lp_mode_reg_offset = 0x4,
      pg_present_reg_offset = 0x8, fixed_bits = False, pg_reset_bit = 0, pg_lp_mode_bit = 0,
      pg_present_bit = 0, reset_active_high = False, no_lp_mode = False\<rparr>,
    \<lparr>pg_start_port = 33, pg_end_port = 64, reset_reg_offset = 0x0, lp_mode_reg_offset = 0x4,
      pg_present_reg_offset = 0x8, fixed_bits = False, pg_reset_bit = 0, pg_lp_mode_bit = 0,
      pg_present_bit = 0, reset_active_high = False, no_lp_mode = False\<rparr>,
    \<lparr>pg_start_port = 65, pg_end_port = 65, reset_reg_offset = 0x0088,
      lp_mode_reg_offset = 0x0088, pg_present_reg_offset = 0x008C, fixed_bits = True,
      pg_reset_bit = 8, pg_lp_mode_bit = 10, pg_present_bit = 17, reset_active_high = False,
      no_lp_mode = False\<rparr>]"

definition m4061nhp_xcvr :: "xcvr_ctrl_config" where
  "m4061nhp_xcvr = \<lparr>groups = Some m4061nhp_xcvr_groups, num_groups = of_nat (length m4061nhp_xcvr_groups),
     id_to_slot = None, id_to_slot_len = 0\<rparr>"

definition m4061nhp_mux :: "mux_config list" where
  "m4061nhp_mux = [
    \<lparr>mc_logical_master = 0, num_channels = 4, reg_offset = 0x0010, description = ''MUX0 control''\<rparr>,
    \<lparr>mc_logical_master = 1, num_channels = 4, reg_offset = 0x0014, description = ''MUX1 control''\<rparr>,
    \<lparr>mc_logical_master = 3, num_channels = 4, reg_offset = 0x0018, description = ''MUX3 control''\<rparr>,
    \<lparr>mc_logical_master = 4, num_channels = 4, reg_offset = 0x001C, description = ''MUX4 control''\<rparr>]"

definition m4061nhp_asic_temp :: "asic_temp_config" where
  "m4061nhp_asic_temp = \<lparr>status_reg_offset = 0x0, max_mask = 0x1FFF0000, max_shift = 16, min_mask = 0x00001FFF,
      min_shift = 0\<rparr>"

definition m4061nhp_psu_masks :: "u32 list" where
  "m4061nhp_psu_masks = [BIT 2, BIT 6, BIT 10, BIT 14]"

definition m4061nhp_psu_fw_mux_channels :: "u8 list" where
  "m4061nhp_psu_fw_mux_channels = [0, 1, 2, 3]"

definition m4061nhp_psu_fw :: "psu_fw_cfg" where
  "m4061nhp_psu_fw = \<lparr>fw_logical_master = 0, mux_channels = Some m4061nhp_psu_fw_mux_channels,
     device_addr = 0x5A, version_reg = 0xD9, read_len = 8, payload_offset = 1\<rparr>"

definition m4061nhp_psu :: "psu_present_cfg" where
  "m4061nhp_psu = \<lparr>psu_reg_offset = 0x00, num_psus = of_nat (length m4061nhp_psu_masks), active_low = True,
     present_masks = m4061nhp_psu_masks, fw_cfg = Some m4061nhp_psu_fw\<rparr>"

definition m4061nhp_msi_domains :: "nh_fpga_msi_domain_cfg list" where
  "m4061nhp_msi_domains = [
    \<lparr>chip_name = ''m4061-msi-0'', ier_offset = 0x208, isr_offset = 0x20c, first_master = 0,
      last_master = 4, first_hw_irq = 8\<rparr>,
    \<lparr>chip_name = ''m4061-msi-1'', ier_offset = 0x210, isr_offset = 0x214, first_master = 5,
      last_master = 36, first_hw_irq = 0\<rparr>,
    \<lparr>chip_name = ''m4061-msi-2'', ier_offset = 0x218, isr_offset = 0x21c, first_master = 37,
      last_master = 68, first_hw_irq = 0\<rparr>]"

definition m4061nhp_irq_cfg :: "nh_fpga_irq_cfg" where
  "m4061nhp_irq_cfg = \<lparr>domains = m4061nhp_msi_domains, num_domains = of_nat (length m4061nhp_msi_domains),
     i2c_csr_base = 0x40000, i2c_csr_channel_size = 0x200, ref_clk_hz = 25000000, min_fpga_version = 0x0401\<rparr>"

definition nh_platform_m4061nhp :: "nh_platform_cfg" where
  "nh_platform_m4061nhp = \<lparr>pf_device_id = NH_FPGA_DEVICE_M4061NHP, pf_name = ''M4061NHP'',
     led_core_cfg = Some m4061nhp_led_config, fan_cfg = Some m4061nhp_fan,
     port_led_cfg = Some m4061nhp_port_led, num_ports_per_led = 65, dual_color_per_led = True,
     led_to_id = None, led_to_id_len = 0,
     xcvr_cfg = Some m4061nhp_xcvr, mux_cfg = Some m4061nhp_mux, mux_count = of_nat (length m4061nhp_mux),
     asic_temp_cfg = Some m4061nhp_asic_temp, psu_cfg = Some m4061nhp_psu, irq_cfg = Some m4061nhp_irq_cfg\<rparr>"

lemmas m4061nhp_tables [tab_defs] =
  m4061nhp_led_info_def m4061nhp_led_color_names_def m4061nhp_led_config_def
  m4061nhp_fans_def m4061nhp_fan_def m4061nhp_amber_ranges_def
  m4061nhp_blue_ranges_def m4061nhp_port_led_def m4061nhp_xcvr_groups_def
  m4061nhp_xcvr_def m4061nhp_mux_def m4061nhp_asic_temp_def
  m4061nhp_psu_masks_def m4061nhp_psu_fw_mux_channels_def m4061nhp_psu_fw_def
  m4061nhp_psu_def m4061nhp_msi_domains_def m4061nhp_irq_cfg_def
  nh_platform_m4061nhp_def

end
