(* ===== verification/Platform_m4062nhp_fpga0.thy ===== *)
theory Platform_m4062nhp_fpga0
  imports Platform_Base
begin

text \<open>The platform descriptor of \<open>kmods/platform/m4062nhp_fpga0.c\<close>, table by table.\<close>

definition m4062nhp_fpga0_led_info :: "nh_led_core_info list" where
  "m4062nhp_fpga0_led_info = [
    led_row ''psu_led'' 0 1 2 0,
    led_row ''psu_led'' 1 1 2 1,
    led_row ''fan_led'' 4 1 6 0,
    led_row ''fan_led'' 5 1 6 1,
    led_row ''sys_led'' 8 1 10 0,
    led_row ''sys_led'' 9 1 10 1,
    led_row ''port129_led1'' 16 1 18 0,
    led_row ''port129_led1'' 17 1 18 1]"

definition m4062nhp_fpga0_led_color_names :: "string list" where
  "m4062nhp_fpga0_led_color_names = [''amber'', ''blue'']"

definition m4062nhp_fpga0_led_config :: "nh_led_core_config" where
  "m4062nhp_fpga0_led_config = \<lparr>led_info = m4062nhp_fpga0_led_info, color_names = m4062nhp_fpga0_led_color_names,
     num_colors_per_led = 1, num_leds = 2, control_offset = 0x009c\<rparr>"

definition m4062nhp_fpga0_mux :: "mux_config list" where
  "m4062nhp_fpga0_mux = [
    \<lparr>mc_logical_master = 0, num_channels = 4, reg_offset = 0x0010, description = ''PSU MUX control''\<rparr>]"

definition m4062nhp_fpga0_amber_ranges :: "port_led_range list" where
  "m4062nhp_fpga0_amber_ranges = [
    led_range 33 40 0x60 4 0,
    led_range 41 48 0x64 4 0,
    led_range 49 56 0x68 4 0,
    led_range 57 64 0x6C 4 0,
    led_range 65 72 0x70 4 0,
    led_range 73 80 0x74 4 0,
    led_range 81 88 0x78 4 0,
    led_range 89 96 0x7C 4 0]"

definition m4062nhp_fpga0_blue_ranges :: "port_led_range list" where
  "m4062nhp_fpga0_blue_ranges = [
    led_range 33 40 0x60 4 1,
    led_range 41 48 0x64 4 1,
    led_range 49 56 0x68 4 1,
    led_range 57 64 0x6C 4 1,
    led_range 65 72 0x70 4 1,
    led_range 73 80 0x74 4 1,
    led_range 81 88 0x78 4 1,
    led_range 89 96 0x7C 4 1]"

definition m4062nhp_fpga0_port_led :: "port_led_color \<Rightarrow> port_led_color_addr" where
  "m4062nhp_fpga0_port_led = (\<lambda>c. case c of
     PORT_LED_AMBER \<Rightarrow> \<lparr>num_ranges = of_nat (length m4062nhp_fpga0_amber_ranges), ranges = m4062nhp_fpga0_amber_ranges\<rparr>
   | PORT_LED_BLUE \<Rightarrow> \<lparr>num_ranges = of_nat (length m4062nhp_fpga0_blue_ranges), ranges = m4062nhp_fpga0_blue_ranges\<rparr>)"

definition m4062nhp_fpga0_asic_temp :: "asic_temp_config" where
  "m4062nhp_fpga0_asic_temp = \<lparr>status_reg_offset = 0x0, max_mask = 0x1FFF0000, max_shift = 16, min_mask = 0x00001FFF,
      min_shift = 0\<rparr>"

definition m4062nhp_fpga0_psu_masks :: "u32 list" where
  "m4062nhp_fpga0_psu_masks = [BIT 9, BIT 13, BIT 1, BIT 5]"

definition m4062nhp_fpga0_psu_fw_mux_channels :: "u8 list" where
  "m4062nhp_fpga0_psu_fw_mux_channels = [0, 1, 2, 3]"

definition m4062nhp_fpga0_psu_fw :: "psu_fw_cfg" where
  "m4062nhp_fpga0_psu_fw = \<lparr>fw_logical_master = 0, mux_channels = Some m4062nhp_fpga0_psu_fw_mux_channels,
     device_addr = 0x58, version_reg = 0xD9, read_len = 8, payload_offset = 1\<rparr>"

definition m4062nhp_fpga0_psu :: "psu_present_cfg" where
  "m4062nhp_fpga0_psu = \<lparr>psu_reg_offset = 0x00, num_psus = of_nat (length m4062nhp_fpga0_psu_masks), active_low = True,
     present_masks = m4062nhp_fpga0_psu_masks, fw_cfg = Some m4062nhp_fpga0_psu_fw\<rparr>"

definition m4062nhp_fpga0_xcvr_groups :: "xcvr_port_group list" where
  "m4062nhp_fpga0_xcvr_groups = [
    \<lparr>pg_start_port = 129, pg_end_port = 129, reset_reg_offset = 0x0088,
      lp_mode_reg_offset = 0x0088, pg_present_reg_offset = 0x008C, fixed_bits = True,
      pg_reset_bit = 1, pg_lp_mode_bit = 2, pg_present_bit = 4, reset_active_high = False,
      no_lp_mode = False\<rparr>]"

definition m4062nhp_fpga0_xcvr :: "xcvr_ctrl_config" where
  "m4062nhp_fpga0_xcvr = \<lparr>groups = Some m4062nhp_fpga0_xcvr_groups, num_groups = of_nat (length m4062nhp_fpga0_xcvr_groups),
     id_to_slot = None, id_to_slot_len = 0\<rparr>"

definition m4062nhp_fpga0_msi_domains :: "nh_fpga_msi_domain_cfg list" where
  "m4062nhp_fpga0_msi_domains = [
    \<lparr>chip_name = ''m4062-fpga0-msi-0'', ier_offset = 0x170, isr_offset = 0x174,
      first_master = 0, last_master = 3, first_hw_irq = 8\<rparr>,
    \<lparr>chip_name = ''m4062-fpga0-msi-1'', ier_offset = 0x178, isr_offset = 0x17c,
      first_master = 4, last_master = 35, first_hw_irq = 0\<rparr>,
    \<lparr>chip_name = ''m4062-fpga0-msi-2'', ier_offset = 0x180, isr_offset = 0x184,
      first_master = 36, last_master = 67, first_hw_irq = 0\<rparr>]"

definition m4062nhp_fpga0_irq_cfg :: "nh_fpga_irq_cfg" where
  "m4062nhp_fpga0_irq_cfg = \<lparr>domains = m4062nhp_fpga0_msi_domains, num_domains = of_nat (length m4062nhp_fpga0_msi_domains),
     i2c_csr_base = 0x40000, i2c_csr_channel_size = 0x200, ref_clk_hz = 25000000, min_fpga_version = 0x00\<rparr>"

definition nh_platform_m4062nhp_fpga0 :: "nh_platform_cfg" where
  "nh_platform_m4062nhp_fpga0 = \<lparr>pf_device_id = NH_FPGA_DEVICE_M4062NHP_FPGA0, pf_name = ''M4062NHP_FPGA0'',
     led_core_cfg = Some m4062nhp_fpga0_led_config, fan_cfg = None,
     port_led_cfg = Some m4062nhp_fpga0_port_led, num_ports_per_led = 128, dual_color_per_led = True,
     led_to_id = Some m4062nhp_led_to_id, led_to_id_len = of_nat (length m4062nhp_led_to_id),
     xcvr_cfg = Some m4062nhp_fpga0_xcvr, mux_cfg = Some m4062nhp_fpga0_mux, mux_count = of_nat (length m4062nhp_fpga0_mux),
     asic_temp_cfg = Some m4062nhp_fpga0_asic_temp, psu_cfg = Some m4062nhp_fpga0_psu, irq_cfg = Some m4062nhp_fpga0_irq_cfg\<rparr>"

lemmas m4062nhp_fpga0_tables [tab_defs] =
  m4062nhp_fpga0_led_info_def m4062nhp_fpga0_led_color_names_def m4062nhp_fpga0_led_config_def
  m4062nhp_fpga0_mux_def m4062nhp_fpga0_amber_ranges_def m4062nhp_fpga0_blue_ranges_def
  m4062nhp_fpga0_port_led_def m4062nhp_fpga0_asic_temp_def m4062nhp_fpga0_psu_masks_def
  m4062nhp_fpga0_psu_fw_mux_channels_def m4062nhp_fpga0_psu_fw_def m4062nhp_fpga0_psu_def
  m4062nhp_fpga0_xcvr_groups_def m4062nhp_fpga0_xcvr_def m4062nhp_fpga0_msi_domains_def
  m4062nhp_fpga0_irq_cfg_def nh_platform_m4062nhp_fpga0_def

end
