(* ===== verification/Platform_m4062nhp_fpga1.thy ===== *)
theory Platform_m4062nhp_fpga1
  imports Platform_Base
begin

text \<open>The platform descriptor of \<open>kmods/platform/m4062nhp_fpga1.c\<close>, table by table.\<close>

definition m4062nhp_fpga1_xcvr_groups :: "xcvr_port_group list" where
  "m4062nhp_fpga1_xcvr_groups = [
    \<lparr>pg_start_port = 1, pg_end_port = 32, reset_reg_offset = 0x006C,
      lp_mode_reg_offset = 0x0070, pg_present_reg_offset = 0x0074, fixed_bits = False,
      pg_reset_bit = 0, pg_lp_mode_bit = 0, pg_present_bit = 0, reset_active_high = False,
      no_lp_mode = False\<rparr>,
    \<lparr>pg_start_port = 33, pg_end_port = 64, reset_reg_offset = 0x0030,
      lp_mode_reg_offset = 0x0034, pg_present_reg_offset = 0x0038, fixed_bits = False,
      pg_reset_bit = 0, pg_lp_mode_bit = 0, pg_present_bit = 0, reset_active_high = False,
      no_lp_mode = False\<rparr>,
    \<lparr>pg_start_port = 65, pg_end_port = 96, reset_reg_offset = 0x0044,
      lp_mode_reg_offset = 0x0048, pg_present_reg_offset = 0x004C, fixed_bits = False,
      pg_reset_bit = 0, pg_lp_mode_bit = 0, pg_present_bit = 0, reset_active_high = False,
      no_lp_mode = False\<rparr>,
    \<lparr>pg_start_port = 97, pg_end_port = 128, reset_reg_offset = 0x0058,
      lp_mode_reg_offset = 0x005C, pg_present_reg_offset = 0x0060, fixed_bits = False,
      pg_reset_bit = 0, pg_lp_mode_bit = 0, pg_present_bit = 0, reset_active_high = False,
      no_lp_mode = False\<rparr>]"

definition m4062nhp_fpga1_xcvr :: "xcvr_ctrl_config" where
  "m4062nhp_fpga1_xcvr = \<lparr>groups = Some m4062nhp_fpga1_xcvr_groups, num_groups = of_nat (length m4062nhp_fpga1_xcvr_groups),
     id_to_slot = Some m4062nhp_xcvr_id_to_slot, id_to_slot_len = of_nat (length m4062nhp_xcvr_id_to_slot)\<rparr>"

definition m4062nhp_fpga1_mux :: "mux_config list" where
  "m4062nhp_fpga1_mux = [
    \<lparr>mc_logical_master = 7, num_channels = 4, reg_offset = 0x0010, description = ''Bottom Mezz MUX control''\<rparr>,
    \<lparr>mc_logical_master = 8, num_channels = 4, reg_offset = 0x0014, description = ''Top Mezz MUX control''\<rparr>]"

definition m4062nhp_fpga1_amber_ranges :: "port_led_range list" where
  "m4062nhp_fpga1_amber_ranges = [
    led_range 1 8 0x90 4 0,
    led_range 9 16 0x94 4 0,
    led_range 17 24 0x98 4 0,
    led_range 25 32 0x9C 4 0,
    led_range 97 104 0x80 4 0,
    led_range 105 112 0x84 4 0,
    led_range 113 120 0x88 4 0,
    led_range 121 128 0x8C 4 0]"

definition m4062nhp_fpga1_blue_ranges :: "port_led_range list" where
  "m4062nhp_fpga1_blue_ranges = [
    led_range 1 8 0x90 4 1,
    led_range 9 16 0x94 4 1,
    led_range 17 24 0x98 4 1,
    led_range 25 32 0x9C 4 1,
    led_range 97 104 0x80 4 1,
    led_range 105 112 0x84 4 1,
    led_range 113 120 0x88 4 1,
    led_range 121 128 0x8C 4 1]"

definition m4062nhp_fpga1_port_led :: "port_led_color \<Rightarrow> port_led_color_addr" where
  "m4062nhp_fpga1_port_led = (\<lambda>c. case c of
     PORT_LED_AMBER \<Rightarrow> \<lparr>num_ranges = of_nat (length m4062nhp_fpga1_amber_ranges), ranges = m4062nhp_fpga1_amber_ranges\<rparr>
   | PORT_LED_BLUE \<Rightarrow> \<lparr>num_ranges = of_nat (length m4062nhp_fpga1_blue_ranges), ranges = m4062nhp_fpga1_blue_ranges\<rparr>)"

definition m4062nhp_fpga1_fans :: "fan list" where
  "m4062nhp_fpga1_fans = [
    \<lparr>status_offset = 0x00A8, status_change_flags_offset = 0x01D4, inner_tach = 0,
      outer_tach = 0, pwrgood = BIT 8, module_id_mask = GENMASK 7 4, module_id_shift = 0x4,
      ctrl_good_led_bit = BIT 17, ctrl_fail_led_bit = BIT 16, pwm_offset = 0x0250,
      inner_tach_offset = 0x00C8, outer_tach_offset = 0x00C8\<rparr>,
    \<lparr>status_offset = 0x00A8, status_change_flags_offset = 0x01D4, inner_tach = 0,
      outer_tach = 0, pwrgood = BIT 15, module_id_mask = GENMASK 14 11, module_id_shift = 0xb,
      ctrl_good_led_bit = BIT 19, ctrl_fail_led_bit = BIT 18, pwm_offset = 0x0254,
      inner_tach_offset = 0x00CC, outer_tach_offset = 0x00CC\<rparr>,
    \<lparr>status_offset = 0x00A8, status_change_flags_offset = 0x01D4, inner_tach = 0,
      outer_tach = 0, pwrgood = BIT 22, module_id_mask = GENMASK 21 18,
      module_id_shift = 0x12, ctrl_good_led_bit = BIT 21, ctrl_fail_led_bit = BIT 20,
      pwm_offset = 0x0258, inner_tach_offset = 0x00D0, outer_tach_offset = 0x00D0\<rparr>,
    \<lparr>status_offset = 0x00A8, status_change_flags_offset = 0x01D4, inner_tach = 0,
      outer_tach = 0, pwrgood = BIT 29, module_id_mask = GENMASK 28 25,
      module_id_shift = 0x19, ctrl_good_led_bit = BIT 23, ctrl_fail_led_bit = BIT 22,
      pwm_offset = 0x025C, inner_tach_offset = 0x00D4, outer_tach_offset = 0x00D4\<rparr>,
    \<lparr>status_offset = 0x00A4, status_change_flags_offset = 0x01D0, inner_tach = 0,
      outer_tach = 0, pwrgood = BIT 8, module_id_mask = GENMASK 7 4, module_id_shift = 0x4,
      ctrl_good_led_bit = BIT 1, ctrl_fail_led_bit = BIT 0, pwm_offset = 0x0240,
      inner_tach_offset = 0x00B4, outer_tach_offset = 0x00B4\<rparr>,
    \<lparr>status_offset = 0x00A4, status_change_flags_offset = 0x01D0, inner_tach = 0,
      outer_tach = 0, pwrgood = BIT 15, module_id_mask = GENMASK 14 11, module_id_shift = 0xb,
      ctrl_good_led_bit = BIT 3, ctrl_fail_led_bit = BIT 2, pwm_offset = 0x0244,
      inner_tach_offset = 0x00B8, outer_tach_offset = 0x00B8\<rparr>,
    \<lparr>status_offset = 0x00A4, status_change_flags_offset = 0x01D0, inner_tach = 0,
      outer_tach = 0, pwrgood = BIT 22, module_id_mask = GENMASK 21 18,
      module_id_shift = 0x12, ctrl_good_led_bit = BIT 5, ctrl_fail_led_bit = BIT 4,
      pwm_offset = 0x0248, inner_tach_offset = 0x00BC, outer_tach_offset = 0x00BC\<rparr>,
    \<lparr>status_offset = 0x00A4, status_change_flags_offset = 0x01D0, inner_tach = 0,
      outer_tach = 0, pwrgood = BIT 29, module_id_mask = GENMASK 28 25,
      module_id_shift = 0x19, ctrl_good_led_bit = BIT 7, ctrl_fail_led_bit = BIT 6,
      pwm_offset = 0x024C, inner_tach_offset = 0x00C0, outer_tach_offset = 0x00C0\<rparr>]"

definition m4062nhp_fpga1_fan :: "fan_card_status_addr" where
  "m4062nhp_fpga1_fan = \<lparr>num_fan_controllers = of_nat (length m4062nhp_fpga1_fans), ctrl_offset = 0x00A0,
      card_type_mask = GENMASK 2 0, pwm_mask = 0xFF, inner_tach_mask = GENMASK 15 0,
      outer_tach_mask = GENMASK 31 16, tach_time_unit_ns = 0, num_rotors = 2,
      fans = m4062nhp_fpga1_fans\<rparr>"

definition m4062nhp_fpga1_msi_domains :: "nh_fpga_msi_domain_cfg list" where
  "m4062nhp_fpga1_msi_domains = [
    \<lparr>chip_name = ''m4062-fpga1-msi-0'', ier_offset = 0x170, isr_offset = 0x174,
      first_master = 0, last_master = 9, first_hw_irq = 8\<rparr>,
    \<lparr>chip_name = ''m4062-fpga1-msi-1'', ier_offset = 0x178, isr_offset = 0x17c,
      first_master = 10, last_master = 41, first_hw_irq = 0\<rparr>,
    \<lparr>chip_name = ''m4062-fpga1-msi-2'', ier_offset = 0x180, isr_offset = 0x184,
      first_master = 42, last_master = 73, first_hw_irq = 0\<rparr>]"

definition m4062nhp_fpga1_irq_cfg :: "nh_fpga_irq_cfg" where
  "m4062nhp_fpga1_irq_cfg = \<lparr>domains = m4062nhp_fpga1_msi_domains, num_domains = of_nat (length m4062nhp_fpga1_msi_domains),
     i2c_csr_base = 0x40000, i2c_csr_channel_size = 0x200, ref_clk_hz = 25000000, min_fpga_version = 0x00\<rparr>"

definition nh_platform_m4062nhp_fpga1 :: "nh_platform_cfg" where
  "nh_platform_m4062nhp_fpga1 = \<lparr>pf_device_id = NH_FPGA_DEVICE_M4062NHP_FPGA1, pf_name = ''M4062NHP_FPGA1'',
     led_core_cfg = None, fan_cfg = Some m4062nhp_fpga1_fan,
     port_led_cfg = Some m4062nhp_fpga1_port_led, num_ports_per_led = 128, dual_color_per_led = True,
     led_to_id = Some m4062nhp_led_to_id, led_to_id_len = of_nat (length m4062nhp_led_to_id),
     xcvr_cfg = Some m4062nhp_fpga1_xcvr, mux_cfg = Some m4062nhp_fpga1_mux, mux_count = of_nat (length m4062nhp_fpga1_mux),
     asic_temp_cfg = None, psu_cfg = None, irq_cfg = Some m4062nhp_fpga1_irq_cfg\<rparr>"

lemmas m4062nhp_fpga1_tables [tab_defs] =
  m4062nhp_fpga1_xcvr_groups_def m4062nhp_fpga1_xcvr_def m4062nhp_fpga1_mux_def
  m4062nhp_fpga1_amber_ranges_def m4062nhp_fpga1_blue_ranges_def m4062nhp_fpga1_port_led_def
  m4062nhp_fpga1_fans_def m4062nhp_fpga1_fan_def m4062nhp_fpga1_msi_domains_def
  m4062nhp_fpga1_irq_cfg_def nh_platform_m4062nhp_fpga1_def

end
