(* ===== verification/Platform.thy ===== *)
theory Platform
  imports Platform_cf2 Platform_m4061nhp Platform_m4062nhp_fpga0 Platform_m4062nhp_fpga1
    Platform_m4340nhp
begin

text \<open>
  \<open>kmods/platform/nh_platform.c\<close>: the list of supported platforms and the lookup by PCI device
  id, with the facts about the tables that several drivers need.
\<close>

definition nh_fpga_pci_ids :: "(u16 \<times> u16) list" where
  "nh_fpga_pci_ids = [
    (NH_FPGA_VENDOR_XILINX, NH_FPGA_DEVICE_CF2),
    (NH_FPGA_VENDOR_XILINX, NH_FPGA_DEVICE_M4062NHP_FPGA0),
    (NH_FPGA_VENDOR_XILINX, NH_FPGA_DEVICE_M4062NHP_FPGA1),
    (NH_FPGA_VENDOR_XILINX, NH_FPGA_DEVICE_M4061NHP),
    (NH_FPGA_VENDOR_XILINX, NH_FPGA_DEVICE_M4340NHP)]"

definition nh_platforms :: "nh_platform_cfg list" where
  "nh_platforms = [nh_platform_cf2, nh_platform_m4061nhp, nh_platform_m4062nhp_fpga0,
     nh_platform_m4062nhp_fpga1, nh_platform_m4340nhp]"

definition nh_get_platform :: "u16 \<Rightarrow> nh_platform_cfg option" where
  "nh_get_platform device_id = find (\<lambda>p. pf_device_id p = device_id) nh_platforms"

lemma platform_device_ids:
  "map pf_device_id nh_platforms =
     [NH_FPGA_DEVICE_CF2, NH_FPGA_DEVICE_M4061NHP, NH_FPGA_DEVICE_M4062NHP_FPGA0,
      NH_FPGA_DEVICE_M4062NHP_FPGA1, NH_FPGA_DEVICE_M4340NHP]"
  by (simp add: nh_platforms_def nh_platform_cf2_def nh_platform_m4061nhp_def
      nh_platform_m4062nhp_fpga0_def nh_platform_m4062nhp_fpga1_def nh_platform_m4340nhp_def)

lemma platform_ids_distinct: "distinct (map pf_device_id nh_platforms)"
  by (simp add: platform_device_ids device_id_defs)

text \<open>Looking a descriptor up by its own device id finds that descriptor and no other.\<close>

lemma find_key_iff:
  "distinct (map f xs) \<Longrightarrow> find (\<lambda>x. f x = k) xs = Some y \<longleftrightarrow> y \<in> set xs \<and> f y = k"
  by (induction xs) auto

lemma nh_get_platform_iff:
  "nh_get_platform d = Some p \<longleftrightarrow> p \<in> set nh_platforms \<and> pf_device_id p = d"
  unfolding nh_get_platform_def by (rule find_key_iff [OF platform_ids_distinct])

lemma set_nh_platforms:
  "set nh_platforms = {nh_platform_cf2, nh_platform_m4061nhp, nh_platform_m4062nhp_fpga0,
     nh_platform_m4062nhp_fpga1, nh_platform_m4340nhp}"
  by (simp add: nh_platforms_def)

lemma platform_ids [simp]:
  "pf_device_id nh_platform_cf2 = NH_FPGA_DEVICE_CF2"
  "pf_device_id nh_platform_m4061nhp = NH_FPGA_DEVICE_M4061NHP"
  "pf_device_id nh_platform_m4062nhp_fpga0 = NH_FPGA_DEVICE_M4062NHP_FPGA0"
  "pf_device_id nh_platform_m4062nhp_fpga1 = NH_FPGA_DEVICE_M4062NHP_FPGA1"
  "pf_device_id nh_platform_m4340nhp = NH_FPGA_DEVICE_M4340NHP"
  by (simp_all add: nh_platform_cf2_def nh_platform_m4061nhp_def
      nh_platform_m4062nhp_fpga0_def nh_platform_m4062nhp_fpga1_def nh_platform_m4340nhp_def)

lemma get_platforms [simp]:
  "nh_get_platform NH_FPGA_DEVICE_CF2 = Some nh_platform_cf2"
  "nh_get_platform NH_FPGA_DEVICE_M4061NHP = Some nh_platform_m4061nhp"
  "nh_get_platform NH_FPGA_DEVICE_M4062NHP_FPGA0 = Some nh_platform_m4062nhp_fpga0"
  "nh_get_platform NH_FPGA_DEVICE_M4062NHP_FPGA1 = Some nh_platform_m4062nhp_fpga1"
  "nh_get_platform NH_FPGA_DEVICE_M4340NHP = Some nh_platform_m4340nhp"
  by (simp_all add: nh_get_platform_iff set_nh_platforms)

end
