(* ===== verification/Kernel_Env.thy ===== *)
theory Kernel_Env
  imports BSP_Prelude
begin

text \<open>
  The kernel services a probe function calls, as a parameter of its model: a record of outcomes.
  An allocation is named by what is allocated, a registration by the name it registers. Every
  theorem about a probe holds for all outcomes. Memory and devices obtained with a \<open>devm_\<close> call
  are released by the kernel when the probe fails, so a failed probe leaves no result.
\<close>

record kenv =
  alloc_ok :: "string \<Rightarrow> bool"
  led_register :: "string \<Rightarrow> errno option"
  trigger_init :: "string \<Rightarrow> errno option"
  hwmon_register :: "errno option"
  group_add :: "errno option"

text \<open>The identity of a PCI device.\<close>

type_synonym pci_id = nat

text \<open>The environment in which every call succeeds.\<close>

definition kenv_ok :: kenv where
  "kenv_ok = \<lparr>alloc_ok = (\<lambda>_. True), led_register = (\<lambda>_. None), trigger_init = (\<lambda>_. None),
     hwmon_register = None, group_add = None\<rparr>"

lemma kenv_ok_simps [simp]:
  "alloc_ok kenv_ok s" "led_register kenv_ok s = None" "trigger_init kenv_ok s = None"
  "hwmon_register kenv_ok = None" "group_add kenv_ok = None"
  by (simp_all add: kenv_ok_def)

text \<open>A loop that builds one object per element and returns at the first error.\<close>

fun collect :: "('a \<Rightarrow> 'b result) \<Rightarrow> 'a list \<Rightarrow> 'b list result" where
  "collect f [] = Inr []"
| "collect f (x # xs) =
     (case f x of
        Inl e \<Rightarrow> Inl e
      | Inr y \<Rightarrow> (case collect f xs of Inl e \<Rightarrow> Inl e | Inr ys \<Rightarrow> Inr (y # ys)))"

lemma collect_Inr: "collect f xs = Inr ys \<Longrightarrow> list_all2 (\<lambda>x y. f x = Inr y) xs ys"
  by (induction xs arbitrary: ys) (auto split: sum.splits)

lemma collect_set: "collect f xs = Inr ys \<Longrightarrow> y \<in> set ys \<Longrightarrow> \<exists>x \<in> set xs. f x = Inr y"
  by (induction xs arbitrary: ys) (auto split: sum.splits)

lemma collect_length: "collect f xs = Inr ys \<Longrightarrow> length ys = length xs"
  by (drule collect_Inr, drule list_all2_lengthD, simp)

lemma collect_all_ok: "(\<And>x. x \<in> set xs \<Longrightarrow> f x = Inr (g x)) \<Longrightarrow> collect f xs = Inr (map g xs)"
  by (induction xs) auto

lemma collect_guard:
  "collect (\<lambda>x. if P x then Inr (f x) else Inl e) xs =
     (if \<forall>x \<in> set xs. P x then Inr (map f xs) else Inl e)"
  by (induction xs) auto

lemma collect_map:
  assumes "collect f xs = Inr ys" and "\<And>x y. x \<in> set xs \<Longrightarrow> f x = Inr y \<Longrightarrow> y = g x"
  shows "ys = map g xs"
  using assms by (induction xs arbitrary: ys) (auto split: sum.splits)

end
