(* ===== verification/Mmio.thy ===== *)
theory Mmio
  imports BSP_Prelude
begin

text \<open>
  The FPGA's register space as the drivers use it: 32-bit registers in BAR0, read with
  \<open>ioread32\<close> and written with \<open>iowrite32\<close>. An address is the byte offset from the start of the
  BAR (\<open>mmio_base\<close>), so \<open>base + offset\<close> of the code is an addition of naturals.

  \<^item> \<open>regs\<close> is what the next read of a register returns. Every operation of the development is
    stated for an arbitrary register state, so whatever the hardware does between two operations
    is covered; the registers the drivers read back after a write (LED, PWM and transceiver
    control) are latches, as the driver comments say.
  \<^item> \<open>wlog\<close> records the writes in the order the driver issues them, so that a theorem can speak
    about the bus traffic itself.

  The locale \<open>reg_file\<close> states the two laws the register drivers rely on and proves the
  read-modify-write lemmas once; it is interpreted on \<open>ioread32\<close> and \<open>iowrite32\<close>.
\<close>

type_synonym addr = nat

record mmio =
  regs :: "addr \<Rightarrow> u32"
  wlog :: "(addr \<times> u32) list"

definition ioread32 :: "mmio \<Rightarrow> addr \<Rightarrow> u32" where
  "ioread32 m a = regs m a"

definition iowrite32 :: "u32 \<Rightarrow> addr \<Rightarrow> mmio \<Rightarrow> mmio" where
  "iowrite32 v a m = m\<lparr>regs := (regs m)(a := v), wlog := wlog m @ [(a, v)]\<rparr>"

section \<open>Laws of a register file\<close>

locale reg_file =
  fixes rd :: "'m \<Rightarrow> addr \<Rightarrow> u32"
    and wr :: "u32 \<Rightarrow> addr \<Rightarrow> 'm \<Rightarrow> 'm"
  assumes rd_wr_same: "rd (wr v a m) a = v"
    and rd_wr_other: "a' \<noteq> a \<Longrightarrow> rd (wr v a m) a' = rd m a'"
begin

lemma rd_wr: "rd (wr v a m) a' = (if a' = a then v else rd m a')"
  by (simp add: rd_wr_same rd_wr_other)

text \<open>A read-modify-write of one field: the field reads back, no other field changes.\<close>

lemma field_rmw:
  "field_get k s (rd (wr (field_put k s v (rd m a)) a m) a) = v AND drop_bit s k"
  by (simp add: rd_wr_same field_get_put)

lemma field_rmw_frame:
  assumes "a' \<noteq> a \<or> k AND k' = 0"
  shows "field_get k' s' (rd (wr (field_put k s v (rd m a)) a m) a') = field_get k' s' (rd m a')"
  using assms by (auto simp: rd_wr field_get_other)

text \<open>
  A read-modify-write that sets the bits \<open>s\<close> and clears the bits \<open>c\<close> (\<open>reg |= s; reg &= ~c\<close>).
\<close>

lemma bits_rmw:
  assumes "a' \<noteq> a \<or> \<not> bit (s OR c) n"
  shows "bit (rd (wr ((rd m a OR s) AND NOT c) a m) a') n = bit (rd m a') n"
  using assms by (auto simp: rd_wr bit_simps dest: bit_u32_lt)

lemma bits_rmw_set:
  "bit s n \<Longrightarrow> \<not> bit c n \<Longrightarrow> bit (rd (wr ((rd m a OR s) AND NOT c) a m) a) n"
  by (auto simp: rd_wr bit_simps dest: bit_u32_lt)

lemma bits_rmw_clear:
  "bit c n \<Longrightarrow> \<not> bit (rd (wr ((rd m a OR s) AND NOT c) a m) a) n"
  by (auto simp: rd_wr bit_simps)

text \<open>Two read-modify-writes of different registers, or of disjoint fields of one, commute.\<close>

lemma field_rmw_commute:
  assumes "k AND k' = 0"
  shows "rd (wr (field_put k' s' v' (rd (wr (field_put k s v (rd m a)) a m) a')) a'
              (wr (field_put k s v (rd m a)) a m)) x =
         rd (wr (field_put k s v (rd (wr (field_put k' s' v' (rd m a')) a' m) a)) a
              (wr (field_put k' s' v' (rd m a')) a' m)) x"
  by (rule bit_word_eqI)
    (auto simp: rd_wr field_put_def bit_simps dest: bit_u32_lt and_eq_0_bitD [OF assms])

end

interpretation bar: reg_file ioread32 iowrite32
  by unfold_locales (auto simp: ioread32_def iowrite32_def)

lemmas rd_wr_simps [simp] = bar.rd_wr_same bar.rd_wr_other

lemma wlog_iowrite32 [simp]: "wlog (iowrite32 v a m) = wlog m @ [(a, v)]"
  by (simp add: iowrite32_def)

end
