(* ===== verification/Fan.thy ===== *)
theory Fan
  imports Platform Kernel_Env Mmio
begin

text \<open>
  \<open>kmods/nh_fpga_fan_main.c\<close>, first part: the fan controller's state, the PWM and tachometer
  registers, the fan status and the hwmon entry points. A C \<open>int\<close> channel is a word; its
  comparison with the \<open>u32\<close> fan count is unsigned, so a negative channel is refused too.

  A function that returns \<open>-E\<close> or a register value as one \<open>int\<close> returns that \<open>int\<close> here; one that
  returns \<open>-E\<close> or 0 returns a \<open>result\<close>.
\<close>

section \<open>State\<close>

text \<open>\<open>struct nh_fpga_fan_led\<close>: the name and cached brightness are those of its \<open>led_cdev\<close>.\<close>

record nh_fpga_fan_led =
  fl_name :: string
  fan_index :: s32
  is_good_led :: bool
  fl_brightness :: nat

datatype fan_attr_kind = Attr_present | Attr_led | Attr_status | Attr_card_type

record fan_attr =
  attr_name :: string
  attr_mode :: nat
  attr_kind :: fan_attr_kind

text \<open>
  hwmon sensor types and the attributes of each type; the kernel numbers the attributes per type,
  and the code compares an attribute only after its type. A channel's configuration is the list
  of attributes its bit mask names.
\<close>

datatype hwmon_sensor = hwmon_pwm | hwmon_fan | hwmon_other_sensor

datatype hwmon_attr = hwmon_pwm_input | hwmon_fan_input | hwmon_fan_label | hwmon_other_attr

record hwmon_chip =
  pwm_config :: "hwmon_attr list list"
  fan_config :: "hwmon_attr list list"

record nh_fpga_fan_controller =
  num_fan_trays :: s32
  good_leds :: "nh_fpga_fan_led list"
  fail_leds :: "nh_fpga_fan_led list"
  fan_pwm_offsets :: "u32 list"
  fan_inner_tach_offsets :: "u32 list"
  fan_outer_tach_offsets :: "u32 list"
  fan_labels :: "string list"
  attr_group :: "fan_attr list"
  hwmon_chip_info :: hwmon_chip
  ctl_cfg :: fan_card_status_addr

record fan_status =
  present :: bool
  power_good :: bool
  module_id :: u8
  inner_tach_ok :: bool
  outer_tach_ok :: bool

section \<open>PWM\<close>

definition nh_fpga_fan_read_pwm :: "nh_fpga_fan_controller \<Rightarrow> s32 \<Rightarrow> mmio \<Rightarrow> s32" where
  "nh_fpga_fan_read_pwm ctl channel m =
     (let cfg = ctl_cfg ctl
      in if num_fan_controllers cfg \<le> channel then neg_errno EINVAL
         else
           let reg_val = ioread32 m (unat (fan_pwm_offsets ctl ! unat channel))
           in drop_bit (ffs (pwm_mask cfg)) (reg_val AND pwm_mask cfg))"

text \<open>\<open>value\<close> is a C \<open>long\<close>, wider than \<open>max_pwm\<close>.\<close>

definition nh_fpga_fan_write_pwm ::
    "nh_fpga_fan_controller \<Rightarrow> s32 \<Rightarrow> int \<Rightarrow> mmio \<Rightarrow> unit result \<times> mmio" where
  "nh_fpga_fan_write_pwm ctl channel value m =
     (let cfg = ctl_cfg ctl;
          pwm_shift = ffs (pwm_mask cfg);
          max_pwm = drop_bit pwm_shift (pwm_mask cfg)
      in if num_fan_controllers cfg \<le> channel \<or> value < 0 \<or> uint max_pwm < value
         then (Inl EINVAL, m)
         else
           let hw_pwm = word_of_int value :: u32;
               reg_addr = unat (fan_pwm_offsets ctl ! unat channel);
               reg_val = ioread32 m reg_addr;
               new_reg_val = (reg_val AND NOT (pwm_mask cfg))
                             OR (push_bit pwm_shift hw_pwm AND pwm_mask cfg)
           in (Inr (), iowrite32 new_reg_val reg_addr m))"

section \<open>Tachometers\<close>

definition nh_fpga_fan_read_tach :: "nh_fpga_fan_controller \<Rightarrow> s32 \<Rightarrow> bool \<Rightarrow> mmio \<Rightarrow> s32" where
  "nh_fpga_fan_read_tach ctl channel inner m =
     (let cfg = ctl_cfg ctl
      in if num_fan_controllers cfg \<le> channel then neg_errno EINVAL
         else if inner then
           let k = inner_tach_mask cfg;
               offset = fan_inner_tach_offsets ctl ! unat channel;
               reg_val = ioread32 m (unat offset)
           in drop_bit (ffs k) (reg_val AND k)
         else
           let k = outer_tach_mask cfg;
               offset = fan_outer_tach_offsets ctl ! unat channel;
               reg_val = ioread32 m (unat offset)
           in drop_bit (ffs k) (reg_val AND k))"

text \<open>\<open>div64_u64\<close> divides unsigned 64-bit numbers; the product is computed at 64 bits.\<close>

definition nh_fpga_fan_tach_to_rpm :: "u32 \<Rightarrow> u32 \<Rightarrow> u32" where
  "nh_fpga_fan_tach_to_rpm tach_cycles time_unit_ns =
     (if tach_cycles = 0 \<or> tach_cycles = 0xFFFF then 0
      else
        let unit = (if time_unit_ns = 0 then FAN_TACH_TIME_UNIT_NS else time_unit_ns);
            rpm = (60000000000 :: u64) div (ucast tach_cycles * ucast unit)
        in ucast rpm)"

section \<open>Status\<close>

definition nh_fpga_fan_get_status ::
    "nh_fpga_fan_controller \<Rightarrow> s32 \<Rightarrow> mmio \<Rightarrow> fan_status result" where
  "nh_fpga_fan_get_status ctl channel m =
     (let cfg = ctl_cfg ctl
      in if num_fan_controllers cfg \<le> channel then Inl EINVAL
         else
           let f = fans cfg ! unat channel;
               reg_val = ioread32 m (unat (status_offset f));
               mid = ucast (drop_bit (unat (module_id_shift f)) (reg_val AND module_id_mask f)) :: u8
           in Inr \<lparr>present = (mid = FAN_MODULE_ID_DUAL_ROTOR),
                   power_good = (reg_val AND pwrgood f \<noteq> 0),
                   module_id = mid,
                   inner_tach_ok = (reg_val AND inner_tach f \<noteq> 0),
                   outer_tach_ok = (reg_val AND outer_tach f \<noteq> 0)\<rparr>)"

definition nh_fpga_fan_get_status_and_presence ::
    "nh_fpga_fan_controller \<Rightarrow> s32 \<Rightarrow> mmio \<Rightarrow> unit result" where
  "nh_fpga_fan_get_status_and_presence ctl channel m =
     (case nh_fpga_fan_get_status ctl channel m of
        Inl e \<Rightarrow> Inl e
      | Inr status \<Rightarrow> if present status then Inr () else Inl ENODEV)"

definition nh_fpga_fan_get_card_type :: "nh_fpga_fan_controller \<Rightarrow> mmio \<Rightarrow> s32" where
  "nh_fpga_fan_get_card_type ctl m =
     (let cfg = ctl_cfg ctl
      in ioread32 m (unat (status_offset (fans cfg ! 0))) AND card_type_mask cfg)"

section \<open>The hwmon operations\<close>

definition nh_fpga_fan_is_visible :: "hwmon_sensor \<Rightarrow> hwmon_attr \<Rightarrow> s32 \<Rightarrow> nat" where
  "nh_fpga_fan_is_visible type attr channel =
     (case type of
        hwmon_pwm \<Rightarrow> if attr = hwmon_pwm_input then 420 else 0
      | hwmon_fan \<Rightarrow> if attr = hwmon_fan_input \<or> attr = hwmon_fan_label then 292 else 0
      | hwmon_other_sensor \<Rightarrow> 0)"

definition nh_fpga_fan_read ::
    "nh_fpga_fan_controller \<Rightarrow> hwmon_sensor \<Rightarrow> hwmon_attr \<Rightarrow> s32 \<Rightarrow> mmio \<Rightarrow> int result" where
  "nh_fpga_fan_read ctl type attr channel m =
     (if type = hwmon_pwm \<and> attr = hwmon_pwm_input then
        (case nh_fpga_fan_get_status_and_presence ctl channel m of
           Inl e \<Rightarrow> Inl e
         | Inr _ \<Rightarrow> Inr (sint (nh_fpga_fan_read_pwm ctl channel m)))
      else if type = hwmon_fan \<and> attr = hwmon_fan_input then
        let fcfg = ctl_cfg ctl;
            fan_channel = channel div num_rotors fcfg;
            inner = (channel mod num_rotors fcfg = 0)
        in (case nh_fpga_fan_get_status_and_presence ctl fan_channel m of
              Inl e \<Rightarrow> Inl e
            | Inr _ \<Rightarrow>
                let tach_cycles = nh_fpga_fan_read_tach ctl fan_channel inner m
                in Inr (uint (nh_fpga_fan_tach_to_rpm tach_cycles (tach_time_unit_ns fcfg))))
      else Inl EOPNOTSUPP)"

definition nh_fpga_fan_write ::
    "nh_fpga_fan_controller \<Rightarrow> hwmon_sensor \<Rightarrow> hwmon_attr \<Rightarrow> s32 \<Rightarrow> int \<Rightarrow> mmio \<Rightarrow> unit result \<times> mmio" where
  "nh_fpga_fan_write ctl type attr channel val m =
     (if type = hwmon_pwm \<and> attr = hwmon_pwm_input then
        (case nh_fpga_fan_get_status_and_presence ctl channel m of
           Inl e \<Rightarrow> (Inl e, m)
         | Inr _ \<Rightarrow> nh_fpga_fan_write_pwm ctl channel val m)
      else (Inl EOPNOTSUPP, m))"

definition nh_fpga_fan_read_string ::
    "nh_fpga_fan_controller \<Rightarrow> hwmon_sensor \<Rightarrow> hwmon_attr \<Rightarrow> s32 \<Rightarrow> string result" where
  "nh_fpga_fan_read_string ctl type attr channel =
     (if type \<noteq> hwmon_fan \<or> attr \<noteq> hwmon_fan_label then Inl EOPNOTSUPP
      else Inr (fan_labels ctl ! unat channel))"

definition nh_fpga_fan_num_tach :: "fan_card_status_addr \<Rightarrow> u32" where
  "nh_fpga_fan_num_tach fcfg = num_fan_controllers fcfg * num_rotors fcfg"

definition nh_fpga_fan_build_chip_info :: "kenv \<Rightarrow> fan_card_status_addr \<Rightarrow> hwmon_chip option" where
  "nh_fpga_fan_build_chip_info env fcfg =
     (let num_fans = num_fan_controllers fcfg;
          num_tach = nh_fpga_fan_num_tach fcfg
      in if \<not> list_all (alloc_ok env)
              [''chip'', ''pwm_info'', ''fan_info'', ''info_arr'', ''pwm_config'', ''fan_config'']
         then None
         else Some \<lparr>pwm_config = replicate (unat num_fans) [hwmon_pwm_input],
                     fan_config = replicate (unat num_tach) [hwmon_fan_input, hwmon_fan_label]\<rparr>)"

definition fan_label :: "fan_card_status_addr \<Rightarrow> u32 \<Rightarrow> string" where
  "fan_label fcfg i =
     (let tray = i div num_rotors fcfg + 1
      in if 1 < num_rotors fcfg
         then ''fan'' @ dec (unat tray) @ ''_''
                @ (if i mod num_rotors fcfg = 0 then ''inner'' else ''outer'')
         else ''fan'' @ dec (unat tray))"

definition nh_fpga_fan_build_labels :: "kenv \<Rightarrow> fan_card_status_addr \<Rightarrow> string list option" where
  "nh_fpga_fan_build_labels env fcfg =
     (let num_tach = nh_fpga_fan_num_tach fcfg
      in if \<not> alloc_ok env ''labels'' then None
         else case collect (\<lambda>i. let l = fan_label fcfg (of_nat i)
                                in if alloc_ok env l then Inr l else Inl ENOMEM)
                     [0..<unat num_tach] of
                Inl _ \<Rightarrow> None
              | Inr labels \<Rightarrow> Some labels)"

section \<open>What the platform table promises\<close>

text \<open>A mask whose bits are consecutive: its field can hold every number up to the largest.\<close>

definition contiguous :: "u32 \<Rightarrow> bool" where
  "contiguous k = (k \<noteq> 0 \<and> list_ex (\<lambda>n. drop_bit (ffs k) k = mask n) [0..<33])"

lemma contiguous_field:
  assumes "contiguous k" and "v \<le> drop_bit (ffs k) k"
  shows "v AND drop_bit (ffs k) k = v"
proof -
  have le_mask_and: "v AND mask n = v" if "v \<le> mask n" for n
  proof -
    from that have "unat v \<le> unat (of_nat (mask n) :: u32)"
      by (simp add: word_le_nat_alt of_nat_mask_eq)
    also have "\<dots> \<le> mask n" by (simp add: unat_of_nat)
    also have "\<dots> < 2 ^ n" by (simp add: mask_nat_less_exp)
    finally show ?thesis
      by (simp add: word_unat_eq_iff unsigned_take_bit_eq take_bit_nat_eq_self
          flip: take_bit_eq_mask)
  qed
  from assms(1) obtain n where n: "drop_bit (ffs k) k = mask n"
    by (auto simp: contiguous_def list_ex_iff)
  with assms(2) show ?thesis
    by (simp add: le_mask_and)
qed

text \<open>
  The table of a fan card: as many rows as controllers, fields that are contiguous, and PWM
  registers that are distinct and distinct from everything else the driver reads.
\<close>

definition fan_read_only_offsets :: "fan_card_status_addr \<Rightarrow> u32 list" where
  "fan_read_only_offsets c =
     map status_offset (fans c) @ map inner_tach_offset (fans c) @ map outer_tach_offset (fans c)"

definition fan_regs_ok :: "fan_card_status_addr \<Rightarrow> bool" where
  "fan_regs_ok c =
     (fan_table_ok c \<and> fans c \<noteq> [] \<and> num_rotors c \<noteq> 0
      \<and> int (length (fans c)) * uint (num_rotors c) < 2 ^ 31
      \<and> contiguous (pwm_mask c) \<and> uint (drop_bit (ffs (pwm_mask c)) (pwm_mask c)) < 2 ^ 31
      \<and> distinct (map pwm_offset (fans c))
      \<and> list_all (\<lambda>f. pwm_offset f \<noteq> ctrl_offset c
             \<and> list_all (\<lambda>off. off \<noteq> pwm_offset f \<and> off \<noteq> ctrl_offset c) (fan_read_only_offsets c))
           (fans c))"

text \<open>The invariant of a controller that probe built.\<close>

definition fan_ctl_ok :: "nh_fpga_fan_controller \<Rightarrow> bool" where
  "fan_ctl_ok ctl =
     (let c = ctl_cfg ctl
      in fan_regs_ok c
         \<and> fan_pwm_offsets ctl = map pwm_offset (fans c)
         \<and> fan_inner_tach_offsets ctl = map inner_tach_offset (fans c)
         \<and> fan_outer_tach_offsets ctl = map outer_tach_offset (fans c)
         \<and> num_fan_trays ctl \<noteq> 0 \<and> num_fan_trays ctl \<le> num_fan_controllers c)"

lemma fan_ctl_ok_channel:
  assumes "fan_ctl_ok ctl" and "\<not> num_fan_controllers (ctl_cfg ctl) \<le> ch"
  shows "unat ch < length (fans (ctl_cfg ctl))"
    and "fan_pwm_offsets ctl ! unat ch = pwm_offset (fans (ctl_cfg ctl) ! unat ch)"
    and "fan_inner_tach_offsets ctl ! unat ch = inner_tach_offset (fans (ctl_cfg ctl) ! unat ch)"
    and "fan_outer_tach_offsets ctl ! unat ch = outer_tach_offset (fans (ctl_cfg ctl) ! unat ch)"
  using assms
  by (auto simp: fan_ctl_ok_def Let_def fan_regs_ok_def fan_table_ok_def word_le_nat_alt)

lemma fan_regs_ok_apart:
  assumes "fan_regs_ok c" and "i < length (fans c)" and "j < length (fans c)"
  shows "status_offset (fans c ! j) \<noteq> pwm_offset (fans c ! i)"
    and "inner_tach_offset (fans c ! j) \<noteq> pwm_offset (fans c ! i)"
    and "outer_tach_offset (fans c ! j) \<noteq> pwm_offset (fans c ! i)"
    and "status_offset (fans c ! j) \<noteq> ctrl_offset c"
    and "i \<noteq> j \<Longrightarrow> pwm_offset (fans c ! j) \<noteq> pwm_offset (fans c ! i)"
  using assms nth_mem [of i "fans c"] nth_mem [of j "fans c"]
  by (auto simp: fan_regs_ok_def list_all_iff fan_read_only_offsets_def distinct_conv_nth
      simp del: nth_mem)

section \<open>PWM writes\<close>

lemma get_status_cong:
  assumes "fan_ctl_ok ctl"
    and "\<And>i. i < length (fans (ctl_cfg ctl)) \<Longrightarrow>
      ioread32 m' (unat (status_offset (fans (ctl_cfg ctl) ! i))) =
      ioread32 m (unat (status_offset (fans (ctl_cfg ctl) ! i)))"
  shows "nh_fpga_fan_get_status ctl ch m' = nh_fpga_fan_get_status ctl ch m"
  using assms fan_ctl_ok_channel(1) [OF assms(1), of ch]
  by (simp add: nh_fpga_fan_get_status_def Let_def)

lemma get_status_and_presence_cong:
  "nh_fpga_fan_get_status ctl ch m' = nh_fpga_fan_get_status ctl ch m \<Longrightarrow>
   nh_fpga_fan_get_status_and_presence ctl ch m' = nh_fpga_fan_get_status_and_presence ctl ch m"
  by (simp add: nh_fpga_fan_get_status_and_presence_def)

lemma presence_channel:
  "nh_fpga_fan_get_status_and_presence ctl ch m = Inr u \<Longrightarrow> \<not> num_fan_controllers (ctl_cfg ctl) \<le> ch"
  by (auto simp: nh_fpga_fan_get_status_and_presence_def nh_fpga_fan_get_status_def Let_def
      split: if_splits)

text \<open>A PWM write is one read-modify-write of one register; the other addresses keep their value.\<close>

lemma write_pwm_eq:
  assumes ok: "fan_ctl_ok ctl" and ch: "\<not> num_fan_controllers (ctl_cfg ctl) \<le> ch"
    and v: "0 \<le> v" "v \<le> uint (drop_bit (ffs (pwm_mask (ctl_cfg ctl))) (pwm_mask (ctl_cfg ctl)))"
  shows "nh_fpga_fan_write_pwm ctl ch v m =
    (let c = ctl_cfg ctl; a = unat (pwm_offset (fans c ! unat ch))
     in (Inr (), iowrite32 (field_put (pwm_mask c) (ffs (pwm_mask c)) (word_of_int v) (ioread32 m a)) a m))"
  using ch v fan_ctl_ok_channel [OF ok ch]
  by (simp add: nh_fpga_fan_write_pwm_def Let_def field_put_def)

lemma fan_ctl_ok_regs: "fan_ctl_ok ctl \<Longrightarrow> fan_regs_ok (ctl_cfg ctl)"
  by (simp add: fan_ctl_ok_def Let_def)

lemma write_pwm_read_pwm:
  assumes ok: "fan_ctl_ok ctl" and ch: "\<not> num_fan_controllers (ctl_cfg ctl) \<le> ch"
    and v: "0 \<le> v" "v \<le> uint (drop_bit (ffs (pwm_mask (ctl_cfg ctl))) (pwm_mask (ctl_cfg ctl)))"
  shows "sint (nh_fpga_fan_read_pwm ctl ch (snd (nh_fpga_fan_write_pwm ctl ch v m))) = v"
proof -
  let ?c = "ctl_cfg ctl"
  let ?k = "pwm_mask ?c"
  let ?mx = "drop_bit (ffs ?k) ?k"
  let ?w = "word_of_int v :: u32"
  from fan_ctl_ok_regs [OF ok] have k: "contiguous ?k" "uint ?mx < 2 ^ 31"
    by (simp_all add: fan_regs_ok_def)
  with v have uw: "uint ?w = v" by (simp add: uint_word_of_int)
  with v have "?w \<le> ?mx" by (simp add: word_le_def)
  with k have fld: "?w AND ?mx = ?w" by (simp add: contiguous_field)
  have sw: "sint ?w = v"
    using uw k(2) v by (simp add: sint_word_ariths signed_take_bit_int_eq_self_iff sint_uint)
  show ?thesis
    using ch fld sw fan_ctl_ok_channel(2) [OF ok ch]
    by (simp only: write_pwm_eq [OF ok ch v] nh_fpga_fan_read_pwm_def Let_def snd_conv if_False
        field_get_put rd_wr_simps simp_thms flip: field_get_def)
qed

lemma write_pwm_error:
  assumes "num_fan_controllers (ctl_cfg ctl) \<le> ch \<or> v < 0
    \<or> uint (drop_bit (ffs (pwm_mask (ctl_cfg ctl))) (pwm_mask (ctl_cfg ctl))) < v"
  shows "nh_fpga_fan_write_pwm ctl ch v m = (Inl EINVAL, m)"
  using assms by (simp add: nh_fpga_fan_write_pwm_def Let_def)

lemma write_pwm_other:
  assumes ok: "fan_ctl_ok ctl"
    and a: "\<not> num_fan_controllers (ctl_cfg ctl) \<le> ch \<Longrightarrow>
      a \<noteq> unat (pwm_offset (fans (ctl_cfg ctl) ! unat ch))"
  shows "ioread32 (snd (nh_fpga_fan_write_pwm ctl ch v m)) a = ioread32 m a"
proof (cases "num_fan_controllers (ctl_cfg ctl) \<le> ch \<or> v < 0
    \<or> uint (drop_bit (ffs (pwm_mask (ctl_cfg ctl))) (pwm_mask (ctl_cfg ctl))) < v")
  case True
  then show ?thesis by (simp only: write_pwm_error snd_conv)
next
  case False
  then have c: "\<not> num_fan_controllers (ctl_cfg ctl) \<le> ch" "0 \<le> v"
    "v \<le> uint (drop_bit (ffs (pwm_mask (ctl_cfg ctl))) (pwm_mask (ctl_cfg ctl)))" by auto
  with a show ?thesis by (simp add: write_pwm_eq [OF ok c] Let_def)
qed

text \<open>No hwmon reading but the PWM of that channel depends on a PWM write.\<close>

lemma write_pwm_get_status:
  assumes ok: "fan_ctl_ok ctl"
  shows "nh_fpga_fan_get_status ctl ch' (snd (nh_fpga_fan_write_pwm ctl ch v m)) =
    nh_fpga_fan_get_status ctl ch' m"
proof (rule get_status_cong [OF ok])
  fix i assume i: "i < length (fans (ctl_cfg ctl))"
  show "ioread32 (snd (nh_fpga_fan_write_pwm ctl ch v m))
      (unat (status_offset (fans (ctl_cfg ctl) ! i))) =
    ioread32 m (unat (status_offset (fans (ctl_cfg ctl) ! i)))"
    using fan_regs_ok_apart(1) [OF fan_ctl_ok_regs [OF ok] _ i] fan_ctl_ok_channel(1) [OF ok]
    by (intro write_pwm_other [OF ok]) (simp flip: word_unat_eq_iff)
qed

lemma write_pwm_presence:
  assumes "fan_ctl_ok ctl"
  shows "nh_fpga_fan_get_status_and_presence ctl ch' (snd (nh_fpga_fan_write_pwm ctl ch v m)) =
    nh_fpga_fan_get_status_and_presence ctl ch' m"
  by (rule get_status_and_presence_cong) (rule write_pwm_get_status [OF assms])

lemma write_pwm_read_tach:
  assumes ok: "fan_ctl_ok ctl"
  shows "nh_fpga_fan_read_tach ctl ch' inner (snd (nh_fpga_fan_write_pwm ctl ch v m)) =
    nh_fpga_fan_read_tach ctl ch' inner m"
proof (cases "num_fan_controllers (ctl_cfg ctl) \<le> ch'")
  case True
  then show ?thesis by (simp add: nh_fpga_fan_read_tach_def Let_def)
next
  case False
  let ?f = "\<lambda>ch. fans (ctl_cfg ctl) ! unat ch"
  note ch' = fan_ctl_ok_channel [OF ok False]
  have "ioread32 (snd (nh_fpga_fan_write_pwm ctl ch v m)) (unat off) = ioread32 m (unat off)"
    if "off = inner_tach_offset (?f ch') \<or> off = outer_tach_offset (?f ch')" for off
    using that fan_regs_ok_apart(2,3) [OF fan_ctl_ok_regs [OF ok] _ ch'(1)]
      fan_ctl_ok_channel(1) [OF ok]
    by (intro write_pwm_other [OF ok]) (metis word_unat_eq_iff)
  with False ch' show ?thesis by (simp add: nh_fpga_fan_read_tach_def Let_def)
qed

lemma write_pwm_read_pwm_other:
  assumes ok: "fan_ctl_ok ctl" and ne: "ch' \<noteq> ch"
  shows "nh_fpga_fan_read_pwm ctl ch' (snd (nh_fpga_fan_write_pwm ctl ch v m)) =
    nh_fpga_fan_read_pwm ctl ch' m"
proof (cases "num_fan_controllers (ctl_cfg ctl) \<le> ch'")
  case True
  then show ?thesis by (simp add: nh_fpga_fan_read_pwm_def Let_def)
next
  case False
  note ch' = fan_ctl_ok_channel [OF ok False]
  have "ioread32 (snd (nh_fpga_fan_write_pwm ctl ch v m)) (unat (pwm_offset (fans (ctl_cfg ctl) ! unat ch')))
    = ioread32 m (unat (pwm_offset (fans (ctl_cfg ctl) ! unat ch')))"
    using fan_regs_ok_apart(5) [OF fan_ctl_ok_regs [OF ok] _ ch'(1)] ne fan_ctl_ok_channel(1) [OF ok]
    by (intro write_pwm_other [OF ok]) (metis word_unat_eq_iff)
  with False ch' show ?thesis by (simp add: nh_fpga_fan_read_pwm_def Let_def)
qed

section \<open>Tachometer arithmetic\<close>

lemma tach_to_rpm_eq:
  assumes "c \<noteq> 0" and "c \<noteq> 0xFFFF"
  shows "unat (nh_fpga_fan_tach_to_rpm c u) =
    60000000000 div (unat c * (if u = 0 then 3920 else unat u)) mod 2 ^ 32"
proof -
  let ?u = "if u = 0 then FAN_TACH_TIME_UNIT_NS else u"
  have u: "unat ?u = (if u = 0 then 3920 else unat u)"
    by (simp add: FAN_TACH_TIME_UNIT_NS_def)
  have "unat c * unat ?u < 2 ^ 64"
    using mult_strict_mono' [of "unat c" "2 ^ 32" "unat ?u" "2 ^ 32"]
      unsigned_less [of c, where ?'a = nat] unsigned_less [of ?u, where ?'a = nat]
    by simp
  then have "unat (ucast c * ucast ?u :: u64) = unat c * unat ?u"
    by (simp add: unat_word_ariths)
  then show ?thesis
    using assms
    by (simp add: nh_fpga_fan_tach_to_rpm_def Let_def unsigned_ucast_eq unat_div_distrib
        take_bit_eq_mod flip: u)
qed

end
