(* ===== verification/Bicolor_Led.thy ===== *)
theory Bicolor_Led
  imports Mmio
begin

text \<open>
  The contract of a two-colour LED that two drivers implement (\<open>nh_fpga_fan_main.c\<close> for the fan
  trays, \<open>nh_fpga_port_led_main.c\<close> for the front panel): each colour has its own register bit,
  but switching one colour on switches its sibling off, and no operation touches another LED.

  The abstract LED shows one colour or none. \<open>abs_run\<close> runs a list of commands on the abstract
  LEDs, \<open>led_run\<close> runs it on the registers; the locale proves that the registers keep showing
  what the abstract LEDs show. The locale is interpreted in \<open>Port_Led\<close> and \<open>Fan_Led\<close>.
\<close>

text \<open>A command: which LED, which colour, on or off.\<close>

type_synonym ('e, 'c) led_cmd = "'e \<times> 'c \<times> bool"

fun abs_set :: "'c \<Rightarrow> bool \<Rightarrow> 'c option \<Rightarrow> 'c option" where
  "abs_set c True s = Some c"
| "abs_set c False s = (if s = Some c then None else s)"

fun abs_run :: "('e, 'c) led_cmd list \<Rightarrow> ('e \<Rightarrow> 'c option) \<Rightarrow> 'e \<Rightarrow> 'c option" where
  "abs_run [] st = st"
| "abs_run ((e, c, b) # cs) st = abs_run cs (st(e := abs_set c b (st e)))"

fun led_run :: "('e \<Rightarrow> 'c \<Rightarrow> bool \<Rightarrow> 'm \<Rightarrow> 'm) \<Rightarrow> ('e, 'c) led_cmd list \<Rightarrow> 'm \<Rightarrow> 'm" where
  "led_run put [] m = m"
| "led_run put ((e, c, b) # cs) m = led_run put cs (put e c b m)"

text \<open>The registers show the abstract LEDs: a colour's bit is set iff that colour is shown.\<close>

definition leds_show ::
    "('e \<Rightarrow> bool) \<Rightarrow> ('e \<Rightarrow> 'c \<Rightarrow> 'm \<Rightarrow> bool) \<Rightarrow> 'm \<Rightarrow> ('e \<Rightarrow> 'c option) \<Rightarrow> bool" where
  "leds_show ok lit m st = (\<forall>e. ok e \<longrightarrow> (\<forall>c. lit e c m \<longleftrightarrow> st e = Some c))"

locale bicolor_led =
  fixes ok :: "'k \<Rightarrow> 'e \<Rightarrow> bool"
    and put :: "'k \<Rightarrow> 'e \<Rightarrow> 'c \<Rightarrow> bool \<Rightarrow> 'm \<Rightarrow> 'm"
    and lit :: "'k \<Rightarrow> 'e \<Rightarrow> 'c \<Rightarrow> 'm \<Rightarrow> bool"
  assumes lit_put_on: "ok k e \<Longrightarrow> lit k e c' (put k e c True m) = (c' = c)"
    and lit_put_off: "ok k e \<Longrightarrow> lit k e c' (put k e c False m) = (c' \<noteq> c \<and> lit k e c' m)"
    and lit_put_other:
      "ok k e \<Longrightarrow> ok k e' \<Longrightarrow> e \<noteq> e' \<Longrightarrow> lit k e c (put k e' c' b m) = lit k e c m"
begin

lemma put_shows:
  assumes "ok k e" and "leds_show (ok k) (lit k) m st"
  shows "leds_show (ok k) (lit k) (put k e c b m) (st(e := abs_set c b (st e)))"
  unfolding leds_show_def
proof (intro allI impI)
  fix e' c' assume "ok k e'"
  with assms show "lit k e' c' (put k e c b m) \<longleftrightarrow> (st(e := abs_set c b (st e))) e' = Some c'"
    by (cases b; cases "e' = e")
      (auto simp: lit_put_on lit_put_off lit_put_other leds_show_def)
qed

lemma run_shows:
  assumes "leds_show (ok k) (lit k) m st" and "\<forall>(e, c, b) \<in> set cs. ok k e"
  shows "leds_show (ok k) (lit k) (led_run (put k) cs m) (abs_run cs st)"
  using assms
proof (induction cs arbitrary: m st)
  case Nil
  then show ?case by simp
next
  case (Cons x cs)
  obtain e c b where x: "x = (e, c, b)" by (cases x)
  with Cons.prems have "leds_show (ok k) (lit k) (put k e c b m) (st(e := abs_set c b (st e)))"
    by (intro put_shows) auto
  with Cons.prems Cons.IH show ?case by (simp add: x)
qed

text \<open>
  Whatever the registers held, once a colour of an LED has been switched on, the LED shows what
  the abstract one does.
\<close>

lemma run_one:
  assumes "ok k e" and "\<forall>(e', c, b) \<in> set cs. ok k e'" and "\<forall>c. lit k e c m \<longleftrightarrow> st e = Some c"
  shows "lit k e c (led_run (put k) cs m) \<longleftrightarrow> abs_run cs st e = Some c"
  using assms
proof (induction cs arbitrary: m st)
  case Nil
  then show ?case by simp
next
  case (Cons x cs)
  obtain e' c' b where x: "x = (e', c', b)" by (cases x)
  with Cons.prems have "ok k e'" by simp
  with Cons.prems have "\<forall>c. lit k e c (put k e' c' b m) \<longleftrightarrow> (st(e' := abs_set c' b (st e'))) e = Some c"
    by (cases b; cases "e = e'") (auto simp: lit_put_on lit_put_off lit_put_other)
  with Cons.prems Cons.IH show ?case by (simp add: x)
qed

lemma run_after_on:
  assumes "ok k e" and "\<forall>(e', c, b) \<in> set cs. ok k e'" and "(e, c0, True) \<in> set cs"
  shows "lit k e c (led_run (put k) cs m) \<longleftrightarrow> abs_run cs st e = Some c"
  using assms
proof (induction cs arbitrary: m st)
  case Nil
  then show ?case by simp
next
  case (Cons x cs)
  obtain e' c' b where x: "x = (e', c', b)" by (cases x)
  show ?case
  proof (cases "(e, c0, True) \<in> set cs")
    case True
    with Cons.prems Cons.IH show ?thesis by (simp add: x)
  next
    case False
    with Cons.prems x have x': "x = (e, c0, True)" by simp
    have "lit k e c (led_run (put k) cs (put k e c0 True m)) \<longleftrightarrow>
        abs_run cs (st(e := abs_set c0 True (st e))) e = Some c"
      by (rule run_one) (use Cons.prems in \<open>auto simp: lit_put_on\<close>)
    then show ?thesis by (simp add: x')
  qed
qed

text \<open>No sequence of commands lights both colours of an LED.\<close>

lemma run_exclusive:
  assumes "leds_show (ok k) (lit k) m st" and "\<forall>(e, c, b) \<in> set cs. ok k e" and "ok k e"
    and "lit k e c (led_run (put k) cs m)" and "lit k e c' (led_run (put k) cs m)"
  shows "c = c'"
  using run_shows [OF assms(1,2)] assms(3-5) by (simp add: leds_show_def)

text \<open>Switching a colour on after the sibling, or the sibling off first, ends the same way.\<close>

lemma put_on_off_commute:
  assumes "ok k e" and "c \<noteq> c'"
  shows "lit k e d (put k e c' False (put k e c True m)) = lit k e d (put k e c True (put k e c' False m))"
  using assms by (auto simp: lit_put_on lit_put_off)

end

end
