(* ===== verification/Fan_Led.thy ===== *)
theory Fan_Led
  imports Fan Bicolor_Led "HOL-Library.Multiset"
begin

text \<open>
  \<open>kmods/nh_fpga_fan_main.c\<close>, second part: the good/fail LED of each fan tray, through the LED
  class devices (\<open>nh_fpga_fan_led_set\<close>, \<open>nh_fpga_fan_led_get\<close>) and through the sysfs attribute
  \<open>fanN_led\<close>. All LED bits share the register \<open>ctrl_offset\<close>.

  The driver registers \<open>brightness_set_blocking\<close>, so \<open>led_set_brightness\<close> queues a work item per
  LED that runs \<open>nh_fpga_fan_led_set\<close> later, and the items of two LEDs run in any order. The store
  function therefore returns the items it queues, and \<open>run_led_works\<close> runs a list of them.
\<close>

definition LED_OFF :: nat where "LED_OFF = 0"
definition LED_FULL :: nat where "LED_FULL = 255"

section \<open>LED class devices\<close>

definition nh_fpga_fan_led_set ::
    "nh_fpga_fan_controller \<Rightarrow> nh_fpga_fan_led \<Rightarrow> nat \<Rightarrow> mmio \<Rightarrow> mmio" where
  "nh_fpga_fan_led_set ctl led brightness m =
     (let cfg = ctl_cfg ctl;
          led_on = (brightness \<noteq> LED_OFF);
          f = fans cfg ! unat (fan_index led);
          bit_pos = (if is_good_led led then ctrl_good_led_bit f else ctrl_fail_led_bit f);
          sibling_bit = (ctrl_good_led_bit f OR ctrl_fail_led_bit f) AND NOT bit_pos;
          reg_val = ioread32 m (unat (ctrl_offset cfg));
          new_reg_val = (if led_on then (reg_val OR bit_pos) AND NOT sibling_bit
                         else reg_val AND NOT bit_pos)
      in iowrite32 new_reg_val (unat (ctrl_offset cfg)) m)"

definition nh_fpga_fan_led_get :: "nh_fpga_fan_controller \<Rightarrow> nh_fpga_fan_led \<Rightarrow> mmio \<Rightarrow> nat" where
  "nh_fpga_fan_led_get ctl led m =
     (case nh_fpga_fan_get_status_and_presence ctl (fan_index led) m of
        Inl _ \<Rightarrow> LED_OFF
      | Inr _ \<Rightarrow>
          let cfg = ctl_cfg ctl;
              f = fans cfg ! unat (fan_index led);
              bit_pos = (if is_good_led led then ctrl_good_led_bit f else ctrl_fail_led_bit f);
              reg_val = ioread32 m (unat (ctrl_offset cfg))
          in if reg_val AND bit_pos \<noteq> 0 then LED_FULL else LED_OFF)"

definition nh_fpga_fan_init_leds :: "nh_fpga_fan_controller \<Rightarrow> mmio \<Rightarrow> mmio" where
  "nh_fpga_fan_init_leds ctl m =
     (let cfg = ctl_cfg ctl;
          offset = unat (ctrl_offset cfg);
          reg_val = foldl (\<lambda>r i. let f = fans cfg ! i
                                 in (r AND NOT (ctrl_good_led_bit f)) AND NOT (ctrl_fail_led_bit f))
                      (ioread32 m offset) [0..<nat (sint (num_fan_trays ctl))]
      in iowrite32 reg_val offset m)"

text \<open>One iteration of the loop of \<open>nh_fpga_fan_register_leds\<close>: the good and the fail LED.\<close>

definition fan_led_new :: "nat \<Rightarrow> bool \<Rightarrow> nh_fpga_fan_led" where
  "fan_led_new i good =
     \<lparr>fl_name = ''fan'' @ dec (i + 1) @ (if good then ''_led:blue:status'' else ''_led:amber:status''),
      fan_index = of_nat i, is_good_led = good, fl_brightness = LED_OFF\<rparr>"

definition fan_led_register :: "kenv \<Rightarrow> nat \<Rightarrow> bool \<Rightarrow> nh_fpga_fan_led result" where
  "fan_led_register env i good =
     (let led = fan_led_new i good
      in if \<not> alloc_ok env (fl_name led) then Inl ENOMEM
         else case led_register env (fl_name led) of
                Some e \<Rightarrow> Inl e
              | None \<Rightarrow> Inr led)"

definition nh_fpga_fan_register_leds ::
    "kenv \<Rightarrow> nh_fpga_fan_controller \<Rightarrow> nh_fpga_fan_controller result" where
  "nh_fpga_fan_register_leds env ctl =
     (case collect (\<lambda>i. case fan_led_register env i True of
                          Inl e \<Rightarrow> Inl e
                        | Inr g \<Rightarrow> (case fan_led_register env i False of
                                     Inl e \<Rightarrow> Inl e
                                   | Inr f \<Rightarrow> Inr (g, f)))
             [0..<nat (sint (num_fan_trays ctl))] of
        Inl e \<Rightarrow> Inl e
      | Inr leds \<Rightarrow> Inr (ctl\<lparr>good_leds := map fst leds, fail_leds := map snd leds\<rparr>))"

section \<open>The attribute fanN_led\<close>

type_synonym led_work = "nh_fpga_fan_led \<times> nat"

fun run_led_works :: "nh_fpga_fan_controller \<Rightarrow> led_work list \<Rightarrow> mmio \<Rightarrow> mmio" where
  "run_led_works ctl [] m = m"
| "run_led_works ctl ((led, b) # ws) m = run_led_works ctl ws (nh_fpga_fan_led_set ctl led b m)"

text \<open>
  The prologue the sysfs handlers share: the fan number of the attribute's name, 1-based and at
  most \<open>num_fan_trays\<close> (compared as C \<open>int\<close>s); the result is the 0-based index.
\<close>

definition fan_num_of :: "nh_fpga_fan_controller \<Rightarrow> string \<Rightarrow> s32 result" where
  "fan_num_of ctl name =
     (case sscanf_d ''fan'' name of
        None \<Rightarrow> Inl EINVAL
      | Some fan_num \<Rightarrow>
          if sint fan_num < 1 then Inl EINVAL
          else if sint (num_fan_trays ctl) < sint fan_num then Inl EINVAL
          else Inr (fan_num - 1))"

definition fan_led_simple_show :: "nh_fpga_fan_controller \<Rightarrow> string \<Rightarrow> mmio \<Rightarrow> string result" where
  "fan_led_simple_show ctl name m =
     (case fan_num_of ctl name of
        Inl e \<Rightarrow> Inl e
      | Inr fan_num \<Rightarrow>
        (case nh_fpga_fan_get_status_and_presence ctl fan_num m of
           Inl e \<Rightarrow> Inl e
         | Inr _ \<Rightarrow>
             let cfg = ctl_cfg ctl;
                 f = fans cfg ! unat fan_num;
                 reg_val = ioread32 m (unat (ctrl_offset cfg));
                 good_color = (reg_val AND ctrl_good_led_bit f \<noteq> 0);
                 fail_color = (reg_val AND ctrl_fail_led_bit f \<noteq> 0)
             in Inr (if good_color \<and> \<not> fail_color then ''1\<newline>''
                     else if fail_color \<and> \<not> good_color then ''0\<newline>''
                     else ''2\<newline>'')))"

definition fan_led_simple_store ::
    "nh_fpga_fan_controller \<Rightarrow> string \<Rightarrow> string \<Rightarrow> mmio \<Rightarrow> nat result \<times> led_work list \<times> mmio" where
  "fan_led_simple_store ctl name buf m =
     (case fan_num_of ctl name of
        Inl e \<Rightarrow> (Inl e, [], m)
      | Inr fan_num \<Rightarrow>
        (case kstrtoint buf of
           Inl _ \<Rightarrow> (Inl EINVAL, [], m)
         | Inr led_val \<Rightarrow>
           (case nh_fpga_fan_get_status_and_presence ctl fan_num m of
              Inl e \<Rightarrow> (Inl e, [], m)
            | Inr _ \<Rightarrow>
                let good_color = (led_val = 1);
                    fail_color = (led_val = 0);
                    cfg = ctl_cfg ctl;
                    f = fans cfg ! unat fan_num;
                    good_color_bit = ctrl_good_led_bit f;
                    fail_color_bit = ctrl_fail_led_bit f;
                    reg_val = ioread32 m (unat (ctrl_offset cfg));
                    new_reg_val = (if good_color then reg_val OR good_color_bit
                                   else reg_val AND NOT good_color_bit);
                    new_reg_val = (if fail_color then new_reg_val OR fail_color_bit
                                   else new_reg_val AND NOT fail_color_bit)
                in (Inr (length buf),
                    [(good_leds ctl ! unat fan_num, if good_color then LED_FULL else LED_OFF),
                     (fail_leds ctl ! unat fan_num, if fail_color then LED_FULL else LED_OFF)],
                    iowrite32 new_reg_val (unat (ctrl_offset cfg)) m))))"

section \<open>The fan LED keeps the bicolour contract\<close>

text \<open>Every LED bit of the table is one bit, and no two are the same.\<close>

definition fan_led_bits :: "fan_card_status_addr \<Rightarrow> u32 list" where
  "fan_led_bits c = map ctrl_good_led_bit (fans c) @ map ctrl_fail_led_bit (fans c)"

definition fan_leds_ok :: "fan_card_status_addr \<Rightarrow> bool" where
  "fan_leds_ok c =
     (fan_table_ok c \<and> list_all (\<lambda>w. w \<noteq> 0 \<and> w = BIT (ffs w)) (fan_led_bits c)
      \<and> distinct (fan_led_bits c))"

definition fan_led_bit :: "fan_card_status_addr \<Rightarrow> s32 \<Rightarrow> bool \<Rightarrow> u32" where
  "fan_led_bit c i good =
     (let f = fans c ! unat i in if good then ctrl_good_led_bit f else ctrl_fail_led_bit f)"

definition fan_led_ok :: "nh_fpga_fan_controller \<Rightarrow> s32 \<Rightarrow> bool" where
  "fan_led_ok ctl i =
     (fan_leds_ok (ctl_cfg ctl) \<and> num_fan_trays ctl \<le> num_fan_controllers (ctl_cfg ctl)
      \<and> i < num_fan_trays ctl)"

definition fan_led_put :: "nh_fpga_fan_controller \<Rightarrow> s32 \<Rightarrow> bool \<Rightarrow> bool \<Rightarrow> mmio \<Rightarrow> mmio" where
  "fan_led_put ctl i good on m =
     nh_fpga_fan_led_set ctl (fan_led_new (unat i) good) (if on then LED_FULL else LED_OFF) m"

definition fan_led_lit :: "nh_fpga_fan_controller \<Rightarrow> s32 \<Rightarrow> bool \<Rightarrow> mmio \<Rightarrow> bool" where
  "fan_led_lit ctl i good m =
     (ioread32 m (unat (ctrl_offset (ctl_cfg ctl))) AND fan_led_bit (ctl_cfg ctl) i good \<noteq> 0)"

lemma fan_led_bit_BIT:
  assumes "fan_leds_ok c" and "i < num_fan_controllers c"
  shows "fan_led_bit c i g = BIT (ffs (fan_led_bit c i g))" and "ffs (fan_led_bit c i g) < 32"
proof -
  from assms have "unat i < length (fans c)"
    by (simp add: fan_leds_ok_def fan_table_ok_def word_less_nat_alt)
  then have "fan_led_bit c i g \<in> set (fan_led_bits c)"
    by (cases g) (simp_all add: fan_led_bit_def fan_led_bits_def Let_def)
  with assms(1) have w: "fan_led_bit c i g \<noteq> 0" "fan_led_bit c i g = BIT (ffs (fan_led_bit c i g))"
    by (auto simp: fan_leds_ok_def list_all_iff)
  from w(2) show "fan_led_bit c i g = BIT (ffs (fan_led_bit c i g))" .
  from w(1) show "ffs (fan_led_bit c i g) < 32" by (rule ffs_least(2))
qed

lemma fan_led_bit_inj:
  assumes ok: "fan_leds_ok c" and i: "i < num_fan_controllers c" and j: "j < num_fan_controllers c"
    and eq: "ffs (fan_led_bit c i g) = ffs (fan_led_bit c j h)"
  shows "i = j \<and> g = h"
proof -
  from eq have e: "fan_led_bit c i g = fan_led_bit c j h"
    using fan_led_bit_BIT(1) [OF ok i, of g] fan_led_bit_BIT(1) [OF ok j, of h] by simp
  from ok i j have len: "unat i < length (fans c)" "unat j < length (fans c)"
    by (auto simp: fan_leds_ok_def fan_table_ok_def word_less_nat_alt)
  let ?G = "map ctrl_good_led_bit (fans c)" and ?F = "map ctrl_fail_led_bit (fans c)"
  from ok have d: "distinct ?G" "distinct ?F" "set ?G \<inter> set ?F = {}"
    by (auto simp: fan_leds_ok_def fan_led_bits_def)
  have bits: "fan_led_bit c k True = ?G ! unat k" "fan_led_bit c k False = ?F ! unat k"
    if "unat k < length (fans c)" for k
    using that by (simp_all add: fan_led_bit_def Let_def)
  have "?G ! unat k \<noteq> ?F ! unat l" if "unat k < length (fans c)" "unat l < length (fans c)" for k l :: s32
    using d(3) that nth_mem [of "unat k" ?G] nth_mem [of "unat l" ?F] by (metis disjoint_iff length_map)
  then have "g = h"
    using e bits [OF len(1)] bits [OF len(2)] len by (cases g; cases h) metis+
  moreover have "unat i = unat j"
    using e bits [OF len(1)] bits [OF len(2)] len d(1,2) \<open>g = h\<close>
    by (cases h) (simp_all add: nth_eq_iff_index_eq del: nth_map)
  ultimately show ?thesis by (simp add: word_unat_eq_iff)
qed

text \<open>What a set does to every bit of every register.\<close>

lemma fan_led_set_bit:
  assumes ok: "fan_leds_ok (ctl_cfg ctl)" and i: "fan_index led < num_fan_controllers (ctl_cfg ctl)"
  defines "c \<equiv> ctl_cfg ctl" and "pos \<equiv> \<lambda>g. ffs (fan_led_bit (ctl_cfg ctl) (fan_index led) g)"
  shows "bit (ioread32 (nh_fpga_fan_led_set ctl led br m) a) n =
    (if a = unat (ctrl_offset c) \<and> n = pos (is_good_led led) then br \<noteq> 0
     else if br \<noteq> 0 \<and> a = unat (ctrl_offset c) \<and> n = pos (\<not> is_good_led led) then False
     else bit (ioread32 m a) n)"
proof -
  let ?f = "fans c ! unat (fan_index led)"
  have b: "ctrl_good_led_bit ?f = BIT (pos True)" "ctrl_fail_led_bit ?f = BIT (pos False)"
    using fan_led_bit_BIT(1) [OF ok i, of True] fan_led_bit_BIT(1) [OF ok i, of False]
    by (simp_all add: fan_led_bit_def Let_def c_def pos_def)
  have lt: "pos g < 32" for g
    using fan_led_bit_BIT(2) [OF ok i] by (simp add: pos_def)
  have ne: "pos True \<noteq> pos False"
    using fan_led_bit_inj [OF ok i i, of True False] by (auto simp: pos_def)
  show ?thesis
    using lt [of True] lt [of False] ne
    by (cases "is_good_led led")
      (auto simp: nh_fpga_fan_led_set_def Let_def bar.rd_wr bit_simps LED_OFF_def b
        simp flip: c_def dest: bit_u32_lt)
qed

lemma fan_led_lit_bit:
  assumes "fan_leds_ok (ctl_cfg ctl)" and "i < num_fan_controllers (ctl_cfg ctl)"
  shows "fan_led_lit ctl i g m =
    bit (ioread32 m (unat (ctrl_offset (ctl_cfg ctl)))) (ffs (fan_led_bit (ctl_cfg ctl) i g))"
  unfolding fan_led_lit_def using fan_led_bit_BIT(1) [OF assms, of g] and_BIT_0_iff by metis

lemma fan_led_new_simps [simp]:
  "fan_index (fan_led_new (unat i) g) = i" "is_good_led (fan_led_new n g) = g"
  by (simp_all add: fan_led_new_def)

text \<open>The effect of a set on what is lit, for any LED device of the controller.\<close>

lemma fan_led_set_lit:
  assumes ok: "fan_leds_ok (ctl_cfg ctl)" and j: "fan_index led < num_fan_controllers (ctl_cfg ctl)"
    and i: "i < num_fan_controllers (ctl_cfg ctl)"
  shows "fan_led_lit ctl i g (nh_fpga_fan_led_set ctl led br m) =
    (if i = fan_index led
     then (if g = is_good_led led then br \<noteq> 0 else br = 0 \<and> fan_led_lit ctl i g m)
     else fan_led_lit ctl i g m)"
  using fan_led_bit_inj [OF ok i j, of g]
  by (auto simp: fan_led_lit_bit [OF ok i] fan_led_lit_bit [OF ok j] fan_led_set_bit [OF ok j])

lemma fan_led_put_lit:
  assumes "fan_led_ok ctl i" and "fan_led_ok ctl j"
  shows "fan_led_lit ctl i g (fan_led_put ctl j h on m) =
    (if i = j then (if g = h then on else \<not> on \<and> fan_led_lit ctl i g m) else fan_led_lit ctl i g m)"
proof -
  have "fan_leds_ok (ctl_cfg ctl)" "i < num_fan_controllers (ctl_cfg ctl)"
    "j < num_fan_controllers (ctl_cfg ctl)"
    using assms unfolding fan_led_ok_def by (blast intro: less_le_trans)+
  then show ?thesis
    by (simp add: fan_led_put_def fan_led_set_lit LED_FULL_def LED_OFF_def)
qed

interpretation fan_led: bicolor_led fan_led_ok fan_led_put fan_led_lit
  by unfold_locales (auto simp: fan_led_put_lit)


section \<open>Attribute names and the fan number\<close>

lemma fan_trays_bound:
  assumes "fan_ctl_ok ctl"
  shows "sint (num_fan_trays ctl) = int (unat (num_fan_trays ctl))"
    and "unat (num_fan_trays ctl) \<le> length (fans (ctl_cfg ctl))"
    and "length (fans (ctl_cfg ctl)) < 2 ^ 31" and "0 < unat (num_fan_trays ctl)"
    and "length (fans (ctl_cfg ctl)) = unat (num_fan_controllers (ctl_cfg ctl))"
proof -
  let ?c = "ctl_cfg ctl"
  from assms have "int (length (fans ?c) * unat (num_rotors ?c)) < 2 ^ 31"
    by (simp add: fan_ctl_ok_def Let_def fan_regs_ok_def)
  then have "length (fans ?c) * unat (num_rotors ?c) < 2 ^ 31"
    by (simp only: of_nat_less_numeral_power_cancel_iff)
  with assms have c: "length (fans ?c) * unat (num_rotors ?c) < 2 ^ 31" "num_rotors ?c \<noteq> 0"
    "length (fans ?c) = unat (num_fan_controllers ?c)" "num_fan_trays ctl \<le> num_fan_controllers ?c"
    "num_fan_trays ctl \<noteq> 0"
    by (auto simp: fan_ctl_ok_def Let_def fan_regs_ok_def fan_table_ok_def)
  have "length (fans ?c) \<le> length (fans ?c) * unat (num_rotors ?c)"
    using c(2) unat_eq_0 [of "num_rotors ?c"] by (cases "unat (num_rotors ?c)") simp_all
  with c(1) show lt: "length (fans ?c) < 2 ^ 31" by linarith
  from c(3,4) show le: "unat (num_fan_trays ctl) \<le> length (fans ?c)"
    by (simp add: word_le_nat_alt)
  from le lt show "sint (num_fan_trays ctl) = int (unat (num_fan_trays ctl))"
    by (intro sint_small) linarith
  from c(5) show "0 < unat (num_fan_trays ctl)"
    by (metis gr0I unat_eq_0)
  from c(3) show "length (fans ?c) = unat (num_fan_controllers ?c)" .
qed

lemma fan_num_of_name:
  assumes ok: "fan_ctl_ok ctl" and i: "i < 2 ^ 31 - 1" and suf: "s = [] \<or> \<not> is_digit (hd s)"
  shows "fan_num_of ctl (''fan'' @ dec (i + 1) @ s) =
    (if i < unat (num_fan_trays ctl) then Inr (of_nat i) else Inl EINVAL)"
proof -
  have sc: "sscanf_d ''fan'' (''fan'' @ dec (i + 1) @ s) = Some (of_nat (i + 1))"
    by (rule sscanf_d_dec [OF suf])
  have si: "sint (of_nat (i + 1) :: s32) = int (i + 1)"
    using i by (intro sint_of_nat) simp
  show ?thesis
    unfolding fan_num_of_def sc option.case si fan_trays_bound(1) [OF ok]
    by (simp only: of_nat_less_iff) auto
qed

text \<open>A successful parse is a tray of the board.\<close>

lemma fan_num_of_Inr:
  assumes ok: "fan_ctl_ok ctl" and r: "fan_num_of ctl name = Inr i"
  shows "unat i < unat (num_fan_trays ctl)" and "i < num_fan_controllers (ctl_cfg ctl)"
proof -
  from r obtain k where k: "\<not> sint k < 1" "\<not> sint (num_fan_trays ctl) < sint k" "i = k - 1"
    by (auto simp: fan_num_of_def split: option.splits if_splits)
  have u: "int (unat k) = sint k" by (rule sint_nonneg [symmetric]) (use k(1) in simp)
  have "sint k \<le> int (unat (num_fan_trays ctl))"
    using k(2) fan_trays_bound(1) [OF ok] by simp
  with k(1) u have kn: "1 \<le> unat k" "unat k \<le> unat (num_fan_trays ctl)" by linarith+
  with k(3) have "unat i = unat k - 1" by (simp add: unat_sub word_le_nat_alt)
  with kn show i: "unat i < unat (num_fan_trays ctl)" by linarith
  with fan_trays_bound(2,5) [OF ok] show "i < num_fan_controllers (ctl_cfg ctl)"
    by (simp add: word_less_nat_alt)
qed

section \<open>LED writes and the rest of the fan card\<close>

definition fan_leds_registered :: "nh_fpga_fan_controller \<Rightarrow> bool" where
  "fan_leds_registered ctl =
     (\<forall>i < unat (num_fan_trays ctl).
        good_leds ctl ! i = fan_led_new i True \<and> fail_leds ctl ! i = fan_led_new i False)"

lemma led_set_other:
  "a \<noteq> unat (ctrl_offset (ctl_cfg ctl)) \<Longrightarrow> ioread32 (nh_fpga_fan_led_set ctl led b m) a = ioread32 m a"
  by (simp add: nh_fpga_fan_led_set_def Let_def)

lemma ctrl_write_presence:
  assumes ok: "fan_ctl_ok ctl"
    and a: "\<And>a. a \<noteq> unat (ctrl_offset (ctl_cfg ctl)) \<Longrightarrow> ioread32 m' a = ioread32 m a"
  shows "nh_fpga_fan_get_status_and_presence ctl i m' = nh_fpga_fan_get_status_and_presence ctl i m"
proof (intro get_status_and_presence_cong get_status_cong [OF ok] a)
  fix j assume "j < length (fans (ctl_cfg ctl))"
  with fan_regs_ok_apart(4) [OF fan_ctl_ok_regs [OF ok]]
  show "unat (status_offset (fans (ctl_cfg ctl) ! j)) \<noteq> unat (ctrl_offset (ctl_cfg ctl))"
    by (metis word_unat_eq_iff)
qed

lemma works_other:
  "a \<noteq> unat (ctrl_offset (ctl_cfg ctl)) \<Longrightarrow> ioread32 (run_led_works ctl ws m) a = ioread32 m a"
  by (induction ctl ws m rule: run_led_works.induct) (auto simp: led_set_other)

text \<open>The read side of the attribute, in terms of what is lit.\<close>

lemma led_show_lit:
  assumes ok: "fan_ctl_ok ctl" and i: "fan_num_of ctl name = Inr i"
    and pres: "nh_fpga_fan_get_status_and_presence ctl i m = Inr ()"
  shows "fan_led_simple_show ctl name m = Inr
    (if fan_led_lit ctl i True m \<and> \<not> fan_led_lit ctl i False m then ''1\<newline>''
     else if fan_led_lit ctl i False m \<and> \<not> fan_led_lit ctl i True m then ''0\<newline>''
     else ''2\<newline>'')"
  by (simp add: fan_led_simple_show_def i pres Let_def fan_led_lit_def fan_led_bit_def)

lemma led_store_eq:
  assumes ok: "fan_ctl_ok ctl" and reg: "fan_leds_registered ctl"
    and i: "fan_num_of ctl name = Inr i" and v: "kstrtoint buf = Inr v"
    and pres: "nh_fpga_fan_get_status_and_presence ctl i m = Inr ()"
    and lo: "fan_leds_ok (ctl_cfg ctl)"
  shows "\<exists>m1. fan_led_simple_store ctl name buf m = (Inr (length buf),
       [(fan_led_new (unat i) True, if v = 1 then LED_FULL else LED_OFF),
        (fan_led_new (unat i) False, if v = 0 then LED_FULL else LED_OFF)], m1)
    \<and> (\<forall>a. a \<noteq> unat (ctrl_offset (ctl_cfg ctl)) \<longrightarrow> ioread32 m1 a = ioread32 m a)
    \<and> fan_led_lit ctl i True m1 = (v = 1) \<and> fan_led_lit ctl i False m1 = (v = 0)
    \<and> (\<forall>j g. j < num_fan_controllers (ctl_cfg ctl) \<longrightarrow> j \<noteq> i \<longrightarrow>
           fan_led_lit ctl j g m1 = fan_led_lit ctl j g m)"
proof -
  let ?c = "ctl_cfg ctl"
  let ?ctrl = "unat (ctrl_offset ?c)"
  let ?G = "fan_led_bit ?c i True" and ?F = "fan_led_bit ?c i False"
  let ?r = "ioread32 m ?ctrl"
  let ?n1 = "if v = 1 then ?r OR ?G else ?r AND NOT ?G"
  let ?n2 = "if v = 0 then ?n1 OR ?F else ?n1 AND NOT ?F"
  let ?m1 = "iowrite32 ?n2 ?ctrl m"
  note il = fan_num_of_Inr [OF ok i]
  have bits: "bit (ioread32 ?m1 ?ctrl) n =
      (if n = ffs ?F then v = 0 else if n = ffs ?G then v = 1 else bit ?r n)"
 for n
  proof -
    note G = fan_led_bit_BIT [OF lo il(2), of True] and F = fan_led_bit_BIT [OF lo il(2), of False]
    have bG: "bit ?G k = (k = ffs ?G)" for k by (subst G(1)) (use G(2) in \<open>auto simp: bit_BIT\<close>)
    have bF: "bit ?F k = (k = ffs ?F)" for k by (subst F(1)) (use F(2) in \<open>auto simp: bit_BIT\<close>)
    have ne: "ffs ?G \<noteq> ffs ?F" using fan_led_bit_inj [OF lo il(2) il(2), of True False] by auto
    show ?thesis
      using G(2) F(2) ne by (auto simp: bit_simps bG bF dest: bit_u32_lt)
  qed
  show ?thesis
  proof (intro exI [of _ ?m1] conjI allI impI)
    show "fan_led_simple_store ctl name buf m = (Inr (length buf),
       [(fan_led_new (unat i) True, if v = 1 then LED_FULL else LED_OFF),
        (fan_led_new (unat i) False, if v = 0 then LED_FULL else LED_OFF)], ?m1)"
      using reg il(1)
      by (simp add: fan_led_simple_store_def i v pres Let_def fan_led_bit_def fan_leds_registered_def)
    show "ioread32 ?m1 a = ioread32 m a" if "a \<noteq> ?ctrl" for a
      using that by simp
    show "fan_led_lit ctl i True ?m1 = (v = 1)"
      using fan_led_bit_inj [OF lo il(2) il(2), of True False]
      by (simp only: fan_led_lit_bit [OF lo il(2)] bits) auto
    show "fan_led_lit ctl i False ?m1 = (v = 0)"
      by (simp only: fan_led_lit_bit [OF lo il(2)] bits) auto
    show "fan_led_lit ctl j g ?m1 = fan_led_lit ctl j g m"
      if j: "j < num_fan_controllers ?c" "j \<noteq> i" for j g
      using fan_led_bit_inj [OF lo j(1) il(2), of g] j(2)
      by (simp only: fan_led_lit_bit [OF lo j(1)] bits) auto
  qed
qed

text \<open>Clearing at probe: a fold that clears bits clears exactly the union of them.\<close>

lemma foldl_clear_bit:
  "bit (foldl (\<lambda>r i. (r AND NOT (f i)) AND NOT (g i)) r is) n \<longleftrightarrow>
     bit (r :: u32) n \<and> (\<forall>i \<in> set is. \<not> bit (f i) n \<and> \<not> bit (g i) n)"
  by (induction "is" arbitrary: r) (auto simp: bit_simps dest: bit_u32_lt)

lemma init_leds_bit:
  assumes ok: "fan_ctl_ok ctl"
  shows "bit (ioread32 (nh_fpga_fan_init_leds ctl m) a) n \<longleftrightarrow>
    bit (ioread32 m a) n \<and>
    \<not> (a = unat (ctrl_offset (ctl_cfg ctl)) \<and>
       (\<exists>i < unat (num_fan_trays ctl).
          bit (ctrl_good_led_bit (fans (ctl_cfg ctl) ! i)) n \<or>
          bit (ctrl_fail_led_bit (fans (ctl_cfg ctl) ! i)) n))"
  using fan_trays_bound(1) [OF ok]
  by (auto simp: nh_fpga_fan_init_leds_def Let_def bar.rd_wr foldl_clear_bit)

lemma mset_pair: "mset xs = mset [a, b] \<Longrightarrow> xs = [a, b] \<or> xs = [b, a]"
proof -
  assume eq: "mset xs = mset [a, b]"
  then have "length xs = length [a, b]" by (rule mset_eq_length)
  then obtain x y where xs: "xs = [x, y]" by (auto simp: length_Suc_conv)
  with eq show ?thesis by (auto simp: add_eq_conv_ex)
qed

text \<open>What a whole store does, whatever the order in which the queued works run.\<close>

lemma led_store_works:
  assumes ok: "fan_ctl_ok ctl" and lo: "fan_leds_ok (ctl_cfg ctl)" and reg: "fan_leds_registered ctl"
    and i: "fan_num_of ctl name = Inr i" and v: "kstrtoint buf = Inr v"
    and pres: "nh_fpga_fan_get_status_and_presence ctl i m = Inr ()"
    and st: "fan_led_simple_store ctl name buf m = (r, ws, m1)" and ws': "mset ws' = mset ws"
  shows "r = Inr (length buf)"
    and "nh_fpga_fan_get_status_and_presence ctl i (run_led_works ctl ws' m1) = Inr ()"
    and "j < num_fan_controllers (ctl_cfg ctl) \<Longrightarrow> fan_led_lit ctl j g (run_led_works ctl ws' m1) =
      (if j = i then v = (if g then 1 else 0) else fan_led_lit ctl j g m)"
proof -
  note il = fan_num_of_Inr(2) [OF ok i]
  obtain m2 where s: "fan_led_simple_store ctl name buf m = (Inr (length buf),
       [(fan_led_new (unat i) True, if v = 1 then LED_FULL else LED_OFF),
        (fan_led_new (unat i) False, if v = 0 then LED_FULL else LED_OFF)], m2)"
    and oth: "\<And>a. a \<noteq> unat (ctrl_offset (ctl_cfg ctl)) \<Longrightarrow> ioread32 m2 a = ioread32 m a"
    and l1: "fan_led_lit ctl i True m2 = (v = 1)"
    and l2: "fan_led_lit ctl i False m2 = (v = 0)"
    and l3: "\<And>j g. j < num_fan_controllers (ctl_cfg ctl) \<Longrightarrow> j \<noteq> i \<Longrightarrow>
           fan_led_lit ctl j g m2 = fan_led_lit ctl j g m"
    using led_store_eq [OF ok reg i v pres lo] by blast
  from st s show "r = Inr (length buf)" by simp
  from st s have m1: "m1 = m2" by simp
  show "nh_fpga_fan_get_status_and_presence ctl i (run_led_works ctl ws' m1) = Inr ()"
    using ctrl_write_presence [OF ok, of "run_led_works ctl ws' m1" m i] oth pres
    by (simp add: works_other m1)
  let ?a = "(fan_led_new (unat i) True, if v = 1 then LED_FULL else LED_OFF)"
  let ?b = "(fan_led_new (unat i) False, if v = 0 then LED_FULL else LED_OFF)"
  from st s have "ws = [?a, ?b]" by simp
  with ws' have "ws' = [?a, ?b] \<or> ws' = [?b, ?a]" by (intro mset_pair) simp
  then show "fan_led_lit ctl j g (run_led_works ctl ws' m1) =
      (if j = i then v = (if g then 1 else 0) else fan_led_lit ctl j g m)"
    if j: "j < num_fan_controllers (ctl_cfg ctl)"
    using il j l1 l2 l3 [OF j, of g]
    by (cases g)
      (auto simp: m1 fan_led_set_lit [OF lo] LED_FULL_def LED_OFF_def)
qed

text \<open>After probe no LED of a tray is lit.\<close>

lemma init_leds_show:
  assumes ok: "fan_ctl_ok ctl" and lo: "fan_leds_ok (ctl_cfg ctl)"
  shows "leds_show (fan_led_ok ctl) (fan_led_lit ctl) (nh_fpga_fan_init_leds ctl m) (\<lambda>_. None)"
  unfolding leds_show_def
proof (intro allI impI)
  fix i g assume i: "fan_led_ok ctl i"
  let ?c = "ctl_cfg ctl"
  from i have il: "i < num_fan_controllers ?c" "unat i < unat (num_fan_trays ctl)"
    by (auto simp: fan_led_ok_def word_less_nat_alt word_le_nat_alt)
  have "bit (fan_led_bit ?c i g) (ffs (fan_led_bit ?c i g))"
    using fan_led_bit_BIT [OF lo il(1), of g] bit_BIT by metis
  then have "\<not> fan_led_lit ctl i g (nh_fpga_fan_init_leds ctl m)"
    using il(2) unfolding fan_led_lit_bit [OF lo il(1)] init_leds_bit [OF ok]
    by (cases g) (auto simp: fan_led_bit_def Let_def)
  then show "fan_led_lit ctl i g (nh_fpga_fan_init_leds ctl m) = (None = Some g)" by simp
qed

end
