(* ===== verification/Fan_Card.thy ===== *)
theory Fan_Card
  imports Fan_Led
begin

text \<open>
  \<open>kmods/nh_fpga_fan_main.c\<close>, third part: the read-only sysfs attributes, the attribute group
  built at probe, and probe and remove themselves; then the properties of the fan driver.
\<close>

section \<open>Attributes\<close>

definition fan_status_show :: "nh_fpga_fan_controller \<Rightarrow> string \<Rightarrow> mmio \<Rightarrow> string result" where
  "fan_status_show ctl name m =
     (case fan_num_of ctl name of
        Inl e \<Rightarrow> Inl e
      | Inr fan_num \<Rightarrow>
        (case nh_fpga_fan_get_status ctl fan_num m of
           Inl e \<Rightarrow> Inl e
         | Inr st \<Rightarrow>
             Inr (''present:'' @ dec (of_bool (present st)) @ '' power_good:'' @ dec (of_bool (power_good st))
               @ '' module_id:0x'' @ hex (unat (module_id st))
               @ '' inner_tach:'' @ dec (of_bool (inner_tach_ok st))
               @ '' outer_tach:'' @ dec (of_bool (outer_tach_ok st)) @ ''\<newline>'')))"

definition fan_card_type_show :: "nh_fpga_fan_controller \<Rightarrow> mmio \<Rightarrow> string" where
  "fan_card_type_show ctl m =
     (let card_type = nh_fpga_fan_get_card_type ctl m;
          type_str = (if card_type = FAN_CARD_TYPE_INVALID then ''invalid''
                      else if card_type = FAN_CARD_TYPE_RAPTOR_2RU_12V then ''raptor_2ru_12v''
                      else ''unknown'')
      in type_str @ '' (0x'' @ hex (unat card_type) @ '')\<newline>'')"

definition fan_present_show :: "nh_fpga_fan_controller \<Rightarrow> string \<Rightarrow> mmio \<Rightarrow> string result" where
  "fan_present_show ctl name m =
     (case fan_num_of ctl name of
        Inl e \<Rightarrow> Inl e
      | Inr fan_num \<Rightarrow>
        (case nh_fpga_fan_get_status ctl fan_num m of
           Inl e \<Rightarrow> Inl e
         | Inr st \<Rightarrow> Inr (dec (if present st then 1 else 0) @ ''\<newline>'')))"

text \<open>\<open>nh_fpga_fan_per_fan_attrs\<close>: suffix, mode and handlers (named by the attribute kind).\<close>

definition nh_fpga_fan_per_fan_attrs :: "(string \<times> nat \<times> fan_attr_kind) list" where
  "nh_fpga_fan_per_fan_attrs =
     [(''_present'', 292, Attr_present), (''_led'', 420, Attr_led), (''_status'', 292, Attr_status)]"

definition dev_attr_fan_card_type :: fan_attr where
  "dev_attr_fan_card_type = \<lparr>attr_name = ''fan_card_type'', attr_mode = 292, attr_kind = Attr_card_type\<rparr>"

definition fan_attr_for :: "nat \<Rightarrow> string \<times> nat \<times> fan_attr_kind \<Rightarrow> fan_attr" where
  "fan_attr_for i t =
     \<lparr>attr_name = ''fan'' @ dec (i + 1) @ fst t, attr_mode = fst (snd t), attr_kind = snd (snd t)\<rparr>"

definition nh_fpga_fan_build_attr_group :: "kenv \<Rightarrow> u32 \<Rightarrow> fan_attr list option" where
  "nh_fpga_fan_build_attr_group env num_fans =
     (if \<not> list_all (alloc_ok env) [''group'', ''attrs'', ''fan_attrs''] then None
      else
        case collect (\<lambda>(i, t). let a = fan_attr_for i t
                              in if alloc_ok env (attr_name a) then Inr a else Inl ENOMEM)
               (List.product [0..<unat num_fans] nh_fpga_fan_per_fan_attrs) of
          Inl _ \<Rightarrow> None
        | Inr attrs \<Rightarrow> Some (attrs @ [dev_attr_fan_card_type]))"

section \<open>Probe and remove\<close>

text \<open>
  \<open>num_fans\<close> comes from user space. The result is the error or the controller that becomes the
  driver data, and the registers: a probe that fails while it registers the LEDs has already
  cleared their bits.
\<close>

definition nh_fpga_fan_probe ::
    "kenv \<Rightarrow> u16 \<Rightarrow> u32 \<Rightarrow> mmio \<Rightarrow> nh_fpga_fan_controller result \<times> mmio" where
  "nh_fpga_fan_probe env device_id num_fans m =
     (case Option.bind (nh_get_platform device_id) fan_cfg of
        None \<Rightarrow> (Inl ENODEV, m)
      | Some fcfg \<Rightarrow>
          if num_rotors fcfg = 0 then (Inl EINVAL, m)
          else if \<not> alloc_ok env ''controller'' then (Inl ENOMEM, m)
          else if \<not> list_all (alloc_ok env)
                    [''fan_pwm_offsets'', ''fan_inner_tach_offsets'', ''fan_outer_tach_offsets'']
          then (Inl ENOMEM, m)
          else
            let fs = take (unat (num_fan_controllers fcfg)) (fans fcfg);
                ctl = \<lparr>num_fan_trays = num_fans, good_leds = [], fail_leds = [],
                       fan_pwm_offsets = map pwm_offset fs,
                       fan_inner_tach_offsets = map inner_tach_offset fs,
                       fan_outer_tach_offsets = map outer_tach_offset fs,
                       fan_labels = [], attr_group = [],
                       hwmon_chip_info = \<lparr>pwm_config = [], fan_config = []\<rparr>, ctl_cfg = fcfg\<rparr>
            in if \<not> list_all (alloc_ok env) [''good_leds'', ''fail_leds''] then (Inl ENOMEM, m)
               else if num_fan_trays ctl = 0 \<or> num_fan_controllers fcfg < num_fan_trays ctl
               then (Inl EINVAL, m)
               else
                 case nh_fpga_fan_build_attr_group env (num_fan_controllers fcfg) of
                   None \<Rightarrow> (Inl ENOMEM, m)
                 | Some ag \<Rightarrow>
                     (case nh_fpga_fan_build_labels env fcfg of
                        None \<Rightarrow> (Inl ENOMEM, m)
                      | Some labels \<Rightarrow>
                          (case nh_fpga_fan_build_chip_info env fcfg of
                             None \<Rightarrow> (Inl ENOMEM, m)
                           | Some chip \<Rightarrow>
                               if \<not> alloc_ok env ''groups'' then (Inl ENOMEM, m)
                               else
                                 case hwmon_register env of
                                   Some e \<Rightarrow> (Inl e, m)
                                 | None \<Rightarrow>
                                     let ctl = ctl\<lparr>attr_group := ag, fan_labels := labels,
                                                   hwmon_chip_info := chip\<rparr>;
                                         m = nh_fpga_fan_init_leds ctl m
                                     in (nh_fpga_fan_register_leds env ctl, m))))"

definition nh_fpga_fan_remove :: "nh_fpga_fan_controller option \<Rightarrow> nh_fpga_fan_controller option" where
  "nh_fpga_fan_remove drvdata = None"

section \<open>The platform tables\<close>

lemma fan_tables_ok:
  "fan_regs_ok m4061nhp_fan" "fan_regs_ok m4062nhp_fpga1_fan" "fan_regs_ok m4340nhp_fan"
  by code_simp+

lemma fan_tables_leds_ok:
  "fan_leds_ok m4061nhp_fan" "fan_leds_ok m4062nhp_fpga1_fan" "fan_leds_ok m4340nhp_fan"
  by code_simp+

lemma platform_fan_cfg:
  assumes "Option.bind (nh_get_platform d) fan_cfg = Some c"
  shows "c = m4061nhp_fan \<or> c = m4062nhp_fpga1_fan \<or> c = m4340nhp_fan"
  using assms
  by (auto simp: bind_eq_Some_conv nh_get_platform_iff set_nh_platforms nh_platform_cf2_def
      nh_platform_m4061nhp_def nh_platform_m4062nhp_fpga0_def nh_platform_m4062nhp_fpga1_def
      nh_platform_m4340nhp_def)

lemma platform_fan_cfg_ok:
  assumes "Option.bind (nh_get_platform d) fan_cfg = Some c"
  shows "fan_regs_ok c" and "fan_leds_ok c"
  using platform_fan_cfg [OF assms] fan_tables_ok fan_tables_leds_ok by auto

section \<open>What probe builds\<close>

lemma build_labels_Some:
  assumes "nh_fpga_fan_build_labels env c = Some ls"
  shows "ls = map (\<lambda>i. fan_label c (of_nat i)) [0..<unat (nh_fpga_fan_num_tach c)]"
  using assms
  by (auto simp: nh_fpga_fan_build_labels_def Let_def collect_guard split: if_splits sum.splits)

lemma build_attr_group_Some:
  assumes "nh_fpga_fan_build_attr_group env n = Some as"
  shows "as = map (\<lambda>(i, t). fan_attr_for i t) (List.product [0..<unat n] nh_fpga_fan_per_fan_attrs)
    @ [dev_attr_fan_card_type]"
proof -
  from assms obtain bs where
    c: "collect (\<lambda>(i, t). let a = fan_attr_for i t
                  in if alloc_ok env (attr_name a) then Inr a else Inl ENOMEM)
          (List.product [0..<unat n] nh_fpga_fan_per_fan_attrs) = Inr bs"
    and as: "as = bs @ [dev_attr_fan_card_type]"
    by (auto simp: nh_fpga_fan_build_attr_group_def split: if_splits sum.splits)
  have "bs = map (\<lambda>(i, t). fan_attr_for i t) (List.product [0..<unat n] nh_fpga_fan_per_fan_attrs)"
    by (rule collect_map [OF c]) (auto simp: Let_def split: if_splits)
  with as show ?thesis by simp
qed

lemma fan_led_register_Inr: "fan_led_register env i g = Inr l \<Longrightarrow> l = fan_led_new i g"
  by (auto simp: fan_led_register_def Let_def split: if_splits option.splits)

lemma register_leds_Inr:
  assumes "nh_fpga_fan_register_leds env ctl = Inr ctl'"
  shows "ctl' = ctl\<lparr>good_leds := map (\<lambda>i. fan_led_new i True) [0..<nat (sint (num_fan_trays ctl))],
    fail_leds := map (\<lambda>i. fan_led_new i False) [0..<nat (sint (num_fan_trays ctl))]\<rparr>"
proof -
  let ?f = "\<lambda>i. case fan_led_register env i True of
      Inl e \<Rightarrow> Inl e
    | Inr g \<Rightarrow> (case fan_led_register env i False of Inl e \<Rightarrow> Inl e | Inr f \<Rightarrow> Inr (g, f))"
  let ?is = "[0..<nat (sint (num_fan_trays ctl))]"
  from assms obtain leds where
    c: "collect ?f ?is = Inr leds" and
    ctl': "ctl' = ctl\<lparr>good_leds := map fst leds, fail_leds := map snd leds\<rparr>"
    by (auto simp: nh_fpga_fan_register_leds_def split: sum.splits)
  have "leds = map (\<lambda>i. (fan_led_new i True, fan_led_new i False)) ?is"
    by (rule collect_map [OF c]) (auto dest!: fan_led_register_Inr split: sum.splits)
  with ctl' show ?thesis by (simp add: comp_def)
qed

lemma register_leds_all_ok:
  assumes "\<And>i g. led_register env (fl_name (fan_led_new i g)) = None" and "\<And>s. alloc_ok env s"
  shows "\<exists>ctl'. nh_fpga_fan_register_leds env ctl = Inr ctl'"
proof -
  let ?f = "\<lambda>i. case fan_led_register env i True of
      Inl e \<Rightarrow> Inl e
    | Inr g \<Rightarrow> (case fan_led_register env i False of Inl e \<Rightarrow> Inl e | Inr f \<Rightarrow> Inr (g, f))"
  have "collect ?f [0..<nat (sint (num_fan_trays ctl))] =
      Inr (map (\<lambda>i. (fan_led_new i True, fan_led_new i False)) [0..<nat (sint (num_fan_trays ctl))])"
    by (rule collect_all_ok) (simp add: fan_led_register_def Let_def assms)
  then show ?thesis by (simp add: nh_fpga_fan_register_leds_def)
qed

lemma probe_Inr:
  assumes "nh_fpga_fan_probe env d n m = (Inr ctl, m')"
  obtains c where "Option.bind (nh_get_platform d) fan_cfg = Some c"
    and "ctl_cfg ctl = c" and "num_fan_trays ctl = n" and "n \<noteq> 0" and "n \<le> num_fan_controllers c"
    and "fan_pwm_offsets ctl = map pwm_offset (fans c)"
    and "fan_inner_tach_offsets ctl = map inner_tach_offset (fans c)"
    and "fan_outer_tach_offsets ctl = map outer_tach_offset (fans c)"
    and "good_leds ctl = map (\<lambda>i. fan_led_new i True) [0..<nat (sint n)]"
    and "fail_leds ctl = map (\<lambda>i. fan_led_new i False) [0..<nat (sint n)]"
    and "fan_labels ctl = map (\<lambda>i. fan_label c (of_nat i)) [0..<unat (nh_fpga_fan_num_tach c)]"
    and "attr_group ctl = map (\<lambda>(i, t). fan_attr_for i t)
           (List.product [0..<unat (num_fan_controllers c)] nh_fpga_fan_per_fan_attrs)
         @ [dev_attr_fan_card_type]"
    and "m' = nh_fpga_fan_init_leds ctl m"
proof -
  from assms obtain c where c: "Option.bind (nh_get_platform d) fan_cfg = Some c"
    by (auto simp: nh_fpga_fan_probe_def split: option.splits)
  have full: "take (unat (num_fan_controllers c)) (fans c) = fans c"
    using platform_fan_cfg_ok(1) [OF c] by (simp add: fan_regs_ok_def fan_table_ok_def)
  from assms that [OF c] show thesis
    by (auto simp: nh_fpga_fan_probe_def c full Let_def nh_fpga_fan_init_leds_def not_less
        dest!: register_leds_Inr build_labels_Some build_attr_group_Some
        split: option.splits if_splits)
qed

lemma probe_ctl_ok:
  assumes "nh_fpga_fan_probe env d n m = (Inr ctl, m')"
  shows "fan_ctl_ok ctl" and "fan_leds_ok (ctl_cfg ctl)" and "fan_leds_registered ctl"
proof -
  obtain c where c: "Option.bind (nh_get_platform d) fan_cfg = Some c"
    "ctl_cfg ctl = c" "num_fan_trays ctl = n" "n \<noteq> 0" "n \<le> num_fan_controllers c"
    "fan_pwm_offsets ctl = map pwm_offset (fans c)"
    "fan_inner_tach_offsets ctl = map inner_tach_offset (fans c)"
    "fan_outer_tach_offsets ctl = map outer_tach_offset (fans c)"
    "good_leds ctl = map (\<lambda>i. fan_led_new i True) [0..<nat (sint n)]"
    "fail_leds ctl = map (\<lambda>i. fan_led_new i False) [0..<nat (sint n)]"
    by (rule probe_Inr [OF assms])
  from c platform_fan_cfg_ok [OF c(1)] show ok: "fan_ctl_ok ctl" and "fan_leds_ok (ctl_cfg ctl)"
    by (simp_all add: fan_ctl_ok_def)
  from fan_trays_bound(1) [OF ok] have "nat (sint n) = unat n" using c(3) by simp
  with c show "fan_leds_registered ctl" by (simp add: fan_leds_registered_def)
qed

lemma platform_fan_facts:
  assumes "Option.bind (nh_get_platform d) fan_cfg = Some c"
  shows "pwm_mask c = 0xFF" and "num_rotors c = 2" and "inner_tach_mask c = 0xFFFF"
    and "outer_tach_mask c = 0xFFFF0000" and "unat (num_fan_controllers c) = length (fans c)"
    and "list_all (\<lambda>f. inner_tach_offset f = outer_tach_offset f) (fans c)"
    and "tach_time_unit_ns c = 0 \<or> 3920 \<le> tach_time_unit_ns c"
  using platform_fan_cfg [OF assms] platform_fan_cfg_ok(1) [OF assms]
  by (auto simp: fan_regs_ok_def fan_table_ok_def m4061nhp_fan_def m4062nhp_fpga1_fan_def
      m4340nhp_fan_def m4061nhp_fans_def m4062nhp_fpga1_fans_def m4340nhp_fans_def GENMASK_def
      mask_eq_exp_minus_1)

lemma ffs_masks: "ffs 0xFF = 0" "ffs 0xFFFF = 0" "ffs 0xFFFF0000 = 16"
  by code_simp+

definition fan_probe_accepts :: "u16 \<Rightarrow> u32 \<Rightarrow> bool" where
  "fan_probe_accepts d n =
     (case Option.bind (nh_get_platform d) fan_cfg of
        None \<Rightarrow> False
      | Some c \<Rightarrow> n \<noteq> 0 \<and> n \<le> num_fan_controllers c)"

lemma probe_accepted:
  assumes "fan_probe_accepts d n"
  shows "\<exists>ctl m'. nh_fpga_fan_probe kenv_ok d n m = (Inr ctl, m')"
proof -
  from assms obtain c where c: "Option.bind (nh_get_platform d) fan_cfg = Some c"
    "n \<noteq> 0" "n \<le> num_fan_controllers c"
    by (auto simp: fan_probe_accepts_def split: option.splits)
  have a: "alloc_ok kenv_ok s" "led_register kenv_ok s = None" "hwmon_register kenv_ok = None" for s
    by (simp_all add: kenv_ok_def)
  obtain ls ch where lc: "nh_fpga_fan_build_labels kenv_ok c = Some ls"
    "nh_fpga_fan_build_chip_info kenv_ok c = Some ch"
    by (simp add: nh_fpga_fan_build_labels_def nh_fpga_fan_build_chip_info_def Let_def a
        collect_all_ok [where g = "\<lambda>i. fan_label c (of_nat i)"])
  obtain ag where ag: "nh_fpga_fan_build_attr_group kenv_ok (num_fan_controllers c) = Some ag"
    using collect_all_ok [of "List.product [0..<unat (num_fan_controllers c)] nh_fpga_fan_per_fan_attrs"
        "\<lambda>(i, t). Inr (fan_attr_for i t)" "\<lambda>(i, t). fan_attr_for i t"]
    by (simp add: nh_fpga_fan_build_attr_group_def a Let_def case_prod_unfold)
  have reg: "\<exists>ctl'. nh_fpga_fan_register_leds kenv_ok ctl = Inr ctl'" for ctl
    by (rule register_leds_all_ok) (simp_all add: a)
  have "num_rotors c \<noteq> 0" using platform_fan_facts(2) [OF c(1)] by simp
  with c(2,3) reg show ?thesis
    by (simp add: nh_fpga_fan_probe_def c(1) a Let_def not_less lc ag)
qed

lemma probe_rejected:
  assumes "\<not> fan_probe_accepts d n"
  shows "\<exists>e. nh_fpga_fan_probe env d n m = (Inl e, m)"
  using assms
  by (auto simp: nh_fpga_fan_probe_def fan_probe_accepts_def Let_def not_le split: option.splits)

lemma m4061_fan_cfg [simp]: "fan_cfg nh_platform_m4061nhp = Some m4061nhp_fan"
  by (simp add: nh_platform_m4061nhp_def)

text \<open>A card as probe leaves it, to evaluate the properties on.\<close>

lemma m4061_probe:
  obtains ctl m' where
    "nh_fpga_fan_probe kenv_ok NH_FPGA_DEVICE_M4061NHP 5 \<lparr>regs = \<lambda>_. 0x700, wlog = []\<rparr> = (Inr ctl, m')"
    and "ctl_cfg ctl = m4061nhp_fan"
proof -
  have "fan_probe_accepts NH_FPGA_DEVICE_M4061NHP 5"
    by (simp add: fan_probe_accepts_def m4061_fan_cfg m4061nhp_fan_def m4061nhp_fans_def)
  then obtain ctl m' where p: "nh_fpga_fan_probe kenv_ok NH_FPGA_DEVICE_M4061NHP 5
      \<lparr>regs = \<lambda>_. 0x700, wlog = []\<rparr> = (Inr ctl, m')"
    using probe_accepted by blast
  obtain c where "Option.bind (nh_get_platform NH_FPGA_DEVICE_M4061NHP) fan_cfg = Some c" "ctl_cfg ctl = c"
    by (rule probe_Inr [OF p])
  with p that show thesis by (simp add: m4061_fan_cfg)
qed

text \<open>With \<open>0x700\<close> in every register the first fan is present, with \<open>0xF00\<close> it is absent.\<close>

lemma m4061_presence:
  assumes "ctl_cfg ctl = m4061nhp_fan"
  shows "nh_fpga_fan_get_status_and_presence ctl 0 \<lparr>regs = \<lambda>_. 0x700, wlog = []\<rparr> = Inr ()"
    "nh_fpga_fan_get_status_and_presence ctl 0 \<lparr>regs = \<lambda>_. 0xF00, wlog = []\<rparr> = Inl ENODEV"
  unfolding nh_fpga_fan_get_status_and_presence_def nh_fpga_fan_get_status_def assms by code_simp+

section \<open>Properties of the fan driver\<close>

text \<open>
  Probe accepts exactly the devices whose platform has a fan card and the fan counts
  from 1 to the number of fan controllers of the table; when every kernel call succeeds it
  registers the card, and a count or device it refuses leaves the registers untouched whatever
  the kernel calls return.
\<close>

theorem fan_probe_decides:
  "is_ok (fst (nh_fpga_fan_probe kenv_ok d n m)) = fan_probe_accepts d n
   \<and> (fan_probe_accepts d n \<or> (\<exists>e. nh_fpga_fan_probe env d n m = (Inl e, m)))"
proof (cases "fan_probe_accepts d n")
  case True
  then show ?thesis using probe_accepted [OF True, of m] by auto
next
  case False
  then show ?thesis using probe_rejected [OF False, of env m] probe_rejected [OF False, of kenv_ok m] by auto
qed

text \<open>
  A controller that probe returns, with any outcome of the kernel calls, satisfies the
  controller invariant: register offsets from the table, a tray count the table backs, LED bits
  that are single and distinct, and one good and one fail LED device per tray.
\<close>

theorem fan_probe_invariant:
  assumes "nh_fpga_fan_probe env d n m = (Inr ctl, m')"
  shows "fan_ctl_ok ctl \<and> fan_leds_ok (ctl_cfg ctl) \<and> fan_leds_registered ctl \<and> num_fan_trays ctl = n"
  using probe_ctl_ok [OF assms] by (auto intro: probe_Inr [OF assms])

theorem fan_probe_invariant_witness:
  "\<exists>ctl m'. nh_fpga_fan_probe kenv_ok NH_FPGA_DEVICE_M4061NHP 5 \<lparr>regs = \<lambda>_. 0x55, wlog = []\<rparr> = (Inr ctl, m')
     \<and> fan_ctl_ok ctl \<and> fan_leds_ok (ctl_cfg ctl) \<and> fan_leds_registered ctl \<and> num_fan_trays ctl = 5"
proof -
  have "fan_probe_accepts NH_FPGA_DEVICE_M4061NHP 5" by code_simp
  then obtain ctl m' where p: "nh_fpga_fan_probe kenv_ok NH_FPGA_DEVICE_M4061NHP 5
      \<lparr>regs = \<lambda>_. 0x55, wlog = []\<rparr> = (Inr ctl, m')"
    using probe_accepted by blast
  with fan_probe_invariant [OF p] show ?thesis by blast
qed

text \<open>
  On a probed controller a PWM write to a present fan succeeds exactly for the values 0 to
  255; any other value is \<open>-EINVAL\<close>, an absent fan gives the error of the presence check, and a
  write that fails leaves the registers untouched.
\<close>

theorem fan_pwm_write_accepts:
  assumes "nh_fpga_fan_probe env d n m0 = (Inr ctl, m1)"
  shows "fst (nh_fpga_fan_write ctl hwmon_pwm hwmon_pwm_input ch v m) =
      (case nh_fpga_fan_get_status_and_presence ctl ch m of
         Inl e \<Rightarrow> Inl e
       | Inr _ \<Rightarrow> if 0 \<le> v \<and> v \<le> 255 then Inr () else Inl EINVAL)
    \<and> (is_ok (fst (nh_fpga_fan_write ctl hwmon_pwm hwmon_pwm_input ch v m))
       \<or> snd (nh_fpga_fan_write ctl hwmon_pwm hwmon_pwm_input ch v m) = m)"
proof -
  obtain c where c: "Option.bind (nh_get_platform d) fan_cfg = Some c" "ctl_cfg ctl = c"
    by (rule probe_Inr [OF assms])
  then have k: "pwm_mask (ctl_cfg ctl) = 0xFF" by (simp add: platform_fan_facts(1))
  show ?thesis
    by (auto simp: nh_fpga_fan_write_def nh_fpga_fan_write_pwm_def Let_def k ffs_masks
        dest: presence_channel split: sum.splits)
qed

theorem fan_pwm_write_accepts_witness:
  "\<exists>ctl. fst (nh_fpga_fan_write ctl hwmon_pwm hwmon_pwm_input 0 256 \<lparr>regs = \<lambda>_. 0x700, wlog = []\<rparr>) = Inl EINVAL
     \<and> fst (nh_fpga_fan_write ctl hwmon_pwm hwmon_pwm_input 0 255 \<lparr>regs = \<lambda>_. 0x700, wlog = []\<rparr>) = Inr ()
     \<and> fst (nh_fpga_fan_write ctl hwmon_pwm hwmon_pwm_input 0 255 \<lparr>regs = \<lambda>_. 0xF00, wlog = []\<rparr>) = Inl ENODEV"
proof -
  obtain ctl m' where
    p: "nh_fpga_fan_probe kenv_ok NH_FPGA_DEVICE_M4061NHP 5 \<lparr>regs = \<lambda>_. 0x700, wlog = []\<rparr> = (Inr ctl, m')"
    and c: "ctl_cfg ctl = m4061nhp_fan" by (rule m4061_probe)
  note pres = m4061_presence [OF c]
  show ?thesis
    using fan_pwm_write_accepts [OF p, of 0 256 "\<lparr>regs = \<lambda>_. 0x700, wlog = []\<rparr>"]
      fan_pwm_write_accepts [OF p, of 0 255 "\<lparr>regs = \<lambda>_. 0x700, wlog = []\<rparr>"]
      fan_pwm_write_accepts [OF p, of 0 255 "\<lparr>regs = \<lambda>_. 0xF00, wlog = []\<rparr>"] pres
    by auto
qed

text \<open>
  C8: After a successful PWM write the next PWM read of that fan returns the value written, every
  other hwmon reading of the card is unchanged, and the driver wrote one register once.
\<close>

theorem fan_pwm_write_then_read:
  assumes probe: "nh_fpga_fan_probe env d n m0 = (Inr ctl, m1)"
    and w: "nh_fpga_fan_write ctl hwmon_pwm hwmon_pwm_input ch v m = (Inr (), m')"
  shows "nh_fpga_fan_read ctl hwmon_pwm hwmon_pwm_input ch m' = Inr v
    \<and> (\<forall>type attr ch'. type = hwmon_pwm \<and> ch' = ch
         \<or> nh_fpga_fan_read ctl type attr ch' m' = nh_fpga_fan_read ctl type attr ch' m)
    \<and> (\<exists>x. wlog m' = wlog m @ [(unat (pwm_offset (fans (ctl_cfg ctl) ! unat ch)), x)])"
proof -
  note ok = probe_ctl_ok(1) [OF probe]
  from w obtain u where pres: "nh_fpga_fan_get_status_and_presence ctl ch m = Inr u"
    and wr: "nh_fpga_fan_write_pwm ctl ch v m = (Inr (), m')"
    by (auto simp: nh_fpga_fan_write_def split: sum.splits)
  note ch = presence_channel [OF pres]
  from wr ch have v: "0 \<le> v" "v \<le> uint (drop_bit (ffs (pwm_mask (ctl_cfg ctl))) (pwm_mask (ctl_cfg ctl)))"
    by (auto simp: nh_fpga_fan_write_pwm_def Let_def split: if_splits)
  have m': "m' = snd (nh_fpga_fan_write_pwm ctl ch v m)" by (simp add: wr)
  have 1: "nh_fpga_fan_read ctl hwmon_pwm hwmon_pwm_input ch m' = Inr v"
    using pres by (simp add: nh_fpga_fan_read_def m' write_pwm_presence [OF ok] write_pwm_read_pwm [OF ok ch v])
  have 2: "nh_fpga_fan_read ctl type attr ch' m' = nh_fpga_fan_read ctl type attr ch' m"
    if "\<not> (type = hwmon_pwm \<and> ch' = ch)" for type attr ch'
    using that
    by (auto simp: nh_fpga_fan_read_def m' Let_def write_pwm_presence [OF ok]
        write_pwm_read_tach [OF ok] write_pwm_read_pwm_other [OF ok] split: sum.splits)
  have 3: "\<exists>x. wlog m' = wlog m @ [(unat (pwm_offset (fans (ctl_cfg ctl) ! unat ch)), x)]"
    by (simp add: m' write_pwm_eq [OF ok ch v] Let_def)
  from 1 2 3 show ?thesis by blast
qed

theorem fan_pwm_write_then_read_witness:
  "\<exists>ctl m'. nh_fpga_fan_write ctl hwmon_pwm hwmon_pwm_input 0 200 \<lparr>regs = \<lambda>_. 0x700, wlog = []\<rparr> = (Inr (), m')
     \<and> nh_fpga_fan_read ctl hwmon_pwm hwmon_pwm_input 0 m' = Inr 200"
proof -
  obtain ctl m1 where
    p: "nh_fpga_fan_probe kenv_ok NH_FPGA_DEVICE_M4061NHP 5 \<lparr>regs = \<lambda>_. 0x700, wlog = []\<rparr> = (Inr ctl, m1)"
    and c: "ctl_cfg ctl = m4061nhp_fan" by (rule m4061_probe)
  have "fst (nh_fpga_fan_write ctl hwmon_pwm hwmon_pwm_input 0 200 \<lparr>regs = \<lambda>_. 0x700, wlog = []\<rparr>) = Inr ()"
    by (simp add: nh_fpga_fan_write_def m4061_presence [OF c] nh_fpga_fan_write_pwm_def Let_def c
        m4061nhp_fan_def m4061nhp_fans_def ffs_masks)
  then obtain m' where w: "nh_fpga_fan_write ctl hwmon_pwm hwmon_pwm_input 0 200
      \<lparr>regs = \<lambda>_. 0x700, wlog = []\<rparr> = (Inr (), m')"
    by (metis prod.collapse)
  with fan_pwm_write_then_read [OF p w] show ?thesis by blast
qed

section \<open>Fan speed\<close>

lemma tach_fields:
  "unat (drop_bit (ffs 0xFFFF) (r AND 0xFFFF) :: u32) = unat r mod 2 ^ 16"
  "unat (drop_bit (ffs 0xFFFF0000) (r AND 0xFFFF0000) :: u32) = unat r div 2 ^ 16"
proof -
  have "r AND 0xFFFF = take_bit 16 r"
    by (simp add: take_bit_eq_mask mask_eq_exp_minus_1)
  then show "unat (drop_bit (ffs 0xFFFF) (r AND 0xFFFF)) = unat r mod 2 ^ 16"
    by (simp add: ffs_masks unat_mod_distrib take_bit_eq_mod)
  have m: "NOT (mask 16) = (0xFFFF0000 :: u32)" by (simp add: mask_eq_exp_minus_1)
  have "drop_bit 16 (r AND NOT (mask 16)) = drop_bit 16 r"
    by (intro bit_word_eqI) (auto simp: bit_simps dest: bit_u32_lt)
  then have "drop_bit 16 (r AND 0xFFFF0000) = drop_bit 16 r" by (simp only: m)
  then show "unat (drop_bit (ffs 0xFFFF0000) (r AND 0xFFFF0000)) = unat r div 2 ^ 16"
    by (simp only: ffs_masks) (simp add: drop_bit_eq_div unat_div_distrib)
qed

lemma tach_to_rpm_exact:
  assumes "unat c < 2 ^ 16" and "u = 0 \<or> 3920 \<le> u"
  shows "unat (nh_fpga_fan_tach_to_rpm c u) =
    (if unat c = 0 \<or> unat c = 65535 then 0
     else 60000000000 div (unat c * (if u = 0 then 3920 else unat u)))"
proof (cases "unat c = 0 \<or> unat c = 65535")
  case True
  then have "c = 0 \<or> c = 0xFFFF" by (auto simp: unat_eq_0 word_unat_eq_iff [of c "0xFFFF"])
  with True show ?thesis by (auto simp: nh_fpga_fan_tach_to_rpm_def)
next
  case False
  then have ne: "c \<noteq> 0" "c \<noteq> 0xFFFF" by auto
  let ?t = "if u = 0 then 3920 else unat u"
  have "3920 \<le> unat c * ?t"
  proof -
    have "3920 \<le> ?t" using assms(2) by (auto simp: word_le_nat_alt)
    moreover have "1 \<le> unat c" using False by simp
    ultimately show ?thesis using mult_le_mono [of 1 "unat c" 3920 ?t] by simp
  qed
  then have "60000000000 div (unat c * ?t) \<le> 60000000000 div 3920" by (intro div_le_mono2) simp_all
  then have "60000000000 div (unat c * ?t) < 2 ^ 32" by simp
  with False show ?thesis by (simp add: tach_to_rpm_eq [OF ne])
qed

text \<open>
  C13: On a probed controller, reading the speed of hwmon channel \<open>ch\<close> reads the tachometer
  register of tray \<open>ch div 2\<close>, its low half for an even (inner) and its high half for an odd (outer)
  channel, and returns the exact quotient \<open>60e9 div (cycles * tick)\<close> or 0 for a stopped rotor.
\<close>

theorem fan_speed_reading:
  assumes probe: "nh_fpga_fan_probe env d n m0 = (Inr ctl, m1)"
    and pres: "nh_fpga_fan_get_status_and_presence ctl (ch div 2) m = Inr ()"
  defines "reg \<equiv> unat (ioread32 m (unat (inner_tach_offset (fans (ctl_cfg ctl) ! (unat ch div 2)))))"
    and "tick \<equiv> (if tach_time_unit_ns (ctl_cfg ctl) = 0 then 3920 else unat (tach_time_unit_ns (ctl_cfg ctl)))"
  defines "cycles \<equiv> (if even (unat ch) then reg mod 2 ^ 16 else reg div 2 ^ 16)"
  shows "nh_fpga_fan_read ctl hwmon_fan hwmon_fan_input ch m =
    Inr (int (if cycles = 0 \<or> cycles = 65535 then 0 else 60000000000 div (cycles * tick)))"
proof -
  obtain c where c: "Option.bind (nh_get_platform d) fan_cfg = Some c" "ctl_cfg ctl = c"
    by (rule probe_Inr [OF probe])
  note facts = platform_fan_facts [OF c(1), folded c(2)]
  note chn = presence_channel [OF pres]
  note off = fan_ctl_ok_channel [OF probe_ctl_ok(1) [OF probe] chn]
  have u: "unat (ch div 2) = unat ch div 2" by (simp add: unat_div_distrib)
  have ev: "(ch mod 2 = 0) = even (unat ch)"
    by (simp add: unat_mod_distrib even_iff_mod_2_eq_zero flip: unat_0_iff)
  have same: "outer_tach_offset (fans (ctl_cfg ctl) ! (unat ch div 2)) =
      inner_tach_offset (fans (ctl_cfg ctl) ! (unat ch div 2))"
    using facts(6) off(1) by (auto simp: list_all_iff u)
  let ?tc = "nh_fpga_fan_read_tach ctl (ch div 2) (ch mod 2 = 0) m"
  have tc: "unat ?tc = cycles"
    using chn off(3,4) same
    by (simp add: nh_fpga_fan_read_tach_def Let_def facts u ev cycles_def reg_def tach_fields
        del: drop_bit_and)
  have "cycles < 2 ^ 16"
    using unsigned_less [of "ioread32 m (unat (inner_tach_offset (fans (ctl_cfg ctl) ! (unat ch div 2))))",
        where ?'a = nat]
    by (simp add: cycles_def reg_def less_mult_imp_div_less)
  then have "unat (nh_fpga_fan_tach_to_rpm ?tc (tach_time_unit_ns (ctl_cfg ctl))) =
      (if cycles = 0 \<or> cycles = 65535 then 0 else 60000000000 div (cycles * tick))"
    using tach_to_rpm_exact [of ?tc "tach_time_unit_ns (ctl_cfg ctl)"] facts(7)
    by (simp only: tc tick_def)
  then have "uint (nh_fpga_fan_tach_to_rpm ?tc (tach_time_unit_ns (ctl_cfg ctl))) =
      int (if cycles = 0 \<or> cycles = 65535 then 0 else 60000000000 div (cycles * tick))"
    by (simp only: uint_nat)
  then show ?thesis
    using pres by (simp add: nh_fpga_fan_read_def Let_def facts(2))
qed

theorem fan_speed_reading_witness:
  "\<exists>ctl. nh_fpga_fan_read ctl hwmon_fan hwmon_fan_input 0 \<lparr>regs = \<lambda>_. 0x700, wlog = []\<rparr> = Inr 5733"
proof -
  obtain ctl m1 where
    p: "nh_fpga_fan_probe kenv_ok NH_FPGA_DEVICE_M4061NHP 5 \<lparr>regs = \<lambda>_. 0x700, wlog = []\<rparr> = (Inr ctl, m1)"
    and c: "ctl_cfg ctl = m4061nhp_fan" by (rule m4061_probe)
  have pres: "nh_fpga_fan_get_status_and_presence ctl (0 div 2) \<lparr>regs = \<lambda>_. 0x700, wlog = []\<rparr> = Inr ()"
    using m4061_presence(1) [OF c] by simp
  from fan_speed_reading [OF p pres] show ?thesis
    by (auto simp: c m4061nhp_fan_def ioread32_def)
qed

section \<open>Names\<close>

text \<open>
  On a probed controller the label of hwmon channel \<open>ch\<close> names the tray \<open>ch div 2 + 1\<close> and the
  rotor that the speed reading of the same channel uses.
\<close>

theorem fan_label_names_rotor:
  assumes probe: "nh_fpga_fan_probe env d n m0 = (Inr ctl, m1)"
    and ch: "unat ch < 2 * length (fans (ctl_cfg ctl))"
  shows "nh_fpga_fan_read_string ctl hwmon_fan hwmon_fan_label ch =
    Inr (''fan'' @ dec (unat ch div 2 + 1) @ (if even (unat ch) then ''_inner'' else ''_outer''))"
proof -
  obtain c where c: "Option.bind (nh_get_platform d) fan_cfg = Some c" "ctl_cfg ctl = c"
    and l: "fan_labels ctl = map (\<lambda>i. fan_label c (of_nat i)) [0..<unat (nh_fpga_fan_num_tach c)]"
    by (rule probe_Inr [OF probe])
  note facts = platform_fan_facts [OF c(1)]
  have len: "length (fans c) < 2 ^ 30"
    using fan_trays_bound(3) [OF probe_ctl_ok(1) [OF probe]] platform_fan_cfg_ok(1) [OF c(1)] facts(2)
    by (simp add: fan_regs_ok_def)
  have tach: "unat (nh_fpga_fan_num_tach c) = 2 * length (fans c)"
    using len by (simp add: nh_fpga_fan_num_tach_def facts unat_word_ariths)
  have u: "unat (ch div 2 + 1) = unat ch div 2 + 1"
    using ch c(2) len by (simp add: unat_word_ariths unat_div_distrib)
  have ev: "(ch mod 2 = 0) = even (unat ch)"
    by (simp add: unat_mod_distrib even_iff_mod_2_eq_zero flip: unat_0_iff)
  show ?thesis
    using ch c(2)
    by (simp add: nh_fpga_fan_read_string_def l tach fan_label_def Let_def facts u ev)
qed

theorem fan_label_names_rotor_witness:
  "\<exists>ctl. nh_fpga_fan_read_string ctl hwmon_fan hwmon_fan_label 3 = Inr ''fan2_outer''"
proof -
  obtain ctl m1 where
    p: "nh_fpga_fan_probe kenv_ok NH_FPGA_DEVICE_M4061NHP 5 \<lparr>regs = \<lambda>_. 0x700, wlog = []\<rparr> = (Inr ctl, m1)"
    and c: "ctl_cfg ctl = m4061nhp_fan" by (rule m4061_probe)
  have "unat (3 :: s32) < 2 * length (fans (ctl_cfg ctl))"
    by (simp add: c m4061nhp_fan_def m4061nhp_fans_def)
  from fan_label_names_rotor [OF p this] show ?thesis
    by (auto simp: dec_small)
qed

text \<open>
  Every attribute of the group other than \<open>fan_card_type\<close> has a name the handlers parse back
  to the fan it was made for; a fan beyond the board's tray count is refused with \<open>-EINVAL\<close>.
\<close>

theorem fan_attr_name_roundtrip:
  assumes probe: "nh_fpga_fan_probe env d n m0 = (Inr ctl, m1)"
    and a: "a \<in> set (attr_group ctl)" "attr_kind a \<noteq> Attr_card_type"
  shows "\<exists>i < length (fans (ctl_cfg ctl)). \<exists>t \<in> set nh_fpga_fan_per_fan_attrs.
    a = fan_attr_for i t
    \<and> fan_num_of ctl (attr_name a) = (if i < unat n then Inr (of_nat i) else Inl EINVAL)"
proof -
  obtain c where c: "Option.bind (nh_get_platform d) fan_cfg = Some c" "ctl_cfg ctl = c" "num_fan_trays ctl = n"
    and g: "attr_group ctl = map (\<lambda>(i, t). fan_attr_for i t)
           (List.product [0..<unat (num_fan_controllers c)] nh_fpga_fan_per_fan_attrs)
         @ [dev_attr_fan_card_type]"
    by (rule probe_Inr [OF probe])
  note ok = probe_ctl_ok(1) [OF probe]
  from a g c(2) fan_trays_bound(5) [OF ok] obtain i t where
    it: "i < length (fans c)" "t \<in> set nh_fpga_fan_per_fan_attrs" "a = fan_attr_for i t"
    by (auto simp: dev_attr_fan_card_type_def)
  have "i < 2 ^ 31 - 1" using it(1) fan_trays_bound(3) [OF ok] c(2) by simp
  moreover have "\<not> is_digit (hd (fst t))"
    using it(2) by (auto simp: nh_fpga_fan_per_fan_attrs_def is_digit_def)
  ultimately have "fan_num_of ctl (attr_name a) = (if i < unat n then Inr (of_nat i) else Inl EINVAL)"
    by (simp only: it(3) fan_attr_for_def fan_attr.simps fan_num_of_name [OF ok] c(3) simp_thms)
  with it c(2) show ?thesis by blast
qed

theorem fan_attr_name_roundtrip_witness:
  "\<exists>ctl a. a \<in> set (attr_group ctl) \<and> attr_name a = ''fan3_led'' \<and> fan_num_of ctl (attr_name a) = Inr 2"
proof -
  obtain ctl m1 where
    p: "nh_fpga_fan_probe kenv_ok NH_FPGA_DEVICE_M4061NHP 5 \<lparr>regs = \<lambda>_. 0x700, wlog = []\<rparr> = (Inr ctl, m1)"
    and c: "ctl_cfg ctl = m4061nhp_fan" by (rule m4061_probe)
  let ?a = "fan_attr_for 2 (''_led'', 420, Attr_led)"
  have nm: "attr_name ?a = ''fan3_led''"
    by (simp add: fan_attr_for_def dec_small)
  have "?a \<in> set (attr_group ctl)"
    by (rule probe_Inr [OF p])
      (auto simp: c m4061nhp_fan_def m4061nhp_fans_def nh_fpga_fan_per_fan_attrs_def
        intro!: image_eqI [where x = "(2, (''_led'', 420, Attr_led))"])
  moreover have "attr_kind ?a \<noteq> Attr_card_type" by (simp add: fan_attr_for_def)
  ultimately obtain i t where it: "t \<in> set nh_fpga_fan_per_fan_attrs" "?a = fan_attr_for i t"
    "fan_num_of ctl (attr_name ?a) = (if i < unat (5 :: u32) then Inr (of_nat i) else Inl EINVAL)"
    using fan_attr_name_roundtrip [OF p] by blast
  from it(1,2) have "dec (i + 1) = dec 3"
    by (auto simp: fan_attr_for_def nh_fpga_fan_per_fan_attrs_def)
  then have "i = 2" by (simp add: dec_inj)
  with it(3) have "fan_num_of ctl (attr_name ?a) = Inr 2" by simp
  with nm \<open>?a \<in> set (attr_group ctl)\<close> show ?thesis by blast
qed

section \<open>Fan LEDs\<close>



text \<open>
  C27: Writing a number to the attribute \<open>fanN_led\<close> of a present fan, and then running the queued
  LED works in either order, leaves the attribute reading back the same state (1 good, 0 fail, 2
  off for every other number), keeps the fan present and changes the LED of no other fan.
\<close>

theorem fan_led_store_any_order:
  assumes probe: "nh_fpga_fan_probe env d n m0 = (Inr ctl, m1)"
    and i: "i < unat n" and v: "kstrtoint buf = Inr v"
    and pres: "nh_fpga_fan_get_status_and_presence ctl (of_nat i) m = Inr ()"
    and st: "fan_led_simple_store ctl (''fan'' @ dec (i + 1) @ ''_led'') buf m = (r, ws, m2)"
    and ws': "mset ws' = mset ws"
  defines "m' \<equiv> run_led_works ctl ws' m2"
  shows "r = Inr (length buf)
    \<and> fan_led_simple_show ctl (''fan'' @ dec (i + 1) @ ''_led'') m' =
        Inr (if v = 1 then ''1\<newline>'' else if v = 0 then ''0\<newline>'' else ''2\<newline>'')
    \<and> (\<forall>j g. j < num_fan_controllers (ctl_cfg ctl) \<longrightarrow> j \<noteq> of_nat i \<longrightarrow>
         fan_led_lit ctl j g m' = fan_led_lit ctl j g m)"
proof -
  note ok = probe_ctl_ok [OF probe]
  have n: "num_fan_trays ctl = n" by (rule probe_Inr [OF probe])
  have ib: "i < 2 ^ 31 - 1"
    using i fan_trays_bound(2,3) [OF ok(1)] n by simp
  have nm: "fan_num_of ctl (''fan'' @ dec (i + 1) @ ''_led'') = Inr (of_nat i)"
    using i n by (subst fan_num_of_name [OF ok(1) ib]) (simp_all add: is_digit_def)
  note il = fan_num_of_Inr(2) [OF ok(1) nm]
  note w = led_store_works [OF ok nm v pres st ws']
  have "fan_led_lit ctl (of_nat i) g m' = (v = (if g then 1 else 0))" for g
    using w(3) [OF il, of g] by (simp add: m'_def)
  then show ?thesis
    using w(1,3) led_show_lit [OF ok(1) nm w(2)] by (auto simp: m'_def)
qed

theorem fan_led_store_any_order_witness:
  "\<exists>ctl r a b m2. fan_led_simple_store ctl ''fan1_led'' ''1'' \<lparr>regs = \<lambda>_. 0x700, wlog = []\<rparr> = (r, [a, b], m2)
     \<and> r = Inr 1 \<and> fan_led_simple_show ctl ''fan1_led'' (run_led_works ctl [b, a] m2) = Inr ''1\<newline>''"
proof -
  obtain ctl m1 where
    p: "nh_fpga_fan_probe kenv_ok NH_FPGA_DEVICE_M4061NHP 5 \<lparr>regs = \<lambda>_. 0x700, wlog = []\<rparr> = (Inr ctl, m1)"
    and c: "ctl_cfg ctl = m4061nhp_fan" by (rule m4061_probe)
  have n: "num_fan_trays ctl = 5" by (rule probe_Inr [OF p])
  let ?m = "\<lparr>regs = \<lambda>_. 0x700, wlog = []\<rparr>"
  have nm: "''fan'' @ dec (0 + 1) @ ''_led'' = ''fan1_led''" by (simp add: dec_small)
  have v: "kstrtoint ''1'' = Inr 1" by code_simp
  have pres: "nh_fpga_fan_get_status_and_presence ctl (of_nat 0) ?m = Inr ()"
    by (simp add: m4061_presence(1) [OF c])
  have fn: "fan_num_of ctl ''fan1_led'' = Inr 0"
    using fan_num_of_name [OF probe_ctl_ok(1) [OF p], of 0 "''_led''"] n
    by (simp add: dec_small is_digit_def)
  obtain a b m2 where st: "fan_led_simple_store ctl ''fan1_led'' ''1'' ?m = (Inr 1, [a, b], m2)"
    using pres by (simp add: fan_led_simple_store_def fn v Let_def)
  have "0 < unat (5 :: u32)" "mset [b, a] = mset [a, b]" by simp_all
  from fan_led_store_any_order [OF p this(1) v pres _ this(2), unfolded nm, OF st]
  have "fan_led_simple_show ctl ''fan1_led'' (run_led_works ctl [b, a] m2) = Inr ''1\<newline>''"
    by simp
  with st show ?thesis by blast
qed

end
