(* ===== verification/Port_Led.thy ===== *)
theory Port_Led
  imports Bicolor_Led Platform Kernel_Env
begin

text \<open>
  \<open>kmods/nh_fpga_port_led_main.c\<close>: the blue/amber LED of each front-panel port. A range table per
  colour maps a port to a register and a bit; setting a colour clears its sibling. The driver's
  state is one record per LED class device (\<open>port_led_dev\<close>) of the controller (\<open>port_led_ctrl\<close>);
  LED registers are addressed from the parent's \<open>mmio_base\<close>, the start of the BAR.
\<close>

type_synonym port_led_table = "port_led_color \<Rightarrow> port_led_color_addr"

record port_led_dev =
  pl_name :: string
  pl_port_num :: u32
  pl_color :: port_led_color
  pl_trigger_inited :: bool

record port_led_ctrl =
  pl_leds :: "port_led_dev list"
  pl_table :: port_led_table

definition port_led_id_for_num :: "nh_platform_cfg \<Rightarrow> u32 \<Rightarrow> u32" where
  "port_led_id_for_num cfg n =
     (case led_to_id cfg of
        None \<Rightarrow> n
      | Some tab \<Rightarrow> if led_to_id_len cfg \<le> n then n else tab ! unat n)"

text \<open>
  The loop over the ranges of a colour; the result is the pair \<open>(*offset, *bit)\<close>.
  \<open>bits_per_port\<close> and \<open>color_bit_offset\<close> are \<open>u8\<close> and are widened before the arithmetic.
\<close>

definition range_covers :: "u32 \<Rightarrow> port_led_range \<Rightarrow> bool" where
  "range_covers p r = (r_start_port r \<le> p \<and> p \<le> r_end_port r)"

definition nh_port_led_get_bit_and_offset ::
    "port_led_table \<Rightarrow> port_led_color \<Rightarrow> u32 \<Rightarrow> (u32 \<times> u32) result" where
  "nh_port_led_get_bit_and_offset color_table color p =
     (let c = color_table color
      in case find (range_covers p) (take (unat (num_ranges c)) (ranges c)) of
           None \<Rightarrow> Inl EINVAL
         | Some r \<Rightarrow>
             Inr (r_offset r,
               (p - r_start_port r) * ucast (bits_per_port r) + ucast (color_bit_offset r)))"

fun other_color :: "port_led_color \<Rightarrow> port_led_color" where
  "other_color PORT_LED_BLUE = PORT_LED_AMBER"
| "other_color PORT_LED_AMBER = PORT_LED_BLUE"

definition nh_port_led_brightness_get :: "port_led_table \<Rightarrow> port_led_dev \<Rightarrow> mmio \<Rightarrow> nat" where
  "nh_port_led_brightness_get color_table led m =
     (case nh_port_led_get_bit_and_offset color_table (pl_color led) (pl_port_num led) of
        Inl _ \<Rightarrow> 0
      | Inr (off, b) \<Rightarrow>
          let reg_val = ioread32 m (unat off)
          in if reg_val AND BIT (unat b) \<noteq> 0 then 1 else 0)"

definition nh_port_led_brightness_set ::
    "port_led_table \<Rightarrow> port_led_dev \<Rightarrow> nat \<Rightarrow> mmio \<Rightarrow> unit result \<times> mmio" where
  "nh_port_led_brightness_set color_table led brightness m =
     (case nh_port_led_get_bit_and_offset color_table (pl_color led) (pl_port_num led) of
        Inl e \<Rightarrow> (Inl e, m)
      | Inr (off, b) \<Rightarrow>
          if brightness \<noteq> 0 then
            (case nh_port_led_get_bit_and_offset color_table (other_color (pl_color led))
                    (pl_port_num led) of
               Inl e \<Rightarrow> (Inl e, m)
             | Inr (off_offset, off_bit) \<Rightarrow>
                 if off_offset = off then
                   let reg_val = ioread32 m (unat off);
                       reg_val = reg_val AND NOT (BIT (unat off_bit));
                       reg_val = reg_val OR BIT (unat b)
                   in (Inr (), iowrite32 reg_val (unat off) m)
                 else
                   let off_reg = ioread32 m (unat off_offset) AND NOT (BIT (unat off_bit));
                       m1 = iowrite32 off_reg (unat off_offset) m;
                       reg_val = ioread32 m1 (unat off) OR BIT (unat b)
                   in (Inr (), iowrite32 reg_val (unat off) m1))
          else
            let reg_val = ioread32 m (unat off) AND NOT (BIT (unat b))
            in (Inr (), iowrite32 reg_val (unat off) m))"

text \<open>
  Probe: \<open>port\<close> and \<open>led_idx\<close> come from user space with the device description. The LED name is
  \<open>port<id>_led<idx>:<color>:status\<close>.
\<close>

definition port_led_node_name :: "u32 \<Rightarrow> s32 \<Rightarrow> port_led_color \<Rightarrow> string" where
  "port_led_node_name tcvr_id name_idx c =
     ''port'' @ dec_int (sint tcvr_id) @ ''_led'' @ dec_int (sint name_idx) @ '':'' @ color_name c
       @ '':status''"

definition port_led_register_one ::
    "kenv \<Rightarrow> nh_platform_cfg \<Rightarrow> s32 \<Rightarrow> s32 \<Rightarrow> nat \<Rightarrow> port_led_dev result" where
  "port_led_register_one env cfg port led_idx i =
     (let tcvr_id = port_led_id_for_num cfg port;
          name_idx = (if dual_color_per_led cfg then 1 else led_idx);
          color = (if dual_color_per_led cfg
                   then (if i = 0 then PORT_LED_BLUE else PORT_LED_AMBER)
                   else (if led_idx = 1 then PORT_LED_BLUE else PORT_LED_AMBER));
          name = port_led_node_name tcvr_id name_idx color
      in if \<not> alloc_ok env name then Inl ENOMEM
         else case led_register env name of
                Some e \<Rightarrow> Inl e
              | None \<Rightarrow> Inr \<lparr>pl_name = name, pl_port_num = port, pl_color = color,
                             pl_trigger_inited = (trigger_init env name = None)\<rparr>)"

definition nh_port_led_probe ::
    "kenv \<Rightarrow> u16 \<Rightarrow> s32 \<Rightarrow> s32 \<Rightarrow> port_led_ctrl result" where
  "nh_port_led_probe env device_id port led_idx =
     (case nh_get_platform device_id of
        None \<Rightarrow> Inl ENODEV
      | Some cfg \<Rightarrow>
        (case port_led_cfg cfg of
           None \<Rightarrow> Inl ENODEV
         | Some table \<Rightarrow>
             if sint port < 1 \<or> sint (num_ports_per_led cfg) < sint port
                \<or> sint led_idx < 1 \<or> 2 < sint led_idx
             then Inl EINVAL
             else if dual_color_per_led cfg \<and> led_idx \<noteq> 1 then Inl EINVAL
             else if \<exists>color \<in> set [PORT_LED_BLUE, PORT_LED_AMBER].
                       \<not> is_ok (nh_port_led_get_bit_and_offset table color port)
             then Inl ENODEV
             else if \<not> alloc_ok env ''ctrl'' then Inl ENOMEM
             else
               let n = (if dual_color_per_led cfg then 2 else 1)
               in if \<not> alloc_ok env ''leds'' then Inl ENOMEM
                  else case collect (port_led_register_one env cfg port led_idx) [0..<n] of
                         Inl e \<Rightarrow> Inl e
                       | Inr leds \<Rightarrow> Inr \<lparr>pl_leds = leds, pl_table = table\<rparr>))"

text \<open>
  Remove deinitialises the trigger of exactly the LEDs whose trigger was initialised, which
  darkens them (\<open>led_trigger_deinit\<close> calls \<open>led_set_brightness\<close> with \<open>LED_OFF\<close>).
\<close>

definition nh_port_led_remove :: "port_led_ctrl option \<Rightarrow> mmio \<Rightarrow> mmio" where
  "nh_port_led_remove drvdata m =
     (case drvdata of
        None \<Rightarrow> m
      | Some ctrl \<Rightarrow>
          foldl (\<lambda>m led. if pl_trigger_inited led
                         then snd (nh_port_led_brightness_set (pl_table ctrl) led 0 m) else m)
            m (pl_leds ctrl))"

section \<open>The bits a table assigns to a port\<close>

definition port_led_loc :: "port_led_table \<Rightarrow> port_led_color \<Rightarrow> u32 \<Rightarrow> (u32 \<times> nat) option" where
  "port_led_loc tab c p =
     (case nh_port_led_get_bit_and_offset tab c p of
        Inl _ \<Rightarrow> None
      | Inr (off, b) \<Rightarrow> Some (off, unat b))"

definition loc_ok :: "(u32 \<times> nat) option \<Rightarrow> bool" where
  "loc_ok l = (case l of None \<Rightarrow> False | Some (off, b) \<Rightarrow> b < 32)"

text \<open>Every port of the list has a bit per colour, inside its register, and all are different.\<close>

definition port_led_locs :: "port_led_table \<Rightarrow> u32 list \<Rightarrow> (u32 \<times> nat) option list" where
  "port_led_locs tab ps =
     map (port_led_loc tab PORT_LED_BLUE) ps @ map (port_led_loc tab PORT_LED_AMBER) ps"

definition port_leds_ok :: "port_led_table \<Rightarrow> u32 list \<Rightarrow> bool" where
  "port_leds_ok tab ps = (list_all loc_ok (port_led_locs tab ps) \<and> distinct (port_led_locs tab ps))"

lemma port_leds_ok_loc:
  assumes "port_leds_ok tab ps" and "p \<in> set ps"
  obtains off b where "port_led_loc tab c p = Some (off, b)" and "b < 32"
proof -
  from assms have "loc_ok (port_led_loc tab c p)"
    by (cases c) (auto simp: port_leds_ok_def port_led_locs_def list_all_iff)
  then show thesis using that
    by (auto simp: loc_ok_def split: option.splits prod.splits)
qed

lemma port_leds_ok_inj:
  assumes ok: "port_leds_ok tab ps" and "p \<in> set ps" and "q \<in> set ps"
    and eq: "port_led_loc tab c p = port_led_loc tab d q"
  shows "p = q \<and> c = d"
proof -
  let ?B = "map (port_led_loc tab PORT_LED_BLUE) ps" and ?A = "map (port_led_loc tab PORT_LED_AMBER) ps"
  from ok have "distinct ?B" and "distinct ?A" and dj: "set ?B \<inter> set ?A = {}"
    by (auto simp: port_leds_ok_def port_led_locs_def)
  then have inj: "inj_on (port_led_loc tab e) (set ps)" for e
    by (cases e) (auto simp: distinct_map)
  have "c = d"
  proof (rule ccontr)
    assume "c \<noteq> d"
    then have "port_led_loc tab c p \<in> set ?B \<inter> set ?A"
      using assms(2-4) by (cases c; cases d) (auto intro: rev_image_eqI)
    with dj show False by simp
  qed
  with inj [of c] assms(2-4) show ?thesis by (auto dest: inj_onD)
qed

text \<open>The LED class device of a port and colour; its operations read only these two fields.\<close>

definition port_led_at :: "u32 \<Rightarrow> port_led_color \<Rightarrow> port_led_dev" where
  "port_led_at p c = \<lparr>pl_name = [], pl_port_num = p, pl_color = c, pl_trigger_inited = False\<rparr>"

lemma port_led_at_simps [simp]:
  "pl_port_num (port_led_at p c) = p" "pl_color (port_led_at p c) = c"
  by (simp_all add: port_led_at_def)

lemma port_led_loc_Some:
  "port_led_loc tab c p = Some (off, n) \<longleftrightarrow>
     (\<exists>b. nh_port_led_get_bit_and_offset tab c p = Inr (off, b) \<and> n = unat b)"
  by (auto simp: port_led_loc_def split: sum.splits prod.splits)

lemma other_color_neq [simp]: "other_color c \<noteq> c" "c \<noteq> other_color c"
  by (cases c; simp)+

lemma color_cases: "d = c \<or> d = other_color c"
  by (cases c; cases d) auto

lemma get_bit:
  assumes "port_led_loc tab c p = Some (off, n)"
  shows "nh_port_led_brightness_get tab (port_led_at p c) m \<noteq> 0 \<longleftrightarrow> bit (ioread32 m (unat off)) n"
  using assms
  by (auto simp: port_led_loc_Some nh_port_led_brightness_get_def Let_def and_BIT_0_iff
      split: if_splits)

text \<open>What a set does to every bit of every register.\<close>

lemma set_bit:
  assumes c: "port_led_loc tab c p = Some (off, n)" and n: "n < 32"
    and d: "port_led_loc tab (other_color c) p = Some (off', n')"
    and ne: "(off, n) \<noteq> (off', n')"
  shows "bit (ioread32 (snd (nh_port_led_brightness_set tab (port_led_at p c) br m)) a) i =
    (if a = unat off \<and> i = n then br \<noteq> 0
     else if br \<noteq> 0 \<and> a = unat off' \<and> i = n' then False
     else bit (ioread32 m a) i)"
proof -
  from c d obtain b b' where
    b: "nh_port_led_get_bit_and_offset tab c p = Inr (off, b)" "n = unat b" and
    b': "nh_port_led_get_bit_and_offset tab (other_color c) p = Inr (off', b')" "n' = unat b'"
    by (auto simp: port_led_loc_Some)
  with n ne show ?thesis
    by (auto simp: nh_port_led_brightness_set_def Let_def bar.rd_wr bit_simps
        dest: bit_u32_lt)
qed

section \<open>The port LED keeps the bicolour contract\<close>

definition port_led_ok :: "port_led_table \<times> u32 list \<Rightarrow> u32 \<Rightarrow> bool" where
  "port_led_ok k p = (port_leds_ok (fst k) (snd k) \<and> p \<in> set (snd k))"

definition port_led_put ::
    "port_led_table \<times> u32 list \<Rightarrow> u32 \<Rightarrow> port_led_color \<Rightarrow> bool \<Rightarrow> mmio \<Rightarrow> mmio" where
  "port_led_put k p c on m =
     snd (nh_port_led_brightness_set (fst k) (port_led_at p c) (if on then 1 else 0) m)"

definition port_led_lit :: "port_led_table \<times> u32 list \<Rightarrow> u32 \<Rightarrow> port_led_color \<Rightarrow> mmio \<Rightarrow> bool" where
  "port_led_lit k p c m = (nh_port_led_brightness_get (fst k) (port_led_at p c) m \<noteq> 0)"

lemma port_led_ok_locs:
  assumes "port_led_ok k p"
  obtains off n off' n' where
    "port_led_loc (fst k) c p = Some (off, n)" "n < 32"
    "port_led_loc (fst k) (other_color c) p = Some (off', n')" "n' < 32"
    "(off, n) \<noteq> (off', n')"
proof -
  from assms have k: "port_leds_ok (fst k) (snd k)" "p \<in> set (snd k)"
    by (auto simp: port_led_ok_def)
  obtain off n where 1: "port_led_loc (fst k) c p = Some (off, n)" "n < 32"
    by (rule port_leds_ok_loc [OF k])
  obtain off' n' where 2: "port_led_loc (fst k) (other_color c) p = Some (off', n')" "n' < 32"
    by (rule port_leds_ok_loc [OF k])
  have "(off, n) \<noteq> (off', n')"
    using port_leds_ok_inj [OF k k(2), of c "other_color c"] 1 2 by auto
  with 1 2 that show thesis by blast
qed

lemma port_led_put_lit:
  assumes k: "port_led_ok k p" "port_led_ok k q"
  shows "port_led_lit k q d (port_led_put k p c on m) =
    (if q = p then (if d = c then on else \<not> on \<and> port_led_lit k q d m) else port_led_lit k q d m)"
proof -
  obtain off n off' n' where c: "port_led_loc (fst k) c p = Some (off, n)" "n < 32"
    "port_led_loc (fst k) (other_color c) p = Some (off', n')" "n' < 32" "(off, n) \<noteq> (off', n')"
    by (rule port_led_ok_locs [OF k(1)])
  obtain x i where x: "port_led_loc (fst k) d q = Some (x, i)"
    by (rule port_led_ok_locs [OF k(2)])
  have inj: "p = q \<and> e = d" if "port_led_loc (fst k) e p = Some (x, i)" for e
    using port_leds_ok_inj [of "fst k" "snd k" p q e d] k that x by (auto simp: port_led_ok_def)
  have at_c: "unat x = unat off \<and> i = n \<longleftrightarrow> q = p \<and> d = c"
    using inj [of c] c x by (auto simp flip: word_unat_eq_iff)
  have at_o: "unat x = unat off' \<and> i = n' \<longleftrightarrow> q = p \<and> d = other_color c"
    using inj [of "other_color c"] c x by (auto simp flip: word_unat_eq_iff)
  have "port_led_lit k q d (port_led_put k p c on m) =
      bit (ioread32 (port_led_put k p c on m) (unat x)) i"
    by (simp only: port_led_lit_def get_bit [OF x])
  also have "\<dots> = (if unat x = unat off \<and> i = n then on
      else if on \<and> unat x = unat off' \<and> i = n' then False else bit (ioread32 m (unat x)) i)"
    by (simp add: port_led_put_def set_bit [OF c(1,2,3,5)])
  also have "bit (ioread32 m (unat x)) i = port_led_lit k q d m"
    by (simp only: port_led_lit_def get_bit [OF x])
  finally show ?thesis
    using color_cases [of d c] by (auto simp: at_c at_o)
qed

interpretation port_led: bicolor_led port_led_ok port_led_put port_led_lit
  by unfold_locales (auto simp: port_led_put_lit)

end
