(* ===== verification/Port_Led_Tables.thy ===== *)
theory Port_Led_Tables
  imports Port_Led
begin

text \<open>
  The port LED driver on the tables of the four FPGAs that have port LEDs: which ports each FPGA
  drives, why no two LED bits coincide, and the properties of the driver that follow.
\<close>

section \<open>The platform tables\<close>

text \<open>
  A check of the ranges that implies the check of all ports: a range's last bit is inside the
  register, and two ranges that share a register interleave different positions of fields of the
  same width.
\<close>

definition led_range_ok :: "port_led_range \<Rightarrow> bool" where
  "led_range_ok r = (r_start_port r \<le> r_end_port r \<and> 0 < unat (bits_per_port r) \<and>
     unat (r_end_port r - r_start_port r) * unat (bits_per_port r) + unat (color_bit_offset r) < 32)"

definition led_ranges_apart :: "port_led_range \<Rightarrow> port_led_range \<Rightarrow> bool" where
  "led_ranges_apart r r' = (r_offset r = r_offset r' \<longrightarrow> bits_per_port r = bits_per_port r' \<and>
     unat (color_bit_offset r) mod unat (bits_per_port r)
       \<noteq> unat (color_bit_offset r') mod unat (bits_per_port r))"

definition led_table_ok :: "port_led_table \<Rightarrow> bool" where
  "led_table_ok tab =
     (let bs = ranges (tab PORT_LED_BLUE); as = ranges (tab PORT_LED_AMBER)
      in range_table_ok (tab PORT_LED_BLUE) \<and> range_table_ok (tab PORT_LED_AMBER)
         \<and> list_all led_range_ok (bs @ as)
         \<and> distinct (map r_offset bs) \<and> distinct (map r_offset as)
         \<and> list_all (\<lambda>r. list_all (led_ranges_apart r) as) bs)"

definition led_table_covers :: "port_led_table \<Rightarrow> u32 list \<Rightarrow> bool" where
  "led_table_covers tab ps =
     list_all (\<lambda>p. list_ex (range_covers p) (ranges (tab PORT_LED_BLUE))
                 \<and> list_ex (range_covers p) (ranges (tab PORT_LED_AMBER))) ps"

definition range_bit :: "port_led_range \<Rightarrow> u32 \<Rightarrow> nat" where
  "range_bit r p = (unat p - unat (r_start_port r)) * unat (bits_per_port r) + unat (color_bit_offset r)"

lemma range_bit:
  assumes r: "led_range_ok r" and p: "range_covers p r"
  shows "unat ((p - r_start_port r) * ucast (bits_per_port r) + ucast (color_bit_offset r)) = range_bit r p"
    and "range_bit r p < 32"
proof -
  let ?s = "r_start_port r" and ?e = "r_end_port r" and ?w = "bits_per_port r"
    and ?o = "color_bit_offset r"
  from p have se: "unat ?s \<le> unat p" "unat p \<le> unat ?e"
    by (auto simp: range_covers_def word_le_nat_alt)
  have es: "unat (?e - ?s) = unat ?e - unat ?s"
    using r by (simp add: led_range_ok_def unat_sub)
  have "range_bit r p \<le> unat (?e - ?s) * unat ?w + unat ?o"
    unfolding range_bit_def es using se by (intro add_mono mult_le_mono1 diff_le_mono order_refl)
  also have "\<dots> < 32" using r by (simp add: led_range_ok_def)
  finally show lt: "range_bit r p < 32" .
  have "unat (p - ?s) = unat p - unat ?s"
    using se by (simp add: unat_sub word_le_nat_alt)
  then show "unat ((p - ?s) * ucast ?w + ucast ?o) = range_bit r p"
    using lt by (simp add: range_bit_def unat_word_ariths)
qed

lemma led_table_loc:
  assumes tab: "led_table_ok tab" and cov: "led_table_covers tab ps" and p: "p \<in> set ps"
  obtains r where "r \<in> set (ranges (tab c))" and "range_covers p r" and "led_range_ok r"
    and "port_led_loc tab c p = Some (r_offset r, range_bit r p)"
proof -
  from cov p have "\<exists>r \<in> set (ranges (tab c)). range_covers p r"
    by (cases c) (auto simp: led_table_covers_def list_all_iff list_ex_iff)
  then obtain r where f: "find (range_covers p) (ranges (tab c)) = Some r"
    by (cases "find (range_covers p) (ranges (tab c))") (auto simp: find_None_iff)
  then have r: "r \<in> set (ranges (tab c))" "range_covers p r"
    by (auto simp: find_Some_iff)
  from tab have full: "take (unat (num_ranges (tab c))) (ranges (tab c)) = ranges (tab c)"
    by (cases c) (auto simp: led_table_ok_def range_table_ok_def Let_def)
  from tab r(1) have ok: "led_range_ok r"
    by (cases c) (auto simp: led_table_ok_def Let_def list_all_iff)
  have "port_led_loc tab c p = Some (r_offset r, range_bit r p)"
    by (simp add: port_led_loc_def nh_port_led_get_bit_and_offset_def Let_def full f
        range_bit(1) [OF ok r(2)])
  with that r ok show thesis by blast
qed

lemma range_bit_mod: "range_bit r p mod unat (bits_per_port r) = unat (color_bit_offset r) mod unat (bits_per_port r)"
  by (simp add: range_bit_def)

lemma led_table_inj:
  assumes tab: "led_table_ok tab" and cov: "led_table_covers tab ps"
    and p: "p \<in> set ps" and q: "q \<in> set ps"
    and eq: "port_led_loc tab c p = port_led_loc tab d q"
  shows "p = q \<and> c = d"
proof -
  obtain r where r: "r \<in> set (ranges (tab c))" "range_covers p r" "led_range_ok r"
    "port_led_loc tab c p = Some (r_offset r, range_bit r p)"
    by (rule led_table_loc [OF tab cov p])
  obtain r' where r': "r' \<in> set (ranges (tab d))" "range_covers q r'" "led_range_ok r'"
    "port_led_loc tab d q = Some (r_offset r', range_bit r' q)"
    by (rule led_table_loc [OF tab cov q])
  from eq r r' have same: "r_offset r = r_offset r'" "range_bit r p = range_bit r' q" by simp_all
  have apart: False if "led_ranges_apart r1 r2" "r_offset r1 = r_offset r2"
    "range_bit r1 x = range_bit r2 y" for r1 r2 x y
    using that range_bit_mod [of r1 x] range_bit_mod [of r2 y]
    by (metis led_ranges_apart_def)
  have cd: "c = d"
  proof (rule ccontr)
    assume "c \<noteq> d"
    then have "led_ranges_apart r r' \<or> led_ranges_apart r' r"
      using tab r(1) r'(1) by (cases c; cases d) (auto simp: led_table_ok_def Let_def list_all_iff)
    then show False
      using apart [of r r' p q] apart [of r' r q p] same by auto
  qed
  with tab r(1) r'(1) same(1) have "r = r'"
    by (cases c) (auto simp: led_table_ok_def Let_def distinct_map inj_on_def)
  with same(2) r(3) have "unat p - unat (r_start_port r) = unat q - unat (r_start_port r)"
    by (simp add: range_bit_def led_range_ok_def)
  with r(2) r'(2) \<open>r = r'\<close> have "unat p = unat q"
    by (auto simp: range_covers_def word_le_nat_alt)
  with cd show ?thesis by (simp add: word_unat_eq_iff)
qed

lemma led_table_port_leds_ok:
  assumes tab: "led_table_ok tab" and cov: "led_table_covers tab ps" and ps: "distinct ps"
  shows "port_leds_ok tab ps"
proof -
  have "loc_ok (port_led_loc tab c p)" if "p \<in> set ps" for c p
    by (rule led_table_loc [OF tab cov that, of c]) (simp add: loc_ok_def range_bit(2))
  moreover have "inj_on (port_led_loc tab c) (set ps)" for c
    using led_table_inj [OF tab cov] by (auto intro!: inj_onI)
  moreover have "port_led_loc tab PORT_LED_BLUE p \<noteq> port_led_loc tab PORT_LED_AMBER q"
    if "p \<in> set ps" "q \<in> set ps" for p q
    using led_table_inj [OF tab cov that] by blast
  ultimately show ?thesis
    using ps by (auto simp: port_leds_ok_def port_led_locs_def list_all_iff distinct_map)
qed

text \<open>The ports each FPGA drives.\<close>

definition m4340nhp_led_ports :: "u32 list" where
  "m4340nhp_led_ports = map of_nat [1..<67]"

definition m4061nhp_led_ports :: "u32 list" where
  "m4061nhp_led_ports = map of_nat [1..<66]"

definition m4062nhp_fpga0_led_ports :: "u32 list" where
  "m4062nhp_fpga0_led_ports = map of_nat [33..<97]"

definition m4062nhp_fpga1_led_ports :: "u32 list" where
  "m4062nhp_fpga1_led_ports = map of_nat ([1..<33] @ [97..<129])"

lemma distinct_of_nat_u32:
  "distinct xs \<Longrightarrow> \<forall>x \<in> set xs. x < 2 ^ 32 \<Longrightarrow> distinct (map (of_nat :: nat \<Rightarrow> u32) xs)"
  by (auto simp: distinct_map unat_of_nat intro!: inj_on_inverseI [where g = unat])

lemma led_ports_distinct:
  "distinct m4340nhp_led_ports" "distinct m4061nhp_led_ports"
  "distinct m4062nhp_fpga0_led_ports" "distinct m4062nhp_fpga1_led_ports"
  unfolding m4340nhp_led_ports_def m4061nhp_led_ports_def m4062nhp_fpga0_led_ports_def
    m4062nhp_fpga1_led_ports_def
  by (rule distinct_of_nat_u32; auto)+


lemma led_tables_ok:
  "led_table_ok m4340nhp_port_led" "led_table_ok m4061nhp_port_led"
  "led_table_ok m4062nhp_fpga0_port_led" "led_table_ok m4062nhp_fpga1_port_led"
  by code_simp+

lemma led_tables_cover:
  "led_table_covers m4340nhp_port_led m4340nhp_led_ports"
  "led_table_covers m4061nhp_port_led m4061nhp_led_ports"
  "led_table_covers m4062nhp_fpga0_port_led m4062nhp_fpga0_led_ports"
  "led_table_covers m4062nhp_fpga1_port_led m4062nhp_fpga1_led_ports"
  by code_simp+

lemmas platform_port_leds_ok =
  led_table_port_leds_ok [OF led_tables_ok(1) led_tables_cover(1) led_ports_distinct(1)]
  led_table_port_leds_ok [OF led_tables_ok(2) led_tables_cover(2) led_ports_distinct(2)]
  led_table_port_leds_ok [OF led_tables_ok(3) led_tables_cover(3) led_ports_distinct(3)]
  led_table_port_leds_ok [OF led_tables_ok(4) led_tables_cover(4) led_ports_distinct(4)]


text \<open>A range table covers no port outside the intervals of the FPGA.\<close>

definition led_table_within :: "port_led_table \<Rightarrow> (u32 \<times> u32) list \<Rightarrow> bool" where
  "led_table_within tab ivs =
     list_all (\<lambda>r. list_ex (\<lambda>(lo, hi). lo \<le> r_start_port r \<and> r_end_port r \<le> hi) ivs)
       (ranges (tab PORT_LED_BLUE) @ ranges (tab PORT_LED_AMBER))"

lemma led_tables_within:
  "led_table_within m4340nhp_port_led [(1, 66)]"
  "led_table_within m4061nhp_port_led [(1, 65)]"
  "led_table_within m4062nhp_fpga0_port_led [(33, 96)]"
  "led_table_within m4062nhp_fpga1_port_led [(1, 32), (97, 128)]"
  by code_simp+

lemma u32_interval:
  assumes "unat hi < 2 ^ 32 - 1"
  shows "lo \<le> p \<and> p \<le> hi \<longleftrightarrow> p \<in> set (map of_nat [unat lo..<Suc (unat (hi :: u32))])"
proof
  assume "lo \<le> p \<and> p \<le> hi"
  then have "unat p \<in> set [unat lo..<Suc (unat hi)]" by (auto simp: word_le_nat_alt)
  then show "p \<in> set (map of_nat [unat lo..<Suc (unat hi)])"
    unfolding set_map by (intro image_eqI [where x = "unat p"]) simp_all
next
  assume "p \<in> set (map of_nat [unat lo..<Suc (unat hi)])"
  then obtain n where "p = of_nat n" "unat lo \<le> n" "n \<le> unat hi" by auto
  with assms show "lo \<le> p \<and> p \<le> hi" by (simp add: word_le_nat_alt unat_of_nat)
qed

text \<open>The ports of a platform, and the LED facts about it.\<close>

definition platform_led_ports :: "nh_platform_cfg \<Rightarrow> u32 list" where
  "platform_led_ports p =
     (if pf_device_id p = NH_FPGA_DEVICE_M4340NHP then m4340nhp_led_ports
      else if pf_device_id p = NH_FPGA_DEVICE_M4061NHP then m4061nhp_led_ports
      else if pf_device_id p = NH_FPGA_DEVICE_M4062NHP_FPGA0 then m4062nhp_fpga0_led_ports
      else if pf_device_id p = NH_FPGA_DEVICE_M4062NHP_FPGA1 then m4062nhp_fpga1_led_ports
      else [])"

lemma platform_led_ports_simps [simp]:
  "platform_led_ports nh_platform_cf2 = []"
  "platform_led_ports nh_platform_m4340nhp = m4340nhp_led_ports"
  "platform_led_ports nh_platform_m4061nhp = m4061nhp_led_ports"
  "platform_led_ports nh_platform_m4062nhp_fpga0 = m4062nhp_fpga0_led_ports"
  "platform_led_ports nh_platform_m4062nhp_fpga1 = m4062nhp_fpga1_led_ports"
  by (simp_all add: platform_led_ports_def device_id_defs)

lemma port_led_cfg_simps [simp]:
  "port_led_cfg nh_platform_cf2 = None"
  "port_led_cfg nh_platform_m4340nhp = Some m4340nhp_port_led"
  "port_led_cfg nh_platform_m4061nhp = Some m4061nhp_port_led"
  "port_led_cfg nh_platform_m4062nhp_fpga0 = Some m4062nhp_fpga0_port_led"
  "port_led_cfg nh_platform_m4062nhp_fpga1 = Some m4062nhp_fpga1_port_led"
  by (simp_all add: nh_platform_cf2_def nh_platform_m4061nhp_def
      nh_platform_m4062nhp_fpga0_def nh_platform_m4062nhp_fpga1_def nh_platform_m4340nhp_def)

lemma platform_led_cases:
  assumes "nh_get_platform d = Some cfg" and "port_led_cfg cfg = Some tab"
  obtains "cfg = nh_platform_m4340nhp" "tab = m4340nhp_port_led"
    | "cfg = nh_platform_m4061nhp" "tab = m4061nhp_port_led"
    | "cfg = nh_platform_m4062nhp_fpga0" "tab = m4062nhp_fpga0_port_led"
    | "cfg = nh_platform_m4062nhp_fpga1" "tab = m4062nhp_fpga1_port_led"
  using assms by (auto simp: nh_get_platform_iff set_nh_platforms)

lemma platform_port_leds:
  assumes "nh_get_platform d = Some cfg" and "port_led_cfg cfg = Some tab"
  shows "port_leds_ok tab (platform_led_ports cfg)"
  by (rule platform_led_cases [OF assms]) (simp_all add: platform_port_leds_ok)

lemma within_ports:
  assumes w: "led_table_within tab ivs"
    and ivs: "\<And>lo hi. (lo, hi) \<in> set ivs \<Longrightarrow> lo \<le> p \<and> p \<le> hi \<Longrightarrow> p \<in> set ps"
    and r: "nh_port_led_get_bit_and_offset tab c p = Inr x"
  shows "p \<in> set ps"
proof -
  from r obtain r where "find (range_covers p) (take (unat (num_ranges (tab c))) (ranges (tab c))) = Some r"
    by (auto simp: nh_port_led_get_bit_and_offset_def Let_def split: option.splits)
  then have r: "r \<in> set (take (unat (num_ranges (tab c))) (ranges (tab c)))" "range_covers p r"
    by (auto simp: find_Some_iff in_set_conv_nth)
  then have "r \<in> set (ranges (tab c))" by (blast dest: in_set_takeD)
  with w obtain lo hi where i: "(lo, hi) \<in> set ivs" "lo \<le> r_start_port r" "r_end_port r \<le> hi"
    by (cases c) (fastforce simp: led_table_within_def list_all_iff list_ex_iff)+
  with r(2) have "lo \<le> p \<and> p \<le> hi"
    by (meson order_trans range_covers_def)
  with ivs i(1) show ?thesis by blast
qed

text \<open>The table of a platform gives a bit for exactly the ports of the platform.\<close>

lemma platform_led_lookup:
  assumes "nh_get_platform d = Some cfg" and "port_led_cfg cfg = Some tab"
  shows "is_ok (nh_port_led_get_bit_and_offset tab c p) \<longleftrightarrow> p \<in> set (platform_led_ports cfg)"
proof
  assume "p \<in> set (platform_led_ports cfg)"
  then obtain off b where "port_led_loc tab c p = Some (off, b)"
    by (rule port_leds_ok_loc [OF platform_port_leds [OF assms]])
  then show "is_ok (nh_port_led_get_bit_and_offset tab c p)"
    by (auto simp: port_led_loc_def is_ok_def split: sum.splits)
next
  assume "is_ok (nh_port_led_get_bit_and_offset tab c p)"
  then obtain x where x: "nh_port_led_get_bit_and_offset tab c p = Inr x"
    by (auto simp: is_ok_def split: sum.splits)
  note iv = u32_interval [THEN iffD1]
  show "p \<in> set (platform_led_ports cfg)"
  proof (rule platform_led_cases [OF assms])
    assume t: "cfg = nh_platform_m4340nhp" "tab = m4340nhp_port_led"
    show ?thesis unfolding t platform_led_ports_simps
      by (rule within_ports [OF led_tables_within(1) _ x [unfolded t]])
        (use iv [of 66 1 p] in \<open>auto simp: m4340nhp_led_ports_def\<close>)
  next
    assume t: "cfg = nh_platform_m4061nhp" "tab = m4061nhp_port_led"
    show ?thesis unfolding t platform_led_ports_simps
      by (rule within_ports [OF led_tables_within(2) _ x [unfolded t]])
        (use iv [of 65 1 p] in \<open>auto simp: m4061nhp_led_ports_def\<close>)
  next
    assume t: "cfg = nh_platform_m4062nhp_fpga0" "tab = m4062nhp_fpga0_port_led"
    show ?thesis unfolding t platform_led_ports_simps
      by (rule within_ports [OF led_tables_within(3) _ x [unfolded t]])
        (use iv [of 96 33 p] in \<open>auto simp: m4062nhp_fpga0_led_ports_def\<close>)
  next
    assume t: "cfg = nh_platform_m4062nhp_fpga1" "tab = m4062nhp_fpga1_port_led"
    show ?thesis unfolding t platform_led_ports_simps
      by (rule within_ports [OF led_tables_within(4) _ x [unfolded t]])
        (use iv [of 32 1 p] iv [of 128 97 p] in \<open>auto simp: m4062nhp_fpga1_led_ports_def\<close>)
  qed
qed

section \<open>What probe builds\<close>

lemma unat_of_nat_list:
  assumes "(p :: u32) \<in> set (map of_nat xs)" and "\<forall>x \<in> set xs. x < 2 ^ 32"
  shows "unat p \<in> set xs"
  using assms by (auto simp: unat_of_nat)

lemma led_ports_bounds:
  "p \<in> set m4340nhp_led_ports \<Longrightarrow> 1 \<le> unat p \<and> unat p \<le> 66"
  "p \<in> set m4061nhp_led_ports \<Longrightarrow> 1 \<le> unat p \<and> unat p \<le> 65"
  "p \<in> set m4062nhp_fpga0_led_ports \<Longrightarrow> 1 \<le> unat p \<and> unat p \<le> 128"
  "p \<in> set m4062nhp_fpga1_led_ports \<Longrightarrow> 1 \<le> unat p \<and> unat p \<le> 128"
  unfolding m4340nhp_led_ports_def m4061nhp_led_ports_def
    m4062nhp_fpga0_led_ports_def m4062nhp_fpga1_led_ports_def
  by (drule unat_of_nat_list; auto)+

lemma num_ports_simps [simp]:
  "num_ports_per_led nh_platform_m4340nhp = 66" "dual_color_per_led nh_platform_m4340nhp"
  "num_ports_per_led nh_platform_m4061nhp = 65" "dual_color_per_led nh_platform_m4061nhp"
  "num_ports_per_led nh_platform_m4062nhp_fpga0 = 128" "dual_color_per_led nh_platform_m4062nhp_fpga0"
  "num_ports_per_led nh_platform_m4062nhp_fpga1 = 128" "dual_color_per_led nh_platform_m4062nhp_fpga1"
  by (simp_all add: nh_platform_m4061nhp_def nh_platform_m4062nhp_fpga0_def
      nh_platform_m4062nhp_fpga1_def nh_platform_m4340nhp_def)

lemma platform_led_port_bound:
  assumes "nh_get_platform d = Some cfg" and "p \<in> set (platform_led_ports cfg)"
  shows "1 \<le> unat p" and "unat p \<le> 128" and "unat p \<le> unat (num_ports_per_led cfg)"
    and "unat (num_ports_per_led cfg) \<le> 128" and "dual_color_per_led cfg"
proof -
  have "1 \<le> unat p \<and> unat p \<le> unat (num_ports_per_led cfg)
      \<and> unat (num_ports_per_led cfg) \<le> 128 \<and> dual_color_per_led cfg"
    using assms led_ports_bounds [of p]
    by (auto simp: nh_get_platform_iff set_nh_platforms)
  then show "1 \<le> unat p" "unat p \<le> 128" "unat p \<le> unat (num_ports_per_led cfg)"
    "unat (num_ports_per_led cfg) \<le> 128" "dual_color_per_led cfg" by auto
qed

lemma port_led_register_Inr:
  "port_led_register_one env cfg port idx i = Inr l \<Longrightarrow> dual_color_per_led cfg \<Longrightarrow>
     pl_port_num l = port \<and> pl_color l = (if i = 0 then PORT_LED_BLUE else PORT_LED_AMBER)
     \<and> pl_name l = port_led_node_name (port_led_id_for_num cfg port) 1 (pl_color l)
     \<and> pl_trigger_inited l = (trigger_init env (pl_name l) = None)"
  by (auto simp: port_led_register_one_def Let_def split: if_splits option.splits)

lemma port_led_register_ok:
  "\<exists>l. port_led_register_one kenv_ok cfg port idx i = Inr l"
  by (simp add: port_led_register_one_def Let_def kenv_ok_def)

definition port_led_accepts :: "u16 \<Rightarrow> s32 \<Rightarrow> s32 \<Rightarrow> bool" where
  "port_led_accepts d port idx =
     (case nh_get_platform d of
        None \<Rightarrow> False
      | Some cfg \<Rightarrow> port \<in> set (platform_led_ports cfg) \<and> idx = 1)"

lemma platform_led_ports_cfg:
  "nh_get_platform d = Some cfg \<Longrightarrow> p \<in> set (platform_led_ports cfg) \<Longrightarrow> \<exists>tab. port_led_cfg cfg = Some tab"
  by (auto simp: nh_get_platform_iff set_nh_platforms)

lemma port_led_probe_refuse:
  assumes "\<not> port_led_accepts d port idx"
  shows "\<not> is_ok (nh_port_led_probe env d port idx)"
proof
  assume "is_ok (nh_port_led_probe env d port idx)"
  then obtain cfg tab where cfg: "nh_get_platform d = Some cfg" "port_led_cfg cfg = Some tab"
    and ok: "is_ok (nh_port_led_get_bit_and_offset tab PORT_LED_BLUE port)"
    and ix: "dual_color_per_led cfg \<longrightarrow> idx = 1"
    by (auto simp: nh_port_led_probe_def split: option.splits if_splits)
  from ok have p: "port \<in> set (platform_led_ports cfg)"
    by (simp add: platform_led_lookup [OF cfg])
  with ix platform_led_port_bound(5) [OF cfg(1) p] assms cfg show False
    by (simp add: port_led_accepts_def)
qed

lemma port_led_probe_accept:
  assumes "port_led_accepts d port idx"
  shows "is_ok (nh_port_led_probe kenv_ok d port idx)"
proof -
  from assms obtain cfg where cfg: "nh_get_platform d = Some cfg"
    and p: "port \<in> set (platform_led_ports cfg)" and ix: "idx = 1"
    by (auto simp: port_led_accepts_def split: option.splits)
  from platform_led_ports_cfg [OF cfg p] obtain tab where tab: "port_led_cfg cfg = Some tab" ..
  note b = platform_led_port_bound [OF cfg p]
  have s: "sint port = int (unat port)" "sint (num_ports_per_led cfg) = int (unat (num_ports_per_led cfg))"
    by (rule sint_small; use b(2,4) in simp)+
  have lk: "is_ok (nh_port_led_get_bit_and_offset tab c port)" for c
    using p by (simp add: platform_led_lookup [OF cfg tab])
  have guard: "\<not> (sint port < 1 \<or> sint (num_ports_per_led cfg) < sint port \<or> sint (1 :: s32) < 1 \<or> 2 < sint (1 :: s32))"
  proof -
    from b(1,3) have "1 \<le> int (unat port)" "int (unat port) \<le> int (unat (num_ports_per_led cfg))"
      by linarith+
    then show ?thesis unfolding s by (simp add: not_less)
  qed
  obtain l0 l1 where l: "port_led_register_one kenv_ok cfg port 1 0 = Inr l0"
    "port_led_register_one kenv_ok cfg port 1 1 = Inr l1"
    using port_led_register_ok by metis
  have two: "[0..<2] = [0, 1 :: nat]" by (simp add: upt_rec)
  show ?thesis
    using guard lk b(5) l
    by (simp add: nh_port_led_probe_def cfg tab ix two kenv_ok_def del: upt_rec_numeral)
qed

lemma port_led_probe_Inr:
  assumes "nh_port_led_probe env d port idx = Inr ctrl"
  obtains cfg tab where "nh_get_platform d = Some cfg" and "port_led_cfg cfg = Some tab"
    and "port \<in> set (platform_led_ports cfg)" and "pl_table ctrl = tab"
    and "list_all2 (\<lambda>i l. port_led_register_one env cfg port idx i = Inr l) [0, 1] (pl_leds ctrl)"
proof -
  from assms have "port_led_accepts d port idx"
    using port_led_probe_refuse by (metis is_ok_simps(1))
  then obtain cfg where cfg: "nh_get_platform d = Some cfg" and p: "port \<in> set (platform_led_ports cfg)"
    by (auto simp: port_led_accepts_def split: option.splits)
  from platform_led_ports_cfg [OF cfg p] obtain tab where tab: "port_led_cfg cfg = Some tab" ..
  have two: "[0..<2] = [0, 1 :: nat]" by (simp add: upt_rec)
  from assms obtain ls where
    c: "collect (port_led_register_one env cfg port idx) [0, 1] = Inr ls" and
    ctrl: "ctrl = \<lparr>pl_leds = ls, pl_table = tab\<rparr>"
    by (auto simp: nh_port_led_probe_def cfg tab Let_def two platform_led_port_bound(5) [OF cfg p]
        simp del: collect.simps upt_rec_numeral split: if_splits sum.splits)
  from that [OF cfg tab p] ctrl collect_Inr [OF c] show thesis by simp
qed

section \<open>LED names\<close>

lemma port_led_id_bound:
  assumes cfg: "nh_get_platform d = Some cfg" and p: "p \<in> set (platform_led_ports cfg)"
  shows "unat (port_led_id_for_num cfg p) \<le> 128"
proof -
  note b = platform_led_port_bound(2) [OF cfg p]
  have tab: "led_to_id cfg = None \<or> led_to_id cfg = Some m4062nhp_led_to_id \<and> led_to_id_len cfg = 129"
    using cfg by (auto simp: nh_get_platform_iff set_nh_platforms nh_platform_cf2_def nh_platform_m4061nhp_def
        nh_platform_m4062nhp_fpga0_def nh_platform_m4062nhp_fpga1_def nh_platform_m4340nhp_def)
  have "m4062nhp_led_to_id ! unat p \<le> 128"
    using m4062nhp_perms_bound(1) b by (auto simp: list_all_length)
  with tab b show ?thesis
    by (auto simp: port_led_id_for_num_def word_le_nat_alt)
qed

lemma port_led_id_inj:
  assumes cfg: "nh_get_platform d = Some cfg" and p: "p \<in> set (platform_led_ports cfg)"
    and q: "q \<in> set (platform_led_ports cfg)"
    and eq: "port_led_id_for_num cfg p = port_led_id_for_num cfg q"
  shows "p = q"
proof -
  note b = platform_led_port_bound(2) [OF cfg p] platform_led_port_bound(2) [OF cfg q]
  have tab: "led_to_id cfg = None \<or> led_to_id cfg = Some m4062nhp_led_to_id \<and> led_to_id_len cfg = 129"
    using cfg by (auto simp: nh_get_platform_iff set_nh_platforms nh_platform_cf2_def nh_platform_m4061nhp_def
        nh_platform_m4062nhp_fpga0_def nh_platform_m4062nhp_fpga1_def nh_platform_m4340nhp_def)
  have "\<not> 129 \<le> p" "\<not> 129 \<le> q" using b by (auto simp: word_le_nat_alt)
  then have "m4062nhp_led_to_id ! unat p = m4062nhp_led_to_id ! unat q \<or> p = q"
    using tab eq by (auto simp: port_led_id_for_num_def)
  then have "unat p = unat q"
    using b m4062nhp_perms_distinct(1) nth_eq_iff_index_eq [of m4062nhp_led_to_id "unat p" "unat q"]
    by auto
  then show ?thesis by (simp add: word_unat_eq_iff)
qed

lemma port_led_name_inj:
  assumes "unat a \<le> 128" and "unat b \<le> 128"
    and eq: "port_led_node_name a k c = port_led_node_name b k c'"
  shows "a = b \<and> c = c'"
proof -
  have s: "dec_int (sint a) = dec (unat a)" "dec_int (sint b) = dec (unat b)"
    using assms(1,2) by (simp_all add: sint_small dec_int_def)
  have nd: "\<not> is_digit (hd (''_led'' @ x))" for x by (simp add: is_digit_def)
  let ?t = "\<lambda>c. ''_led'' @ dec_int (sint k) @ '':'' @ color_name c @ '':status''"
  from eq have "dec (unat a) @ ?t c = dec (unat b) @ ?t c'"
    by (simp add: port_led_node_name_def s)
  from dec_append_inj [OF this] nd have "unat a = unat b \<and> ?t c = ?t c'" by blast
  moreover have "?t c = ?t c' \<Longrightarrow> c = c'" by (cases c; cases c') simp_all
  ultimately show ?thesis by (simp add: word_unat_eq_iff)
qed

section \<open>Properties of the port LED driver\<close>

text \<open>
  The driver accepts exactly the ports the FPGA of the device has LEDs for, with LED index 1:
  when every kernel call succeeds those are registered, and any other device, port or index is
  refused whatever the kernel calls return, so no LED device exists whose bit lookup could fail.
\<close>

theorem port_led_probe_decides:
  "is_ok (nh_port_led_probe kenv_ok d port idx) = port_led_accepts d port idx
   \<and> (port_led_accepts d port idx \<or> (\<exists>e. nh_port_led_probe env d port idx = Inl e))"
  using port_led_probe_refuse port_led_probe_accept not_ok_iff by blast

text \<open>
  C35: On every FPGA the range tables give each port of the FPGA and each colour a bit inside a
  32-bit register, no two (port, colour) pairs share a bit, and a port of another FPGA is refused.
\<close>

theorem port_led_bits_exact:
  assumes "nh_get_platform d = Some cfg" and "port_led_cfg cfg = Some tab"
  shows "(\<forall>c p. is_ok (nh_port_led_get_bit_and_offset tab c p) = (p \<in> set (platform_led_ports cfg)))
    \<and> (\<forall>c p off b. nh_port_led_get_bit_and_offset tab c p = Inr (off, b) \<longrightarrow> unat b < 32)
    \<and> (\<forall>c p c' q x. nh_port_led_get_bit_and_offset tab c p = Inr x \<longrightarrow>
         nh_port_led_get_bit_and_offset tab c' q = Inr x \<longrightarrow> p = q \<and> c = c')"
proof -
  let ?get = "nh_port_led_get_bit_and_offset tab"
  note lk = platform_led_lookup [OF assms] and ok = platform_port_leds [OF assms]
  have mem: "p \<in> set (platform_led_ports cfg)" if "?get c p = Inr x" for c p x
    using lk [of c p] that by simp
  have "unat b < 32" if g: "?get c p = Inr (off, b)" for c p off b
    by (rule port_leds_ok_loc [OF ok mem [OF g], of c]) (use g in \<open>simp add: port_led_loc_def\<close>)
  moreover have "p = q \<and> c = c'" if g: "?get c p = Inr x" and h: "?get c' q = Inr x" for c p c' q x
    by (rule port_leds_ok_inj [OF ok mem [OF g] mem [OF h]]) (simp add: port_led_loc_def g h)
  ultimately show ?thesis using lk by blast
qed

theorem port_led_bits_exact_witness:
  "nh_port_led_get_bit_and_offset m4340nhp_port_led PORT_LED_AMBER 66 = Inr (0x9C, 21)
   \<and> \<not> is_ok (nh_port_led_get_bit_and_offset m4340nhp_port_led PORT_LED_BLUE 67)"
proof -
  have r: "\<not> is_ok (nh_port_led_get_bit_and_offset m4340nhp_port_led PORT_LED_BLUE 67)"
    using port_led_bits_exact [OF get_platforms(5), of m4340nhp_port_led] led_ports_bounds(1) [of 67]
    by auto
  have "nh_port_led_get_bit_and_offset m4340nhp_port_led PORT_LED_AMBER 66 = Inr (0x9C, 21)"
    by code_simp
  with r show ?thesis by blast
qed

text \<open>
  C9: Whatever the LED registers hold, after any sequence of brightness writes to the port LEDs of
  an FPGA a port that had a colour switched on shows exactly what the abstract two-colour LED
  shows: the last colour switched on and not switched off since, and never both.
\<close>

theorem port_leds_refine_bicolor:
  assumes cfg: "nh_get_platform d = Some cfg" "port_led_cfg cfg = Some tab"
    and cs: "\<forall>(p, c, b) \<in> set cs. p \<in> set (platform_led_ports cfg)" and on: "(p, c0, True) \<in> set cs"
  shows "nh_port_led_brightness_get tab (port_led_at p c)
      (led_run (port_led_put (tab, platform_led_ports cfg)) cs m) \<noteq> 0
    \<longleftrightarrow> abs_run cs st p = Some c"
proof -
  let ?k = "(tab, platform_led_ports cfg)"
  have ok: "port_led_ok ?k q \<longleftrightarrow> q \<in> set (platform_led_ports cfg)" for q
    by (simp add: port_led_ok_def platform_port_leds [OF cfg])
  have "port_led_ok ?k p" using cs on by (auto simp: ok)
  moreover have "\<forall>(q, c, b) \<in> set cs. port_led_ok ?k q" using cs by (simp add: ok)
  ultimately have "port_led_lit ?k p c (led_run (port_led_put ?k) cs m) \<longleftrightarrow> abs_run cs st p = Some c"
    by (rule port_led.run_after_on) (rule on)
  then show ?thesis by (simp add: port_led_lit_def)
qed

theorem port_leds_refine_bicolor_witness:
  "nh_port_led_brightness_get m4340nhp_port_led (port_led_at 65 PORT_LED_BLUE)
      (led_run (port_led_put (m4340nhp_port_led, m4340nhp_led_ports))
        [(65, PORT_LED_AMBER, True), (66, PORT_LED_AMBER, True), (65, PORT_LED_BLUE, True)]
        \<lparr>regs = \<lambda>_. 0xFFFFFFFF, wlog = []\<rparr>) \<noteq> 0
   \<and> nh_port_led_brightness_get m4340nhp_port_led (port_led_at 65 PORT_LED_AMBER)
      (led_run (port_led_put (m4340nhp_port_led, m4340nhp_led_ports))
        [(65, PORT_LED_AMBER, True), (66, PORT_LED_AMBER, True), (65, PORT_LED_BLUE, True)]
        \<lparr>regs = \<lambda>_. 0xFFFFFFFF, wlog = []\<rparr>) = 0"
proof -
  let ?cs = "[(65, PORT_LED_AMBER, True), (66, PORT_LED_AMBER, True), (65, PORT_LED_BLUE, True)]
    :: (u32, port_led_color) led_cmd list"
  have ps: "65 \<in> set m4340nhp_led_ports" "66 \<in> set m4340nhp_led_ports"
    using u32_interval [of 66 1 65] u32_interval [of 66 1 66] by (simp_all add: m4340nhp_led_ports_def)
  have cs: "\<forall>(p, c, b) \<in> set ?cs. p \<in> set (platform_led_ports nh_platform_m4340nhp)"
    using ps by simp
  have on: "(65, PORT_LED_BLUE, True) \<in> set ?cs" by simp
  note r = port_leds_refine_bicolor [OF get_platforms(5) port_led_cfg_simps(2) cs on,
      where m = "\<lparr>regs = \<lambda>_. 0xFFFFFFFF, wlog = []\<rparr>" and st = "\<lambda>_. None"]
  show ?thesis
    using r [of PORT_LED_BLUE] r [of PORT_LED_AMBER] by simp
qed

text \<open>
  A brightness write touches no bit but the two of its own port: every other bit of every
  register keeps its value, and the write leaves the LED in the requested state.
\<close>

theorem port_led_set_frame:
  assumes cfg: "nh_get_platform d = Some cfg" "port_led_cfg cfg = Some tab"
    and p: "p \<in> set (platform_led_ports cfg)"
    and m': "nh_port_led_brightness_set tab (port_led_at p c) br m = (r, m')"
  shows "r = Inr ()
    \<and> (nh_port_led_brightness_get tab (port_led_at p c) m' \<noteq> 0) = (br \<noteq> 0)
    \<and> (\<forall>a i. (\<forall>c' off. port_led_loc tab c' p = Some (off, i) \<longrightarrow> unat off \<noteq> a) \<longrightarrow>
         bit (ioread32 m' a) i = bit (ioread32 m a) i)"
proof -
  let ?k = "(tab, platform_led_ports cfg)"
  have "port_led_ok ?k p" by (simp add: port_led_ok_def platform_port_leds [OF cfg] p)
  then obtain off n off' n' where l: "port_led_loc tab c p = Some (off, n)" "n < 32"
    "port_led_loc tab (other_color c) p = Some (off', n')" "(off, n) \<noteq> (off', n')"
    by (rule port_led_ok_locs [of ?k p c]) auto
  have m'2: "m' = snd (nh_port_led_brightness_set tab (port_led_at p c) br m)" by (simp add: m')
  note s = set_bit [OF l(1,2,3,4), of br m, folded m'2]
  have "r = Inr ()"
    using m' l(1,3)
    by (auto simp: nh_port_led_brightness_set_def port_led_loc_Some Let_def split: if_splits)
  moreover have "(nh_port_led_brightness_get tab (port_led_at p c) m' \<noteq> 0) = (br \<noteq> 0)"
    by (simp only: get_bit [OF l(1)] s) simp
  moreover have "bit (ioread32 m' a) i = bit (ioread32 m a) i"
    if "\<forall>c' off. port_led_loc tab c' p = Some (off, i) \<longrightarrow> unat off \<noteq> a" for a i
    using that l(1,3) by (auto simp: s)
  ultimately show ?thesis by blast
qed

theorem port_led_set_frame_witness:
  "\<exists>r m'. nh_port_led_brightness_set m4340nhp_port_led (port_led_at 66 PORT_LED_BLUE) 1
       \<lparr>regs = \<lambda>_. 0xFFFFFFFF, wlog = []\<rparr> = (r, m')
     \<and> r = Inr () \<and> bit (ioread32 m' 0x9C) 0"
proof -
  have p: "66 \<in> set (platform_led_ports nh_platform_m4340nhp)"
    using u32_interval [of 66 1 66] by (simp add: m4340nhp_led_ports_def)
  obtain r m' where m': "nh_port_led_brightness_set m4340nhp_port_led (port_led_at 66 PORT_LED_BLUE) 1
       \<lparr>regs = \<lambda>_. 0xFFFFFFFF, wlog = []\<rparr> = (r, m')" by fastforce
  have loc: "port_led_loc m4340nhp_port_led PORT_LED_BLUE 66 = Some (0x9C, 20)"
    "port_led_loc m4340nhp_port_led PORT_LED_AMBER 66 = Some (0x9C, 21)" by code_simp+
  have "\<forall>c' off. port_led_loc m4340nhp_port_led c' 66 = Some (off, 0) \<longrightarrow> unat off \<noteq> 0x9C"
  proof (intro allI impI)
    fix c' off assume "port_led_loc m4340nhp_port_led c' 66 = Some (off, 0)"
    then show "unat off \<noteq> 0x9C" using loc by (cases c') simp_all
  qed
  with port_led_set_frame [OF get_platforms(5) port_led_cfg_simps(2) p m'] m'
  show ?thesis by (auto simp: ioread32_def)
qed

text \<open>
  The LED devices of one probe are the blue and the amber LED of the port, named
  \<open>port<id>_led1:<color>:status\<close>, and no two (port, colour) pairs of an FPGA get the same name.
\<close>

theorem port_led_names:
  assumes probe: "nh_port_led_probe env d port idx = Inr ctrl"
    and cfg: "nh_get_platform d = Some cfg"
  shows "map pl_color (pl_leds ctrl) = [PORT_LED_BLUE, PORT_LED_AMBER]
    \<and> (\<forall>l \<in> set (pl_leds ctrl). pl_port_num l = port
         \<and> pl_name l = port_led_node_name (port_led_id_for_num cfg port) 1 (pl_color l)
         \<and> (\<forall>q \<in> set (platform_led_ports cfg). \<forall>c.
              port_led_node_name (port_led_id_for_num cfg q) 1 c = pl_name l \<longrightarrow> q = port \<and> c = pl_color l))"
proof -
  from cfg obtain tab where t: "port_led_cfg cfg = Some tab" "port \<in> set (platform_led_ports cfg)"
    and l: "list_all2 (\<lambda>i l. port_led_register_one env cfg port idx i = Inr l) [0, 1] (pl_leds ctrl)"
    using port_led_probe_Inr [OF probe] by (metis option.inject)
  note dual = platform_led_port_bound(5) [OF cfg t(2)]
  from l obtain l0 l1 where ls: "pl_leds ctrl = [l0, l1]"
    "port_led_register_one env cfg port idx 0 = Inr l0" "port_led_register_one env cfg port idx 1 = Inr l1"
    by (auto simp: list_all2_Cons1)
  note r = port_led_register_Inr [OF ls(2) dual] port_led_register_Inr [OF ls(3) dual]
  have inj: "q = port \<and> c = c'" if "q \<in> set (platform_led_ports cfg)"
    "port_led_node_name (port_led_id_for_num cfg q) 1 c = port_led_node_name (port_led_id_for_num cfg port) 1 c'"
    for q c c'
    using port_led_name_inj [OF port_led_id_bound [OF cfg that(1)] port_led_id_bound [OF cfg t(2)] that(2)]
      port_led_id_inj [OF cfg that(1) t(2)] by blast
  show ?thesis using r inj by (auto simp: ls(1))
qed

theorem port_led_names_witness:
  "\<exists>ctrl. nh_port_led_probe kenv_ok NH_FPGA_DEVICE_M4340NHP 66 1 = Inr ctrl
     \<and> map pl_color (pl_leds ctrl) = [PORT_LED_BLUE, PORT_LED_AMBER]
     \<and> (\<forall>l \<in> set (pl_leds ctrl). pl_port_num l = 66)"
proof -
  have "port_led_accepts NH_FPGA_DEVICE_M4340NHP 66 1"
    using u32_interval [of 66 1 66] by (simp add: port_led_accepts_def m4340nhp_led_ports_def)
  from port_led_probe_accept [OF this] obtain ctrl where
    p: "nh_port_led_probe kenv_ok NH_FPGA_DEVICE_M4340NHP 66 1 = Inr ctrl"
    by (auto simp: is_ok_def split: sum.splits)
  with port_led_names [OF p get_platforms(5)] show ?thesis
    by (intro exI [of _ ctrl]) simp
qed

end
