(* ===== verification/Led_Core.thy ===== *)
theory Led_Core
  imports Platform Kernel_Env Mmio
begin

text \<open>
  \<open>kmods/nh_fpga_led_core_main.c\<close> and \<open>kmods/nh_fpga_led_trigger.c\<close>: the status LEDs (PSU, fan,
  system, management port). Each LED device has a colour field and a blink bit in one control
  register that all status LEDs, and on some platforms the LEDs of management ports, share.

  The trigger attributes are those of a kernel without \<open>CONFIG_LEDS_TRIGGERS\<close>; with it the two
  trigger functions do nothing. Deactivating a trigger calls \<open>led_set_brightness\<close>, which runs the
  driver's \<open>brightness_set_blocking\<close> from a work queue; it is applied directly here.
\<close>

section \<open>State\<close>

record nh_led_core_dev =
  lc_name :: string
  lc_color :: nat
  lc_trigger_inited :: bool
  blink_delay_on :: nat
  blink_delay_off :: nat

record nh_led_core_controller =
  lc_type :: nh_led_type
  lc_leds :: "nh_led_core_dev list"
  lc_cfg :: nh_led_core_config

section \<open>LED class operations\<close>

text \<open>The row of the table \<open>led_info[type][num_leds]\<close> a device of the controller uses.\<close>

definition led_core_info :: "nh_led_core_controller \<Rightarrow> nh_led_core_dev \<Rightarrow> nh_led_core_info" where
  "led_core_info ctrl led =
     led_info (lc_cfg ctrl) ! (led_type_index (lc_type ctrl) * unat (num_leds (lc_cfg ctrl)) + lc_color led)"

definition nh_led_brightness_get :: "nh_led_core_controller \<Rightarrow> nh_led_core_dev \<Rightarrow> mmio \<Rightarrow> u32" where
  "nh_led_brightness_get ctrl led m =
     (let info = led_core_info ctrl led;
          msk = push_bit (unat (color_field_width info)) 1 - 1;
          reg_val = ioread32 m (unat (control_offset (lc_cfg ctrl)))
      in drop_bit (unat (color_offset info)) reg_val AND msk)"

definition nh_led_brightness_set ::
    "nh_led_core_controller \<Rightarrow> nh_led_core_dev \<Rightarrow> u32 \<Rightarrow> mmio \<Rightarrow> mmio" where
  "nh_led_brightness_set ctrl led brightness m =
     (let info = led_core_info ctrl led;
          msk = push_bit (unat (color_field_width info)) 1 - 1;
          reg_val = ioread32 m (unat (control_offset (lc_cfg ctrl)));
          new_reg_val = reg_val AND NOT (push_bit (unat (color_offset info)) msk);
          new_reg_val = new_reg_val OR push_bit (unat (color_offset info)) (brightness AND msk)
      in iowrite32 new_reg_val (unat (control_offset (lc_cfg ctrl))) m)"

definition nh_led_blink_set ::
    "nh_led_core_controller \<Rightarrow> nh_led_core_dev \<Rightarrow> nat \<Rightarrow> nat \<Rightarrow> mmio \<Rightarrow> mmio" where
  "nh_led_blink_set ctrl led delay_on delay_off m =
     (let info = led_core_info ctrl led;
          blink_enable = (delay_on \<noteq> 0 \<or> delay_off \<noteq> 0);
          reg_val = ioread32 m (unat (control_offset (lc_cfg ctrl)));
          new_reg_val = (if blink_enable then reg_val OR BIT (unat (blink_bit info))
                         else reg_val AND NOT (BIT (unat (blink_bit info))))
      in iowrite32 new_reg_val (unat (control_offset (lc_cfg ctrl))) m)"

section \<open>Trigger attributes\<close>

text \<open>\<open>sysfs_streq\<close> ignores one trailing newline.\<close>

definition sysfs_streq :: "string \<Rightarrow> string \<Rightarrow> bool" where
  "sysfs_streq buf s = (strip_nl buf = s)"

text \<open>
  \<open>kstrtoul(buf, 10, &v)\<close>: an optional plus sign, digits, an optional newline; \<open>-ERANGE\<close> beyond
  64 bits.
\<close>

definition kstrtoul :: "string \<Rightarrow> nat result" where
  "kstrtoul buf =
     (let s = strip_nl buf;
          body = (if s \<noteq> [] \<and> hd s = CHR ''+'' then tl s else s)
      in case kstrto_digits body of
           Inl e \<Rightarrow> Inl e
         | Inr n \<Rightarrow> if n < 2 ^ 64 then Inr n else Inl ERANGE)"

definition trigger_store ::
    "nh_led_core_controller \<Rightarrow> nh_led_core_dev \<Rightarrow> string \<Rightarrow> mmio \<Rightarrow> nat \<times> mmio" where
  "trigger_store ctrl led buf m =
     (length buf,
      if sysfs_streq buf ''timer'' \<or> sysfs_streq buf ''bp4f_timer''
      then nh_led_blink_set ctrl led (blink_delay_on led) (blink_delay_off led) m else m)"

definition delay_on_store :: "nh_led_core_dev \<Rightarrow> string \<Rightarrow> nat result \<times> nh_led_core_dev" where
  "delay_on_store led buf =
     (case kstrtoul buf of
        Inl e \<Rightarrow> (Inl e, led)
      | Inr v \<Rightarrow> (Inr (length buf), led\<lparr>blink_delay_on := v\<rparr>))"

definition delay_on_show :: "nh_led_core_dev \<Rightarrow> string" where
  "delay_on_show led = dec (blink_delay_on led) @ ''\<newline>''"

definition delay_off_store :: "nh_led_core_dev \<Rightarrow> string \<Rightarrow> nat result \<times> nh_led_core_dev" where
  "delay_off_store led buf =
     (case kstrtoul buf of
        Inl e \<Rightarrow> (Inl e, led)
      | Inr v \<Rightarrow> (Inr (length buf), led\<lparr>blink_delay_off := v\<rparr>))"

definition delay_off_show :: "nh_led_core_dev \<Rightarrow> string" where
  "delay_off_show led = dec (blink_delay_off led) @ ''\<newline>''"

definition led_timer_trig_deactivate ::
    "nh_led_core_controller \<Rightarrow> nh_led_core_dev \<Rightarrow> mmio \<Rightarrow> mmio" where
  "led_timer_trig_deactivate ctrl led m = nh_led_brightness_set ctrl led 0 m"

definition led_trigger_deinit :: "nh_led_core_controller \<Rightarrow> nh_led_core_dev \<Rightarrow> mmio \<Rightarrow> mmio" where
  "led_trigger_deinit ctrl led m = led_timer_trig_deactivate ctrl led m"

section \<open>Registration, probe and remove\<close>

text \<open>A NULL name prints as \<open>(null)\<close>.\<close>

definition led_core_name :: "nh_led_core_config \<Rightarrow> nh_led_type \<Rightarrow> nat \<Rightarrow> nat \<Rightarrow> string" where
  "led_core_name cfg t led_entry color_slot =
     (let info = led_info cfg ! (led_type_index t * unat (num_leds cfg) + led_entry)
      in (case led_name info of None \<Rightarrow> ''(null)'' | Some n \<Rightarrow> n) @ '':''
         @ color_names cfg ! unat (colors info ! color_slot) @ '':status'')"

definition led_core_register_one ::
    "kenv \<Rightarrow> nh_led_core_config \<Rightarrow> nh_led_type \<Rightarrow> nat \<times> nat \<Rightarrow> nh_led_core_dev result" where
  "led_core_register_one env cfg t slot =
     (let name = led_core_name cfg t (fst slot) (snd slot)
      in if \<not> alloc_ok env name then Inl ENOMEM
         else case led_register env name of
                Some e \<Rightarrow> Inl e
              | None \<Rightarrow> Inr \<lparr>lc_name = name, lc_color = fst slot,
                             lc_trigger_inited = (trigger_init env name = None),
                             blink_delay_on = 0, blink_delay_off = 0\<rparr>)"

definition nh_led_register_leds ::
    "kenv \<Rightarrow> nh_led_core_config \<Rightarrow> nh_led_type \<Rightarrow> nh_led_core_dev list result" where
  "nh_led_register_leds env cfg t =
     collect (led_core_register_one env cfg t)
       (List.product [0..<unat (num_leds cfg)] [0..<unat (num_colors_per_led cfg)])"

text \<open>\<open>strrchr(name, '.')\<close>: what follows the last dot.\<close>

definition after_last_dot :: "string \<Rightarrow> string option" where
  "after_last_dot s =
     (if CHR ''.'' \<in> set s then Some (rev (takeWhile (\<lambda>c. c \<noteq> CHR ''.'') (rev s))) else None)"

definition led_type_of_name :: "string \<Rightarrow> nh_led_type option" where
  "led_type_of_name nm =
     (if nm = ''psu_led'' then Some NH_LED_TYPE_PSU
      else if nm = ''fan_led'' then Some NH_LED_TYPE_FAN
      else if nm = ''sys_led'' then Some NH_LED_TYPE_SYS
      else if nm = ''mgmt_qsfp_led'' then Some NH_LED_TYPE_MGMT_QSFP
      else None)"

definition nh_led_probe :: "kenv \<Rightarrow> u16 \<Rightarrow> string \<Rightarrow> nh_led_core_controller result" where
  "nh_led_probe env device_id id_name =
     (if \<not> alloc_ok env ''ctrl'' then Inl ENOMEM
      else
        case Option.bind (nh_get_platform device_id) led_core_cfg of
          None \<Rightarrow> Inl ENODEV
        | Some cfg \<Rightarrow>
            if \<not> alloc_ok env ''leds'' then Inl ENOMEM
            else
              case after_last_dot id_name of
                None \<Rightarrow> Inl EINVAL
              | Some nm \<Rightarrow>
                  (case led_type_of_name nm of
                     None \<Rightarrow> Inl EINVAL
                   | Some t \<Rightarrow>
                       (case nh_led_register_leds env cfg t of
                          Inl e \<Rightarrow> Inl e
                        | Inr leds \<Rightarrow> Inr \<lparr>lc_type = t, lc_leds = leds, lc_cfg = cfg\<rparr>)))"

definition nh_led_remove :: "nh_led_core_controller option \<Rightarrow> mmio \<Rightarrow> mmio" where
  "nh_led_remove drvdata m =
     (case drvdata of
        None \<Rightarrow> m
      | Some ctrl \<Rightarrow> foldl (\<lambda>m led. if lc_trigger_inited led then led_trigger_deinit ctrl led m else m)
                      m (lc_leds ctrl))"

definition nh_led_aux_id_table :: "string list" where
  "nh_led_aux_id_table =
     [''fbiob_pci.psu_led'', ''fbiob_pci.fan_led'', ''fbiob_pci.sys_led'', ''fbiob_pci.mgmt_qsfp_led'']"

section \<open>Fields of the control register\<close>

definition color_mask :: "nh_led_core_info \<Rightarrow> u32" where
  "color_mask i = push_bit (unat (color_offset i)) (mask (unat (color_field_width i)))"

text \<open>A row whose colour field and blink bit lie in the register and do not overlap.\<close>

definition led_row_ok :: "nh_led_core_info \<Rightarrow> bool" where
  "led_row_ok i =
     (0 < color_field_width i \<and> unat (color_offset i) + unat (color_field_width i) \<le> 32
      \<and> blink_bit i < 32 \<and> \<not> bit (color_mask i) (unat (blink_bit i)))"

lemma shifted_mask: "2 ^ w - 1 = (mask w :: u32)"
  by (simp add: mask_eq_exp_minus_1)

lemma brightness_set_eq:
  "nh_led_brightness_set ctrl led v m =
    (let i = led_core_info ctrl led; a = unat (control_offset (lc_cfg ctrl))
     in iowrite32 (field_put (color_mask i) (unat (color_offset i)) v (ioread32 m a)) a m)"
proof -
  have "push_bit s (v AND k) = push_bit s v AND push_bit s k" for s and k :: u32
    by (simp add: push_bit_and)
  then show ?thesis
    by (simp add: nh_led_brightness_set_def field_put_def color_mask_def Let_def shifted_mask)
qed

lemma brightness_get_eq:
  assumes "led_row_ok (led_core_info ctrl led)"
  shows "nh_led_brightness_get ctrl led m =
    (let i = led_core_info ctrl led
     in field_get (color_mask i) (unat (color_offset i)) (ioread32 m (unat (control_offset (lc_cfg ctrl)))))"
  using assms
  by (auto simp: nh_led_brightness_get_def field_get_def color_mask_def Let_def shifted_mask
      bit_simps led_row_ok_def intro!: bit_word_eqI dest: bit_u32_lt)

lemma brightness_set_other:
  assumes "\<not> bit (color_mask (led_core_info ctrl led)) n \<or> a \<noteq> unat (control_offset (lc_cfg ctrl))"
  shows "bit (ioread32 (nh_led_brightness_set ctrl led v m) a) n = bit (ioread32 m a) n"
  using assms
  by (auto simp: brightness_set_eq Let_def bar.rd_wr field_put_def bit_simps dest: bit_u32_lt)

lemma blink_set_bit:
  "bit (ioread32 (nh_led_blink_set ctrl led don doff m) a) n =
    (if a = unat (control_offset (lc_cfg ctrl)) \<and> n = unat (blink_bit (led_core_info ctrl led)) \<and> n < 32
     then don \<noteq> 0 \<or> doff \<noteq> 0 else bit (ioread32 m a) n)"
  by (auto simp: nh_led_blink_set_def Let_def bar.rd_wr bit_simps dest: bit_u32_lt)

end
