(* ===== verification/Led_Core_Props.thy ===== *)
theory Led_Core_Props
  imports Led_Core
begin

text \<open>
  The status LED driver on the tables of the three platforms that have status LEDs: the fields of
  the control register do not overlap, and the properties of the driver that follow.
\<close>

definition led_cfg_ok :: "nh_led_core_config \<Rightarrow> bool" where
  "led_cfg_ok c =
     (num_leds c = 2 \<and> num_colors_per_led c = 1 \<and> length (led_info c) = 8
      \<and> list_all (\<lambda>i. led_name i = None \<or> led_row_ok i) (led_info c)
      \<and> list_all (\<lambda>(i, j). i = j \<or> color_mask (led_info c ! i) AND color_mask (led_info c ! j) = 0)
          (List.product [0..<8] [0..<8])
      \<and> list_all (\<lambda>(i, j). led_name (led_info c ! j) = None
             \<or> \<not> bit (color_mask (led_info c ! i)) (unat (blink_bit (led_info c ! j))))
          (List.product [0..<8] [0..<8]))"

lemma led_cfgs_ok:
  "led_cfg_ok m4061nhp_led_config" "led_cfg_ok m4062nhp_fpga0_led_config" "led_cfg_ok m4340nhp_led_config"
  by code_simp+

lemma led_core_cfg_simps [simp]:
  "led_core_cfg nh_platform_cf2 = None"
  "led_core_cfg nh_platform_m4061nhp = Some m4061nhp_led_config"
  "led_core_cfg nh_platform_m4062nhp_fpga0 = Some m4062nhp_fpga0_led_config"
  "led_core_cfg nh_platform_m4062nhp_fpga1 = None"
  "led_core_cfg nh_platform_m4340nhp = Some m4340nhp_led_config"
  by (simp_all add: nh_platform_cf2_def nh_platform_m4061nhp_def
      nh_platform_m4062nhp_fpga0_def nh_platform_m4062nhp_fpga1_def nh_platform_m4340nhp_def)

lemma platform_led_cfg_ok:
  "Option.bind (nh_get_platform d) led_core_cfg = Some c \<Longrightarrow> led_cfg_ok c"
  using led_cfgs_ok by (auto simp: bind_eq_Some_conv nh_get_platform_iff set_nh_platforms)

lemma led_type_index_lt: "led_type_index t < 4"
  by (cases t) simp_all


section \<open>What probe builds\<close>

lemma led_core_register_Inr:
  "led_core_register_one env cfg t s = Inr l \<Longrightarrow>
     lc_name l = led_core_name cfg t (fst s) (snd s) \<and> lc_color l = fst s
     \<and> blink_delay_on l = 0 \<and> blink_delay_off l = 0"
  by (auto simp: led_core_register_one_def Let_def split: if_splits option.splits)

lemma led_core_register_ok:
  "nh_led_register_leds kenv_ok cfg t =
     Inr (map (\<lambda>s. \<lparr>lc_name = led_core_name cfg t (fst s) (snd s), lc_color = fst s,
            lc_trigger_inited = True, blink_delay_on = 0, blink_delay_off = 0\<rparr>)
       (List.product [0..<unat (num_leds cfg)] [0..<unat (num_colors_per_led cfg)]))"
  unfolding nh_led_register_leds_def
  by (rule collect_all_ok) (simp add: led_core_register_one_def Let_def)

lemma led_core_probe_Inr:
  assumes "nh_led_probe env d nm = Inr ctrl"
  shows "Option.bind (nh_get_platform d) led_core_cfg = Some (lc_cfg ctrl)"
    and "Option.bind (after_last_dot nm) led_type_of_name = Some (lc_type ctrl)"
    and "map lc_color (lc_leds ctrl) = [0, 1]"
    and "map lc_name (lc_leds ctrl) =
      [led_core_name (lc_cfg ctrl) (lc_type ctrl) 0 0, led_core_name (lc_cfg ctrl) (lc_type ctrl) 1 0]"
proof -
  from assms obtain cfg t leds n where
    c: "Option.bind (nh_get_platform d) led_core_cfg = Some cfg" and
    n: "after_last_dot nm = Some n" "led_type_of_name n = Some t" and
    r: "nh_led_register_leds env cfg t = Inr leds" and
    ctrl: "ctrl = \<lparr>lc_type = t, lc_leds = leds, lc_cfg = cfg\<rparr>"
    by (auto simp: nh_led_probe_def split: if_splits option.splits sum.splits)
  have two: "[0..<2] = [0, 1 :: nat]" by (simp add: upt_rec)
  have slots: "List.product [0..<unat (num_leds cfg)] [0..<unat (num_colors_per_led cfg)] = [(0, 0), (1, 0)]"
    using platform_led_cfg_ok [OF c] by (simp add: led_cfg_ok_def two del: upt_rec_numeral)
  from collect_Inr [OF r [unfolded nh_led_register_leds_def slots]] obtain a b where
    ab: "leds = [a, b]" "led_core_register_one env cfg t (0, 0) = Inr a"
    "led_core_register_one env cfg t (1, 0) = Inr b"
    by (auto simp: list_all2_Cons1)
  note r = led_core_register_Inr [OF ab(2)] led_core_register_Inr [OF ab(3)]
  show "Option.bind (nh_get_platform d) led_core_cfg = Some (lc_cfg ctrl)" using c ctrl by simp
  show "Option.bind (after_last_dot nm) led_type_of_name = Some (lc_type ctrl)" using n ctrl by simp
  show "map lc_color (lc_leds ctrl) = [0, 1]" using r ctrl ab(1) by simp
  show "map lc_name (lc_leds ctrl) =
      [led_core_name (lc_cfg ctrl) (lc_type ctrl) 0 0, led_core_name (lc_cfg ctrl) (lc_type ctrl) 1 0]"
    using r ctrl ab(1) by simp
qed

text \<open>The index of a device's row in the table.\<close>

definition led_row_index :: "nh_led_core_controller \<Rightarrow> nh_led_core_dev \<Rightarrow> nat" where
  "led_row_index ctrl led = led_type_index (lc_type ctrl) * 2 + lc_color led"

lemma led_row:
  assumes "nh_led_probe env d nm = Inr ctrl" and "led \<in> set (lc_leds ctrl)"
  shows "led_row_index ctrl led < 8"
    and "led_core_info ctrl led = led_info (lc_cfg ctrl) ! led_row_index ctrl led"
    and "lc_color led < 2"
proof -
  have "lc_color led \<in> set (map lc_color (lc_leds ctrl))" using assms(2) by simp
  then show c: "lc_color led < 2" unfolding led_core_probe_Inr(3) [OF assms(1)] by auto
  then show "led_row_index ctrl led < 8"
    using led_type_index_lt [of "lc_type ctrl"] by (simp add: led_row_index_def)
  show "led_core_info ctrl led = led_info (lc_cfg ctrl) ! led_row_index ctrl led"
    using platform_led_cfg_ok [OF led_core_probe_Inr(1) [OF assms(1)]]
    by (simp add: led_core_info_def led_row_index_def led_cfg_ok_def)
qed

lemma led_cfg_ok_rows:
  assumes ok: "led_cfg_ok c" and i: "i < 8" and j: "j < 8"
  shows "led_name (led_info c ! i) \<noteq> None \<Longrightarrow> led_row_ok (led_info c ! i)"
    and "i \<noteq> j \<Longrightarrow> color_mask (led_info c ! i) AND color_mask (led_info c ! j) = 0"
    and "led_name (led_info c ! j) \<noteq> None \<Longrightarrow> \<not> bit (color_mask (led_info c ! i)) (unat (blink_bit (led_info c ! j)))"
proof -
  have m: "(i, j) \<in> set (List.product [0..<8] [0..<8])" using i j by (simp del: upt_rec_numeral)
  from ok [unfolded led_cfg_ok_def]
  have len: "length (led_info c) = 8" and rows: "list_all (\<lambda>i. led_name i = None \<or> led_row_ok i) (led_info c)"
    and d: "list_all (\<lambda>(i, j). i = j \<or> color_mask (led_info c ! i) AND color_mask (led_info c ! j) = 0)
          (List.product [0..<8] [0..<8])"
    and b: "list_all (\<lambda>(i, j). led_name (led_info c ! j) = None
             \<or> \<not> bit (color_mask (led_info c ! i)) (unat (blink_bit (led_info c ! j))))
          (List.product [0..<8] [0..<8])"
    by - (elim conjE; assumption)+
  from len i have mem: "led_info c ! i \<in> set (led_info c)" by (intro nth_mem) simp
  show "led_row_ok (led_info c ! i)" if "led_name (led_info c ! i) \<noteq> None"
    using bspec [OF rows [unfolded list_all_iff] mem] that by blast
  show "color_mask (led_info c ! i) AND color_mask (led_info c ! j) = 0" if "i \<noteq> j"
    using bspec [OF d [unfolded list_all_iff] m] that by simp
  show "\<not> bit (color_mask (led_info c ! i)) (unat (blink_bit (led_info c ! j)))"
    if "led_name (led_info c ! j) \<noteq> None"
    using bspec [OF b [unfolded list_all_iff] m] that by simp
qed


section \<open>Properties of the status LED driver\<close>

text \<open>
  The driver binds exactly to the four device names of its id table (the part after the last
  dot) on the platforms whose descriptor has a status LED table; when every kernel call succeeds
  those are registered, everything else is refused whatever the kernel calls return.
\<close>

theorem led_core_probe_decides:
  "is_ok (nh_led_probe kenv_ok d nm) =
     (Option.bind (nh_get_platform d) led_core_cfg \<noteq> None
      \<and> Option.bind (after_last_dot nm) led_type_of_name \<noteq> None)
   \<and> (is_ok (nh_led_probe kenv_ok d nm) \<or> (\<exists>e. nh_led_probe env d nm = Inl e))"
proof -
  let ?acc = "Option.bind (nh_get_platform d) led_core_cfg \<noteq> None
      \<and> Option.bind (after_last_dot nm) led_type_of_name \<noteq> None"
  have no: "\<not> is_ok (nh_led_probe e d nm)" if "\<not> ?acc" for e
  proof
    assume "is_ok (nh_led_probe e d nm)"
    then obtain ctrl where "nh_led_probe e d nm = Inr ctrl"
      by (auto simp: is_ok_def split: sum.splits)
    with that led_core_probe_Inr(1,2) [OF this] show False by simp
  qed
  have "is_ok (nh_led_probe kenv_ok d nm)" if ?acc
    using that led_core_register_ok by (auto simp: nh_led_probe_def bind_eq_Some_conv split: option.splits)
  with no not_ok_iff show ?thesis by blast
qed


text \<open>A controller as probe leaves it, to evaluate the properties on.\<close>

lemma m4061_led_probe:
  assumes "Option.bind (after_last_dot nm) led_type_of_name = Some t"
  obtains ctrl a b where "nh_led_probe kenv_ok NH_FPGA_DEVICE_M4061NHP nm = Inr ctrl"
    and "lc_cfg ctrl = m4061nhp_led_config" and "lc_type ctrl = t" and "lc_leds ctrl = [a, b]"
    and "lc_color a = 0" and "lc_color b = 1"
proof -
  obtain ctrl where p: "nh_led_probe kenv_ok NH_FPGA_DEVICE_M4061NHP nm = Inr ctrl"
    using assms by (auto simp: nh_led_probe_def led_core_register_ok bind_eq_Some_conv)
  note r = led_core_probe_Inr [OF p]
  from r(3) obtain a b where "lc_leds ctrl = [a, b]" "lc_color a = 0" "lc_color b = 1" by auto
  with that [OF p] r(1,2) assms show thesis by simp
qed

lemma aux_type_names:
  "Option.bind (after_last_dot ''fbiob_pci.psu_led'') led_type_of_name = Some NH_LED_TYPE_PSU"
  "Option.bind (after_last_dot ''fbiob_pci.sys_led'') led_type_of_name = Some NH_LED_TYPE_SYS"
  "Option.bind (after_last_dot ''fbiob_pci.mgmt_qsfp_led'') led_type_of_name = Some NH_LED_TYPE_MGMT_QSFP"
  by code_simp+

lemma m4061_rows:
  "lc_cfg ctrl = m4061nhp_led_config \<Longrightarrow> lc_type ctrl = NH_LED_TYPE_PSU \<Longrightarrow> lc_color a = 0 \<Longrightarrow>
     led_core_info ctrl a = led_row ''psu_led'' 1 1 2 0"
  "lc_cfg ctrl = m4061nhp_led_config \<Longrightarrow> lc_type ctrl = NH_LED_TYPE_PSU \<Longrightarrow> lc_color a = 1 \<Longrightarrow>
     led_core_info ctrl a = led_row ''psu_led'' 0 1 2 1"
  "lc_cfg ctrl = m4061nhp_led_config \<Longrightarrow> lc_type ctrl = NH_LED_TYPE_MGMT_QSFP \<Longrightarrow> lc_color a < 2 \<Longrightarrow>
     led_core_info ctrl a = zero_led_info"
  by (auto simp: led_core_info_def m4061nhp_led_config_def m4061nhp_led_info_def less_2_cases_iff)




text \<open>
  Deactivating a trigger (which \<open>nh_led_remove\<close> does for every LED) darkens the LED's colour field
  but leaves its blink bit as it was, so an LED that was blinking still has blinking enabled.
\<close>

theorem led_core_deactivate_keeps_blink:
  assumes p: "nh_led_probe env d nm = Inr ctrl" and l: "led \<in> set (lc_leds ctrl)"
    and n: "led_name (led_core_info ctrl led) \<noteq> None" and blink: "don \<noteq> 0 \<or> doff \<noteq> 0"
  shows "bit (ioread32 (led_timer_trig_deactivate ctrl led (nh_led_blink_set ctrl led don doff m))
      (unat (control_offset (lc_cfg ctrl)))) (unat (blink_bit (led_core_info ctrl led)))"
proof -
  note ok = platform_led_cfg_ok [OF led_core_probe_Inr(1) [OF p]] and r = led_row [OF p l]
  have row: "led_row_ok (led_core_info ctrl led)"
    using led_cfg_ok_rows(1) [OF ok r(1) r(1)] n by (simp add: r(2))
  then show ?thesis
    using blink brightness_set_other [of ctrl led "unat (blink_bit (led_core_info ctrl led))"]
    by (simp add: led_timer_trig_deactivate_def blink_set_bit led_row_ok_def word_less_nat_alt)
qed

theorem led_core_deactivate_keeps_blink_witness:
  "\<exists>ctrl a b. lc_leds ctrl = [a, b]
     \<and> bit (ioread32 (led_timer_trig_deactivate ctrl a (nh_led_blink_set ctrl a 500 500
         \<lparr>regs = \<lambda>_. 0, wlog = []\<rparr>)) 0x9C) 2"
proof -
  obtain ctrl a b where p: "nh_led_probe kenv_ok NH_FPGA_DEVICE_M4061NHP ''fbiob_pci.psu_led'' = Inr ctrl"
    and c: "lc_cfg ctrl = m4061nhp_led_config" "lc_type ctrl = NH_LED_TYPE_PSU" "lc_leds ctrl = [a, b]"
      "lc_color a = 0" "lc_color b = 1"
    by (rule m4061_led_probe [OF aux_type_names(1)])
  note rows = m4061_rows(1) [OF c(1,2,4)]
  have l: "a \<in> set (lc_leds ctrl)" "led_name (led_core_info ctrl a) \<noteq> None" "500 \<noteq> (0 :: nat) \<or> 500 \<noteq> (0 :: nat)"
    using c(3) by (simp_all add: rows led_row_def)
  from led_core_deactivate_keeps_blink [OF p l, of "\<lparr>regs = \<lambda>_. 0, wlog = []\<rparr>"]
  show ?thesis using c(1,3) by (auto simp: rows led_row_def m4061nhp_led_config_def)
qed


end
