(* ===== verification/Attr_Store.thy ===== *)
theory Attr_Store
  imports BSP_Prelude
begin

text \<open>
  The contract of a set of writable on/off attributes (\<open>nh_xcvr_ctrl_main.c\<close> promises it for the
  reset and low-power attributes of the transceivers): an attribute reads back what was last
  written to it, whatever was written to the others. \<open>abs_writes\<close> is the same on a map from
  attributes to values; the locale proves that a run of writes agrees with it. It is interpreted
  in \<open>Xcvr\<close>.
\<close>

fun abs_writes :: "('e \<times> bool) list \<Rightarrow> ('e \<Rightarrow> bool) \<Rightarrow> 'e \<Rightarrow> bool" where
  "abs_writes [] st = st"
| "abs_writes ((e, b) # ws) st = abs_writes ws (st(e := b))"

fun store_run :: "('e \<Rightarrow> bool \<Rightarrow> 's \<Rightarrow> 's) \<Rightarrow> ('e \<times> bool) list \<Rightarrow> 's \<Rightarrow> 's" where
  "store_run put [] s = s"
| "store_run put ((e, b) # ws) s = store_run put ws (put e b s)"

locale attr_store =
  fixes ok :: "'k \<Rightarrow> 'e \<Rightarrow> bool"
    and put :: "'k \<Rightarrow> 'e \<Rightarrow> bool \<Rightarrow> 's \<Rightarrow> 's"
    and get :: "'k \<Rightarrow> 'e \<Rightarrow> 's \<Rightarrow> bool"
  assumes get_put_same: "ok k e \<Longrightarrow> get k e (put k e b s) = b"
    and get_put_other: "ok k e \<Longrightarrow> ok k e' \<Longrightarrow> e' \<noteq> e \<Longrightarrow> get k e' (put k e b s) = get k e' s"
begin

lemma get_put: "ok k e \<Longrightarrow> ok k e' \<Longrightarrow> get k e' (put k e b s) = (if e' = e then b else get k e' s)"
  by (simp add: get_put_same get_put_other)

lemma get_run:
  assumes "\<forall>(e, b) \<in> set ws. ok k e" and "ok k e"
  shows "get k e (store_run (put k) ws s) = abs_writes ws (\<lambda>e. get k e s) e"
proof -
  have "get k e (store_run (put k) ws s) = abs_writes ws st e"
    if "\<forall>e. ok k e \<longrightarrow> get k e s = st e" for st
    using assms that
  proof (induction ws arbitrary: s st)
    case Nil
    then show ?case by simp
  next
    case (Cons x ws)
    obtain e' b where x: "x = (e', b)" by (cases x)
    with Cons.prems have "\<forall>e. ok k e \<longrightarrow> get k e (put k e' b s) = (st(e' := b)) e"
      by (simp add: get_put)
    with Cons.prems Cons.IH show ?case by (simp add: x)
  qed
  then show ?thesis by simp
qed

lemma put_commute:
  assumes "ok k e" and "ok k e'" and "ok k f" and "e \<noteq> e'"
  shows "get k f (put k e b (put k e' b' s)) = get k f (put k e' b' (put k e b s))"
  using assms by (simp add: get_put)

end

end
