(* ===== verification/Xcvr.thy ===== *)
theory Xcvr
  imports Platform Kernel_Env Mmio Attr_Store
begin

text \<open>
  \<open>kmods/nh_xcvr_ctrl_main.c\<close>: reset, low-power and presence signals of the transceivers. One
  device per port; the signal registers are addressed from the device's own CSR base
  (\<open>xc_base\<close>, chosen by user space when the device is created), several ports share a register.
\<close>

section \<open>State\<close>

record nh_xcvr_ctrl =
  xc_base :: addr
  xc_port_num :: u32
  reset_bit :: u32
  lp_mode_bit :: u32
  present_bit :: u32
  lp_mode_shadow :: nat
  xc_group :: xcvr_port_group

text \<open>What user space can reach of the device: its sysfs attributes and its driver data.\<close>

record xcvr_device =
  xd_attrs :: "string list"
  xd_drvdata :: "nh_xcvr_ctrl option"

section \<open>Lookup\<close>

definition group_covers :: "u32 \<Rightarrow> xcvr_port_group \<Rightarrow> bool" where
  "group_covers slot g = (pg_start_port g \<le> slot \<and> slot \<le> pg_end_port g)"

definition xcvr_ctrl_find_port_group :: "xcvr_ctrl_config option \<Rightarrow> u32 \<Rightarrow> xcvr_port_group option" where
  "xcvr_ctrl_find_port_group c slot =
     (case c of
        None \<Rightarrow> None
      | Some cfg \<Rightarrow>
          find (group_covers slot) (take (unat (num_groups cfg))
            (case groups cfg of None \<Rightarrow> [] | Some gs \<Rightarrow> gs)))"

definition xcvr_ctrl_slot_for_port :: "xcvr_ctrl_config option \<Rightarrow> u32 \<Rightarrow> u32" where
  "xcvr_ctrl_slot_for_port c port =
     (case c of
        None \<Rightarrow> port
      | Some cfg \<Rightarrow>
          (case id_to_slot cfg of
             None \<Rightarrow> port
           | Some tab \<Rightarrow> if id_to_slot_len cfg \<le> port then port else tab ! unat port))"

section \<open>Register access\<close>

definition nh_xcvr_ctrl_read_reg :: "nh_xcvr_ctrl \<Rightarrow> u32 \<Rightarrow> u32 \<Rightarrow> mmio \<Rightarrow> nat" where
  "nh_xcvr_ctrl_read_reg ctrl offset b m =
     (let reg_value = ioread32 m (xc_base ctrl + unat offset);
          bit_mask = BIT (unat b)
      in if reg_value AND bit_mask \<noteq> 0 then 1 else 0)"

definition nh_xcvr_ctrl_write_reg :: "nh_xcvr_ctrl \<Rightarrow> u32 \<Rightarrow> u32 \<Rightarrow> int \<Rightarrow> mmio \<Rightarrow> mmio" where
  "nh_xcvr_ctrl_write_reg ctrl offset b value m =
     (let reg_value = ioread32 m (xc_base ctrl + unat offset);
          bit_mask = BIT (unat b);
          reg_value = (if value \<noteq> 0 then reg_value OR bit_mask else reg_value AND NOT bit_mask)
      in iowrite32 reg_value (xc_base ctrl + unat offset) m)"

section \<open>Attributes\<close>

definition xcvr_reset_show :: "nh_xcvr_ctrl \<Rightarrow> mmio \<Rightarrow> string" where
  "xcvr_reset_show ctrl m =
     (let val = nh_xcvr_ctrl_read_reg ctrl (reset_reg_offset (xc_group ctrl)) (reset_bit ctrl) m;
          val = (if reset_active_high (xc_group ctrl) then (if val = 0 then 1 else 0) else val)
      in dec val @ ''\<newline>'')"

definition xcvr_reset_store :: "nh_xcvr_ctrl \<Rightarrow> string \<Rightarrow> mmio \<Rightarrow> nat result \<times> mmio" where
  "xcvr_reset_store ctrl buf m =
     (case kstrtoint buf of
        Inl e \<Rightarrow> (Inl e, m)
      | Inr value \<Rightarrow>
          let value = (if value \<noteq> 0 then 1 else 0);
              value = (if reset_active_high (xc_group ctrl) then (if value = 0 then 1 else 0) else value)
          in (Inr (length buf),
              nh_xcvr_ctrl_write_reg ctrl (reset_reg_offset (xc_group ctrl)) (reset_bit ctrl) value m))"

definition xcvr_low_power_show :: "nh_xcvr_ctrl \<Rightarrow> mmio \<Rightarrow> string" where
  "xcvr_low_power_show ctrl m =
     (if no_lp_mode (xc_group ctrl) then dec (lp_mode_shadow ctrl) @ ''\<newline>''
      else dec (nh_xcvr_ctrl_read_reg ctrl (lp_mode_reg_offset (xc_group ctrl)) (lp_mode_bit ctrl) m)
             @ ''\<newline>'')"

definition xcvr_low_power_store ::
    "nh_xcvr_ctrl \<Rightarrow> string \<Rightarrow> mmio \<Rightarrow> nat result \<times> nh_xcvr_ctrl \<times> mmio" where
  "xcvr_low_power_store ctrl buf m =
     (case kstrtoint buf of
        Inl e \<Rightarrow> (Inl e, ctrl, m)
      | Inr value \<Rightarrow>
          if no_lp_mode (xc_group ctrl)
          then (Inr (length buf), ctrl\<lparr>lp_mode_shadow := if value \<noteq> 0 then 1 else 0\<rparr>, m)
          else (Inr (length buf), ctrl,
                nh_xcvr_ctrl_write_reg ctrl (lp_mode_reg_offset (xc_group ctrl)) (lp_mode_bit ctrl) value m))"

definition xcvr_present_show :: "nh_xcvr_ctrl \<Rightarrow> mmio \<Rightarrow> string" where
  "xcvr_present_show ctrl m =
     dec (nh_xcvr_ctrl_read_reg ctrl (pg_present_reg_offset (xc_group ctrl)) (present_bit ctrl) m)
       @ ''\<newline>''"

text \<open>The names of the three attributes of a port, in the order of the group.\<close>

definition xcvr_attr_names :: "u32 \<Rightarrow> string list" where
  "xcvr_attr_names port =
     [''xcvr_reset_'' @ dec (unat port), ''xcvr_low_power_'' @ dec (unat port),
      ''xcvr_present_'' @ dec (unat port)]"

definition nh_xcvr_ctrl_create_attrs :: "kenv \<Rightarrow> u32 \<Rightarrow> string list result" where
  "nh_xcvr_ctrl_create_attrs env port =
     (if \<not> list_all (alloc_ok env) (xcvr_attr_names port) then Inl ENOMEM
      else if \<not> list_all (alloc_ok env) [''reset_attr'', ''lpmode_attr'', ''present_attr'', ''attrs'', ''group'']
      then Inl ENOMEM
      else case group_add env of Some e \<Rightarrow> Inl e | None \<Rightarrow> Inr (xcvr_attr_names port))"

section \<open>Probe\<close>

definition group_malformed :: "xcvr_port_group \<Rightarrow> bool" where
  "group_malformed g =
     (pg_end_port g < pg_start_port g \<or> 32 \<le> pg_end_port g - pg_start_port g)"

text \<open>The three bit positions of a slot of a group.\<close>

definition xcvr_ctrl_for :: "addr \<Rightarrow> u32 \<Rightarrow> u32 \<Rightarrow> xcvr_port_group \<Rightarrow> nh_xcvr_ctrl" where
  "xcvr_ctrl_for base port slot g =
     (if fixed_bits g
      then \<lparr>xc_base = base, xc_port_num = port, reset_bit = pg_reset_bit g,
             lp_mode_bit = pg_lp_mode_bit g, present_bit = pg_present_bit g,
             lp_mode_shadow = 0, xc_group = g\<rparr>
      else let bit_pos = slot - pg_start_port g
           in \<lparr>xc_base = base, xc_port_num = port, reset_bit = bit_pos, lp_mode_bit = bit_pos,
               present_bit = bit_pos, lp_mode_shadow = 0, xc_group = g\<rparr>)"

text \<open>
  The result is the error or the states the device goes through as user space sees them: the
  attributes are added before the driver data is set.
\<close>

definition nh_xcvr_ctrl_probe :: "kenv \<Rightarrow> u16 \<Rightarrow> addr \<Rightarrow> u32 \<Rightarrow> xcvr_device list result" where
  "nh_xcvr_ctrl_probe env device_id csr_base port =
     (case Option.bind (nh_get_platform device_id) xcvr_cfg of
        None \<Rightarrow> Inl ENODEV
      | Some cfg \<Rightarrow>
        (case groups cfg of
           None \<Rightarrow> Inl ENODEV
         | Some gs \<Rightarrow>
             if num_groups cfg = 0 then Inl ENODEV
             else if list_ex group_malformed (take (unat (num_groups cfg)) gs) then Inl EINVAL
             else if \<not> alloc_ok env ''ctrl'' then Inl ENOMEM
             else
               let slot = xcvr_ctrl_slot_for_port (Some cfg) port
               in case xcvr_ctrl_find_port_group (Some cfg) slot of
                    None \<Rightarrow> Inl ENODEV
                  | Some g \<Rightarrow>
                      (case nh_xcvr_ctrl_create_attrs env port of
                         Inl e \<Rightarrow> Inl e
                       | Inr names \<Rightarrow>
                           Inr [\<lparr>xd_attrs = names, xd_drvdata = None\<rparr>,
                                \<lparr>xd_attrs = names, xd_drvdata = Some (xcvr_ctrl_for csr_base port slot g)\<rparr>])))"

section \<open>Where a signal lives\<close>

datatype xcvr_signal = Sig_reset | Sig_low_power

text \<open>Register address and bit; \<open>None\<close> for the low-power signal that is only a software shadow.\<close>

fun sig_loc :: "nh_xcvr_ctrl \<Rightarrow> xcvr_signal \<Rightarrow> (addr \<times> nat) option" where
  "sig_loc ctrl Sig_reset =
     Some (xc_base ctrl + unat (reset_reg_offset (xc_group ctrl)), unat (reset_bit ctrl))"
| "sig_loc ctrl Sig_low_power =
     (if no_lp_mode (xc_group ctrl) then None
      else Some (xc_base ctrl + unat (lp_mode_reg_offset (xc_group ctrl)), unat (lp_mode_bit ctrl)))"

definition sig_bits_ok :: "nh_xcvr_ctrl \<Rightarrow> bool" where
  "sig_bits_ok ctrl = (unat (reset_bit ctrl) < 32 \<and> unat (lp_mode_bit ctrl) < 32)"

lemma sig_loc_lt: "sig_bits_ok ctrl \<Longrightarrow> sig_loc ctrl s = Some (a, n) \<Longrightarrow> n < 32"
  by (cases s) (auto simp: sig_bits_ok_def split: if_splits)

lemma read_reg_bit:
  "nh_xcvr_ctrl_read_reg ctrl off b m = (if bit (ioread32 m (xc_base ctrl + unat off)) (unat b) then 1 else 0)"
  by (simp add: nh_xcvr_ctrl_read_reg_def Let_def and_BIT_0_iff)

lemma write_reg_bit:
  assumes "unat b < 32"
  shows "bit (ioread32 (nh_xcvr_ctrl_write_reg ctrl off b v m) a) n =
    (if a = xc_base ctrl + unat off \<and> n = unat b then v \<noteq> 0 else bit (ioread32 m a) n)"
  using assms
  by (auto simp: nh_xcvr_ctrl_write_reg_def Let_def bar.rd_wr bit_simps dest: bit_u32_lt)

section \<open>The attributes keep the contract of an attribute store\<close>

text \<open>
  A population of devices: the controller of each port. A command sets one signal of one port by
  writing \<open>1\<close> or \<open>0\<close> to its attribute; the state is the shadow of every port and the registers.
\<close>

type_synonym xcvr_store = "(u32 \<Rightarrow> nat) \<times> mmio"

definition xcvr_apart :: "nh_xcvr_ctrl \<Rightarrow> nh_xcvr_ctrl \<Rightarrow> bool" where
  "xcvr_apart c c' =
     (\<forall>s s'. sig_loc c s = None \<or> sig_loc c s \<noteq> sig_loc c' s')"

definition xcvr_self_apart :: "nh_xcvr_ctrl \<Rightarrow> bool" where
  "xcvr_self_apart c = (sig_loc c Sig_reset \<noteq> sig_loc c Sig_low_power)"

definition xcvr_ok :: "(u32 \<Rightarrow> nh_xcvr_ctrl) \<times> u32 list \<Rightarrow> u32 \<times> xcvr_signal \<Rightarrow> bool" where
  "xcvr_ok k e =
     (fst e \<in> set (snd k)
      \<and> (\<forall>p \<in> set (snd k). sig_bits_ok (fst k p) \<and> xcvr_self_apart (fst k p)
           \<and> (\<forall>q \<in> set (snd k). p \<noteq> q \<longrightarrow> xcvr_apart (fst k p) (fst k q))))"

definition flag_text :: "bool \<Rightarrow> string" where
  "flag_text b = (if b then ''1\<newline>'' else ''0\<newline>'')"

definition xcvr_put ::
    "(u32 \<Rightarrow> nh_xcvr_ctrl) \<times> u32 list \<Rightarrow> u32 \<times> xcvr_signal \<Rightarrow> bool \<Rightarrow> xcvr_store \<Rightarrow> xcvr_store" where
  "xcvr_put k e b st =
     (let ctrl = (fst k (fst e))\<lparr>lp_mode_shadow := fst st (fst e)\<rparr>
      in case snd e of
           Sig_reset \<Rightarrow> (fst st, snd (xcvr_reset_store ctrl (flag_text b) (snd st)))
         | Sig_low_power \<Rightarrow>
             let (r, ctrl', m') = xcvr_low_power_store ctrl (flag_text b) (snd st)
             in ((fst st)(fst e := lp_mode_shadow ctrl'), m'))"

definition xcvr_get ::
    "(u32 \<Rightarrow> nh_xcvr_ctrl) \<times> u32 list \<Rightarrow> u32 \<times> xcvr_signal \<Rightarrow> xcvr_store \<Rightarrow> bool" where
  "xcvr_get k e st =
     (let ctrl = (fst k (fst e))\<lparr>lp_mode_shadow := fst st (fst e)\<rparr>
      in case snd e of
           Sig_reset \<Rightarrow> xcvr_reset_show ctrl (snd st) = ''1\<newline>''
         | Sig_low_power \<Rightarrow> xcvr_low_power_show ctrl (snd st) = ''1\<newline>'')"

lemma flag_text_value: "kstrtoint (flag_text b) = Inr (if b then 1 else 0)"
  using kstrtoint_dec [of 1] kstrtoint_dec [of 0] by (simp add: flag_text_def dec_small)

lemma sig_loc_shadow [simp]: "sig_loc (ctrl\<lparr>lp_mode_shadow := x\<rparr>) s = sig_loc ctrl s"
  by (cases s) simp_all

definition sig_inverted :: "nh_xcvr_ctrl \<Rightarrow> xcvr_signal \<Rightarrow> bool" where
  "sig_inverted ctrl s = (s = Sig_reset \<and> reset_active_high (xc_group ctrl))"

lemma one_newline: "dec n @ ''\<newline>'' = ''1\<newline>'' \<longleftrightarrow> n = 1"
  using dec_inj [of n 1] by (simp add: dec_small)

lemma xcvr_get_loc:
  assumes "sig_loc (fst k p) s = Some (a, n)"
  shows "xcvr_get k (p, s) (sh, m) = (bit (ioread32 m a) n \<noteq> sig_inverted (fst k p) s)"
  using assms
  by (cases s)
    (auto simp: xcvr_get_def Let_def xcvr_reset_show_def xcvr_low_power_show_def read_reg_bit
      one_newline sig_inverted_def split: if_splits)

lemma xcvr_get_shadow:
  assumes "sig_loc (fst k p) s = None"
  shows "xcvr_get k (p, s) (sh, m) = (sh p = 1)"
  using assms
  by (cases s)
    (auto simp: xcvr_get_def Let_def xcvr_low_power_show_def one_newline split: if_splits)

lemma xcvr_put_loc:
  assumes "sig_bits_ok (fst k p)" and "sig_loc (fst k p) s = Some (a, n)"
  shows "fst (xcvr_put k (p, s) b (sh, m)) = sh"
    and "bit (ioread32 (snd (xcvr_put k (p, s) b (sh, m))) a') i =
      (if (a', i) = (a, n) then b \<noteq> sig_inverted (fst k p) s else bit (ioread32 m a') i)"
  using assms
  by (cases s; auto simp: xcvr_put_def Let_def xcvr_reset_store_def xcvr_low_power_store_def
      flag_text_value write_reg_bit sig_bits_ok_def sig_inverted_def split: if_splits)+

lemma xcvr_put_shadow:
  assumes "sig_loc (fst k p) s = None"
  shows "xcvr_put k (p, s) b (sh, m) = (sh(p := if b then 1 else 0), m)"
  using assms
  by (cases s)
    (auto simp: xcvr_put_def Let_def xcvr_low_power_store_def flag_text_value split: if_splits)

lemma xcvr_loc_distinct:
  assumes "xcvr_ok k e" and "xcvr_ok k e'" and "e \<noteq> e'"
  shows "sig_loc (fst k (fst e)) (snd e) = None
    \<or> sig_loc (fst k (fst e)) (snd e) \<noteq> sig_loc (fst k (fst e')) (snd e')"
proof (cases "fst e = fst e'")
  case False
  with assms(1,2) have "xcvr_apart (fst k (fst e)) (fst k (fst e'))"
    by (simp add: xcvr_ok_def)
  then show ?thesis unfolding xcvr_apart_def by blast
next
  case True
  with assms(3) have "snd e \<noteq> snd e'" by (auto simp: prod_eq_iff)
  with True assms(1) show ?thesis
    by (cases "snd e"; cases "snd e'") (auto simp: xcvr_ok_def xcvr_self_apart_def)
qed

lemma xcvr_get_put:
  assumes "xcvr_ok k e" and "xcvr_ok k e'"
  shows "xcvr_get k e' (xcvr_put k e b st) = (if e' = e then b else xcvr_get k e' st)"
proof -
  obtain p s q s' sh m where x: "e = (p, s)" "e' = (q, s')" "st = (sh, m)"
    by (cases e; cases e'; cases st)
  from assms(1) have bits: "sig_bits_ok (fst k p)" by (auto simp: xcvr_ok_def x)
  have put: "xcvr_put k (p, s) b (sh, m) =
      (fst (xcvr_put k (p, s) b (sh, m)), snd (xcvr_put k (p, s) b (sh, m)))" by simp
  have shadow_sig: "s'' = Sig_low_power" if "sig_loc c s'' = None" for c s''
    using that by (cases s'') simp_all
  show ?thesis
  proof (cases "sig_loc (fst k p) s")
    case None
    note sl = shadow_sig [OF None]
    show ?thesis
    proof (cases "sig_loc (fst k q) s'")
      case None': None
      show ?thesis
        by (simp only: x xcvr_put_shadow [OF None] xcvr_get_shadow [OF None'])
          (simp add: sl shadow_sig [OF None'])
    next
      case (Some l)
      obtain a n where l: "sig_loc (fst k q) s' = Some (a, n)" using Some by (cases l) simp
      have "\<not> (q = p \<and> s' = s)" using None l by auto
      then show ?thesis
        by (auto simp: x xcvr_put_shadow [OF None] xcvr_get_loc [OF l])
    qed
  next
    case (Some l)
    obtain a n where l: "sig_loc (fst k p) s = Some (a, n)" using Some by (cases l) simp
    note P = xcvr_put_loc [OF bits l, of b sh m]
    show ?thesis
    proof (cases "sig_loc (fst k q) s'")
      case None': None
      have "\<not> (q = p \<and> s' = s)" using None' l by auto
      then show ?thesis
        unfolding x by (subst put) (auto simp: xcvr_get_shadow [OF None'] P(1))
    next
      case (Some l')
      obtain a' n' where l': "sig_loc (fst k q) s' = Some (a', n')" using Some by (cases l') simp
      have ne: "e' \<noteq> e \<Longrightarrow> (a', n') \<noteq> (a, n)"
        using xcvr_loc_distinct [OF assms(2,1)] l l' by (auto simp: x)
      have "xcvr_get k (q, s') (xcvr_put k (p, s) b (sh, m)) =
          (bit (ioread32 (snd (xcvr_put k (p, s) b (sh, m))) a') n' \<noteq> sig_inverted (fst k q) s')"
        by (subst put) (rule xcvr_get_loc [OF l'])
      then show ?thesis
        using ne l l' by (cases "q = p \<and> s' = s") (auto simp: x P(2) xcvr_get_loc [OF l'])
    qed
  qed
qed

interpretation xcvr: attr_store xcvr_ok xcvr_put xcvr_get
  by unfold_locales (simp_all add: xcvr_get_put)

end
