(* ===== verification/Xcvr_Props.thy ===== *)
theory Xcvr_Props
  imports Xcvr
begin

text \<open>
  The transceiver driver on the tables of the four FPGAs that control transceivers: which ports
  each FPGA has, where their signals live, and the properties of the driver that follow.
\<close>

section \<open>The tables\<close>

definition fixed_locs :: "xcvr_port_group list \<Rightarrow> (u32 \<times> u32) list" where
  "fixed_locs gs =
     concat (map (\<lambda>g. [(reset_reg_offset g, pg_reset_bit g), (lp_mode_reg_offset g, pg_lp_mode_bit g)])
       (filter fixed_bits gs))"

definition xcvr_group_ok :: "xcvr_port_group \<Rightarrow> bool" where
  "xcvr_group_ok g =
     (\<not> group_malformed g \<and> \<not> no_lp_mode g
      \<and> (if fixed_bits g
         then pg_start_port g = pg_end_port g \<and> pg_reset_bit g < 32 \<and> pg_lp_mode_bit g < 32
              \<and> pg_present_bit g < 32
         else reset_reg_offset g \<noteq> lp_mode_reg_offset g)
      \<and> pg_present_reg_offset g \<noteq> reset_reg_offset g \<and> pg_present_reg_offset g \<noteq> lp_mode_reg_offset g)"

definition xcvr_groups_ok :: "xcvr_port_group list \<Rightarrow> bool" where
  "xcvr_groups_ok gs = (gs \<noteq> [] \<and> list_all xcvr_group_ok gs \<and> distinct (fixed_locs gs))"

lemma xcvr_tables_ok:
  "xcvr_groups_ok m4061nhp_xcvr_groups" "xcvr_groups_ok m4062nhp_fpga0_xcvr_groups"
  "xcvr_groups_ok m4062nhp_fpga1_xcvr_groups" "xcvr_groups_ok m4340nhp_xcvr_groups"
  by code_simp+

lemma xcvr_cfg_simps [simp]:
  "xcvr_cfg nh_platform_cf2 = None"
  "xcvr_cfg nh_platform_m4061nhp = Some m4061nhp_xcvr"
  "xcvr_cfg nh_platform_m4062nhp_fpga0 = Some m4062nhp_fpga0_xcvr"
  "xcvr_cfg nh_platform_m4062nhp_fpga1 = Some m4062nhp_fpga1_xcvr"
  "xcvr_cfg nh_platform_m4340nhp = Some m4340nhp_xcvr"
  by (simp_all add: nh_platform_cf2_def nh_platform_m4061nhp_def
      nh_platform_m4062nhp_fpga0_def nh_platform_m4062nhp_fpga1_def nh_platform_m4340nhp_def)

text \<open>The groups of a platform, its slot mapping, and the interval of its ports.\<close>

fun xcvr_groups_of :: "xcvr_ctrl_config \<Rightarrow> xcvr_port_group list" where
  "xcvr_groups_of cfg = (case groups cfg of None \<Rightarrow> [] | Some gs \<Rightarrow> take (unat (num_groups cfg)) gs)"

definition platform_xcvr_ports :: "nh_platform_cfg \<Rightarrow> nat \<times> nat" where
  "platform_xcvr_ports p =
     (if pf_device_id p = NH_FPGA_DEVICE_M4340NHP then (1, 66)
      else if pf_device_id p = NH_FPGA_DEVICE_M4061NHP then (1, 65)
      else if pf_device_id p = NH_FPGA_DEVICE_M4062NHP_FPGA0 then (129, 129)
      else if pf_device_id p = NH_FPGA_DEVICE_M4062NHP_FPGA1 then (1, 128)
      else (1, 0))"

definition xcvr_accepts :: "u16 \<Rightarrow> u32 \<Rightarrow> bool" where
  "xcvr_accepts d port =
     (case nh_get_platform d of
        None \<Rightarrow> False
      | Some cfg \<Rightarrow>
          fst (platform_xcvr_ports cfg) \<le> unat port \<and> unat port \<le> snd (platform_xcvr_ports cfg))"

lemma xcvr_tab_groups:
  "groups m4061nhp_xcvr = Some m4061nhp_xcvr_groups" "unat (num_groups m4061nhp_xcvr) = 3"
  "groups m4062nhp_fpga0_xcvr = Some m4062nhp_fpga0_xcvr_groups" "unat (num_groups m4062nhp_fpga0_xcvr) = 1"
  "groups m4062nhp_fpga1_xcvr = Some m4062nhp_fpga1_xcvr_groups" "unat (num_groups m4062nhp_fpga1_xcvr) = 4"
  "groups m4340nhp_xcvr = Some m4340nhp_xcvr_groups" "unat (num_groups m4340nhp_xcvr) = 4"
  by (simp_all add: m4061nhp_xcvr_def m4062nhp_fpga0_xcvr_def m4062nhp_fpga1_xcvr_def m4340nhp_xcvr_def
      m4061nhp_xcvr_groups_def m4062nhp_fpga0_xcvr_groups_def m4062nhp_fpga1_xcvr_groups_def
      m4340nhp_xcvr_groups_def)

lemma xcvr_take_groups:
  "take 3 m4061nhp_xcvr_groups = m4061nhp_xcvr_groups"
  "take 1 m4062nhp_fpga0_xcvr_groups = m4062nhp_fpga0_xcvr_groups"
  "take 4 m4062nhp_fpga1_xcvr_groups = m4062nhp_fpga1_xcvr_groups"
  "take 4 m4340nhp_xcvr_groups = m4340nhp_xcvr_groups"
  by (simp_all add: m4061nhp_xcvr_groups_def m4062nhp_fpga0_xcvr_groups_def
      m4062nhp_fpga1_xcvr_groups_def m4340nhp_xcvr_groups_def)

lemma xcvr_platform_groups:
  assumes "Option.bind (nh_get_platform d) xcvr_cfg = Some cfg"
  obtains gs where "groups cfg = Some gs" and "take (unat (num_groups cfg)) gs = gs"
    and "num_groups cfg \<noteq> 0" and "xcvr_groups_ok gs"
proof -
  have nz: "num_groups cfg \<noteq> 0" if "unat (num_groups cfg) = n" "0 < n" for n
    using that by auto
  from assms have "cfg = m4061nhp_xcvr \<or> cfg = m4062nhp_fpga0_xcvr \<or> cfg = m4062nhp_fpga1_xcvr
      \<or> cfg = m4340nhp_xcvr"
    by (auto simp: bind_eq_Some_conv nh_get_platform_iff set_nh_platforms)
  with that nz show thesis
    by (metis xcvr_tab_groups xcvr_take_groups xcvr_tables_ok zero_less_numeral zero_less_one)
qed

lemma group_cover_iff:
  "(\<exists>g \<in> set m4061nhp_xcvr_groups. group_covers p g) \<longleftrightarrow> 1 \<le> unat p \<and> unat p \<le> 65"
  "(\<exists>g \<in> set m4062nhp_fpga0_xcvr_groups. group_covers p g) \<longleftrightarrow> 129 \<le> unat p \<and> unat p \<le> 129"
  "(\<exists>g \<in> set m4062nhp_fpga1_xcvr_groups. group_covers p g) \<longleftrightarrow> 1 \<le> unat p \<and> unat p \<le> 128"
  "(\<exists>g \<in> set m4340nhp_xcvr_groups. group_covers p g) \<longleftrightarrow> 1 \<le> unat p \<and> unat p \<le> 66"
  by (auto simp: m4061nhp_xcvr_groups_def m4062nhp_fpga0_xcvr_groups_def
      m4062nhp_fpga1_xcvr_groups_def m4340nhp_xcvr_groups_def group_covers_def word_le_nat_alt)

section \<open>Slots\<close>

lemma m4062_slot:
  "xcvr_ctrl_slot_for_port (Some m4062nhp_fpga1_xcvr) p =
     (if unat p < 129 then m4062nhp_xcvr_id_to_slot ! unat p else p)"
  by (auto simp: xcvr_ctrl_slot_for_port_def m4062nhp_fpga1_xcvr_def word_le_nat_alt)

lemma other_slot:
  "xcvr_ctrl_slot_for_port (Some m4061nhp_xcvr) p = p"
  "xcvr_ctrl_slot_for_port (Some m4062nhp_fpga0_xcvr) p = p"
  "xcvr_ctrl_slot_for_port (Some m4340nhp_xcvr) p = p"
  by (simp_all add: xcvr_ctrl_slot_for_port_def m4061nhp_xcvr_def m4062nhp_fpga0_xcvr_def m4340nhp_xcvr_def)

lemma m4062_slot_le: "unat p < 129 \<Longrightarrow> unat (m4062nhp_xcvr_id_to_slot ! unat p) \<le> 128"
  using m4062nhp_perms_bound(2) by (auto simp: list_all_length word_le_nat_alt)

lemma m4062_slot_inj:
  "unat p < 129 \<Longrightarrow> unat q < 129 \<Longrightarrow>
     m4062nhp_xcvr_id_to_slot ! unat p = m4062nhp_xcvr_id_to_slot ! unat q \<longleftrightarrow> p = q"
  using nth_eq_iff_index_eq [OF m4062nhp_perms_distinct(2), of "unat p" "unat q"]
  by (auto simp: word_unat_eq_iff)

lemma m4062_slot_zero: "m4062nhp_xcvr_id_to_slot ! 0 = 0"
  by (simp add: m4062nhp_xcvr_id_to_slot_def)

lemma m4062_slot_range:
  "1 \<le> unat (xcvr_ctrl_slot_for_port (Some m4062nhp_fpga1_xcvr) p) \<and>
   unat (xcvr_ctrl_slot_for_port (Some m4062nhp_fpga1_xcvr) p) \<le> 128 \<longleftrightarrow> 1 \<le> unat p \<and> unat p \<le> 128"
proof (cases "unat p < 129")
  case True
  have "unat (m4062nhp_xcvr_id_to_slot ! unat p) = 0 \<longleftrightarrow> unat p = 0"
    using m4062_slot_inj [OF True, of 0] m4062_slot_zero by (auto simp: unat_eq_0)
  with m4062_slot_le [OF True] True show ?thesis by (auto simp: m4062_slot Suc_le_eq)
next
  case False
  then show ?thesis by (simp add: m4062_slot)
qed

text \<open>Distinct accepted ports have distinct slots.\<close>

lemma xcvr_slot_inj:
  assumes "xcvr_accepts d p" and "xcvr_accepts d q"
    and "Option.bind (nh_get_platform d) xcvr_cfg = Some cfg"
    and "xcvr_ctrl_slot_for_port (Some cfg) p = xcvr_ctrl_slot_for_port (Some cfg) q"
  shows "p = q"
proof (cases "cfg = m4062nhp_fpga1_xcvr")
  case True
  have "groups m4061nhp_xcvr \<noteq> groups m4062nhp_fpga1_xcvr" "groups m4062nhp_fpga0_xcvr \<noteq> groups m4062nhp_fpga1_xcvr"
    "groups m4340nhp_xcvr \<noteq> groups m4062nhp_fpga1_xcvr"
    by (simp_all add: xcvr_tab_groups m4061nhp_xcvr_groups_def m4062nhp_fpga0_xcvr_groups_def
      m4062nhp_fpga1_xcvr_groups_def m4340nhp_xcvr_groups_def)
  with assms(3) True have "nh_get_platform d = Some nh_platform_m4062nhp_fpga1"
    by (auto simp: bind_eq_Some_conv nh_get_platform_iff set_nh_platforms)
  then have "unat p < 129" "unat q < 129"
    using assms(1,2) by (auto simp: xcvr_accepts_def platform_xcvr_ports_def device_id_defs)
  with assms(4) True show ?thesis by (simp add: m4062_slot m4062_slot_inj)
next
  case False
  with assms(3) have "cfg = m4061nhp_xcvr \<or> cfg = m4062nhp_fpga0_xcvr \<or> cfg = m4340nhp_xcvr"
    by (auto simp: bind_eq_Some_conv nh_get_platform_iff set_nh_platforms)
  with assms(4) show ?thesis by (auto simp: other_slot)
qed

section \<open>Probe\<close>

lemma xcvr_cfg_no_groups: "Option.bind (nh_get_platform d) xcvr_cfg = None \<Longrightarrow> \<not> xcvr_accepts d p"
proof -
  assume no: "Option.bind (nh_get_platform d) xcvr_cfg = None"
  show ?thesis
  proof (cases "nh_get_platform d")
    case None
    then show ?thesis by (simp add: xcvr_accepts_def)
  next
    case (Some c)
    with no have "c = nh_platform_cf2"
      by (auto simp: nh_get_platform_iff set_nh_platforms)
    with Some show ?thesis
      by (simp add: xcvr_accepts_def platform_xcvr_ports_def device_id_defs)
  qed
qed

text \<open>The port has a group exactly when the FPGA has the port.\<close>

lemma xcvr_group_found:
  assumes "Option.bind (nh_get_platform d) xcvr_cfg = Some cfg"
  shows "(\<exists>g. xcvr_ctrl_find_port_group (Some cfg) (xcvr_ctrl_slot_for_port (Some cfg) p) = Some g)
    \<longleftrightarrow> xcvr_accepts d p"
proof -
  have find: "(\<exists>g. find P xs = Some g) \<longleftrightarrow> (\<exists>x \<in> set xs. P x)" for P and xs :: "xcvr_port_group list"
    by (induction xs) auto
  from assms consider
      "nh_get_platform d = Some nh_platform_m4061nhp" "cfg = m4061nhp_xcvr"
    | "nh_get_platform d = Some nh_platform_m4062nhp_fpga0" "cfg = m4062nhp_fpga0_xcvr"
    | "nh_get_platform d = Some nh_platform_m4062nhp_fpga1" "cfg = m4062nhp_fpga1_xcvr"
    | "nh_get_platform d = Some nh_platform_m4340nhp" "cfg = m4340nhp_xcvr"
    by (auto simp: bind_eq_Some_conv nh_get_platform_iff set_nh_platforms)
  then show ?thesis
    by cases
      (simp_all add: xcvr_ctrl_find_port_group_def find xcvr_tab_groups xcvr_take_groups
        group_cover_iff [simplified] other_slot m4062_slot_range [simplified]
        xcvr_take_groups [simplified] xcvr_accepts_def platform_xcvr_ports_def device_id_defs)
qed

lemma xcvr_find_group:
  assumes "Option.bind (nh_get_platform d) xcvr_cfg = Some cfg"
    and "xcvr_ctrl_find_port_group (Some cfg) slot = Some g"
  shows "\<exists>gs. xcvr_groups_ok gs \<and> groups cfg = Some gs \<and> g \<in> set gs \<and> group_covers slot g"
proof -
  obtain gs where gs: "groups cfg = Some gs" "take (unat (num_groups cfg)) gs = gs" "xcvr_groups_ok gs"
    by (rule xcvr_platform_groups [OF assms(1)])
  with assms(2) have "find (group_covers slot) gs = Some g"
    by (simp add: xcvr_ctrl_find_port_group_def)
  then have "g \<in> set gs \<and> group_covers slot g" by (auto simp: find_Some_iff)
  with gs show ?thesis by blast
qed

text \<open>What a successful probe leaves.\<close>

lemma xcvr_probe_Inr:
  assumes "nh_xcvr_ctrl_probe env d base p = Inr sts"
  shows "\<exists>cfg g. Option.bind (nh_get_platform d) xcvr_cfg = Some cfg
    \<and> xcvr_ctrl_find_port_group (Some cfg) (xcvr_ctrl_slot_for_port (Some cfg) p) = Some g
    \<and> sts = [\<lparr>xd_attrs = xcvr_attr_names p, xd_drvdata = None\<rparr>,
             \<lparr>xd_attrs = xcvr_attr_names p,
              xd_drvdata = Some (xcvr_ctrl_for base p (xcvr_ctrl_slot_for_port (Some cfg) p) g)\<rparr>]"
  using assms
  by (auto simp: nh_xcvr_ctrl_probe_def nh_xcvr_ctrl_create_attrs_def Let_def
      split: option.splits if_splits)

text \<open>With every kernel call succeeding, probe is decided by the port.\<close>

lemma xcvr_probe_ok:
  assumes "xcvr_accepts d p"
  shows "\<exists>sts. nh_xcvr_ctrl_probe kenv_ok d base p = Inr sts"
proof -
  obtain cfg where cfg: "Option.bind (nh_get_platform d) xcvr_cfg = Some cfg"
    using assms xcvr_cfg_no_groups by (metis not_None_eq)
  obtain g where g: "xcvr_ctrl_find_port_group (Some cfg) (xcvr_ctrl_slot_for_port (Some cfg) p) = Some g"
    using xcvr_group_found [OF cfg] assms by blast
  obtain gs where gs: "groups cfg = Some gs" "take (unat (num_groups cfg)) gs = gs"
      "num_groups cfg \<noteq> 0" "xcvr_groups_ok gs"
    by (rule xcvr_platform_groups [OF cfg])
  from gs(4) have "\<not> list_ex group_malformed gs"
    by (auto simp: xcvr_groups_ok_def list_all_iff list_ex_iff xcvr_group_ok_def)
  with cfg g gs show ?thesis
    by (simp add: nh_xcvr_ctrl_probe_def nh_xcvr_ctrl_create_attrs_def Let_def list_all_iff)
qed

lemma xcvr_probe_Inl:
  assumes "nh_xcvr_ctrl_probe env d base p = Inl e"
  shows "if xcvr_accepts d p then e = ENOMEM \<or> group_add env = Some e else e = ENODEV \<or> e = ENOMEM"
proof (cases "Option.bind (nh_get_platform d) xcvr_cfg")
  case None
  with assms xcvr_cfg_no_groups [OF None] show ?thesis by (simp add: nh_xcvr_ctrl_probe_def)
next
  case (Some cfg)
  obtain gs where gs: "groups cfg = Some gs" "take (unat (num_groups cfg)) gs = gs"
      "num_groups cfg \<noteq> 0" "xcvr_groups_ok gs"
    by (rule xcvr_platform_groups [OF Some])
  from gs(4) have "\<not> list_ex group_malformed gs"
    by (auto simp: xcvr_groups_ok_def list_all_iff list_ex_iff xcvr_group_ok_def)
  with assms Some gs xcvr_group_found [OF Some, of p] show ?thesis
    by (auto simp: nh_xcvr_ctrl_probe_def nh_xcvr_ctrl_create_attrs_def Let_def
        split: option.splits if_splits)
qed

lemma xcvr_probe_accepts: "nh_xcvr_ctrl_probe env d base p = Inr sts \<Longrightarrow> xcvr_accepts d p"
  by (drule xcvr_probe_Inr) (use xcvr_group_found in blast)

text \<open>
  The transceiver driver accepts exactly the ports its FPGA controls (1 to 66 on the M4340NHP,
  1 to 65 on the M4061NHP, 129 on FPGA0 and 1 to 128 on FPGA1 of the M4062NHP, none elsewhere):
  with working kernel services its probe succeeds exactly for them. Whatever the kernel services
  answer, another port is refused with \<open>ENODEV\<close> or \<open>ENOMEM\<close>, and one of its own fails only by
  \<open>ENOMEM\<close> or by the error of the attribute registration.
\<close>

theorem xcvr_probe_decides:
  "is_ok (nh_xcvr_ctrl_probe kenv_ok d base p) = xcvr_accepts d p
   \<and> (case nh_xcvr_ctrl_probe env d base p of
        Inr _ \<Rightarrow> xcvr_accepts d p
      | Inl e \<Rightarrow> if xcvr_accepts d p then e = ENOMEM \<or> group_add env = Some e
                else e = ENODEV \<or> e = ENOMEM)"
proof
  show "is_ok (nh_xcvr_ctrl_probe kenv_ok d base p) = xcvr_accepts d p"
    using xcvr_probe_ok [of d p base] xcvr_probe_accepts [of kenv_ok d base p]
    by (cases "nh_xcvr_ctrl_probe kenv_ok d base p") auto
  show "case nh_xcvr_ctrl_probe env d base p of
        Inr _ \<Rightarrow> xcvr_accepts d p
      | Inl e \<Rightarrow> if xcvr_accepts d p then e = ENOMEM \<or> group_add env = Some e
                else e = ENODEV \<or> e = ENOMEM"
  proof (cases "nh_xcvr_ctrl_probe env d base p")
    case (Inr sts)
    then show ?thesis by (simp add: xcvr_probe_accepts)
  next
    case (Inl e)
    then show ?thesis by (simp add: xcvr_probe_Inl)
  qed
qed

section \<open>Where the signals of a population of ports live\<close>

text \<open>
  A population of probed ports, each at the CSR base user space gave it. Two ports are laid out
  apart when their register windows are disjoint, when they are two ports of one group at one
  base, or when both are pinned to fixed bits at one base.
\<close>

definition sig_regs :: "nh_xcvr_ctrl \<Rightarrow> addr list" where
  "sig_regs c = [xc_base c + unat (reset_reg_offset (xc_group c)), xc_base c + unat (lp_mode_reg_offset (xc_group c))]"

definition xcvr_layout_ok :: "(u32 \<Rightarrow> nh_xcvr_ctrl) \<Rightarrow> u32 list \<Rightarrow> bool" where
  "xcvr_layout_ok c ps =
     list_all (\<lambda>p. list_all (\<lambda>q. p = q
        \<or> list_all (\<lambda>a. a \<notin> set (sig_regs (c q))) (sig_regs (c p))
        \<or> xc_base (c p) = xc_base (c q) \<and> xc_group (c p) = xc_group (c q)
        \<or> xc_base (c p) = xc_base (c q) \<and> fixed_bits (xc_group (c p)) \<and> fixed_bits (xc_group (c q))) ps) ps"

text \<open>The controller that a successful probe leaves as driver data.\<close>

definition xcvr_probed :: "u16 \<Rightarrow> addr \<Rightarrow> u32 \<Rightarrow> nh_xcvr_ctrl \<Rightarrow> bool" where
  "xcvr_probed d base p c =
     (\<exists>env sts. nh_xcvr_ctrl_probe env d base p = Inr sts \<and> xd_drvdata (last sts) = Some c)"

lemma xcvr_probed_ctrl:
  assumes "xcvr_probed d base p c"
  shows "\<exists>cfg gs g. Option.bind (nh_get_platform d) xcvr_cfg = Some cfg
    \<and> c = xcvr_ctrl_for base p (xcvr_ctrl_slot_for_port (Some cfg) p) g
    \<and> xcvr_groups_ok gs \<and> groups cfg = Some gs \<and> g \<in> set gs
    \<and> group_covers (xcvr_ctrl_slot_for_port (Some cfg) p) g \<and> xcvr_accepts d p"
proof -
  from assms obtain env sts where sts: "nh_xcvr_ctrl_probe env d base p = Inr sts"
      "xd_drvdata (last sts) = Some c"
    by (auto simp: xcvr_probed_def)
  from xcvr_probe_Inr [OF sts(1)] obtain cfg g where cfg: "Option.bind (nh_get_platform d) xcvr_cfg = Some cfg"
      "xcvr_ctrl_find_port_group (Some cfg) (xcvr_ctrl_slot_for_port (Some cfg) p) = Some g"
      "c = xcvr_ctrl_for base p (xcvr_ctrl_slot_for_port (Some cfg) p) g"
    using sts(2) by auto
  with xcvr_find_group [OF cfg(1,2)] xcvr_probe_accepts [OF sts(1)] show ?thesis by blast
qed

lemma xcvr_ctrl_for_simps [simp]:
  "xc_base (xcvr_ctrl_for base p slot g) = base" "xc_group (xcvr_ctrl_for base p slot g) = g"
  "fixed_bits g \<Longrightarrow> reset_bit (xcvr_ctrl_for base p slot g) = pg_reset_bit g"
  "fixed_bits g \<Longrightarrow> lp_mode_bit (xcvr_ctrl_for base p slot g) = pg_lp_mode_bit g"
  "\<not> fixed_bits g \<Longrightarrow> reset_bit (xcvr_ctrl_for base p slot g) = slot - pg_start_port g"
  "\<not> fixed_bits g \<Longrightarrow> lp_mode_bit (xcvr_ctrl_for base p slot g) = slot - pg_start_port g"
  "fixed_bits g \<Longrightarrow> present_bit (xcvr_ctrl_for base p slot g) = pg_present_bit g"
  "\<not> fixed_bits g \<Longrightarrow> present_bit (xcvr_ctrl_for base p slot g) = slot - pg_start_port g"
  by (simp_all add: xcvr_ctrl_for_def Let_def)

lemma slot_bit_lt:
  assumes "group_covers slot g" and "\<not> group_malformed g"
  shows "unat (slot - pg_start_port g) < 32"
proof -
  from assms have "pg_start_port g \<le> slot" "slot \<le> pg_end_port g" "pg_end_port g - pg_start_port g < 32"
    by (auto simp: group_covers_def group_malformed_def)
  moreover have "slot - pg_start_port g \<le> pg_end_port g - pg_start_port g"
    using calculation by (simp add: word_le_nat_alt unat_sub)
  ultimately show ?thesis by (simp add: word_le_nat_alt word_less_nat_alt unat_sub)
qed

lemma xcvr_groups_okD:
  "xcvr_groups_ok gs \<Longrightarrow> g \<in> set gs \<Longrightarrow> xcvr_group_ok g"
  by (simp add: xcvr_groups_ok_def list_all_iff)

lemma xcvr_ctrl_for_bits:
  assumes "xcvr_group_ok g" and "group_covers slot g"
  shows "sig_bits_ok (xcvr_ctrl_for base p slot g)" and "unat (present_bit (xcvr_ctrl_for base p slot g)) < 32"
  using assms slot_bit_lt [of slot g]
  by (cases "fixed_bits g"; simp add: xcvr_group_ok_def sig_bits_ok_def word_less_nat_alt)+

lemma fixed_locs_distinct:
  assumes "xcvr_groups_ok gs" and "g \<in> set gs" and "fixed_bits g"
  shows "(reset_reg_offset g, pg_reset_bit g) \<noteq> (lp_mode_reg_offset g, pg_lp_mode_bit g)"
proof -
  obtain xs ys where "gs = xs @ g # ys" using assms(2) by (meson split_list)
  with assms(1,3) show ?thesis by (auto simp: xcvr_groups_ok_def fixed_locs_def)
qed

lemma fixed_locs_apart:
  assumes "xcvr_groups_ok gs" and "g \<in> set gs" and "h \<in> set gs" and "g \<noteq> h"
    and "fixed_bits g" and "fixed_bits h"
  shows "{(reset_reg_offset g, pg_reset_bit g), (lp_mode_reg_offset g, pg_lp_mode_bit g)}
    \<inter> {(reset_reg_offset h, pg_reset_bit h), (lp_mode_reg_offset h, pg_lp_mode_bit h)} = {}"
proof -
  obtain xs ys where gs: "gs = xs @ g # ys" using assms(2) by (meson split_list)
  with assms(3,4) have "h \<in> set xs \<or> h \<in> set ys" by auto
  with assms(1,5,6) gs show ?thesis
    by (auto simp: xcvr_groups_ok_def fixed_locs_def)
qed

lemma sig_loc_ctrl_for:
  assumes "xcvr_group_ok g"
  shows "sig_loc (xcvr_ctrl_for base p slot g) s =
    Some (case s of
        Sig_reset \<Rightarrow> (base + unat (reset_reg_offset g),
                     unat (if fixed_bits g then pg_reset_bit g else slot - pg_start_port g))
      | Sig_low_power \<Rightarrow> (base + unat (lp_mode_reg_offset g),
                     unat (if fixed_bits g then pg_lp_mode_bit g else slot - pg_start_port g)))"
  using assms by (cases s) (simp_all add: xcvr_group_ok_def)

lemma xcvr_ctrl_for_self_apart:
  assumes "xcvr_groups_ok gs" and "g \<in> set gs"
  shows "xcvr_self_apart (xcvr_ctrl_for base p slot g)"
  using fixed_locs_distinct [OF assms] xcvr_groups_okD [OF assms]
  by (cases "fixed_bits g")
    (auto simp: xcvr_self_apart_def sig_loc_ctrl_for [OF xcvr_groups_okD [OF assms]] xcvr_group_ok_def
      simp flip: word_unat_eq_iff)

lemma sig_loc_reg:
  assumes "sig_loc c s = Some (a, n)"
  shows "a \<in> set (sig_regs c)"
  using assms by (cases s) (auto simp: sig_regs_def split: if_splits)

lemma xcvr_apart_regs:
  assumes "list_all (\<lambda>a. a \<notin> set (sig_regs c')) (sig_regs c)"
  shows "xcvr_apart c c'"
proof -
  have "sig_loc c s \<noteq> sig_loc c' s'" if "sig_loc c s = Some l" for s s' l
    using that assms sig_loc_reg [of c s "fst l" "snd l"] sig_loc_reg [of c' s' "fst l" "snd l"]
    by (auto simp: list_all_iff)
  then show ?thesis unfolding xcvr_apart_def by (metis not_None_eq)
qed

lemma sub_left_inj: "s - a = t - a \<longleftrightarrow> s = (t :: u32)"
  by simp

lemma xcvr_apart_group:
  assumes "xcvr_group_ok g" and "group_covers s g" and "group_covers t g" and "s \<noteq> t"
  shows "xcvr_apart (xcvr_ctrl_for base p s g) (xcvr_ctrl_for base q t g)"
proof -
  have nf: "\<not> fixed_bits g"
    using assms by (auto simp: xcvr_group_ok_def group_covers_def)
  then have "reset_reg_offset g \<noteq> lp_mode_reg_offset g" using assms(1) by (simp add: xcvr_group_ok_def)
  then have "unat (reset_reg_offset g) \<noteq> unat (lp_mode_reg_offset g)" by (simp flip: word_unat_eq_iff)
  moreover have "unat (s - pg_start_port g) \<noteq> unat (t - pg_start_port g)"
    using assms(4) by (simp flip: word_unat_eq_iff)
  ultimately show ?thesis
    using nf by (auto simp: xcvr_apart_def sig_loc_ctrl_for [OF assms(1)] split: xcvr_signal.split)
qed

lemma xcvr_apart_fixed:
  assumes "xcvr_groups_ok gs" and "g \<in> set gs" and "h \<in> set gs" and "g \<noteq> h"
    and "fixed_bits g" and "fixed_bits h"
  shows "xcvr_apart (xcvr_ctrl_for base p s g) (xcvr_ctrl_for base q t h)"
  using fixed_locs_apart [OF assms] assms(5,6)
  by (auto simp: xcvr_apart_def sig_loc_ctrl_for [OF xcvr_groups_okD [OF assms(1,2)]]
      sig_loc_ctrl_for [OF xcvr_groups_okD [OF assms(1,3)]] split: xcvr_signal.splits
      simp flip: word_unat_eq_iff)

lemma xcvr_layoutD:
  assumes "xcvr_layout_ok c ps" and "p \<in> set ps" and "q \<in> set ps" and "p \<noteq> q"
  shows "list_all (\<lambda>a. a \<notin> set (sig_regs (c q))) (sig_regs (c p))
    \<or> xc_base (c p) = xc_base (c q) \<and> xc_group (c p) = xc_group (c q)
    \<or> xc_base (c p) = xc_base (c q) \<and> fixed_bits (xc_group (c p)) \<and> fixed_bits (xc_group (c q))"
  using bspec [OF bspec [OF assms(1) [unfolded xcvr_layout_ok_def list_all_iff [of _ ps]] assms(2)] assms(3)]
    assms(4) by simp

lemma xcvr_population_ok:
  assumes "\<forall>p \<in> set ps. xcvr_probed d (base p) p (c p)" and "xcvr_layout_ok c ps" and "p \<in> set ps"
  shows "xcvr_ok (c, ps) (p, s)"
proof -
  have one: "sig_bits_ok (c p) \<and> xcvr_self_apart (c p)" if "p \<in> set ps" for p
    using xcvr_probed_ctrl [OF assms(1) [rule_format, OF that]]
    by (elim exE conjE)
      (simp add: xcvr_ctrl_for_bits(1) [OF xcvr_groups_okD] xcvr_ctrl_for_self_apart)
  have "xcvr_apart (c p) (c q)" if pq: "p \<in> set ps" "q \<in> set ps" "p \<noteq> q" for p q
  proof -
    from xcvr_probed_ctrl [OF assms(1) [rule_format, OF pq(1)]]
    obtain cfg gs g where P: "Option.bind (nh_get_platform d) xcvr_cfg = Some cfg"
        "c p = xcvr_ctrl_for (base p) p (xcvr_ctrl_slot_for_port (Some cfg) p) g"
        "xcvr_groups_ok gs" "groups cfg = Some gs" "g \<in> set gs"
        "group_covers (xcvr_ctrl_slot_for_port (Some cfg) p) g" "xcvr_accepts d p"
      by (elim exE conjE)
    from xcvr_probed_ctrl [OF assms(1) [rule_format, OF pq(2)]] P(1,4)
    obtain h where Q: "c q = xcvr_ctrl_for (base q) q (xcvr_ctrl_slot_for_port (Some cfg) q) h"
        "h \<in> set gs" "group_covers (xcvr_ctrl_slot_for_port (Some cfg) q) h" "xcvr_accepts d q"
      by auto
    have slots: "xcvr_ctrl_slot_for_port (Some cfg) p \<noteq> xcvr_ctrl_slot_for_port (Some cfg) q"
      using xcvr_slot_inj [OF P(7) Q(4) P(1)] pq(3) by blast
    have g_ok: "xcvr_group_ok g" by (rule xcvr_groups_okD [OF P(3,5)])
    consider "list_all (\<lambda>a. a \<notin> set (sig_regs (c q))) (sig_regs (c p))"
      | "base p = base q" "g = h"
      | "base p = base q" "fixed_bits g" "fixed_bits h" "g \<noteq> h"
      using xcvr_layoutD [OF assms(2) pq] by (auto simp: P(2) Q(1))
    then show ?thesis
    proof cases
      case 1
      then show ?thesis by (rule xcvr_apart_regs)
    next
      case 2
      then show ?thesis
        using xcvr_apart_group [OF g_ok P(6) _ slots] Q(3) by (simp add: P(2) Q(1))
    next
      case 3
      then show ?thesis
        using xcvr_apart_fixed [OF P(3,5) Q(2)] by (simp add: P(2) Q(1))
    qed
  qed
  with one assms(3) show ?thesis by (auto simp: xcvr_ok_def)
qed

text \<open>
  C14: The reset and low-power attributes of a population of probed ports refine one on/off cell per
  attribute: after any sequence of writes to the attributes of the ports, whatever registers they
  share, every attribute reads back the last value written to it, or its original value if
  none was, for every polarity and bit layout of the group tables.
\<close>

theorem xcvr_attrs_refine:
  assumes "\<forall>p \<in> set ps. xcvr_probed d (base p) p (c p)"
    and "xcvr_layout_ok c ps"
    and "\<forall>(e, b) \<in> set ws. fst e \<in> set ps"
    and "p \<in> set ps"
  shows "xcvr_get (c, ps) (p, s) (store_run (xcvr_put (c, ps)) ws st) =
    abs_writes ws (\<lambda>e. xcvr_get (c, ps) e st) (p, s)"
proof (rule xcvr.get_run)
  show "\<forall>(e, b) \<in> set ws. xcvr_ok (c, ps) e"
    using assms(3) xcvr_population_ok [OF assms(1,2)] by fastforce
  show "xcvr_ok (c, ps) (p, s)" by (rule xcvr_population_ok [OF assms(1,2,4)])
qed

text \<open>Four ports of the M4340NHP: two OSFP banks at their own bases, the two management ports.\<close>

definition m4340_wit_base :: "u32 \<Rightarrow> addr" where
  "m4340_wit_base p = (if p = 1 then 0x300 else if p = 33 then 0x400 else 0)"

definition m4340_wit_ctrl :: "u32 \<Rightarrow> nh_xcvr_ctrl" where
  "m4340_wit_ctrl p =
     xcvr_ctrl_for (m4340_wit_base p) p p (m4340nhp_xcvr_groups ! (if p = 1 then 0 else if p = 33 then 1
       else if p = 65 then 2 else 3))"

lemma m4340_wit_probed:
  assumes "p \<in> set [1, 33, 65, 66]"
  shows "xcvr_probed NH_FPGA_DEVICE_M4340NHP (m4340_wit_base p) p (m4340_wit_ctrl p)"
proof -
  have plat: "nh_get_platform NH_FPGA_DEVICE_M4340NHP = Some nh_platform_m4340nhp"
    by (simp add: nh_get_platform_iff set_nh_platforms)
  have cfg: "Option.bind (nh_get_platform NH_FPGA_DEVICE_M4340NHP) xcvr_cfg = Some m4340nhp_xcvr"
    by (simp add: plat)
  have acc: "xcvr_accepts NH_FPGA_DEVICE_M4340NHP p"
    unfolding xcvr_accepts_def plat option.case
    using assms by (auto simp: platform_xcvr_ports_def device_id_defs)
  have grp: "xcvr_ctrl_find_port_group (Some m4340nhp_xcvr) p = Some (m4340nhp_xcvr_groups !
      (if p = 1 then 0 else if p = 33 then 1 else if p = 65 then 2 else 3))"
    using assms by (auto simp: xcvr_ctrl_find_port_group_def xcvr_tab_groups m4340nhp_xcvr_groups_def
        group_covers_def)
  obtain sts where sts: "nh_xcvr_ctrl_probe kenv_ok NH_FPGA_DEVICE_M4340NHP (m4340_wit_base p) p = Inr sts"
    using xcvr_probe_ok [OF acc] by blast
  from xcvr_probe_Inr [OF sts] cfg grp
  have "xd_drvdata (last sts) = Some (m4340_wit_ctrl p)"
    by (auto simp: other_slot m4340_wit_ctrl_def)
  with sts show ?thesis unfolding xcvr_probed_def by blast
qed

lemma m4340_wit_layout: "xcvr_layout_ok m4340_wit_ctrl [1, 33, 65, 66]"
  by code_simp

theorem xcvr_attrs_refine_witness:
  "xcvr_get (m4340_wit_ctrl, [1, 33, 65, 66]) (65, Sig_low_power)
     (store_run (xcvr_put (m4340_wit_ctrl, [1, 33, 65, 66]))
        [((65, Sig_low_power), True), ((65, Sig_reset), False), ((66, Sig_low_power), False)]
        (\<lambda>_. 0, \<lparr>regs = \<lambda>_. 0, wlog = []\<rparr>))"
proof -
  have "\<forall>p \<in> set [1, 33, 65, 66].
      xcvr_probed NH_FPGA_DEVICE_M4340NHP (m4340_wit_base p) p (m4340_wit_ctrl p)"
    using m4340_wit_probed by blast
  from xcvr_attrs_refine [OF this m4340_wit_layout,
      of "[((65, Sig_low_power), True), ((65, Sig_reset), False), ((66, Sig_low_power), False)]" 65
        Sig_low_power "(\<lambda>_. 0, \<lparr>regs = \<lambda>_. 0, wlog = []\<rparr>)"]
  show ?thesis by simp
qed

text \<open>
  The attributes exist before the driver data does: a read in between finds no controller.
\<close>

lemma xcvr_probe_window:
  assumes "nh_xcvr_ctrl_probe env d base p = Inr sts"
  shows "xd_attrs (hd sts) = xcvr_attr_names p \<and> xd_drvdata (hd sts) = None
    \<and> xd_drvdata (last sts) \<noteq> None"
  using xcvr_probe_Inr [OF assms] by auto

end
