(* ===== verification/I2c_Mux.thy ===== *)
theory I2c_Mux
  imports Kernel_Env Mmio
begin

text \<open>
  \<open>kmods/nh_fpga_mux.c\<close>: the driver of the register-mapped I2C muxes, and the registry through
  which sibling drivers reach a mux channel by FPGA and logical master.

  The I2C core is a parameter: \<open>mux_env\<close> holds what \<open>i2c_mux_alloc\<close>, \<open>i2c_mux_add_adapter\<close> and
  \<open>sysfs_create_link\<close> answer, and \<open>xfer\<close> is \<open>i2c_transfer\<close> on an adapter. The adapter that the
  core creates for channel \<open>i\<close> is \<open>env_adapter env i\<close>.
\<close>

section \<open>Messages and adapters\<close>

text \<open>\<open>struct i2c_msg\<close>; the flags are kept as a word because drivers test and clear single bits.\<close>

record i2c_msg =
  im_addr :: u16
  im_flags :: u16
  im_len :: u16
  im_buf :: "u8 list"

definition I2C_M_RD :: u16 where "I2C_M_RD = 0x0001"
definition I2C_M_RECV_LEN :: u16 where "I2C_M_RECV_LEN = 0x0400"

text \<open>An adapter of the I2C core, as far as the BSP sees it: its bus number and its name.\<close>

record i2c_adapter =
  ad_nr :: nat
  ad_name :: string

text \<open>\<open>sizeof(adapter->name)\<close>; \<open>snprintf\<close> keeps one byte for the terminator.\<close>

definition adapter_name_size :: nat where "adapter_name_size = 48"

definition snprintf_n :: "nat \<Rightarrow> string \<Rightarrow> string" where
  "snprintf_n n s = take (n - 1) s"

section \<open>State\<close>

record fpga_mux_platform_data =
  md_mux_reg :: "addr option"
  md_num_channels :: s32
  md_pdev :: pci_id
  md_logical_master :: u8

record fpga_mux =
  fm_mux_reg :: addr
  fm_num_channels :: s32
  fm_pdev :: pci_id
  fm_logical_master :: u8
  fm_adapters :: "i2c_adapter list"

text \<open>
  \<open>fpga_mux_list\<close>, the client data of every client device, and the symlinks in the client
  device directories. A client is named by a number.
\<close>

record mux_sys =
  fpga_mux_list :: "(nat \<times> fpga_mux) list"
  clientdata :: "nat \<Rightarrow> fpga_mux option"
  links :: "nat \<Rightarrow> string set"

section \<open>Reaching a channel\<close>

text \<open>\<open>i2c_transfer\<close>: the number of messages or an error, the messages with what was read, and
  the state of the bus behind the adapter.\<close>

type_synonym 'h i2c_transfer = "i2c_adapter \<Rightarrow> i2c_msg list \<Rightarrow> 'h \<Rightarrow> nat result \<times> i2c_msg list \<times> 'h"

definition mux_matches :: "pci_id \<Rightarrow> u8 \<Rightarrow> nat \<times> fpga_mux \<Rightarrow> bool" where
  "mux_matches pdev lm mux = (fm_pdev (snd mux) = pdev \<and> fm_logical_master (snd mux) = lm)"

definition nh_fpga_mux_channel_xfer ::
    "'h i2c_transfer \<Rightarrow> mux_sys \<Rightarrow> pci_id \<Rightarrow> u8 \<Rightarrow> u8 \<Rightarrow> i2c_msg list \<Rightarrow> 'h \<Rightarrow> nat result \<times> i2c_msg list \<times> 'h" where
  "nh_fpga_mux_channel_xfer xfer ms pdev lm channel msgs h =
     (case find (mux_matches pdev lm) (fpga_mux_list ms) of
        None \<Rightarrow> (Inl ENODEV, msgs, h)
      | Some mux \<Rightarrow>
          if unat channel < length (fm_adapters (snd mux))
          then xfer (fm_adapters (snd mux) ! unat channel) msgs h
          else (Inl ENODEV, msgs, h))"

section \<open>Channel selection\<close>

definition fpga_mux_select :: "fpga_mux \<Rightarrow> u32 \<Rightarrow> mmio \<Rightarrow> mmio" where
  "fpga_mux_select mux chan m = iowrite32 (chan AND 0x7) (fm_mux_reg mux) m"

definition fpga_mux_deselect :: "fpga_mux \<Rightarrow> u32 \<Rightarrow> mmio \<Rightarrow> mmio" where
  "fpga_mux_deselect mux chan m = m"

section \<open>Probe and remove\<close>

record mux_env =
  env_alloc_ok :: "string \<Rightarrow> bool"
  env_add_adapter :: "nat \<Rightarrow> errno option"
  env_adapter :: "nat \<Rightarrow> i2c_adapter"
  env_link :: "string \<Rightarrow> errno option"

definition channel_name :: "nat \<Rightarrow> string" where
  "channel_name i = snprintf_n 16 (''channel-'' @ dec i)"

definition channel_adapter :: "mux_env \<Rightarrow> string \<Rightarrow> nat \<Rightarrow> i2c_adapter" where
  "channel_adapter env parent i =
     (env_adapter env i)\<lparr>ad_name := snprintf_n adapter_name_size (parent @ '' Channel #'' @ dec i)\<rparr>"

text \<open>
  The loop over the channels, at channel \<open>i\<close> with \<open>n\<close> to go: the adapters added so far and the
  links of the client device. A failed \<open>i2c_mux_add_adapter\<close> removes the links of the earlier
  channels.
\<close>

fun mux_add_channels ::
    "mux_env \<Rightarrow> string \<Rightarrow> nat \<Rightarrow> nat \<Rightarrow> i2c_adapter list \<Rightarrow> string set \<Rightarrow> i2c_adapter list result \<times> string set" where
  "mux_add_channels env parent 0 i ads ls = (Inr ads, ls)"
| "mux_add_channels env parent (Suc n) i ads ls =
     (case env_add_adapter env i of
        Some e \<Rightarrow> (Inl e, ls - set (map channel_name (rev [0..<i])))
      | None \<Rightarrow>
          let ls = ls - {channel_name i};
              ls = (case env_link env (channel_name i) of
                      None \<Rightarrow> insert (channel_name i) ls
                    | Some _ \<Rightarrow> ls)
          in mux_add_channels env parent n (Suc i) (ads @ [channel_adapter env parent i]) ls)"

definition fpga_mux_probe ::
    "mux_env \<Rightarrow> nat \<Rightarrow> string \<Rightarrow> fpga_mux_platform_data option \<Rightarrow> mux_sys \<Rightarrow> unit result \<times> mux_sys" where
  "fpga_mux_probe env client parent pdata ms =
     (case pdata of
        None \<Rightarrow> (Inl EINVAL, ms)
      | Some pd \<Rightarrow>
        (case md_mux_reg pd of
           None \<Rightarrow> (Inl EINVAL, ms)
         | Some reg \<Rightarrow>
             if sint (md_num_channels pd) \<le> 0 \<or> sint (md_num_channels pd) > 8 then (Inl EINVAL, ms)
             else if \<not> env_alloc_ok env ''mux'' then (Inl ENOMEM, ms)
             else if \<not> env_alloc_ok env ''muxc'' then (Inl ENOMEM, ms)
             else
               (case mux_add_channels env parent (unat (md_num_channels pd)) 0 [] (links ms client) of
                  (Inl e, ls) \<Rightarrow> (Inl e, ms\<lparr>links := (links ms)(client := ls)\<rparr>)
                | (Inr ads, ls) \<Rightarrow>
                    let mux = \<lparr>fm_mux_reg = reg, fm_num_channels = md_num_channels pd,
                               fm_pdev = md_pdev pd, fm_logical_master = md_logical_master pd,
                               fm_adapters = ads\<rparr>
                    in (Inr (), ms\<lparr>links := (links ms)(client := ls),
                                  clientdata := (clientdata ms)(client := Some mux),
                                  fpga_mux_list := fpga_mux_list ms @ [(client, mux)]\<rparr>))))"

definition fpga_mux_remove :: "nat \<Rightarrow> mux_sys \<Rightarrow> mux_sys" where
  "fpga_mux_remove client ms =
     (case clientdata ms client of
        None \<Rightarrow> ms
      | Some mux \<Rightarrow>
          ms\<lparr>fpga_mux_list := filter (\<lambda>(c, _). c \<noteq> client) (fpga_mux_list ms),
             clientdata := (clientdata ms)(client := None),
             links := (links ms)(client :=
               links ms client - set (map channel_name [0..<unat (fm_num_channels mux)]))\<rparr>)"

end
