(* ===== verification/Psu.thy ===== *)
theory Psu
  imports Platform I2c_Mux
begin

text \<open>
  \<open>kmods/nh_fpga_psu_main.c\<close>: presence and firmware version of the power supplies. Presence is one
  bit per PSU of a status register; the firmware version is read over I2C through the mux registry
  of \<open>I2c_Mux\<close>. The transfer itself is the parameter \<open>xfer\<close>, acting on the registers because
  selecting a mux channel is a register write.
\<close>

definition PSU_FW_MAX_READ_LEN :: nat where "PSU_FW_MAX_READ_LEN = 8"
definition PSU_FW_VERSION_BYTES :: nat where "PSU_FW_VERSION_BYTES = 3"

section \<open>State\<close>

datatype psu_attr_kind = Psu_present | Psu_fw_version

record nh_fpga_psu =
  psu_base :: addr
  psu_pdev :: pci_id
  psu_present_cfg_of :: psu_present_cfg
  psu_attrs :: "(string \<times> psu_attr_kind) list"

section \<open>Attributes\<close>

definition psu_attr_to_index :: "string \<Rightarrow> s32 result" where
  "psu_attr_to_index name =
     (case sscanf_d ''psu'' name of None \<Rightarrow> Inl EINVAL | Some n \<Rightarrow> Inr (n - 1))"

definition nh_fpga_psu_is_present :: "nh_fpga_psu \<Rightarrow> s32 \<Rightarrow> mmio \<Rightarrow> bool" where
  "nh_fpga_psu_is_present p idx m =
     (let cfg = psu_present_cfg_of p;
          reg = ioread32 m (psu_base p + unat (psu_reg_offset cfg));
          present = (reg AND present_masks cfg ! unat idx \<noteq> 0)
      in if active_low cfg then \<not> present else present)"

definition psu_index_bad :: "nh_fpga_psu \<Rightarrow> s32 \<Rightarrow> bool" where
  "psu_index_bad p idx =
     (sint idx < 0 \<or> sint idx \<ge> int (unat (num_psus (psu_present_cfg_of p))))"

definition psu_present_show :: "nh_fpga_psu \<Rightarrow> string \<Rightarrow> mmio \<Rightarrow> string result" where
  "psu_present_show p name m =
     (case psu_attr_to_index name of
        Inl _ \<Rightarrow> Inl EINVAL
      | Inr idx \<Rightarrow>
          if psu_index_bad p idx then Inl EINVAL
          else Inr (dec (if nh_fpga_psu_is_present p idx m then 1 else 0) @ ''\<newline>''))"

text \<open>The two messages of a version read: the command byte, and the answer into \<open>raw\<close>.\<close>

definition psu_fw_msgs :: "psu_fw_cfg \<Rightarrow> u8 list \<Rightarrow> i2c_msg list" where
  "psu_fw_msgs fw raw =
     [\<lparr>im_addr = device_addr fw, im_flags = 0, im_len = 1, im_buf = [version_reg fw]\<rparr>,
      \<lparr>im_addr = device_addr fw, im_flags = I2C_M_RD, im_len = ucast (read_len fw), im_buf = raw\<rparr>]"

text \<open>Zero or the error, the buffer, and the registers after the transfer.\<close>

definition nh_fpga_psu_read_fw_raw ::
    "mmio i2c_transfer \<Rightarrow> mux_sys \<Rightarrow> nh_fpga_psu \<Rightarrow> psu_fw_cfg \<Rightarrow> s32 \<Rightarrow> u8 list \<Rightarrow> mmio \<Rightarrow>
     unit result \<times> u8 list \<times> mmio" where
  "nh_fpga_psu_read_fw_raw xfer ms p fw idx raw m =
     (let channels = (case mux_channels fw of None \<Rightarrow> [] | Some cs \<Rightarrow> cs);
          (ret, msgs, m') = nh_fpga_mux_channel_xfer xfer ms (psu_pdev p) (fw_logical_master fw)
            (channels ! unat idx) (psu_fw_msgs fw raw) m
      in ((case ret of
             Inl e \<Rightarrow> Inl e
           | Inr n \<Rightarrow> if n = length (psu_fw_msgs fw raw) then Inr () else Inl EIO),
          im_buf (msgs ! 1), m'))"

text \<open>
  Probe creates the attribute only where the platform has \<open>fw_cfg\<close>, so that the last branch is the bad
  name; the code would follow a null pointer for want of one.
\<close>

definition psu_fw_version_show ::
    "mmio i2c_transfer \<Rightarrow> mux_sys \<Rightarrow> nh_fpga_psu \<Rightarrow> string \<Rightarrow> mmio \<Rightarrow> string result \<times> mmio" where
  "psu_fw_version_show xfer ms p name m =
     (case (psu_attr_to_index name, fw_cfg (psu_present_cfg_of p)) of
        (Inr idx, Some fw) \<Rightarrow>
          if psu_index_bad p idx then (Inl EINVAL, m)
          else if \<not> nh_fpga_psu_is_present p idx m then (Inr ''n/a\<newline>'', m)
          else
            (case nh_fpga_psu_read_fw_raw xfer ms p fw idx (replicate PSU_FW_MAX_READ_LEN 0) m of
               (Inl e, _, m') \<Rightarrow> (Inl e, m')
             | (Inr _, raw, m') \<Rightarrow>
                 let ver = drop (unat (payload_offset fw)) raw
                 in (Inr (dec (unat (ver ! 2 AND 0x7f)) @ ''.'' @ dec (unat (ver ! 1)) @ ''.''
                          @ dec (unat (ver ! 0)) @ ''\<newline>''), m'))
      | _ \<Rightarrow> (Inl EINVAL, m))"

section \<open>Probe and remove\<close>

definition nh_fpga_psu_check_fw_cfg :: "psu_fw_cfg \<Rightarrow> unit result" where
  "nh_fpga_psu_check_fw_cfg fw =
     (if mux_channels fw = None then Inl EINVAL
      else if unat (read_len fw) > PSU_FW_MAX_READ_LEN
        \<or> unat (read_len fw) < unat (payload_offset fw) + PSU_FW_VERSION_BYTES then Inl EINVAL
      else Inr ())"

definition psu_attrs_of :: "psu_present_cfg \<Rightarrow> nat \<Rightarrow> (string \<times> psu_attr_kind) list" where
  "psu_attrs_of cfg i =
     (''psu'' @ dec (i + 1) @ ''_present'', Psu_present)
     # (if fw_cfg cfg = None then [] else [(''psu'' @ dec (i + 1) @ ''_fw_version'', Psu_fw_version)])"

definition nh_fpga_psu_probe :: "kenv \<Rightarrow> u16 \<Rightarrow> pci_id \<Rightarrow> addr \<Rightarrow> nh_fpga_psu result" where
  "nh_fpga_psu_probe env device_id pdev csr_base =
     (case Option.bind (nh_get_platform device_id) psu_cfg of
        None \<Rightarrow> Inl ENODEV
      | Some cfg \<Rightarrow>
          if psu_reg_offset cfg = NH_FPGA_PSU_OFFSET_UNSET then Inl ENODEV
          else if \<not> alloc_ok env ''psu'' then Inl ENOMEM
          else if num_psus cfg = 0 then Inl EINVAL
          else
            (case (case fw_cfg cfg of None \<Rightarrow> Inr () | Some fw \<Rightarrow> nh_fpga_psu_check_fw_cfg fw) of
               Inl e \<Rightarrow> Inl e
             | Inr _ \<Rightarrow>
                 if \<not> alloc_ok env ''attrs'' \<or> \<not> alloc_ok env ''attr_ptrs'' then Inl ENOMEM
                 else
                   let attrs = concat (map (psu_attrs_of cfg) [0..<unat (num_psus cfg)])
                   in if \<not> list_all (\<lambda>a. alloc_ok env (fst a)) attrs then Inl ENOMEM
                      else (case hwmon_register env of
                              Some e \<Rightarrow> Inl e
                            | None \<Rightarrow> Inr \<lparr>psu_base = csr_base, psu_pdev = pdev,
                                          psu_present_cfg_of = cfg, psu_attrs = attrs\<rparr>)))"

text \<open>Removal takes the driver data of the device back.\<close>

definition nh_fpga_psu_remove :: "nh_fpga_psu option \<Rightarrow> nh_fpga_psu option" where
  "nh_fpga_psu_remove drvdata = None"

definition nh_fpga_psu_aux_id_table :: "string list" where
  "nh_fpga_psu_aux_id_table = [''fbiob_pci.psu_present'']"

end
