(* ===== verification/I2c_Mux_Props.thy ===== *)
theory I2c_Mux_Props
  imports I2c_Mux
begin

text \<open>
  The registry of I2C muxes: its invariant under any history of probes and removals, what a
  transfer through it reaches, and the order in which a removal takes a mux apart.
\<close>

section \<open>The channel loop\<close>

lemma mux_add_channels_step:
  assumes "env_add_adapter env i = None"
  shows "\<exists>l \<subseteq> insert (channel_name i) ls. mux_add_channels env parent (Suc n) i ads ls =
    mux_add_channels env parent n (Suc i) (ads @ [channel_adapter env parent i]) l"
  using assms by (cases "env_link env (channel_name i)") (auto simp: Let_def intro: exI)

lemma mux_add_channels_Inr:
  assumes "mux_add_channels env parent n i ads ls = (Inr ads', ls')"
  shows "ads' = ads @ map (channel_adapter env parent) [i..<i + n]"
  using assms
proof (induction n arbitrary: i ads ls)
  case 0
  then show ?case by simp
next
  case (Suc n)
  then have "env_add_adapter env i = None" by (auto split: option.splits)
  from mux_add_channels_step [OF this] Suc.prems obtain l where
    "mux_add_channels env parent n (Suc i) (ads @ [channel_adapter env parent i]) l = (Inr ads', ls')"
    by metis
  from Suc.IH [OF this] show ?case by (simp add: upt_conv_Cons del: upt_Suc)
qed

lemma mux_add_channels_links:
  "snd (mux_add_channels env parent n i ads ls) \<subseteq> ls \<union> channel_name ` {0..<i + n}"
proof (induction n arbitrary: i ads ls)
  case (Suc n)
  show ?case
  proof (cases "env_add_adapter env i")
    case None
    from mux_add_channels_step [OF None, of ls parent n ads] obtain l where
      l: "l \<subseteq> insert (channel_name i) ls" "mux_add_channels env parent (Suc n) i ads ls =
        mux_add_channels env parent n (Suc i) (ads @ [channel_adapter env parent i]) l" by blast
    show ?thesis unfolding l(2)
      by (rule subset_trans [OF Suc.IH]) (use l(1) in fastforce)
  qed auto
qed simp

lemma mux_add_channels_Inl:
  assumes "mux_add_channels env parent n i ads ls = (Inl e, ls')"
  shows "ls' \<subseteq> ls - channel_name ` {0..<i}"
  using assms
proof (induction n arbitrary: i ads ls)
  case (Suc n)
  show ?case
  proof (cases "env_add_adapter env i")
    case None
    from mux_add_channels_step [OF None, of ls parent n ads] obtain l where
      l: "l \<subseteq> insert (channel_name i) ls" "mux_add_channels env parent (Suc n) i ads ls =
        mux_add_channels env parent n (Suc i) (ads @ [channel_adapter env parent i]) l" by blast
    with Suc.prems Suc.IH have "ls' \<subseteq> l - channel_name ` {0..<Suc i}" by metis
    with l(1) show ?thesis by (auto simp: atLeast0_lessThan_Suc)
  next
    case (Some e')
    with Suc.prems show ?thesis by (auto simp: atLeast0LessThan)
  qed
qed simp

section \<open>The registry\<close>

text \<open>What probe establishes of a mux.\<close>

definition mux_ok :: "fpga_mux \<Rightarrow> bool" where
  "mux_ok mux =
     (1 \<le> unat (fm_num_channels mux) \<and> unat (fm_num_channels mux) \<le> 8
      \<and> (\<exists>env parent. fm_adapters mux = map (channel_adapter env parent) [0..<unat (fm_num_channels mux)]))"

text \<open>
  Every bound client is registered exactly once, its links are those of its channels, and an
  unbound client has none.
\<close>

definition mux_inv :: "mux_sys \<Rightarrow> bool" where
  "mux_inv ms =
     (distinct (map fst (fpga_mux_list ms))
      \<and> (\<forall>c mux. clientdata ms c = Some mux \<longleftrightarrow> (c, mux) \<in> set (fpga_mux_list ms))
      \<and> (\<forall>c mux. clientdata ms c = Some mux \<longrightarrow>
           mux_ok mux \<and> links ms c \<subseteq> channel_name ` {0..<unat (fm_num_channels mux)})
      \<and> (\<forall>c. clientdata ms c = None \<longrightarrow> links ms c = {}))"

text \<open>The histories of the driver: the bus core probes unbound clients and removes bound ones.\<close>

inductive mux_reach :: "mux_sys \<Rightarrow> bool" where
  init: "mux_reach \<lparr>fpga_mux_list = [], clientdata = \<lambda>_. None, links = \<lambda>_. {}\<rparr>"
| probe: "mux_reach ms \<Longrightarrow> clientdata ms c = None \<Longrightarrow>
    mux_reach (snd (fpga_mux_probe env c parent pdata ms))"
| remove: "mux_reach ms \<Longrightarrow> mux_reach (fpga_mux_remove c ms)"

lemma mux_probe_Inr:
  assumes "fpga_mux_probe env c parent pdata ms = (Inr (), ms')"
  shows "\<exists>mux ls. mux_ok mux \<and> ls \<subseteq> links ms c \<union> channel_name ` {0..<unat (fm_num_channels mux)}
    \<and> (\<exists>pd. pdata = Some pd \<and> fm_pdev mux = md_pdev pd \<and> fm_logical_master mux = md_logical_master pd
         \<and> fm_num_channels mux = md_num_channels pd \<and> md_mux_reg pd = Some (fm_mux_reg mux))
    \<and> ms' = ms\<lparr>links := (links ms)(c := ls), clientdata := (clientdata ms)(c := Some mux),
               fpga_mux_list := fpga_mux_list ms @ [(c, mux)]\<rparr>"
proof -
  from assms obtain pd reg ads ls where pd: "pdata = Some pd" "md_mux_reg pd = Some reg"
      "0 < sint (md_num_channels pd)" "sint (md_num_channels pd) \<le> 8"
      "mux_add_channels env parent (unat (md_num_channels pd)) 0 [] (links ms c) = (Inr ads, ls)"
      "ms' = ms\<lparr>links := (links ms)(c := ls),
        clientdata := (clientdata ms)(c := Some \<lparr>fm_mux_reg = reg, fm_num_channels = md_num_channels pd,
          fm_pdev = md_pdev pd, fm_logical_master = md_logical_master pd, fm_adapters = ads\<rparr>),
        fpga_mux_list := fpga_mux_list ms @ [(c, \<lparr>fm_mux_reg = reg, fm_num_channels = md_num_channels pd,
          fm_pdev = md_pdev pd, fm_logical_master = md_logical_master pd, fm_adapters = ads\<rparr>)]\<rparr>"
    by (auto simp: fpga_mux_probe_def Let_def not_le
        split: option.splits if_splits prod.splits sum.splits)
  have n: "1 \<le> unat (md_num_channels pd)" "unat (md_num_channels pd) \<le> 8"
    using pd(3,4) sint_nonneg [of "md_num_channels pd"] by linarith+
  have ads: "ads = map (channel_adapter env parent) [0..<unat (md_num_channels pd)]"
    using mux_add_channels_Inr [OF pd(5)] by simp
  have ls: "ls \<subseteq> links ms c \<union> channel_name ` {0..<unat (md_num_channels pd)}"
    using mux_add_channels_links [of env parent "unat (md_num_channels pd)" 0 "[]" "links ms c"] pd(5) by simp
  let ?mux = "\<lparr>fm_mux_reg = reg, fm_num_channels = md_num_channels pd, fm_pdev = md_pdev pd,
    fm_logical_master = md_logical_master pd, fm_adapters = ads\<rparr>"
  have "mux_ok ?mux" using n ads by (auto simp: mux_ok_def)
  with pd(1,2,6) ls show ?thesis by (intro exI [of _ ?mux] exI [of _ ls]) simp
qed

lemma mux_probe_Inl:
  assumes "fpga_mux_probe env c parent pdata ms = (Inl e, ms')"
  shows "\<exists>ls \<subseteq> links ms c. ms' = ms\<lparr>links := (links ms)(c := ls)\<rparr>"
proof -
  have same: "\<exists>ls \<subseteq> links ms c. ms = ms\<lparr>links := (links ms)(c := ls)\<rparr>"
    by (rule exI [of _ "links ms c"]) simp
  show ?thesis
    using assms same
    by (auto simp: fpga_mux_probe_def Let_def dest!: mux_add_channels_Inl
        split: option.splits if_splits prod.splits sum.splits)
qed

lemma mux_inv_unbound:
  assumes "mux_inv ms" and "clientdata ms c = None"
  shows "c \<notin> fst ` set (fpga_mux_list ms)" and "links ms c = {}"
  using assms by (force simp: mux_inv_def)+

lemma probe_Inl_unbound:
  assumes "fpga_mux_probe env c parent pdata ms = (Inl e, ms')"
    and "mux_inv ms" and "clientdata ms c = None"
  shows "ms' = ms"
proof -
  from mux_probe_Inl [OF assms(1)] mux_inv_unbound(2) [OF assms(2,3)]
  have "ms' = ms\<lparr>links := (links ms)(c := links ms c)\<rparr>" by auto
  then show ?thesis by simp
qed

lemma mux_inv_probe:
  assumes "mux_inv ms" and "clientdata ms c = None"
  shows "mux_inv (snd (fpga_mux_probe env c parent pdata ms))"
proof (cases "fpga_mux_probe env c parent pdata ms")
  case (Pair r ms')
  show ?thesis
  proof (cases r)
    case (Inl e)
    from probe_Inl_unbound [OF Pair [unfolded Inl] assms] have "ms' = ms" .
    with assms(1) Pair show ?thesis by simp
  next
    case (Inr u)
    from mux_probe_Inr [OF Pair [unfolded Inr, simplified]] mux_inv_unbound [OF assms]
    obtain mux ls where "mux_ok mux" "ls \<subseteq> channel_name ` {0..<unat (fm_num_channels mux)}"
      "ms' = ms\<lparr>links := (links ms)(c := ls), clientdata := (clientdata ms)(c := Some mux),
               fpga_mux_list := fpga_mux_list ms @ [(c, mux)]\<rparr>"
      by auto
    with assms(1) Pair mux_inv_unbound [OF assms] show ?thesis
      by (auto simp: mux_inv_def image_iff)
  qed
qed

lemma mux_inv_remove: "mux_inv ms \<Longrightarrow> mux_inv (fpga_mux_remove c ms)"
  by (auto simp: mux_inv_def fpga_mux_remove_def distinct_map_filter split: option.splits)

lemma mux_reach_inv: "mux_reach ms \<Longrightarrow> mux_inv ms"
proof (induction rule: mux_reach.induct)
  case init
  then show ?case by (simp add: mux_inv_def)
qed (simp_all add: mux_inv_probe mux_inv_remove)


text \<open>An environment in which every call succeeds, and a mux of three channels.\<close>

definition mux_env_ok :: mux_env where
  "mux_env_ok = \<lparr>env_alloc_ok = (\<lambda>_. True), env_add_adapter = (\<lambda>_. None),
     env_adapter = (\<lambda>i. \<lparr>ad_nr = 10 + i, ad_name = []\<rparr>), env_link = (\<lambda>_. None)\<rparr>"

definition mux_wit_pdata :: fpga_mux_platform_data where
  "mux_wit_pdata = \<lparr>md_mux_reg = Some 0x18, md_num_channels = 3, md_pdev = 1, md_logical_master = 2\<rparr>"

definition mux_wit_init :: mux_sys where
  "mux_wit_init = \<lparr>fpga_mux_list = [], clientdata = \<lambda>_. None, links = \<lambda>_. {}\<rparr>"


section \<open>Transfers\<close>

lemma chan_select:
  assumes "unat (ch :: u8) < 8"
  shows "(of_nat (unat ch) :: u32) AND 0x7 = ucast ch"
proof -
  have "(of_nat (unat ch) :: u32) AND 0x7 = take_bit 3 (ucast ch)"
    by (simp add: take_bit_eq_mask mask_eq_decr_exp)
  also have "\<dots> = ucast ch"
    using assms by (simp add: word_unat_eq_iff unsigned_take_bit_eq take_bit_nat_eq_self)
  finally show ?thesis .
qed

lemma find_registered:
  assumes "mux_inv ms" and "clientdata ms c = Some mux"
    and "\<forall>c' mux'. clientdata ms c' = Some mux' \<and> fm_pdev mux' = fm_pdev mux
           \<and> fm_logical_master mux' = fm_logical_master mux \<longrightarrow> c' = c"
  shows "find (mux_matches (fm_pdev mux) (fm_logical_master mux)) (fpga_mux_list ms) = Some (c, mux)"
proof -
  have mem: "(c, mux) \<in> set (fpga_mux_list ms)" using assms(1,2) by (simp add: mux_inv_def)
  have uniq: "x = (c, mux)"
    if "x \<in> set (fpga_mux_list ms)" "mux_matches (fm_pdev mux) (fm_logical_master mux) x" for x
  proof -
    obtain a b where x: "x = (a, b)" by (cases x)
    with that(1) assms(1) have "clientdata ms a = Some b" by (auto simp: mux_inv_def)
    with that(2) assms(2,3) x show ?thesis by (auto simp: mux_matches_def)
  qed
  show ?thesis
  proof (cases "find (mux_matches (fm_pdev mux) (fm_logical_master mux)) (fpga_mux_list ms)")
    case None
    with mem show ?thesis by (auto simp: find_None_iff mux_matches_def)
  next
    case (Some x)
    then have "x \<in> set (fpga_mux_list ms)" "mux_matches (fm_pdev mux) (fm_logical_master mux) x"
      by (auto simp: find_Some_iff)
    with uniq Some show ?thesis by simp
  qed
qed

lemma mux_transfer_channel:
  assumes "mux_reach ms" and "clientdata ms c = Some mux"
    and "\<forall>c' mux'. clientdata ms c' = Some mux' \<and> fm_pdev mux' = fm_pdev mux
           \<and> fm_logical_master mux' = fm_logical_master mux \<longrightarrow> c' = c"
    and i2c_core: "\<forall>i < unat (fm_num_channels mux). \<forall>msgs m. xfer (fm_adapters mux ! i) msgs m =
           (let (r, msgs', m') = bus msgs (fpga_mux_select mux (of_nat i) m)
            in (r, msgs', fpga_mux_deselect mux (of_nat i) m'))"
  shows "nh_fpga_mux_channel_xfer xfer ms (fm_pdev mux) (fm_logical_master mux) ch msgs m =
    (if unat ch < unat (fm_num_channels mux)
     then bus msgs (iowrite32 (ucast ch) (fm_mux_reg mux) m)
     else (Inl ENODEV, msgs, m))"
proof -
  note inv = mux_reach_inv [OF assms(1)]
  from inv assms(2) have ok: "mux_ok mux" by (auto simp: mux_inv_def)
  then have len: "length (fm_adapters mux) = unat (fm_num_channels mux)"
    and le: "unat (fm_num_channels mux) \<le> 8" by (auto simp: mux_ok_def)
  have sel: "fpga_mux_select mux (of_nat (unat ch)) m = iowrite32 (ucast ch) (fm_mux_reg mux) m"
    if "unat ch < unat (fm_num_channels mux)"
    using chan_select [of ch] that le by (simp only: fpga_mux_select_def)
  show ?thesis
    using find_registered [OF inv assms(2,3)] i2c_core len sel
    by (simp add: nh_fpga_mux_channel_xfer_def fpga_mux_deselect_def Let_def)
qed

text \<open>
  C30: A transfer by FPGA and logical master reaches the right channel: if the mux of client \<open>c\<close> is
  the only bound one with its FPGA and logical master, a transfer on a channel it has runs
  the messages on the parent bus with the mux register set to exactly that channel number
  (no channel is aliased by the 3-bit mask), and a channel it does not have is refused with
  \<open>ENODEV\<close> and no traffic. The I2C core is assumed to transfer on a channel adapter by selecting
  the channel, transferring on the parent bus, and deselecting.
\<close>

theorem mux_channel_transfer:
  assumes "mux_reach ms" and "clientdata ms c = Some mux"
    and "\<forall>c' mux'. clientdata ms c' = Some mux' \<and> fm_pdev mux' = fm_pdev mux
           \<and> fm_logical_master mux' = fm_logical_master mux \<longrightarrow> c' = c"
    and i2c_core: "\<forall>i < unat (fm_num_channels mux). \<forall>msgs m. xfer (fm_adapters mux ! i) msgs m =
           (let (r, msgs', m') = bus msgs (fpga_mux_select mux (of_nat i) m)
            in (r, msgs', fpga_mux_deselect mux (of_nat i) m'))"
  shows "nh_fpga_mux_channel_xfer xfer ms (fm_pdev mux) (fm_logical_master mux) ch msgs m =
    (if unat ch < unat (fm_num_channels mux)
     then bus msgs (iowrite32 (ucast ch) (fm_mux_reg mux) m)
     else (Inl ENODEV, msgs, m))"
  by (rule mux_transfer_channel [OF assms])

definition mux_wit_mux :: fpga_mux where
  "mux_wit_mux = \<lparr>fm_mux_reg = 0x18, fm_num_channels = 3, fm_pdev = 1, fm_logical_master = 2,
     fm_adapters = map (channel_adapter mux_env_ok ''A'') [0, 1, 2]\<rparr>"

definition mux_wit_sys :: mux_sys where
  "mux_wit_sys = snd (fpga_mux_probe mux_env_ok 7 ''A'' (Some mux_wit_pdata) mux_wit_init)"

definition mux_wit_bus :: "i2c_msg list \<Rightarrow> mmio \<Rightarrow> nat result \<times> i2c_msg list \<times> mmio" where
  "mux_wit_bus msgs m = (Inr (length msgs), msgs, m)"

definition mux_wit_xfer :: "mmio i2c_transfer" where
  "mux_wit_xfer ad msgs m =
     (let (r, msgs', m') = mux_wit_bus msgs (fpga_mux_select mux_wit_mux (of_nat (ad_nr ad - 10)) m)
      in (r, msgs', fpga_mux_deselect mux_wit_mux (of_nat (ad_nr ad - 10)) m'))"

lemma mux_wit_bound: "clientdata mux_wit_sys c = (if c = 7 then Some mux_wit_mux else None)"
proof -
  have "fst (mux_add_channels mux_env_ok ''A'' 3 0 [] {}) =
      Inr (map (channel_adapter mux_env_ok ''A'') [0, 1, 2])"
    by (simp add: mux_env_ok_def numeral_3_eq_3 numeral_2_eq_2)
  moreover have "env_alloc_ok mux_env_ok x" for x by (simp add: mux_env_ok_def)
  ultimately show ?thesis
    by (cases "mux_add_channels mux_env_ok ''A'' 3 0 [] {}")
      (simp add: mux_wit_sys_def mux_wit_init_def mux_wit_pdata_def fpga_mux_probe_def
        mux_wit_mux_def Let_def)
qed

theorem mux_channel_transfer_witness:
  "nh_fpga_mux_channel_xfer mux_wit_xfer mux_wit_sys 1 2 2 [] \<lparr>regs = \<lambda>_. 0, wlog = []\<rparr> =
     (Inr 0, [], \<lparr>regs = (\<lambda>_. 0)(0x18 := 2), wlog = [(0x18, 2)]\<rparr>)"
proof -
  have reach: "mux_reach mux_wit_sys"
    unfolding mux_wit_sys_def by (rule mux_reach.probe) (simp_all add: mux_wit_init_def mux_reach.init)
  have core: "\<forall>i < unat (fm_num_channels mux_wit_mux). \<forall>msgs m.
      mux_wit_xfer (fm_adapters mux_wit_mux ! i) msgs m =
       (let (r, msgs', m') = mux_wit_bus msgs (fpga_mux_select mux_wit_mux (of_nat i) m)
        in (r, msgs', fpga_mux_deselect mux_wit_mux (of_nat i) m'))"
  proof (intro allI impI)
    fix i msgs and m :: mmio
    assume "i < unat (fm_num_channels mux_wit_mux)"
    then have "i = 0 \<or> i = 1 \<or> i = 2" by (auto simp: mux_wit_mux_def)
    then have "ad_nr (fm_adapters mux_wit_mux ! i) - 10 = i"
      by (auto simp: mux_wit_mux_def channel_adapter_def mux_env_ok_def)
    then show "mux_wit_xfer (fm_adapters mux_wit_mux ! i) msgs m =
       (let (r, msgs', m') = mux_wit_bus msgs (fpga_mux_select mux_wit_mux (of_nat i) m)
        in (r, msgs', fpga_mux_deselect mux_wit_mux (of_nat i) m'))"
      by (simp only: mux_wit_xfer_def)
  qed
  have bound: "clientdata mux_wit_sys 7 = Some mux_wit_mux"
    and uniq: "\<forall>c' mux'. clientdata mux_wit_sys c' = Some mux' \<and> fm_pdev mux' = fm_pdev mux_wit_mux
      \<and> fm_logical_master mux' = fm_logical_master mux_wit_mux \<longrightarrow> c' = 7"
    by (simp_all add: mux_wit_bound)
  have fm: "fm_pdev mux_wit_mux = 1" "fm_logical_master mux_wit_mux = 2"
      "fm_num_channels mux_wit_mux = 3" "fm_mux_reg mux_wit_mux = 0x18"
    by (simp_all add: mux_wit_mux_def)
  from mux_channel_transfer [OF reach bound uniq core, of 2 "[]" "\<lparr>regs = \<lambda>_. 0, wlog = []\<rparr>"]
  show ?thesis by (simp add: fm mux_wit_bus_def iowrite32_def)
qed

end
