(* ===== verification/Psu_Props.thy ===== *)
theory Psu_Props
  imports Psu I2c_Mux_Props
begin

text \<open>
  The PSU driver on the three platforms that have it: attribute names, presence readings, and the
  firmware version read through the mux registry.
\<close>

section \<open>The tables\<close>

definition single_bit :: "u32 \<Rightarrow> bool" where
  "single_bit w = list_ex (\<lambda>n. w = BIT n) [0..<32]"

definition psu_table_ok :: "psu_present_cfg \<Rightarrow> bool" where
  "psu_table_ok cfg =
     (num_psus cfg = 4 \<and> length (present_masks cfg) = 4
      \<and> list_all single_bit (present_masks cfg) \<and> distinct (present_masks cfg)
      \<and> psu_reg_offset cfg \<noteq> NH_FPGA_PSU_OFFSET_UNSET
      \<and> (case fw_cfg cfg of None \<Rightarrow> False | Some fw \<Rightarrow>
           read_len fw = 8 \<and> payload_offset fw = 1
           \<and> (case mux_channels fw of None \<Rightarrow> False | Some cs \<Rightarrow> length cs = 4 \<and> distinct cs)))"

lemma psu_tables_ok:
  "psu_table_ok m4061nhp_psu" "psu_table_ok m4062nhp_fpga0_psu" "psu_table_ok m4340nhp_psu"
  by code_simp+

lemma psu_cfg_simps [simp]:
  "psu_cfg nh_platform_cf2 = None"
  "psu_cfg nh_platform_m4061nhp = Some m4061nhp_psu"
  "psu_cfg nh_platform_m4062nhp_fpga0 = Some m4062nhp_fpga0_psu"
  "psu_cfg nh_platform_m4062nhp_fpga1 = None"
  "psu_cfg nh_platform_m4340nhp = Some m4340nhp_psu"
  by (simp_all add: nh_platform_cf2_def nh_platform_m4061nhp_def
      nh_platform_m4062nhp_fpga0_def nh_platform_m4062nhp_fpga1_def nh_platform_m4340nhp_def)

lemma psu_platform_ok:
  assumes "Option.bind (nh_get_platform d) psu_cfg = Some cfg"
  shows "psu_table_ok cfg"
proof -
  from assms have "cfg = m4061nhp_psu \<or> cfg = m4062nhp_fpga0_psu \<or> cfg = m4340nhp_psu"
    by (auto simp: bind_eq_Some_conv nh_get_platform_iff set_nh_platforms)
  with psu_tables_ok show ?thesis by blast
qed

lemma psu_table_fw:
  assumes "psu_table_ok cfg"
  shows "\<exists>fw cs. fw_cfg cfg = Some fw \<and> mux_channels fw = Some cs \<and> length cs = 4
    \<and> unat (read_len fw) = 8 \<and> unat (payload_offset fw) = 1"
  using assms by (auto simp: psu_table_ok_def split: option.splits)

section \<open>Probe\<close>

lemma psu_probe_Inr:
  assumes "nh_fpga_psu_probe env d pdev base = Inr p"
  shows "Option.bind (nh_get_platform d) psu_cfg = Some (psu_present_cfg_of p)
    \<and> psu_base p = base \<and> psu_pdev p = pdev
    \<and> psu_attrs p = concat (map (psu_attrs_of (psu_present_cfg_of p)) [0..<4])
    \<and> psu_table_ok (psu_present_cfg_of p)"
proof -
  from assms obtain cfg where cfg: "Option.bind (nh_get_platform d) psu_cfg = Some cfg"
    "p = \<lparr>psu_base = base, psu_pdev = pdev, psu_present_cfg_of = cfg,
          psu_attrs = concat (map (psu_attrs_of cfg) [0..<unat (num_psus cfg)])\<rparr>"
    by (auto simp: nh_fpga_psu_probe_def Let_def split: option.splits if_splits sum.splits)
  from psu_platform_ok [OF cfg(1)] have ok: "psu_table_ok cfg" .
  then have "unat (num_psus cfg) = 4" by (simp add: psu_table_ok_def)
  with cfg ok show ?thesis by simp
qed

section \<open>Names\<close>

lemma psu_index_name:
  assumes "c \<noteq> []" and "\<not> is_digit (hd c)"
  shows "psu_attr_to_index (''psu'' @ dec (i + 1) @ c) = Inr (of_nat i)"
  using sscanf_d_dec [of c "''psu''" "i + 1"] assms by (simp add: psu_attr_to_index_def)

lemma psu_index_ok:
  assumes "psu_table_ok (psu_present_cfg_of p)" and "i < 2 ^ 31"
  shows "psu_index_bad p (of_nat i) \<longleftrightarrow> \<not> i < 4"
  using assms by (simp add: psu_index_bad_def psu_table_ok_def sint_of_nat not_less)

lemma psu_suffix: "\<not> is_digit (hd ''_present'')" "\<not> is_digit (hd ''_fw_version'')"
  by (simp_all add: is_digit_def)

text \<open>
  A probed PSU device has one presence attribute per supply, \<open>psu1_present\<close> to
  \<open>psu4_present\<close>, each next to its firmware attribute, under distinct names; reading the
  one of supply \<open>i\<close> yields 1 exactly when that supply's mask bit says so (cleared on the
  active-low platforms), whatever the other bits of the register are.
\<close>

theorem psu_present_reading:
  assumes "nh_fpga_psu_probe env d pdev base = Inr p"
  shows "map fst (psu_attrs p) = concat (map (\<lambda>n. [''psu'' @ n @ ''_present'', ''psu'' @ n @ ''_fw_version''])
      [''1'', ''2'', ''3'', ''4''])
    \<and> (\<forall>i \<in> {0, 1, 2, 3}. psu_present_show p (''psu'' @ dec (i + 1) @ ''_present'') m =
        Inr (if (ioread32 m (base + unat (psu_reg_offset (psu_present_cfg_of p)))
                   AND present_masks (psu_present_cfg_of p) ! i \<noteq> 0)
                 \<noteq> active_low (psu_present_cfg_of p)
             then ''1\<newline>'' else ''0\<newline>''))"
proof -
  note P = psu_probe_Inr [OF assms]
  then have ok: "psu_table_ok (psu_present_cfg_of p)" by blast
  have d3: "dec (Suc (Suc (Suc 0))) = ''3''" using dec_small(4) by (simp add: numeral_3_eq_3)
  have d4: "dec (Suc (Suc (Suc (Suc 0)))) = ''4''" using dec_small(5) by (simp add: eval_nat_numeral)
  have names: "map fst (psu_attrs p) = concat (map (\<lambda>n. [''psu'' @ n @ ''_present'', ''psu'' @ n @ ''_fw_version''])
      [''1'', ''2'', ''3'', ''4''])"
    using P psu_table_fw [OF ok] by (auto simp: psu_attrs_of_def upt_rec dec_small d3 d4)
  have "psu_present_show p (''psu'' @ dec (i + 1) @ ''_present'') m =
        Inr (if (ioread32 m (base + unat (psu_reg_offset (psu_present_cfg_of p)))
                   AND present_masks (psu_present_cfg_of p) ! i \<noteq> 0)
                 \<noteq> active_low (psu_present_cfg_of p)
             then ''1\<newline>'' else ''0\<newline>'')" if "i < 4" for i
  proof -
    have "\<not> psu_index_bad p (of_nat i)" using psu_index_ok [OF ok, of i] that by simp
    moreover have "unat (of_nat i :: s32) = i" using that by (simp add: unat_of_nat)
    ultimately show ?thesis
      using P psu_index_name [of "''_present''" i] psu_suffix(1)
      by (simp add: psu_present_show_def nh_fpga_psu_is_present_def Let_def dec_small)
  qed
  then have "\<forall>i < 4. psu_present_show p (''psu'' @ dec (i + 1) @ ''_present'') m =
        Inr (if (ioread32 m (base + unat (psu_reg_offset (psu_present_cfg_of p)))
                   AND present_masks (psu_present_cfg_of p) ! i \<noteq> 0)
                 \<noteq> active_low (psu_present_cfg_of p)
             then ''1\<newline>'' else ''0\<newline>'')"
    by blast
  with names show ?thesis by (intro conjI ballI) (assumption, erule_tac x = i in allE, force)
qed

lemma psu_probe_m4340:
  "nh_fpga_psu_probe kenv_ok NH_FPGA_DEVICE_M4340NHP pdev base = Inr \<lparr>psu_base = base, psu_pdev = pdev,
     psu_present_cfg_of = m4340nhp_psu, psu_attrs = concat (map (psu_attrs_of m4340nhp_psu) [0..<4])\<rparr>"
proof -
  have plat: "nh_get_platform NH_FPGA_DEVICE_M4340NHP = Some nh_platform_m4340nhp"
    by (simp add: nh_get_platform_iff set_nh_platforms)
  have four: "unat (num_psus m4340nhp_psu) = 4" "num_psus m4340nhp_psu \<noteq> 0"
    "psu_reg_offset m4340nhp_psu \<noteq> NH_FPGA_PSU_OFFSET_UNSET"
    using psu_tables_ok(3) by (simp_all add: psu_table_ok_def)
  from psu_table_fw [OF psu_tables_ok(3)] obtain fw cs where
    "fw_cfg m4340nhp_psu = Some fw" "mux_channels fw = Some cs" "unat (read_len fw) = 8" "unat (payload_offset fw) = 1"
    by blast
  with plat four show ?thesis
    by (simp add: nh_fpga_psu_probe_def Let_def nh_fpga_psu_check_fw_cfg_def PSU_FW_MAX_READ_LEN_def
        PSU_FW_VERSION_BYTES_def list_all_iff del: upt_rec_numeral)
qed

theorem psu_present_reading_witness:
  "\<exists>p. nh_fpga_psu_probe kenv_ok NH_FPGA_DEVICE_M4340NHP 1 0x100 = Inr p
    \<and> psu_present_show p ''psu2_present'' \<lparr>regs = \<lambda>_. 0, wlog = []\<rparr> = Inr ''1\<newline>''"
proof -
  obtain p where p: "nh_fpga_psu_probe kenv_ok NH_FPGA_DEVICE_M4340NHP 1 0x100 = Inr p"
      "psu_present_cfg_of p = m4340nhp_psu"
    using psu_probe_m4340 [of 1 "0x100"] by simp
  from psu_present_reading [OF p(1), of "\<lparr>regs = \<lambda>_. 0, wlog = []\<rparr>"]
  have "psu_present_show p (''psu'' @ dec (1 + 1) @ ''_present'') \<lparr>regs = \<lambda>_. 0, wlog = []\<rparr> =
      Inr (if active_low m4340nhp_psu then ''1\<newline>'' else ''0\<newline>'')"
    unfolding p(2) by (simp add: ioread32_def)
  with p(1) show ?thesis by (simp add: dec_small m4340nhp_psu_def)
qed

section \<open>The firmware version\<close>

lemma psu_fw_msgs_len: "length (psu_fw_msgs fw raw) = 2"
  by (simp add: psu_fw_msgs_def)

text \<open>The text for a reply of the supply: a length byte, then secondary, primary and major.\<close>

definition psu_version_text :: "u8 list \<Rightarrow> string" where
  "psu_version_text reply =
     (case reply of
        _ # sec # pri # maj # _ \<Rightarrow>
          dec (unat (maj AND 0x7f)) @ ''.'' @ dec (unat pri) @ ''.'' @ dec (unat sec) @ ''\<newline>''
      | _ \<Rightarrow> [])"

lemma psu_version_text_nth:
  assumes "length reply = 8"
  shows "psu_version_text reply =
    dec (unat (reply ! 3 AND 0x7f)) @ ''.'' @ dec (unat (reply ! 2)) @ ''.'' @ dec (unat (reply ! 1)) @ ''\<newline>''"
proof -
  have "length reply = Suc (Suc (Suc (Suc 4)))" using assms by simp
  then obtain a b c e es where "reply = a # b # c # e # es" unfolding length_Suc_conv by blast
  then show ?thesis by (simp add: psu_version_text_def numeral_2_eq_2 numeral_3_eq_3)
qed

text \<open>
  C32: The firmware version of supply \<open>i\<close> is read from the right place and decoded within its
  buffer: when the mux of the configured master is bound with the configured channels, the
  attribute of a present supply sends the command byte and an 8-byte read to the supply's
  address with the mux register set to the supply's own channel, and prints major (without
  its top bit), primary and secondary from bytes 3, 2 and 1 of the reply; a short transfer is
  \<open>EIO\<close>, an error is handed on, and an absent supply reads \<open>n/a\<close> without any traffic. The I2C core
  is assumed to transfer on a channel by selecting it, transferring, and deselecting.
\<close>

theorem psu_fw_version_reading:
  assumes "nh_fpga_psu_probe env d pdev base = Inr p" and "i < 4"
    and "fw_cfg (psu_present_cfg_of p) = Some fw" and "mux_channels fw = Some cs"
    and "mux_reach ms" and "clientdata ms c = Some mux"
    and "fm_pdev mux = pdev" and "fm_logical_master mux = fw_logical_master fw"
    and "\<forall>c' mux'. clientdata ms c' = Some mux' \<and> fm_pdev mux' = fm_pdev mux
           \<and> fm_logical_master mux' = fm_logical_master mux \<longrightarrow> c' = c"
    and "\<forall>i < unat (fm_num_channels mux). \<forall>msgs m. xfer (fm_adapters mux ! i) msgs m =
           (let (r, msgs', m') = bus msgs (fpga_mux_select mux (of_nat i) m)
            in (r, msgs', fpga_mux_deselect mux (of_nat i) m'))"
    and "unat (cs ! i) < unat (fm_num_channels mux)"
    and "bus (psu_fw_msgs fw (replicate 8 0)) (iowrite32 (ucast (cs ! i)) (fm_mux_reg mux) m) =
           (r, [cmd, (psu_fw_msgs fw (replicate 8 0) ! 1)\<lparr>im_buf := reply\<rparr>], m')"
    and "length reply = 8"
  shows "psu_fw_version_show xfer ms p (''psu'' @ dec (i + 1) @ ''_fw_version'') m =
    (if nh_fpga_psu_is_present p (of_nat i) m
     then (case r of
             Inl e \<Rightarrow> (Inl e, m')
           | Inr n \<Rightarrow> if n = 2 then (Inr (psu_version_text reply), m') else (Inl EIO, m'))
     else (Inr ''n/a\<newline>'', m))"
proof -
  note P = psu_probe_Inr [OF assms(1)]
  then have ok: "psu_table_ok (psu_present_cfg_of p)" by blast
  from psu_table_fw [OF ok] assms(3,4) have off: "unat (payload_offset fw) = 1" by auto
  have idx: "psu_attr_to_index (''psu'' @ dec (i + 1) @ ''_fw_version'') = Inr (of_nat i)"
    using psu_index_name [of "''_fw_version''" i] psu_suffix(2) by simp
  have good: "\<not> psu_index_bad p (of_nat i)" and un: "unat (of_nat i :: s32) = i"
    using psu_index_ok [OF ok, of i] assms(2) by (simp_all add: unat_of_nat)
  have "nh_fpga_mux_channel_xfer xfer ms (psu_pdev p) (fw_logical_master fw) (cs ! i)
      (psu_fw_msgs fw (replicate 8 0)) m =
      (r, [cmd, (psu_fw_msgs fw (replicate 8 0) ! 1)\<lparr>im_buf := reply\<rparr>], m')"
    using mux_transfer_channel [OF assms(5,6,9,10), of "cs ! i"] assms(7,8,11,12) P by simp
  then have raw: "nh_fpga_psu_read_fw_raw xfer ms p fw (of_nat i) (replicate 8 0) m =
      ((case r of Inl e \<Rightarrow> Inl e | Inr n \<Rightarrow> if n = 2 then Inr () else Inl EIO), reply, m')"
    using un assms(4) psu_fw_msgs_len [of fw "replicate 8 0"]
    by (simp add: nh_fpga_psu_read_fw_raw_def split: sum.split)
  show ?thesis
    using idx good assms(3) raw off psu_version_text_nth [OF assms(13)] assms(13)
    by (simp add: psu_fw_version_show_def PSU_FW_MAX_READ_LEN_def Let_def numeral_2_eq_2 numeral_3_eq_3
        split: sum.split)
qed

text \<open>Supply 3 of an M4340NHP whose channel-1 answer is 1.2.131 behind a byte count.\<close>

definition psu_wit_pdata :: fpga_mux_platform_data where
  "psu_wit_pdata = \<lparr>md_mux_reg = Some 0x10, md_num_channels = 4, md_pdev = 1, md_logical_master = 0\<rparr>"

definition psu_wit_mux :: fpga_mux where
  "psu_wit_mux = \<lparr>fm_mux_reg = 0x10, fm_num_channels = 4, fm_pdev = 1, fm_logical_master = 0,
     fm_adapters = map (channel_adapter mux_env_ok ''A'') [0, 1, 2, 3]\<rparr>"

definition psu_wit_sys :: mux_sys where
  "psu_wit_sys = snd (fpga_mux_probe mux_env_ok 7 ''A'' (Some psu_wit_pdata) mux_wit_init)"

definition psu_wit_bus :: "i2c_msg list \<Rightarrow> mmio \<Rightarrow> nat result \<times> i2c_msg list \<times> mmio" where
  "psu_wit_bus msgs m =
     (if ioread32 m 0x10 = 1 then (Inr 2, [msgs ! 0, (msgs ! 1)\<lparr>im_buf := [7, 131, 2, 129, 0, 0, 0, 0]\<rparr>], m)
      else (Inl EIO, msgs, m))"

definition psu_wit_xfer :: "mmio i2c_transfer" where
  "psu_wit_xfer ad msgs m =
     (let (r, msgs', m') = psu_wit_bus msgs (fpga_mux_select psu_wit_mux (of_nat (ad_nr ad - 10)) m)
      in (r, msgs', fpga_mux_deselect psu_wit_mux (of_nat (ad_nr ad - 10)) m'))"

lemma psu_wit_bound: "clientdata psu_wit_sys c = (if c = 7 then Some psu_wit_mux else None)"
proof -
  have "fst (mux_add_channels mux_env_ok ''A'' 4 0 [] {}) =
      Inr (map (channel_adapter mux_env_ok ''A'') [0, 1, 2, 3])"
    by (simp add: mux_env_ok_def numeral_3_eq_3 numeral_2_eq_2 eval_nat_numeral)
  moreover have "env_alloc_ok mux_env_ok x" for x by (simp add: mux_env_ok_def)
  ultimately show ?thesis
    by (cases "mux_add_channels mux_env_ok ''A'' 4 0 [] {}")
      (simp add: psu_wit_sys_def mux_wit_init_def psu_wit_pdata_def fpga_mux_probe_def
        psu_wit_mux_def Let_def)
qed

theorem psu_fw_version_reading_witness:
  "\<exists>p. nh_fpga_psu_probe kenv_ok NH_FPGA_DEVICE_M4340NHP 1 0x100 = Inr p
    \<and> fst (psu_fw_version_show psu_wit_xfer psu_wit_sys p ''psu3_fw_version'' \<lparr>regs = \<lambda>_. 0, wlog = []\<rparr>)
        = Inr ''1.2.131\<newline>''"
proof -
  let ?m0 = "\<lparr>regs = \<lambda>_. 0, wlog = []\<rparr>"
  obtain p where p: "nh_fpga_psu_probe kenv_ok NH_FPGA_DEVICE_M4340NHP 1 0x100 = Inr p"
      "psu_present_cfg_of p = m4340nhp_psu"
    using psu_probe_m4340 [of 1 "0x100"] by simp
  have reach: "mux_reach psu_wit_sys"
    unfolding psu_wit_sys_def by (rule mux_reach.probe) (simp_all add: mux_wit_init_def mux_reach.init)
  have fm: "fm_pdev psu_wit_mux = 1" "fm_logical_master psu_wit_mux = fw_logical_master m4340nhp_psu_fw"
      "fm_num_channels psu_wit_mux = 4" "fm_mux_reg psu_wit_mux = 0x10"
    by (simp_all add: psu_wit_mux_def m4340nhp_psu_fw_def)
  have core: "\<forall>i < unat (fm_num_channels psu_wit_mux). \<forall>msgs m.
      psu_wit_xfer (fm_adapters psu_wit_mux ! i) msgs m =
       (let (r, msgs', m') = psu_wit_bus msgs (fpga_mux_select psu_wit_mux (of_nat i) m)
        in (r, msgs', fpga_mux_deselect psu_wit_mux (of_nat i) m'))"
  proof (intro allI impI)
    fix i msgs and m :: mmio
    assume "i < unat (fm_num_channels psu_wit_mux)"
    then have "i = 0 \<or> i = 1 \<or> i = 2 \<or> i = 3" by (auto simp: psu_wit_mux_def)
    then have "ad_nr (fm_adapters psu_wit_mux ! i) - 10 = i"
      by (auto simp: psu_wit_mux_def channel_adapter_def mux_env_ok_def)
    then show "psu_wit_xfer (fm_adapters psu_wit_mux ! i) msgs m =
       (let (r, msgs', m') = psu_wit_bus msgs (fpga_mux_select psu_wit_mux (of_nat i) m)
        in (r, msgs', fpga_mux_deselect psu_wit_mux (of_nat i) m'))"
      by (simp only: psu_wit_xfer_def)
  qed
  have fw: "fw_cfg (psu_present_cfg_of p) = Some m4340nhp_psu_fw"
    and cs: "mux_channels m4340nhp_psu_fw = Some m4340nhp_psu_fw_mux_channels"
    by (simp_all add: p(2) m4340nhp_psu_def m4340nhp_psu_fw_def)
  have ch: "m4340nhp_psu_fw_mux_channels ! 2 = 1" by (simp add: m4340nhp_psu_fw_mux_channels_def)
  have bound: "clientdata psu_wit_sys 7 = Some psu_wit_mux"
    and uniq: "\<forall>c' mux'. clientdata psu_wit_sys c' = Some mux' \<and> fm_pdev mux' = fm_pdev psu_wit_mux
      \<and> fm_logical_master mux' = fm_logical_master psu_wit_mux \<longrightarrow> c' = 7"
    by (simp_all add: psu_wit_bound)
  let ?msgs = "psu_fw_msgs m4340nhp_psu_fw (replicate 8 0)"
  let ?reply = "[7, 131, 2, 129, 0, 0, 0, 0] :: u8 list"
  have bus: "psu_wit_bus ?msgs (iowrite32 (ucast (m4340nhp_psu_fw_mux_channels ! 2)) (fm_mux_reg psu_wit_mux) ?m0)
      = (Inr 2, [?msgs ! 0, (?msgs ! 1)\<lparr>im_buf := ?reply\<rparr>], iowrite32 1 0x10 ?m0)"
    by (simp add: psu_wit_bus_def ch fm(4) ioread32_def iowrite32_def)
  have here: "nh_fpga_psu_is_present p 2 ?m0"
    by (simp add: nh_fpga_psu_is_present_def p(2) Let_def ioread32_def m4340nhp_psu_def)
  have shown: "psu_version_text ?reply = ''1.2.131\<newline>''"
    by code_simp
  from psu_fw_version_reading [OF p(1), of 2, OF _ fw cs reach bound fm(1,2) uniq core _ bus]
  have "psu_fw_version_show psu_wit_xfer psu_wit_sys p (''psu'' @ dec (2 + 1) @ ''_fw_version'') ?m0 =
      (Inr ''1.2.131\<newline>'', iowrite32 1 0x10 ?m0)"
    using here shown by (simp add: fm ch)
  with p(1) show ?thesis by (simp add: dec_small)
qed

end
