(* ===== verification/Fpga_Info.thy ===== *)
theory Fpga_Info
  imports Platform Kernel_Env Mmio
begin

text \<open>
  The two read-only drivers: \<open>kmods/nh_fpga_info.c\<close> (FPGA version, latched at probe) and
  \<open>kmods/nh_fpga_asic_temp_main.c\<close> (raw minimum and maximum temperature of the ASIC).
\<close>

section \<open>FPGA version\<close>

definition FPGA_VERSION_REG_OFFSET :: nat where "FPGA_VERSION_REG_OFFSET = 0x0000"
definition FPGA_VERSION_MAJOR_MASK :: u32 where "FPGA_VERSION_MAJOR_MASK = 0x00000F00"
definition FPGA_VERSION_MAJOR_SHIFT :: nat where "FPGA_VERSION_MAJOR_SHIFT = 8"
definition FPGA_VERSION_MINOR_MASK :: u32 where "FPGA_VERSION_MINOR_MASK = 0x000000FF"
definition FPGA_VERSION_MINOR_SHIFT :: nat where "FPGA_VERSION_MINOR_SHIFT = 0"

record nh_fpga_info =
  info_base :: addr
  fpga_ver :: u32
  fpga_sub_ver :: u32

text \<open>The device as user space sees it: attributes and driver data.\<close>

record info_device =
  id_attrs :: "string list"
  id_drvdata :: "nh_fpga_info option"

definition fw_ver_show :: "nh_fpga_info \<Rightarrow> string" where
  "fw_ver_show info = dec (unat (fpga_ver info)) @ ''.'' @ dec (unat (fpga_sub_ver info)) @ ''\<newline>''"

definition fpga_ver_show :: "nh_fpga_info \<Rightarrow> string" where
  "fpga_ver_show info = dec (unat (fpga_ver info)) @ ''\<newline>''"

definition fpga_sub_ver_show :: "nh_fpga_info \<Rightarrow> string" where
  "fpga_sub_ver_show info = dec (unat (fpga_sub_ver info)) @ ''\<newline>''"

definition fpga_info_attrs :: "string list" where
  "fpga_info_attrs = [''fw_ver'', ''fpga_ver'', ''fpga_sub_ver'']"

definition nh_fpga_info_read_version :: "mmio \<Rightarrow> nh_fpga_info \<Rightarrow> nh_fpga_info" where
  "nh_fpga_info_read_version m info =
     (let version_reg = ioread32 m (info_base info + FPGA_VERSION_REG_OFFSET)
      in info\<lparr>fpga_ver := drop_bit FPGA_VERSION_MAJOR_SHIFT (version_reg AND FPGA_VERSION_MAJOR_MASK),
              fpga_sub_ver := drop_bit FPGA_VERSION_MINOR_SHIFT (version_reg AND FPGA_VERSION_MINOR_MASK)\<rparr>)"

text \<open>
  The error, or the states of the device as user space sees them: the attributes are added before
  the driver data is set.
\<close>

definition nh_fpga_info_probe :: "kenv \<Rightarrow> addr \<Rightarrow> mmio \<Rightarrow> info_device list result" where
  "nh_fpga_info_probe env csr_base m =
     (if \<not> alloc_ok env ''info'' then Inl ENOMEM
      else
        let info = nh_fpga_info_read_version m \<lparr>info_base = csr_base, fpga_ver = 0, fpga_sub_ver = 0\<rparr>
        in case group_add env of
             Some e \<Rightarrow> Inl e
           | None \<Rightarrow> Inr [\<lparr>id_attrs = fpga_info_attrs, id_drvdata = None\<rparr>,
                         \<lparr>id_attrs = fpga_info_attrs, id_drvdata = Some info\<rparr>])"

definition nh_fpga_info_remove :: "info_device \<Rightarrow> info_device" where
  "nh_fpga_info_remove dev = dev\<lparr>id_drvdata := None\<rparr>"

definition nh_fpga_info_aux_id_table :: "string list" where
  "nh_fpga_info_aux_id_table = [''fbiob_pci.fpga_info_iob'', ''fbiob_pci.fpga_info_dom'', ''fbiob_pci.fpga_info'']"

section \<open>ASIC temperature\<close>

record nh_fpga_asic_temp =
  at_base :: addr
  at_cfg :: asic_temp_config

definition asic_temp_max_raw_show :: "nh_fpga_asic_temp \<Rightarrow> mmio \<Rightarrow> string" where
  "asic_temp_max_raw_show t m =
     (let reg = ioread32 m (at_base t + unat (status_reg_offset (at_cfg t)))
      in dec (unat (drop_bit (unat (max_shift (at_cfg t))) (reg AND max_mask (at_cfg t)))) @ ''\<newline>'')"

definition asic_temp_min_raw_show :: "nh_fpga_asic_temp \<Rightarrow> mmio \<Rightarrow> string" where
  "asic_temp_min_raw_show t m =
     (let reg = ioread32 m (at_base t + unat (status_reg_offset (at_cfg t)))
      in dec (unat (drop_bit (unat (min_shift (at_cfg t))) (reg AND min_mask (at_cfg t)))) @ ''\<newline>'')"

definition nh_fpga_asic_temp_probe :: "kenv \<Rightarrow> u16 \<Rightarrow> addr \<Rightarrow> nh_fpga_asic_temp result" where
  "nh_fpga_asic_temp_probe env device_id csr_base =
     (case Option.bind (nh_get_platform device_id) asic_temp_cfg of
        None \<Rightarrow> Inl ENODEV
      | Some cfg \<Rightarrow>
          if \<not> alloc_ok env ''t'' then Inl ENOMEM
          else (case hwmon_register env of
                  Some e \<Rightarrow> Inl e
                | None \<Rightarrow> Inr \<lparr>at_base = csr_base, at_cfg = cfg\<rparr>))"

text \<open>Removal takes the driver data of the device back.\<close>

definition nh_fpga_asic_temp_remove :: "nh_fpga_asic_temp option \<Rightarrow> nh_fpga_asic_temp option" where
  "nh_fpga_asic_temp_remove drvdata = None"

definition nh_fpga_asic_temp_aux_id_table :: "string list" where
  "nh_fpga_asic_temp_aux_id_table = [''fbiob_pci.asic_temp'']"

section \<open>Properties\<close>

lemma field_take_bit: "drop_bit s (v AND push_bit s (mask n)) = take_bit n (drop_bit s (v :: u32))"
  by (rule bit_word_eqI) (auto simp: bit_simps dest: bit_u32_lt)

lemma unat_field: "unat (drop_bit s (v AND push_bit s (mask n)) :: u32) = unat v div 2 ^ s mod 2 ^ n"
  unfolding field_take_bit
  by (simp add: unsigned_take_bit_eq unat_drop_bit_eq) (simp add: take_bit_eq_mod drop_bit_eq_div)

lemma version_masks:
  "FPGA_VERSION_MAJOR_MASK = push_bit FPGA_VERSION_MAJOR_SHIFT (mask 4)"
  "FPGA_VERSION_MINOR_MASK = push_bit FPGA_VERSION_MINOR_SHIFT (mask 8)"
  by (simp_all add: FPGA_VERSION_MAJOR_MASK_def FPGA_VERSION_MAJOR_SHIFT_def
      FPGA_VERSION_MINOR_MASK_def FPGA_VERSION_MINOR_SHIFT_def mask_eq_decr_exp push_bit_eq_mult)

text \<open>
  The FPGA version is read once, when the driver binds: the attributes print bits 11 to 8 of
  the version register as major (at most 15) and bits 7 to 0 as minor (at most 255), as the
  register was at that moment.
\<close>

theorem fpga_info_version:
  assumes "nh_fpga_info_probe env base m = Inr sts"
    and "id_drvdata (last sts) = Some info"
    and "v = unat (ioread32 m base)"
  shows "fw_ver_show info = dec (v div 256 mod 16) @ ''.'' @ dec (v mod 256) @ ''\<newline>''
    \<and> fpga_ver_show info = dec (v div 256 mod 16) @ ''\<newline>''
    \<and> fpga_sub_ver_show info = dec (v mod 256) @ ''\<newline>''"
proof -
  from assms(1,2) have "info = nh_fpga_info_read_version m \<lparr>info_base = base, fpga_ver = 0, fpga_sub_ver = 0\<rparr>"
    by (auto simp: nh_fpga_info_probe_def Let_def split: if_splits option.splits)
  then have "unat (fpga_ver info) = v div 256 mod 16" "unat (fpga_sub_ver info) = v mod 256"
    using unat_field [of 8 "ioread32 m base" 4] unat_field [of 0 "ioread32 m base" 8] assms(3)
    by (simp_all add: nh_fpga_info_read_version_def Let_def version_masks FPGA_VERSION_REG_OFFSET_def
        FPGA_VERSION_MAJOR_SHIFT_def FPGA_VERSION_MINOR_SHIFT_def del: push_bit_0_id)
  then show ?thesis by (simp add: fw_ver_show_def fpga_ver_show_def fpga_sub_ver_show_def)
qed

lemma asic_temp_tables:
  assumes "Option.bind (nh_get_platform d) asic_temp_cfg = Some cfg"
  shows "status_reg_offset cfg = 0 \<and> max_mask cfg = push_bit 16 (mask 13) \<and> max_shift cfg = 16
    \<and> min_mask cfg = push_bit 0 (mask 13) \<and> min_shift cfg = 0"
proof -
  from assms have "cfg = m4061nhp_asic_temp \<or> cfg = m4062nhp_fpga0_asic_temp"
    by (auto simp: bind_eq_Some_conv nh_get_platform_iff set_nh_platforms nh_platform_cf2_def
        nh_platform_m4061nhp_def nh_platform_m4062nhp_fpga0_def nh_platform_m4062nhp_fpga1_def
        nh_platform_m4340nhp_def)
  then show ?thesis
    by (auto simp: m4061nhp_asic_temp_def m4062nhp_fpga0_asic_temp_def mask_eq_decr_exp push_bit_eq_mult)
qed

text \<open>
  The two temperature attributes print the two 13-bit fields of one status register, maximum
  from bits 28 to 16 and minimum from bits 12 to 0, each below 8192 and unaffected by the other
  field and by the bits between them.
\<close>

theorem asic_temp_fields:
  assumes "nh_fpga_asic_temp_probe env d base = Inr t"
    and "v = unat (ioread32 m base)"
  shows "asic_temp_max_raw_show t m = dec (v div 2 ^ 16 mod 8192) @ ''\<newline>''
    \<and> asic_temp_min_raw_show t m = dec (v mod 8192) @ ''\<newline>''"
proof -
  from assms(1) obtain cfg where cfg: "Option.bind (nh_get_platform d) asic_temp_cfg = Some cfg"
      "t = \<lparr>at_base = base, at_cfg = cfg\<rparr>"
    by (auto simp: nh_fpga_asic_temp_probe_def split: option.splits if_splits)
  from asic_temp_tables [OF cfg(1)] cfg(2) assms(2) show ?thesis
    using unat_field [of 16 "ioread32 m base" 13] unat_field [of 0 "ioread32 m base" 13]
    by (simp add: asic_temp_max_raw_show_def asic_temp_min_raw_show_def Let_def del: push_bit_0_id)
qed

theorem fpga_info_version_witness:
  "\<exists>info. fw_ver_show info = ''3.1\<newline>''
    \<and> nh_fpga_info_probe kenv_ok 0 \<lparr>regs = \<lambda>_. 0x00040301, wlog = []\<rparr>
        = Inr [\<lparr>id_attrs = fpga_info_attrs, id_drvdata = None\<rparr>, \<lparr>id_attrs = fpga_info_attrs, id_drvdata = Some info\<rparr>]"
proof -
  let ?m = "\<lparr>regs = \<lambda>_. 0x00040301, wlog = []\<rparr>"
  let ?info = "nh_fpga_info_read_version ?m \<lparr>info_base = 0, fpga_ver = 0, fpga_sub_ver = 0\<rparr>"
  have p: "nh_fpga_info_probe kenv_ok 0 ?m = Inr [\<lparr>id_attrs = fpga_info_attrs, id_drvdata = None\<rparr>,
      \<lparr>id_attrs = fpga_info_attrs, id_drvdata = Some ?info\<rparr>]"
    by (simp add: nh_fpga_info_probe_def Let_def)
  from fpga_info_version [OF p _ refl, of ?info] have "fw_ver_show ?info = ''3.1\<newline>''"
    by (simp add: ioread32_def dec_small)
  with p show ?thesis by blast
qed

theorem asic_temp_fields_witness:
  "\<exists>t. nh_fpga_asic_temp_probe kenv_ok NH_FPGA_DEVICE_M4061NHP 0x20 = Inr t
    \<and> asic_temp_max_raw_show t \<lparr>regs = \<lambda>_. 0xE009E005, wlog = []\<rparr> = ''9\<newline>''"
proof -
  let ?m = "\<lparr>regs = \<lambda>_. 0xE009E005, wlog = []\<rparr>"
  have "nh_get_platform NH_FPGA_DEVICE_M4061NHP = Some nh_platform_m4061nhp"
    by (simp add: nh_get_platform_iff set_nh_platforms)
  then have p: "nh_fpga_asic_temp_probe kenv_ok NH_FPGA_DEVICE_M4061NHP 0x20 =
      Inr \<lparr>at_base = 0x20, at_cfg = m4061nhp_asic_temp\<rparr>"
    by (simp add: nh_fpga_asic_temp_probe_def nh_platform_m4061nhp_def)
  from asic_temp_fields [OF p refl, of ?m] p show ?thesis
    by (auto simp: ioread32_def dec_small)
qed

end
