(* ===== verification/Irq.thy ===== *)
theory Irq
  imports Platform Kernel_Env Mmio
begin

text \<open>
  \<open>kmods/nh_fpga_irq.c\<close> and the interrupt part of the FPGA device (\<open>nh_fpga_fbiob.h\<close>): one
  \<open>regmap_irq_chip\<close> per MSI vector, and the resolution of an I2C controller's CSR offset to its
  interrupt. Registering a chip and looking up a virtual interrupt are kernel services, parameters
  of the model (\<open>irq_env\<close>, \<open>get_virq\<close>).
\<close>

definition NH_FPGA_IRQS_PER_DOMAIN :: nat where "NH_FPGA_IRQS_PER_DOMAIN = 32"

section \<open>State\<close>

text \<open>The fields of \<open>struct regmap_irq_chip\<close> the driver fills in; an irq is its register offset
  and mask.\<close>

record regmap_irq_chip =
  ch_name :: string
  status_base :: u32
  unmask_base :: u32
  ack_base :: u32
  init_ack_masked :: bool
  num_regs :: nat
  irqs :: "(u32 \<times> u32) list"

text \<open>\<open>irq_cfg\<close>, \<open>irq_chips\<close>, \<open>irq_chip_data\<close> (\<open>None\<close> is NULL) and \<open>ref_clk_hw\<close> of
  \<open>struct nh_fpga_pci_dev\<close>; a chip handle is the index of the domain it was registered for.\<close>

record fbiob_irq =
  fi_cfg :: "nh_fpga_irq_cfg option"
  fi_chips :: "regmap_irq_chip list"
  fi_chip_data :: "nat option list"
  fi_ref_clk :: "u32 option"

record irq_env =
  ie_alloc :: "string \<Rightarrow> bool"
  ie_regmap :: "errno option"
  ie_vector :: "nat \<Rightarrow> s32 result"
  ie_add_chip :: "nat \<Rightarrow> errno option"

section \<open>Setting up the chips\<close>

definition irq_chip_for :: "nh_fpga_msi_domain_cfg \<Rightarrow> regmap_irq_chip" where
  "irq_chip_for d =
     \<lparr>ch_name = chip_name d, status_base = isr_offset d, unmask_base = ier_offset d,
      ack_base = isr_offset d, init_ack_masked = True, num_regs = 1,
      irqs = map (\<lambda>i. (0, BIT i)) [0..<NH_FPGA_IRQS_PER_DOMAIN]\<rparr>"

definition nh_fpga_init_one_chip :: "irq_env \<Rightarrow> nh_fpga_irq_cfg \<Rightarrow> nat \<Rightarrow> (regmap_irq_chip \<times> nat) result" where
  "nh_fpga_init_one_chip env cfg idx =
     (if \<not> ie_alloc env ''irqs'' then Inl ENOMEM
      else (case ie_vector env idx of
              Inl e \<Rightarrow> Inl e
            | Inr _ \<Rightarrow>
                (case ie_add_chip env idx of
                   Some e \<Rightarrow> Inl e
                 | None \<Rightarrow> Inr (irq_chip_for (domains cfg ! idx), idx))))"

definition nh_fpga_irq_init :: "irq_env \<Rightarrow> fbiob_irq \<Rightarrow> fbiob_irq result" where
  "nh_fpga_irq_init env fi =
     (case fi_cfg fi of
        None \<Rightarrow> Inr fi
      | Some cfg \<Rightarrow>
          (case ie_regmap env of
             Some e \<Rightarrow> Inl e
           | None \<Rightarrow>
               if \<not> ie_alloc env ''irq_chips'' then Inl ENOMEM
               else if \<not> ie_alloc env ''irq_chip_data'' then Inl ENOMEM
               else
                 (case collect (nh_fpga_init_one_chip env cfg) [0..<unat (num_domains cfg)] of
                    Inl e \<Rightarrow> Inl e
                  | Inr cs \<Rightarrow> Inr (fi\<lparr>fi_chips := map fst cs, fi_chip_data := map (Some \<circ> snd) cs\<rparr>))))"

section \<open>Resolving a controller\<close>

definition domain_has :: "s32 \<Rightarrow> nh_fpga_msi_domain_cfg \<Rightarrow> bool" where
  "domain_has master_index d =
     (sint (first_master d) \<le> sint master_index \<and> sint master_index \<le> sint (last_master d))"

text \<open>The loop over the domains: the first that has the master, and the \<open>u8\<close> line in it.\<close>

fun find_domain :: "s32 \<Rightarrow> nat \<Rightarrow> nh_fpga_msi_domain_cfg list \<Rightarrow> (nat \<times> u8) option" where
  "find_domain master_index i [] = None"
| "find_domain master_index i (d # ds) =
     (if domain_has master_index d
      then Some (i, first_hw_irq d + ucast (master_index - first_master d))
      else find_domain master_index (Suc i) ds)"

definition irq_line :: "nh_fpga_irq_cfg \<Rightarrow> u32 \<Rightarrow> (nat \<times> u8) option" where
  "irq_line cfg csr_offset =
     (if csr_offset < i2c_csr_base cfg \<or> i2c_csr_channel_size cfg = 0 then None
      else let master_index = (csr_offset - i2c_csr_base cfg) div i2c_csr_channel_size cfg
           in find_domain master_index 0 (take (unat (num_domains cfg)) (domains cfg)))"

text \<open>\<open>get_virq\<close> is \<open>regmap_irq_get_virq\<close> on a chip handle and a line.\<close>

definition nh_fpga_resolve_master_irq_clk ::
    "(nat \<Rightarrow> u8 \<Rightarrow> s32 result) \<Rightarrow> fbiob_irq \<Rightarrow> u32 \<Rightarrow> (s32 \<times> u32 option) result" where
  "nh_fpga_resolve_master_irq_clk get_virq fi csr_offset =
     (case fi_cfg fi of
        None \<Rightarrow> Inl ENOENT
      | Some cfg \<Rightarrow>
        (case irq_line cfg csr_offset of
           None \<Rightarrow> Inl ENOENT
         | Some (msi_domain, hw_irq) \<Rightarrow>
           (case fi_chip_data fi ! msi_domain of
              None \<Rightarrow> Inl ENODEV
            | Some chip \<Rightarrow>
              (case get_virq chip hw_irq of
                 Inl e \<Rightarrow> Inl e
               | Inr virq \<Rightarrow> if virq = 0 then Inl ENODEV else Inr (virq, fi_ref_clk fi)))))"

section \<open>The interrupt topology of the platforms\<close>

definition msi_domain_ok :: "nh_fpga_msi_domain_cfg \<Rightarrow> bool" where
  "msi_domain_ok d =
     (0 \<le> sint (first_master d) \<and> sint (first_master d) \<le> sint (last_master d)
      \<and> int (unat (first_hw_irq d)) + (sint (last_master d) - sint (first_master d)) < 32)"

definition irq_cfg_ok :: "nh_fpga_irq_cfg \<Rightarrow> bool" where
  "irq_cfg_ok cfg =
     (length (domains cfg) = unat (num_domains cfg) \<and> list_all msi_domain_ok (domains cfg)
      \<and> i2c_csr_base cfg = 0x40000 \<and> i2c_csr_channel_size cfg = 0x200
      \<and> distinct (concat (map (\<lambda>d. [ier_offset d, isr_offset d]) (domains cfg))))"

lemma irq_tables_ok:
  "irq_cfg_ok cf2_irq_cfg" "irq_cfg_ok m4061nhp_irq_cfg" "irq_cfg_ok m4062nhp_fpga0_irq_cfg"
  "irq_cfg_ok m4062nhp_fpga1_irq_cfg" "irq_cfg_ok m4340nhp_irq_cfg"
  by code_simp+

lemma irq_cfg_simps [simp]:
  "irq_cfg nh_platform_cf2 = Some cf2_irq_cfg"
  "irq_cfg nh_platform_m4061nhp = Some m4061nhp_irq_cfg"
  "irq_cfg nh_platform_m4062nhp_fpga0 = Some m4062nhp_fpga0_irq_cfg"
  "irq_cfg nh_platform_m4062nhp_fpga1 = Some m4062nhp_fpga1_irq_cfg"
  "irq_cfg nh_platform_m4340nhp = Some m4340nhp_irq_cfg"
  by (simp_all add: nh_platform_cf2_def nh_platform_m4061nhp_def
      nh_platform_m4062nhp_fpga0_def nh_platform_m4062nhp_fpga1_def nh_platform_m4340nhp_def)

lemma irq_platform_ok:
  assumes "Option.bind (nh_get_platform d) irq_cfg = Some cfg"
  shows "irq_cfg_ok cfg"
proof -
  from assms have "cfg = cf2_irq_cfg \<or> cfg = m4061nhp_irq_cfg \<or> cfg = m4062nhp_fpga0_irq_cfg
      \<or> cfg = m4062nhp_fpga1_irq_cfg \<or> cfg = m4340nhp_irq_cfg"
    by (auto simp: bind_eq_Some_conv nh_get_platform_iff set_nh_platforms)
  with irq_tables_ok show ?thesis by blast
qed

lemma find_domain_Some:
  assumes "find_domain mi i ds = Some (j, h)"
  shows "i \<le> j \<and> j < i + length ds \<and> domain_has mi (ds ! (j - i))
    \<and> h = first_hw_irq (ds ! (j - i)) + ucast (mi - first_master (ds ! (j - i)))"
  using assms
proof (induction ds arbitrary: i)
  case (Cons d ds)
  show ?case
  proof (cases "domain_has mi d")
    case True
    with Cons.prems show ?thesis by simp
  next
    case False
    with Cons.prems have "find_domain mi (Suc i) ds = Some (j, h)" by simp
    from Cons.IH [OF this] have "Suc i \<le> j \<and> j < Suc i + length ds \<and> domain_has mi (ds ! (j - Suc i))
      \<and> h = first_hw_irq (ds ! (j - Suc i)) + ucast (mi - first_master (ds ! (j - Suc i)))" .
    moreover from this have "(d # ds) ! (j - i) = ds ! (j - Suc i)"
      by (simp add: nth_Cons' Suc_diff_Suc)
    ultimately show ?thesis by simp
  qed
qed simp

text \<open>A line of a well-formed domain does not wrap around in its \<open>u8\<close>.\<close>

lemma domain_line:
  assumes "msi_domain_ok d" and "domain_has mi d"
  shows "int (unat (first_hw_irq d + ucast (mi - first_master d))) =
      int (unat (first_hw_irq d)) + (sint mi - sint (first_master d))"
    and "unat (first_hw_irq d + ucast (mi - first_master d)) < 32"
proof -
  let ?k = "sint mi - sint (first_master d)"
  from assms have k: "0 \<le> ?k" "int (unat (first_hw_irq d)) + ?k < 32" "0 \<le> sint (first_master d)"
    by (auto simp: msi_domain_ok_def domain_has_def)
  then have s: "sint mi = int (unat mi)" "sint (first_master d) = int (unat (first_master d))"
    using sint_nonneg [of mi] sint_nonneg [of "first_master d"] by auto
  then have le: "first_master d \<le> mi" using k(1) unfolding word_le_nat_alt by linarith
  have "unat (mi - first_master d) = unat mi - unat (first_master d)"
    using le by (rule unat_sub)
  then have u: "int (unat (mi - first_master d)) = ?k" using s k(1) by linarith
  then have "unat (mi - first_master d) < 256" using k by linarith
  then have c: "unat (ucast (mi - first_master d) :: u8) = unat (mi - first_master d)"
    by (simp add: unsigned_ucast_eq take_bit_nat_eq_self)
  have "unat (first_hw_irq d) + unat (ucast (mi - first_master d) :: u8) < 256"
    using k u c by linarith
  then have "unat (first_hw_irq d + ucast (mi - first_master d)) =
      unat (first_hw_irq d) + unat (mi - first_master d)"
    using c by (simp add: unat_word_ariths)
  with u k show "int (unat (first_hw_irq d + ucast (mi - first_master d))) =
      int (unat (first_hw_irq d)) + ?k"
    and "unat (first_hw_irq d + ucast (mi - first_master d)) < 32" by linarith+
qed

lemma irq_line_Some:
  assumes "irq_cfg_ok cfg" and "irq_line cfg c = Some (j, h)"
  shows "j < length (domains cfg) \<and> 0x40000 \<le> unat c
    \<and> domain_has ((c - 0x40000) div 0x200) (domains cfg ! j)
    \<and> h = first_hw_irq (domains cfg ! j) + ucast ((c - 0x40000) div 0x200 - first_master (domains cfg ! j))"
proof -
  from assms have ge: "\<not> c < 0x40000"
    and f: "find_domain ((c - 0x40000) div 0x200) 0 (domains cfg) = Some (j, h)"
    by (auto simp: irq_line_def irq_cfg_ok_def Let_def split: if_splits)
  from ge have "0x40000 \<le> unat c" by (simp add: word_less_nat_alt not_less)
  with find_domain_Some [OF f] show ?thesis by simp
qed

lemma master_index_unat:
  assumes "0x40000 \<le> unat (c :: u32)"
  shows "unat ((c - 0x40000) div 0x200) = (unat c - 0x40000) div 0x200"
proof -
  have "(0x40000 :: u32) \<le> c" using assms by (simp add: word_le_nat_alt)
  then have "unat (c - 0x40000) = unat c - 0x40000" by (simp add: unat_sub)
  then show ?thesis by (simp add: unat_div_distrib)
qed

lemma irq_init_Inr:
  assumes "nh_fpga_irq_init env fi = Inr fi'" and "fi_cfg fi = Some cfg"
  shows "fi' = fi\<lparr>fi_chips := map (\<lambda>i. irq_chip_for (domains cfg ! i)) [0..<unat (num_domains cfg)],
                  fi_chip_data := map Some [0..<unat (num_domains cfg)]\<rparr>"
proof -
  from assms obtain cs where cs: "collect (nh_fpga_init_one_chip env cfg) [0..<unat (num_domains cfg)] = Inr cs"
      "fi' = fi\<lparr>fi_chips := map fst cs, fi_chip_data := map (Some \<circ> snd) cs\<rparr>"
    by (auto simp: nh_fpga_irq_init_def split: option.splits if_splits sum.splits)
  have "cs = map (\<lambda>i. (irq_chip_for (domains cfg ! i), i)) [0..<unat (num_domains cfg)]"
    by (rule collect_map [OF cs(1)])
      (auto simp: nh_fpga_init_one_chip_def split: if_splits sum.splits option.splits)
  with cs(2) show ?thesis by (simp add: comp_def)
qed

text \<open>
  C24: The I2C controllers of an FPGA and its interrupt lines match one to one: once the chips are
  set up, a controller that resolves has a line below 32 of a registered chip, whose
  mask is the bit of that line, and two controllers share a line of a chip exactly when they are
  the same channel of the CSR block; no line number wraps around its 8 bits.
\<close>

theorem irq_lines_one_to_one:
  assumes "Option.bind (nh_get_platform d) irq_cfg = Some cfg"
    and "nh_fpga_irq_init env fi = Inr fi'" and "fi_cfg fi = Some cfg"
    and "irq_line cfg c = Some (j, h)" and "irq_line cfg c' = Some (j', h')"
  shows "fi_chip_data fi' ! j = Some j \<and> unat h < 32
    \<and> irqs (fi_chips fi' ! j) ! unat h = (0, BIT (unat h))
    \<and> ((j, h) = (j', h') \<longleftrightarrow> (unat c - 0x40000) div 0x200 = (unat c' - 0x40000) div 0x200)"
proof -
  let ?mi = "\<lambda>c :: u32. (c - 0x40000) div 0x200"
  note ok = irq_platform_ok [OF assms(1)]
  note A = irq_line_Some [OF ok assms(4)] and B = irq_line_Some [OF ok assms(5)]
  from ok A B have dom_ok: "msi_domain_ok (domains cfg ! j)" "msi_domain_ok (domains cfg ! j')"
    and len: "length (domains cfg) = unat (num_domains cfg)"
    by (auto simp: irq_cfg_ok_def list_all_length)
  have h32: "unat h < 32" using domain_line(2) [OF dom_ok(1)] A by simp
  have chip: "fi_chip_data fi' ! j = Some j"
    "irqs (fi_chips fi' ! j) ! unat h = (0, BIT (unat h))"
    using irq_init_Inr [OF assms(2,3)] A len h32
    by (simp_all add: irq_chip_for_def NH_FPGA_IRQS_PER_DOMAIN_def del: upt_rec_numeral)
  have nn: "0 \<le> sint (?mi c)" "0 \<le> sint (?mi c')"
    using A B dom_ok by (auto simp: domain_has_def msi_domain_ok_def)
  have idx: "?mi c = ?mi c' \<longleftrightarrow> (unat c - 0x40000) div 0x200 = (unat c' - 0x40000) div 0x200"
    using A B by (metis master_index_unat word_unat_eq_iff)
  have "?mi c = ?mi c'" if "(j, h) = (j', h')"
  proof -
    have "sint (?mi c) = sint (?mi c')"
      using domain_line(1) [OF dom_ok(1), of "?mi c"] domain_line(1) [OF dom_ok(2), of "?mi c'"] A B that
      by (smt (verit) prod.inject)
    then show ?thesis by (simp add: signed_word_eqI)
  qed
  moreover have "(j, h) = (j', h')" if "?mi c = ?mi c'"
    using assms(4,5) that A B ok
    by (auto simp: irq_line_def Let_def irq_cfg_ok_def split: if_splits)
  ultimately show ?thesis using chip h32 idx by blast
qed

definition irq_env_ok :: irq_env where
  "irq_env_ok = \<lparr>ie_alloc = (\<lambda>_. True), ie_regmap = None, ie_vector = (\<lambda>i. Inr (40 + of_nat i)),
     ie_add_chip = (\<lambda>_. None)\<rparr>"

lemma irq_init_ok:
  assumes "fi_cfg fi = Some cfg"
  shows "\<exists>fi'. nh_fpga_irq_init irq_env_ok fi = Inr fi'"
proof -
  have "collect (nh_fpga_init_one_chip irq_env_ok cfg) xs = Inr (map (\<lambda>i. (irq_chip_for (domains cfg ! i), i)) xs)" for xs
    by (rule collect_all_ok) (simp add: nh_fpga_init_one_chip_def irq_env_ok_def)
  with assms show ?thesis by (simp add: nh_fpga_irq_init_def irq_env_ok_def [symmetric])
    (simp add: irq_env_ok_def)
qed

theorem irq_lines_one_to_one_witness:
  "\<exists>fi. nh_fpga_irq_init irq_env_ok \<lparr>fi_cfg = Some m4340nhp_irq_cfg, fi_chips = [], fi_chip_data = [],
        fi_ref_clk = None\<rparr> = Inr fi \<and> fi_chip_data fi ! 1 = Some 1
    \<and> irqs (fi_chips fi ! 1) ! 2 = (0, BIT 2)"
proof -
  let ?fi = "\<lparr>fi_cfg = Some m4340nhp_irq_cfg, fi_chips = [], fi_chip_data = [], fi_ref_clk = None\<rparr>"
  obtain fi' where fi: "nh_fpga_irq_init irq_env_ok ?fi = Inr fi'" using irq_init_ok [of ?fi] by auto
  have plat: "Option.bind (nh_get_platform NH_FPGA_DEVICE_M4340NHP) irq_cfg = Some m4340nhp_irq_cfg"
    by (simp add: nh_get_platform_iff set_nh_platforms)
  have lines: "irq_line m4340nhp_irq_cfg 0x41200 = Some (1, 2)" "irq_line m4340nhp_irq_cfg 0x40000 = Some (0, 8)"
    by code_simp+
  from irq_lines_one_to_one [OF plat fi _ lines] fi show ?thesis by auto
qed

end
