(* ===== verification/Aux_Dev.thy ===== *)
theory Aux_Dev
  imports Irq
begin

text \<open>
  Auxiliary devices: the structures of \<open>platform_manager/uapi/fbiob-ioctl.h\<close> and
  \<open>kmods/nh_fpga_fbiob.h\<close>, and the creation and removal of \<open>kmods/nh_fpga_aux.c\<close>. The auxiliary
  bus is the list of devices registered with it; whether an allocation or a bus call succeeds is
  the parameter \<open>aux_env\<close>. Each operation runs under the device's \<open>lock\<close>, so it is one step.
\<close>

section \<open>Structures\<close>

definition NAME_MAX :: nat where "NAME_MAX = 255"
definition FBIOB_INVALID_OFFSET :: u32 where "FBIOB_INVALID_OFFSET = -1"

record fbiob_aux_id =
  aux_name :: string
  aux_id :: u32

text \<open>The union of driver data is kept as its leading words; each driver reads its own.\<close>

record fbiob_aux_data =
  ax_id :: fbiob_aux_id
  ax_csr_offset :: u32
  ax_iobuf_offset :: u32
  ax_words :: "u32 list"

definition fan_num_fans :: "fbiob_aux_data \<Rightarrow> u32" where "fan_num_fans d = ax_words d ! 0"
definition i2c_bus_freq_hz :: "fbiob_aux_data \<Rightarrow> u32" where "i2c_bus_freq_hz d = ax_words d ! 0"
definition led_port_num :: "fbiob_aux_data \<Rightarrow> s32" where "led_port_num d = ax_words d ! 0"
definition led_led_idx :: "fbiob_aux_data \<Rightarrow> s32" where "led_led_idx d = ax_words d ! 1"
definition xcvr_data_port_num :: "fbiob_aux_data \<Rightarrow> u32" where "xcvr_data_port_num d = ax_words d ! 0"

text \<open>\<open>struct nh_fpga_aux_dev\<close>; an address is an offset from \<open>mmio_base\<close>.\<close>

record nh_fpga_aux_dev =
  ad_parent :: pci_id
  dev_info :: fbiob_aux_data
  csr_base :: addr
  iobuf_base :: "addr option"

record nh_fpga_pci_dev =
  fd_pdev :: pci_id
  fd_device_id :: u16
  fd_mmio_len :: u64
  fd_minor :: nat
  aux_dev_list :: "nh_fpga_aux_dev list"
  fd_irq :: fbiob_irq

record aux_env =
  ae_alloc :: bool
  ae_init :: "errno option"
  ae_add :: "errno option"

section \<open>Creation\<close>

definition same_aux_id :: "fbiob_aux_id \<Rightarrow> nh_fpga_aux_dev \<Rightarrow> bool" where
  "same_aux_id i a = (aux_name (ax_id (dev_info a)) = aux_name i \<and> aux_id (ax_id (dev_info a)) = aux_id i)"

definition aux_dev_for :: "nh_fpga_pci_dev \<Rightarrow> fbiob_aux_data \<Rightarrow> nh_fpga_aux_dev" where
  "aux_dev_for fd info =
     \<lparr>ad_parent = fd_pdev fd, dev_info = info, csr_base = unat (ax_csr_offset info),
      iobuf_base = (if ax_iobuf_offset info \<noteq> FBIOB_INVALID_OFFSET
                    then Some (unat (ax_iobuf_offset info)) else None)\<rparr>"

definition nh_fpga_create_aux_device ::
    "aux_env \<Rightarrow> fbiob_aux_data \<Rightarrow> nh_fpga_pci_dev \<times> nh_fpga_aux_dev list \<Rightarrow>
     unit result \<times> nh_fpga_pci_dev \<times> nh_fpga_aux_dev list" where
  "nh_fpga_create_aux_device env info s =
     (let (fd, bus) = s
      in if list_ex (same_aux_id (ax_id info)) (aux_dev_list fd) then (Inl EEXIST, fd, bus)
         else if \<not> ae_alloc env then (Inl ENOMEM, fd, bus)
         else
           (case ae_init env of
              Some e \<Rightarrow> (Inl e, fd, bus)
            | None \<Rightarrow>
                (case ae_add env of
                   Some e \<Rightarrow> (Inl e, fd, bus)
                 | None \<Rightarrow>
                     (Inr (), fd\<lparr>aux_dev_list := aux_dev_list fd @ [aux_dev_for fd info]\<rparr>,
                      bus @ [aux_dev_for fd info]))))"

section \<open>Removal\<close>

text \<open>The first entry with the id is unlinked and deleted from the bus.\<close>

fun unlink_first :: "('a \<Rightarrow> bool) \<Rightarrow> 'a list \<Rightarrow> 'a option \<times> 'a list" where
  "unlink_first P [] = (None, [])"
| "unlink_first P (x # xs) =
     (if P x then (Some x, xs) else (case unlink_first P xs of (r, ys) \<Rightarrow> (r, x # ys)))"

definition nh_fpga_remove_aux_device ::
    "fbiob_aux_id \<Rightarrow> nh_fpga_pci_dev \<times> nh_fpga_aux_dev list \<Rightarrow>
     unit result \<times> nh_fpga_pci_dev \<times> nh_fpga_aux_dev list" where
  "nh_fpga_remove_aux_device i s =
     (let (fd, bus) = s
      in case unlink_first (same_aux_id i) (aux_dev_list fd) of
           (None, _) \<Rightarrow> (Inl ENODEV, fd, bus)
         | (Some a, rest) \<Rightarrow> (Inr (), fd\<lparr>aux_dev_list := rest\<rparr>, remove1 a bus))"

section \<open>The ioctl\<close>

text \<open>\<open>_IOW\<close> of the kernel's ioctl encoding: direction, size, type, number.\<close>

definition IOW :: "u32 \<Rightarrow> u32 \<Rightarrow> u32 \<Rightarrow> u32" where
  "IOW typ nr sz = push_bit 30 1 OR push_bit 16 sz OR push_bit 8 typ OR nr"

definition IOC_TYPE :: "u32 \<Rightarrow> u32" where
  "IOC_TYPE cmd = drop_bit 8 cmd AND 0xFF"

definition FBIOB_IOC_MAGIC :: u32 where "FBIOB_IOC_MAGIC = 70"

text \<open>\<open>sizeof (struct fbiob_aux_data)\<close>: 260 of the id, two offsets, a 268-byte union.\<close>

definition sizeof_fbiob_aux_data :: u32 where "sizeof_fbiob_aux_data = 536"

definition FBIOB_IOC_NEW_DEVICE :: u32 where
  "FBIOB_IOC_NEW_DEVICE = IOW FBIOB_IOC_MAGIC 1 sizeof_fbiob_aux_data"

definition FBIOB_IOC_DEL_DEVICE :: u32 where
  "FBIOB_IOC_DEL_DEVICE = IOW FBIOB_IOC_MAGIC 2 sizeof_fbiob_aux_data"

text \<open>The name buffer after its last byte is set to NUL, as a C string.\<close>

definition terminate_name :: "string \<Rightarrow> string" where
  "terminate_name raw = takeWhile (\<lambda>c. c \<noteq> CHR 0x00) (take (NAME_MAX - 1) raw)"

definition terminate_id :: "fbiob_aux_data \<Rightarrow> fbiob_aux_data" where
  "terminate_id d = d\<lparr>ax_id := (ax_id d)\<lparr>aux_name := terminate_name (aux_name (ax_id d))\<rparr>\<rparr>"

definition offsets_bad :: "nh_fpga_pci_dev \<Rightarrow> fbiob_aux_data \<Rightarrow> bool" where
  "offsets_bad fd d =
     (unat (fd_mmio_len fd) \<le> unat (ax_csr_offset d)
      \<or> ax_iobuf_offset d \<noteq> FBIOB_INVALID_OFFSET \<and> unat (fd_mmio_len fd) \<le> unat (ax_iobuf_offset d))"

text \<open>\<open>arg\<close> is what \<open>copy_from_user\<close> copies, \<open>None\<close> when it faults.\<close>

definition fbiob_ioctl ::
    "aux_env \<Rightarrow> u32 \<Rightarrow> fbiob_aux_data option \<Rightarrow> nh_fpga_pci_dev \<times> nh_fpga_aux_dev list \<Rightarrow>
     unit result \<times> nh_fpga_pci_dev \<times> nh_fpga_aux_dev list" where
  "fbiob_ioctl env cmd arg s =
     (if IOC_TYPE cmd \<noteq> FBIOB_IOC_MAGIC then (Inl ENOTTY, s)
      else if cmd = FBIOB_IOC_NEW_DEVICE then
        (case arg of
           None \<Rightarrow> (Inl EFAULT, s)
         | Some d \<Rightarrow>
             let d = terminate_id d
             in if offsets_bad (fst s) d then (Inl EINVAL, s)
                else nh_fpga_create_aux_device env d s)
      else if cmd = FBIOB_IOC_DEL_DEVICE then
        (case arg of
           None \<Rightarrow> (Inl EFAULT, s)
         | Some d \<Rightarrow> nh_fpga_remove_aux_device (ax_id (terminate_id d)) s)
      else (Inl ENOTTY, s))"

end
