(* ===== verification/Fbiob.thy ===== *)
theory Fbiob
  imports Aux_Dev
begin

text \<open>
  \<open>kmods/nh_fpga_fbiob_main.c\<close>: the PCI driver of the FPGAs. It hands out character device minors
  from a bitmap, sets up the interrupts, and creates and removes auxiliary devices on behalf of
  user space. Kernel services are the parameter \<open>pci_env\<close>. The state of the driver is one record;
  what its functions do under one lock acquisition is one step.
\<close>

definition FBIOB_MAX_DEVICES :: nat where "FBIOB_MAX_DEVICES = 16"
definition NH_FPGA_VERSION_REG_OFFSET :: nat where "NH_FPGA_VERSION_REG_OFFSET = 0x0000"
definition NH_FPGA_VERSION_MASK :: u32 where "NH_FPGA_VERSION_MASK = 0xFFFF"

section \<open>State\<close>

text \<open>
  \<open>minor_bitmap\<close> is a list of 16 bits. \<open>fs_devs\<close> holds the driver data of every bound PCI device
  (freed by devres after removal), \<open>fs_cdevs\<close> the minors with a live character device,
  \<open>fs_enabled\<close> the enabled PCI devices.
\<close>

record fbiob_sys =
  minor_bitmap :: "bool list"
  fs_devs :: "pci_id \<Rightarrow> nh_fpga_pci_dev option"
  fs_bus :: "nh_fpga_aux_dev list"
  fs_cdevs :: "nat set"
  fs_enabled :: "pci_id set"

definition fbiob_sys_init :: fbiob_sys where
  "fbiob_sys_init = \<lparr>minor_bitmap = replicate FBIOB_MAX_DEVICES False, fs_devs = (\<lambda>_. None),
     fs_bus = [], fs_cdevs = {}, fs_enabled = {}\<rparr>"

section \<open>Minor numbers\<close>

definition find_first_zero_bit :: "bool list \<Rightarrow> nat" where
  "find_first_zero_bit bm = length (takeWhile id bm)"

definition nh_fpga_get_minor :: "bool list \<Rightarrow> nat result \<times> bool list" where
  "nh_fpga_get_minor bm =
     (let minor = find_first_zero_bit bm
      in if FBIOB_MAX_DEVICES \<le> minor then (Inl ENOSPC, bm) else (Inr minor, bm[minor := True]))"

definition nh_fpga_put_minor :: "nat \<Rightarrow> bool list \<Rightarrow> bool list" where
  "nh_fpga_put_minor minor bm = (if minor < FBIOB_MAX_DEVICES then bm[minor := False] else bm)"

section \<open>Interrupt setup\<close>

record pci_env =
  pe_alloc :: bool
  pe_enable :: "errno option"
  pe_iomap :: bool
  pe_devm_unmap :: "errno option"
  pe_dma64 :: "errno option"
  pe_dma32 :: "errno option"
  pe_vectors :: "errno option"
  pe_devm_vectors :: "errno option"
  pe_irq :: irq_env
  pe_clk_name :: bool
  pe_clk :: "errno option"
  pe_cdev :: "errno option"
  pe_device :: "errno option"

definition no_irq :: fbiob_irq where
  "no_irq = \<lparr>fi_cfg = None, fi_chips = [], fi_chip_data = [], fi_ref_clk = None\<rparr>"

definition fpga_too_old :: "nh_fpga_irq_cfg \<Rightarrow> mmio \<Rightarrow> bool" where
  "fpga_too_old cfg m =
     (let min_base_fn = ucast (min_fpga_version cfg) AND NH_FPGA_VERSION_MASK;
          fpga_base_fn = ioread32 m NH_FPGA_VERSION_REG_OFFSET AND NH_FPGA_VERSION_MASK
      in min_base_fn \<noteq> 0 \<and> fpga_base_fn < min_base_fn)"

definition nh_fpga_setup_i2c_interrupts :: "pci_env \<Rightarrow> u16 \<Rightarrow> mmio \<Rightarrow> fbiob_irq result" where
  "nh_fpga_setup_i2c_interrupts env device_id m =
     (case Option.bind (nh_get_platform device_id) irq_cfg of
        None \<Rightarrow> Inr no_irq
      | Some cfg \<Rightarrow>
          if fpga_too_old cfg m then Inr no_irq
          else
            (case pe_vectors env of
               Some e \<Rightarrow> Inl e
             | None \<Rightarrow>
               (case pe_devm_vectors env of
                  Some e \<Rightarrow> Inl e
                | None \<Rightarrow>
                  (case nh_fpga_irq_init (pe_irq env) (no_irq\<lparr>fi_cfg := Some cfg\<rparr>) of
                     Inl e \<Rightarrow> Inl e
                   | Inr fi \<Rightarrow>
                       if \<not> pe_clk_name env then Inl ENOMEM
                       else (case pe_clk env of
                               Some e \<Rightarrow> Inl e
                             | None \<Rightarrow> Inr (fi\<lparr>fi_ref_clk := Some (ref_clk_hz cfg)\<rparr>))))))"

section \<open>Probe\<close>

text \<open>The three unwinding labels at the end of the probe function.\<close>

definition err_put_minor :: "nat \<Rightarrow> fbiob_sys \<Rightarrow> fbiob_sys" where
  "err_put_minor minor s = s\<lparr>minor_bitmap := nh_fpga_put_minor minor (minor_bitmap s)\<rparr>"

definition err_disable_device :: "pci_id \<Rightarrow> nat \<Rightarrow> fbiob_sys \<Rightarrow> fbiob_sys" where
  "err_disable_device pdev minor s = err_put_minor minor (s\<lparr>fs_enabled := fs_enabled s - {pdev}\<rparr>)"

definition err_del_cdev :: "pci_id \<Rightarrow> nat \<Rightarrow> fbiob_sys \<Rightarrow> fbiob_sys" where
  "err_del_cdev pdev minor s = err_disable_device pdev minor (s\<lparr>fs_cdevs := fs_cdevs s - {minor}\<rparr>)"

definition nh_fpga_pci_probe ::
    "pci_env \<Rightarrow> pci_id \<Rightarrow> u16 \<Rightarrow> u64 \<Rightarrow> mmio \<Rightarrow> fbiob_sys \<Rightarrow> unit result \<times> fbiob_sys" where
  "nh_fpga_pci_probe env pdev device_id mmio_len m s =
     (case nh_fpga_get_minor (minor_bitmap s) of
        (Inl e, bm) \<Rightarrow> (Inl e, s\<lparr>minor_bitmap := bm\<rparr>)
      | (Inr minor, bm) \<Rightarrow>
          let s = s\<lparr>minor_bitmap := bm\<rparr>
          in if \<not> pe_alloc env then (Inl ENOMEM, err_put_minor minor s)
             else
               (case pe_enable env of
                  Some e \<Rightarrow> (Inl e, err_put_minor minor s)
                | None \<Rightarrow>
                    let s = s\<lparr>fs_enabled := insert pdev (fs_enabled s)\<rparr>
                    in if \<not> pe_iomap env then (Inl ENOMEM, err_disable_device pdev minor s)
                       else
                         (case (pe_devm_unmap env, pe_dma64 env, pe_dma32 env) of
                            (Some e, _, _) \<Rightarrow> (Inl e, err_disable_device pdev minor s)
                          | (None, Some _, Some e) \<Rightarrow> (Inl e, err_disable_device pdev minor s)
                          | _ \<Rightarrow>
                            (case nh_fpga_setup_i2c_interrupts env device_id m of
                               Inl e \<Rightarrow> (Inl e, err_disable_device pdev minor s)
                             | Inr fi \<Rightarrow>
                               (case pe_cdev env of
                                  Some e \<Rightarrow> (Inl e, err_disable_device pdev minor s)
                                | None \<Rightarrow>
                                    let s = s\<lparr>fs_cdevs := insert minor (fs_cdevs s)\<rparr>
                                    in case pe_device env of
                                         Some e \<Rightarrow> (Inl e, err_del_cdev pdev minor s)
                                       | None \<Rightarrow>
                                           (Inr (), s\<lparr>fs_devs := (fs_devs s)(pdev :=
                                              Some \<lparr>fd_pdev = pdev, fd_device_id = device_id,
                                                    fd_mmio_len = mmio_len, fd_minor = minor,
                                                    aux_dev_list = [], fd_irq = fi\<rparr>)\<rparr>))))))"

section \<open>Removal\<close>

text \<open>
  The first half takes every auxiliary device off the list under the lock and then deletes them
  from the bus without it; the second half removes the character device and the minor.
\<close>

definition pci_remove_aux :: "pci_id \<Rightarrow> fbiob_sys \<Rightarrow> fbiob_sys" where
  "pci_remove_aux pdev s =
     (case fs_devs s pdev of
        None \<Rightarrow> s
      | Some fd \<Rightarrow>
          s\<lparr>fs_devs := (fs_devs s)(pdev := Some (fd\<lparr>aux_dev_list := []\<rparr>)),
            fs_bus := fold remove1 (aux_dev_list fd) (fs_bus s)\<rparr>)"

definition pci_remove_rest :: "pci_id \<Rightarrow> fbiob_sys \<Rightarrow> fbiob_sys" where
  "pci_remove_rest pdev s =
     (case fs_devs s pdev of
        None \<Rightarrow> s
      | Some fd \<Rightarrow>
          s\<lparr>fs_cdevs := fs_cdevs s - {fd_minor fd}, fs_enabled := fs_enabled s - {pdev},
            minor_bitmap := nh_fpga_put_minor (fd_minor fd) (minor_bitmap s),
            fs_devs := (fs_devs s)(pdev := None)\<rparr>)"

definition nh_fpga_pci_remove :: "pci_id \<Rightarrow> fbiob_sys \<Rightarrow> fbiob_sys" where
  "nh_fpga_pci_remove pdev s = pci_remove_rest pdev (pci_remove_aux pdev s)"

text \<open>An ioctl on an open character device of the FPGA.\<close>

definition sys_ioctl ::
    "aux_env \<Rightarrow> pci_id \<Rightarrow> u32 \<Rightarrow> fbiob_aux_data option \<Rightarrow> fbiob_sys \<Rightarrow> unit result \<times> fbiob_sys" where
  "sys_ioctl env pdev cmd arg s =
     (case fs_devs s pdev of
        None \<Rightarrow> (Inl ENODEV, s)
      | Some fd \<Rightarrow>
          (case fbiob_ioctl env cmd arg (fd, fs_bus s) of
             (r, fd', bus') \<Rightarrow>
               (r, s\<lparr>fs_devs := (fs_devs s)(pdev := Some fd'), fs_bus := bus'\<rparr>)))"

end
