(* ===== verification/Fbiob_Props.thy ===== *)
theory Fbiob_Props
  imports Fbiob
begin

text \<open>
  The PCI driver and its auxiliary devices: an invariant over every history of probes, ioctls and
  removals, what a failed probe leaves, what each ioctl answers, and an interleaving of an ioctl
  with a removal that leaves an auxiliary device behind.
\<close>

section \<open>Invariant\<close>

definition aux_ok :: "nh_fpga_pci_dev \<Rightarrow> nh_fpga_aux_dev \<Rightarrow> bool" where
  "aux_ok fd a =
     (ad_parent a = fd_pdev fd \<and> csr_base a = unat (ax_csr_offset (dev_info a))
      \<and> csr_base a < unat (fd_mmio_len fd)
      \<and> (case iobuf_base a of None \<Rightarrow> True | Some b \<Rightarrow> b < unat (fd_mmio_len fd))
      \<and> length (aux_name (ax_id (dev_info a))) < NAME_MAX)"

definition dev_ok :: "pci_id \<Rightarrow> nh_fpga_pci_dev \<Rightarrow> bool" where
  "dev_ok p fd =
     (fd_pdev fd = p \<and> fd_minor fd < FBIOB_MAX_DEVICES
      \<and> distinct (map (ax_id \<circ> dev_info) (aux_dev_list fd))
      \<and> (\<forall>a \<in> set (aux_dev_list fd). aux_ok fd a))"

definition minors_unique :: "fbiob_sys \<Rightarrow> bool" where
  "minors_unique s =
     (\<forall>p q fd fd'. fs_devs s p = Some fd \<longrightarrow> fs_devs s q = Some fd' \<longrightarrow> fd_minor fd = fd_minor fd' \<longrightarrow> p = q)"

definition minors_ok :: "fbiob_sys \<Rightarrow> bool" where
  "minors_ok s =
     (length (minor_bitmap s) = FBIOB_MAX_DEVICES
      \<and> minors_unique s
      \<and> (\<forall>i < FBIOB_MAX_DEVICES. minor_bitmap s ! i \<longleftrightarrow> i \<in> fd_minor ` ran (fs_devs s))
      \<and> fs_cdevs s = fd_minor ` ran (fs_devs s)
      \<and> fs_enabled s = dom (fs_devs s))"

definition bus_of :: "fbiob_sys \<Rightarrow> pci_id \<Rightarrow> nh_fpga_aux_dev list" where
  "bus_of s p = filter (\<lambda>a. ad_parent a = p) (fs_bus s)"

definition bus_ok :: "fbiob_sys \<Rightarrow> bool" where
  "bus_ok s = (\<forall>p. bus_of s p = (case fs_devs s p of None \<Rightarrow> [] | Some fd \<Rightarrow> aux_dev_list fd))"

definition fbiob_inv :: "fbiob_sys \<Rightarrow> bool" where
  "fbiob_inv s = (minors_ok s \<and> (\<forall>p fd. fs_devs s p = Some fd \<longrightarrow> dev_ok p fd) \<and> bus_ok s)"

lemma fbiob_invD:
  assumes "fbiob_inv s"
  shows "minors_ok s" and "fs_devs s p = Some fd \<Longrightarrow> dev_ok p fd" and "bus_ok s"
  using assms by (auto simp: fbiob_inv_def)

text \<open>
  The PCI core probes unbound devices and removes bound ones; in between, user space issues
  ioctls.
\<close>

inductive fbiob_reach :: "fbiob_sys \<Rightarrow> bool" where
  init: "fbiob_reach fbiob_sys_init"
| probe: "fbiob_reach s \<Longrightarrow> fs_devs s pdev = None \<Longrightarrow>
    fbiob_reach (snd (nh_fpga_pci_probe env pdev device_id mmio_len m s))"
| ioctl: "fbiob_reach s \<Longrightarrow> fbiob_reach (snd (sys_ioctl aenv pdev cmd arg s))"
| remove: "fbiob_reach s \<Longrightarrow> fbiob_reach (nh_fpga_pci_remove pdev s)"

section \<open>Minors\<close>

lemma first_zero_lt:
  assumes "find_first_zero_bit bm < length bm"
  shows "\<not> bm ! find_first_zero_bit bm"
  using nth_length_takeWhile [of id bm] assms by (simp add: find_first_zero_bit_def)

lemma get_minor_Inr:
  assumes "nh_fpga_get_minor bm = (Inr minor, bm')" and "length bm = FBIOB_MAX_DEVICES"
  shows "minor < FBIOB_MAX_DEVICES \<and> \<not> bm ! minor \<and> bm' = bm[minor := True]"
  using assms first_zero_lt [of bm]
  by (auto simp: nh_fpga_get_minor_def Let_def split: if_splits)

lemma get_minor_Inl:
  assumes "nh_fpga_get_minor bm = (Inl e, bm')"
  shows "bm' = bm \<and> e = ENOSPC"
  using assms by (auto simp: nh_fpga_get_minor_def Let_def split: if_splits)

text \<open>A minor is found as long as the bitmap has a zero.\<close>

lemma get_minor_full:
  assumes "length bm = FBIOB_MAX_DEVICES"
  shows "(\<exists>bm'. nh_fpga_get_minor bm = (Inl ENOSPC, bm')) \<longleftrightarrow> (\<forall>i < FBIOB_MAX_DEVICES. bm ! i)"
proof -
  have le: "find_first_zero_bit bm \<le> length bm"
    by (simp add: find_first_zero_bit_def length_takeWhile_le)
  have "find_first_zero_bit bm = length bm \<longleftrightarrow> (\<forall>b \<in> set bm. b)"
  proof -
    have "find_first_zero_bit bm = length bm \<longleftrightarrow> takeWhile id bm = bm"
      unfolding find_first_zero_bit_def by (metis takeWhile_eq_take take_all order_refl)
    then show ?thesis by (simp add: takeWhile_eq_all_conv)
  qed
  with le assms show ?thesis
    by (auto simp: nh_fpga_get_minor_def Let_def all_set_conv_all_nth)
qed

lemma put_get_minor:
  assumes "minor < FBIOB_MAX_DEVICES" and "\<not> bm ! minor"
  shows "nh_fpga_put_minor minor (bm[minor := True]) = bm"
  using assms list_update_id [of bm minor] by (simp add: nh_fpga_put_minor_def)

section \<open>Probe\<close>

text \<open>The state after a successful probe under a fresh minor.\<close>

definition pci_bound :: "pci_id \<Rightarrow> u16 \<Rightarrow> u64 \<Rightarrow> nat \<Rightarrow> fbiob_irq \<Rightarrow> fbiob_sys \<Rightarrow> fbiob_sys" where
  "pci_bound pdev device_id mmio_len minor fi s =
     s\<lparr>minor_bitmap := (minor_bitmap s)[minor := True], fs_enabled := insert pdev (fs_enabled s),
       fs_cdevs := insert minor (fs_cdevs s),
       fs_devs := (fs_devs s)(pdev := Some \<lparr>fd_pdev = pdev, fd_device_id = device_id,
         fd_mmio_len = mmio_len, fd_minor = minor, aux_dev_list = [], fd_irq = fi\<rparr>)\<rparr>"

text \<open>The two outcomes of probe: everything undone, or one new device.\<close>

lemma pci_probe_cases:
  assumes "length (minor_bitmap s) = FBIOB_MAX_DEVICES"
    and "pdev \<notin> fs_enabled s" and "fs_cdevs s \<subseteq> {i. minor_bitmap s ! i}"
  shows "(\<exists>e. nh_fpga_pci_probe env pdev device_id mmio_len m s = (Inl e, s))
    \<or> (\<exists>minor fi. minor < FBIOB_MAX_DEVICES \<and> \<not> minor_bitmap s ! minor
         \<and> nh_fpga_setup_i2c_interrupts env device_id m = Inr fi
         \<and> nh_fpga_pci_probe env pdev device_id mmio_len m s =
             (Inr (), pci_bound pdev device_id mmio_len minor fi s))"
proof (cases "nh_fpga_get_minor (minor_bitmap s)")
  case (Pair r bm)
  show ?thesis
  proof (cases r)
    case (Inl e)
    with Pair get_minor_Inl [of "minor_bitmap s" e bm] show ?thesis
      by (simp add: nh_fpga_pci_probe_def)
  next
    case (Inr minor)
    from get_minor_Inr [OF Pair [unfolded Inr] assms(1)]
    have M: "minor < FBIOB_MAX_DEVICES" "\<not> minor_bitmap s ! minor" "bm = (minor_bitmap s)[minor := True]"
      by auto
    have put: "nh_fpga_put_minor minor ((minor_bitmap s)[minor := True]) = minor_bitmap s"
      by (rule put_get_minor [OF M(1,2)])
    have dis: "insert pdev (fs_enabled s) - {pdev} = fs_enabled s"
      and cd: "insert minor (fs_cdevs s) - {minor} = fs_cdevs s"
      using assms(2,3) M(2) by auto
    have "(\<exists>e. nh_fpga_pci_probe env pdev device_id mmio_len m s = (Inl e, s))
      \<or> (\<exists>fi. nh_fpga_setup_i2c_interrupts env device_id m = Inr fi
           \<and> nh_fpga_pci_probe env pdev device_id mmio_len m s =
               (Inr (), pci_bound pdev device_id mmio_len minor fi s))"
      using Pair Inr M put dis cd
      by (simp add: nh_fpga_pci_probe_def Let_def err_put_minor_def err_disable_device_def err_del_cdev_def
          pci_bound_def split: option.split sum.split)
    with M(1,2) show ?thesis by blast
  qed
qed

lemma unbound:
  assumes "fbiob_inv s" and "fs_devs s pdev = None"
  shows "pdev \<notin> fs_enabled s" and "bus_of s pdev = []"
    and "length (minor_bitmap s) = FBIOB_MAX_DEVICES" and "fs_cdevs s \<subseteq> {i. minor_bitmap s ! i}"
proof -
  from assms have I: "minors_ok s" "bus_ok s" "\<And>p fd. fs_devs s p = Some fd \<Longrightarrow> dev_ok p fd"
    by (auto simp: fbiob_inv_def)
  show "pdev \<notin> fs_enabled s" "length (minor_bitmap s) = FBIOB_MAX_DEVICES"
    using assms(2) I(1) by (simp_all add: minors_ok_def domIff)
  show "bus_of s pdev = []" using assms(2) I(2) by (simp add: bus_ok_def)
  have "fd_minor fd < FBIOB_MAX_DEVICES" if "fd \<in> ran (fs_devs s)" for fd
  proof -
    from that obtain p where "fs_devs s p = Some fd" by (auto simp: ran_def)
    from I(3) [OF this] show ?thesis by (simp add: dev_ok_def)
  qed
  moreover have "fs_cdevs s = fd_minor ` ran (fs_devs s)"
    and "\<And>i. i < FBIOB_MAX_DEVICES \<Longrightarrow> minor_bitmap s ! i \<longleftrightarrow> i \<in> fd_minor ` ran (fs_devs s)"
    using I(1) by (simp_all add: minors_ok_def)
  ultimately show "fs_cdevs s \<subseteq> {i. minor_bitmap s ! i}" by auto
qed

lemma pci_bound_inv:
  assumes "fbiob_inv s" and "fs_devs s pdev = None"
    and "minor < FBIOB_MAX_DEVICES" and "\<not> minor_bitmap s ! minor"
  shows "fbiob_inv (pci_bound pdev device_id mmio_len minor fi s)" (is "fbiob_inv ?s")
proof -
  note U = unbound [OF assms(1,2)]
  from assms(1) have I: "minors_ok s" "bus_ok s" "\<And>p fd. fs_devs s p = Some fd \<Longrightarrow> dev_ok p fd"
    by (auto simp: fbiob_inv_def)
  have fresh: "fd_minor fd \<noteq> minor" if "fs_devs s p = Some fd" for p fd
    using that assms(3,4) I(1) by (auto simp: minors_ok_def ranI)
  have r: "ran (fs_devs ?s) = insert \<lparr>fd_pdev = pdev, fd_device_id = device_id,
         fd_mmio_len = mmio_len, fd_minor = minor, aux_dev_list = [], fd_irq = fi\<rparr> (ran (fs_devs s))"
    using assms(2) by (simp add: pci_bound_def)
  have "minors_ok ?s" unfolding minors_ok_def
  proof (intro conjI allI impI)
    show "length (minor_bitmap ?s) = FBIOB_MAX_DEVICES" using U(3) by (simp add: pci_bound_def)
    show "minor_bitmap ?s ! i \<longleftrightarrow> i \<in> fd_minor ` ran (fs_devs ?s)" if "i < FBIOB_MAX_DEVICES" for i
      using that I(1) U(3) assms(3) unfolding r
      by (simp add: pci_bound_def minors_ok_def nth_list_update)
    show "fs_cdevs ?s = fd_minor ` ran (fs_devs ?s)"
      using I(1) unfolding r by (simp add: pci_bound_def minors_ok_def)
    show "fs_enabled ?s = dom (fs_devs ?s)"
      using I(1) by (simp add: pci_bound_def minors_ok_def)
    have "minors_unique s" using I(1) by (simp add: minors_ok_def)
    with fresh show "minors_unique ?s"
      unfolding minors_unique_def by (simp add: pci_bound_def) metis
  qed
  moreover have "bus_ok ?s"
    using I(2) U(2) by (auto simp: bus_ok_def bus_of_def pci_bound_def)
  moreover have "dev_ok p fd" if "fs_devs ?s p = Some fd" for p fd
    using that I(3) assms(3) by (auto simp: pci_bound_def dev_ok_def split: if_splits)
  ultimately show ?thesis by (simp add: fbiob_inv_def)
qed

lemma pci_probe_inv:
  assumes "fbiob_inv s" and "fs_devs s pdev = None"
  shows "fbiob_inv (snd (nh_fpga_pci_probe env pdev device_id mmio_len m s))"
proof -
  note U = unbound [OF assms]
  from pci_probe_cases [OF U(3,1,4), of env device_id mmio_len m] show ?thesis
    using assms pci_bound_inv [OF assms] by auto
qed

section \<open>Ioctls\<close>

lemma unlink_first_Some:
  "unlink_first P xs = (Some a, ys) \<Longrightarrow> a \<in> set xs \<and> P a \<and> ys = remove1 a xs"
  by (induction xs arbitrary: ys) (auto split: if_splits prod.splits)

lemma unlink_first_None: "fst (unlink_first P xs) = None \<longleftrightarrow> (\<forall>x \<in> set xs. \<not> P x)"
  by (induction xs) (auto split: prod.splits)

text \<open>What an ioctl does to the device and the bus: nothing, one new entry, or one less.\<close>

lemma ioctl_cases:
  assumes "fbiob_ioctl env cmd arg (fd, bus) = (r, fd', bus')"
  shows "(\<exists>e. r = Inl e \<and> fd' = fd \<and> bus' = bus)
    \<or> (\<exists>d. r = Inr () \<and> \<not> offsets_bad fd (terminate_id d)
         \<and> \<not> list_ex (same_aux_id (ax_id (terminate_id d))) (aux_dev_list fd)
         \<and> fd' = fd\<lparr>aux_dev_list := aux_dev_list fd @ [aux_dev_for fd (terminate_id d)]\<rparr>
         \<and> bus' = bus @ [aux_dev_for fd (terminate_id d)])
    \<or> (\<exists>a. r = Inr () \<and> a \<in> set (aux_dev_list fd)
         \<and> fd' = fd\<lparr>aux_dev_list := remove1 a (aux_dev_list fd)\<rparr> \<and> bus' = remove1 a bus)"
proof -
  have create: ?thesis
    if "nh_fpga_create_aux_device env (terminate_id d) (fd, bus) = (r, fd', bus')"
      "\<not> offsets_bad fd (terminate_id d)" for d
    using that by (auto simp: nh_fpga_create_aux_device_def Let_def split: if_splits option.splits)
  have remove: ?thesis
    if rm: "nh_fpga_remove_aux_device i (fd, bus) = (r, fd', bus')" for i
  proof (cases "unlink_first (same_aux_id i) (aux_dev_list fd)")
    case (Pair x ys)
    with rm show ?thesis
      by (cases x) (auto simp: nh_fpga_remove_aux_device_def Let_def dest: unlink_first_Some)
  qed
  from assms create remove show ?thesis
    by (auto simp: fbiob_ioctl_def Let_def split: if_splits option.splits)
qed

lemma terminate_name_length: "length (terminate_name raw) < NAME_MAX"
proof -
  have "length (terminate_name raw) \<le> length (take (NAME_MAX - 1) raw)"
    unfolding terminate_name_def by (rule length_takeWhile_le)
  then show ?thesis by (simp add: NAME_MAX_def)
qed

lemma aux_dev_for_ok:
  assumes "\<not> offsets_bad fd (terminate_id d)"
  shows "aux_ok fd (aux_dev_for fd (terminate_id d))"
  using assms terminate_name_length
  by (auto simp: aux_ok_def aux_dev_for_def offsets_bad_def terminate_id_def)

lemma aux_ok_update [simp]: "aux_ok (fd\<lparr>aux_dev_list := l\<rparr>) a = aux_ok fd a"
  by (simp add: aux_ok_def split: option.split)

lemma dev_ok_append:
  assumes "dev_ok p fd" and "\<not> offsets_bad fd (terminate_id d)"
    and "\<not> list_ex (same_aux_id (ax_id (terminate_id d))) (aux_dev_list fd)"
  shows "dev_ok p (fd\<lparr>aux_dev_list := aux_dev_list fd @ [aux_dev_for fd (terminate_id d)]\<rparr>)"
proof -
  have "ax_id (terminate_id d) \<notin> (ax_id \<circ> dev_info) ` set (aux_dev_list fd)"
    using assms(3) by (auto simp: list_ex_iff same_aux_id_def)
  moreover have "ax_id (dev_info (aux_dev_for fd (terminate_id d))) = ax_id (terminate_id d)"
    by (simp add: aux_dev_for_def)
  ultimately show ?thesis
    using assms(1) aux_dev_for_ok [OF assms(2)] by (auto simp: dev_ok_def)
qed

lemma dev_ok_remove1:
  assumes "dev_ok p fd"
  shows "dev_ok p (fd\<lparr>aux_dev_list := remove1 a (aux_dev_list fd)\<rparr>)"
proof -
  have "distinct (map f (remove1 a xs))" if "distinct (map f xs)" for f :: "nh_fpga_aux_dev \<Rightarrow> fbiob_aux_id" and xs
    using that inj_on_subset [OF _ set_remove1_subset, of f xs a] by (simp add: distinct_map)
  with assms set_remove1_subset [of a "aux_dev_list fd"] show ?thesis
    by (auto simp: dev_ok_def)
qed

lemma aux_list_parent: "dev_ok p fd \<Longrightarrow> a \<in> set (aux_dev_list fd) \<Longrightarrow> ad_parent a = p"
  by (auto simp: dev_ok_def aux_ok_def)

lemma minors_unique_cong:
  assumes "fs_devs s = f"
  shows "minors_unique s \<longleftrightarrow> (\<forall>p q fd fd'. f p = Some fd \<longrightarrow> f q = Some fd' \<longrightarrow> fd_minor fd = fd_minor fd' \<longrightarrow> p = q)"
  by (simp only: minors_unique_def assms)

lemma minors_inj:
  assumes "minors_ok s" and "fs_devs s p = Some fd" and "fs_devs s q = Some fd'"
    and "fd_minor fd = fd_minor fd'"
  shows "p = q"
  using assms by (simp add: minors_ok_def minors_unique_def)

lemma minors_ok_replace:
  assumes "minors_ok s" and "fs_devs s p = Some fd" and "fd_minor fd' = fd_minor fd"
  shows "minors_ok (s\<lparr>fs_devs := (fs_devs s)(p := Some fd'), fs_bus := b\<rparr>)"
proof -
  have "fd_minor ` ran ((fs_devs s)(p := Some fd')) = fd_minor ` ran (fs_devs s)"
  proof -
    have "map_option fd_minor \<circ> (fs_devs s)(p := Some fd') = map_option fd_minor \<circ> fs_devs s"
      using assms(2,3) by (auto simp: fun_eq_iff)
    then have "ran (map_option fd_minor \<circ> (fs_devs s)(p := Some fd')) = ran (map_option fd_minor \<circ> fs_devs s)"
      by (rule arg_cong)
    moreover have "ran (map_option f \<circ> g) = f ` ran g" for f :: "nh_fpga_pci_dev \<Rightarrow> nat" and g :: "pci_id \<Rightarrow> _"
      by (force simp: ran_def)
    ultimately show ?thesis by metis
  qed
  moreover have "dom ((fs_devs s)(p := Some fd')) = dom (fs_devs s)" using assms(2) by auto
  moreover have inj': "q = r" if "((fs_devs s)(p := Some fd')) q = Some f" "((fs_devs s)(p := Some fd')) r = Some g"
      "fd_minor f = fd_minor g" for q r f g
  proof -
    define f' g' where "f' = (if q = p then fd else f)" and "g' = (if r = p then fd else g)"
    have "fs_devs s q = Some f'" "fs_devs s r = Some g'" "fd_minor f' = fd_minor g'"
      using that assms(2,3) by (auto simp: f'_def g'_def split: if_splits)
    then show ?thesis by (rule minors_inj [OF assms(1)])
  qed
  have f: "fs_devs (s\<lparr>fs_devs := (fs_devs s)(p := Some fd'), fs_bus := b\<rparr>) = (fs_devs s)(p := Some fd')"
    by simp
  moreover have "minors_unique (s\<lparr>fs_devs := (fs_devs s)(p := Some fd'), fs_bus := b\<rparr>)"
    unfolding minors_unique_cong [OF f] using inj' by blast
  ultimately show ?thesis using assms(1) by (simp add: minors_ok_def)
qed

lemma bus_ok_replace:
  assumes "bus_ok s" and "fs_devs s p = Some fd"
    and "filter (\<lambda>a. ad_parent a = p) b = aux_dev_list fd'"
    and "\<And>q. q \<noteq> p \<Longrightarrow> filter (\<lambda>a. ad_parent a = q) b = bus_of s q"
  shows "bus_ok (s\<lparr>fs_devs := (fs_devs s)(p := Some fd'), fs_bus := b\<rparr>)"
  using assms by (simp add: bus_ok_def bus_of_def)

lemma sys_ioctl_inv:
  assumes "fbiob_inv s"
  shows "fbiob_inv (snd (sys_ioctl env p cmd arg s))"
proof (cases "fs_devs s p")
  case None
  with assms show ?thesis by (simp add: sys_ioctl_def)
next
  case (Some fd)
  obtain r fd' bus' where io: "fbiob_ioctl env cmd arg (fd, fs_bus s) = (r, fd', bus')"
    by (cases "fbiob_ioctl env cmd arg (fd, fs_bus s)")
  let ?s = "s\<lparr>fs_devs := (fs_devs s)(p := Some fd'), fs_bus := bus'\<rparr>"
  have s': "snd (sys_ioctl env p cmd arg s) = ?s" by (simp add: sys_ioctl_def Some io)
  note I = fbiob_invD [OF assms]
  have dok: "dev_ok p fd" by (rule I(2) [OF Some])
  have bus: "filter (\<lambda>a. ad_parent a = p) (fs_bus s) = aux_dev_list fd"
    using I(3) Some by (auto simp: bus_ok_def bus_of_def dest: spec [of _ p])
  have parent: "ad_parent (aux_dev_for fd d) = p" for d
    using dok by (simp add: aux_dev_for_def dev_ok_def)
  from ioctl_cases [OF io] have "dev_ok p fd' \<and> fd_minor fd' = fd_minor fd
    \<and> filter (\<lambda>a. ad_parent a = p) bus' = aux_dev_list fd'
    \<and> (\<forall>q. q \<noteq> p \<longrightarrow> filter (\<lambda>a. ad_parent a = q) bus' = bus_of s q)"
  proof (elim disjE exE conjE)
    fix d
    assume a: "\<not> offsets_bad fd (terminate_id d)" "bus' = fs_bus s @ [aux_dev_for fd (terminate_id d)]"
      "\<not> list_ex (same_aux_id (ax_id (terminate_id d))) (aux_dev_list fd)"
      "fd' = fd\<lparr>aux_dev_list := aux_dev_list fd @ [aux_dev_for fd (terminate_id d)]\<rparr>"
    then show ?thesis using dev_ok_append [OF dok a(1,3)] bus parent by (simp add: bus_of_def)
  next
    fix a
    assume a: "a \<in> set (aux_dev_list fd)" "fd' = fd\<lparr>aux_dev_list := remove1 a (aux_dev_list fd)\<rparr>"
      "bus' = remove1 a (fs_bus s)"
    then have "ad_parent a = p" using aux_list_parent [OF dok] by blast
    with a show ?thesis
      using dev_ok_remove1 [OF dok] bus by (simp add: filter_remove1 bus_of_def remove1_idem)
  qed (simp add: bus dok bus_of_def)
  then show ?thesis
    unfolding s' fbiob_inv_def
    using minors_ok_replace [OF I(1) Some] bus_ok_replace [OF I(3) Some] I(2) by auto
qed

section \<open>Removal\<close>

lemma filter_fold_remove1:
  "\<forall>a \<in> set l. P a \<Longrightarrow> filter P (fold remove1 l b) = fold remove1 l (filter P b)"
  "\<forall>a \<in> set l. \<not> P a \<Longrightarrow> filter P (fold remove1 l b) = filter P b"
  by (induction l arbitrary: b) (simp_all add: filter_remove1 remove1_idem)

lemma fold_remove1_self: "fold remove1 l l = []"
  by (induction l) auto

lemma pci_remove_bound:
  assumes "fs_devs s p = Some fd"
  shows "nh_fpga_pci_remove p s =
    s\<lparr>minor_bitmap := nh_fpga_put_minor (fd_minor fd) (minor_bitmap s), fs_devs := (fs_devs s)(p := None),
      fs_bus := fold remove1 (aux_dev_list fd) (fs_bus s), fs_cdevs := fs_cdevs s - {fd_minor fd},
      fs_enabled := fs_enabled s - {p}\<rparr>"
  using assms by (simp add: nh_fpga_pci_remove_def pci_remove_rest_def pci_remove_aux_def)

lemma pci_remove_unbound: "fs_devs s p = None \<Longrightarrow> nh_fpga_pci_remove p s = s"
  by (simp add: nh_fpga_pci_remove_def pci_remove_rest_def pci_remove_aux_def)

lemma minors_without:
  assumes "minors_ok s" and "fs_devs s p = Some fd"
  shows "fd_minor ` ran ((fs_devs s)(p := None)) = fd_minor ` ran (fs_devs s) - {fd_minor fd}"
proof
  show "fd_minor ` ran ((fs_devs s)(p := None)) \<subseteq> fd_minor ` ran (fs_devs s) - {fd_minor fd}"
  proof
    fix i
    assume "i \<in> fd_minor ` ran ((fs_devs s)(p := None))"
    then obtain q g where g: "q \<noteq> p" "fs_devs s q = Some g" "i = fd_minor g"
      by (auto simp: ran_def split: if_splits)
    with minors_inj [OF assms(1) g(2) assms(2)] have "i \<noteq> fd_minor fd" by auto
    with g show "i \<in> fd_minor ` ran (fs_devs s) - {fd_minor fd}" by (auto intro: ranI)
  qed
  show "fd_minor ` ran (fs_devs s) - {fd_minor fd} \<subseteq> fd_minor ` ran ((fs_devs s)(p := None))"
  proof
    fix i
    assume "i \<in> fd_minor ` ran (fs_devs s) - {fd_minor fd}"
    then obtain q g where g: "fs_devs s q = Some g" "i = fd_minor g" "i \<noteq> fd_minor fd"
      by (auto simp: ran_def)
    with assms(2) have "q \<noteq> p" by auto
    with g have "g \<in> ran ((fs_devs s)(p := None))" by (auto simp: ran_def)
    with g(2) show "i \<in> fd_minor ` ran ((fs_devs s)(p := None))" by blast
  qed
qed

lemma pci_remove_inv:
  assumes "fbiob_inv s"
  shows "fbiob_inv (nh_fpga_pci_remove p s)"
proof (cases "fs_devs s p")
  case None
  with assms show ?thesis by (simp add: pci_remove_unbound)
next
  case (Some fd)
  note I = fbiob_invD [OF assms]
  let ?s = "nh_fpga_pci_remove p s"
  have devs: "fs_devs ?s = (fs_devs s)(p := None)" by (simp add: pci_remove_bound [OF Some])
  have dok: "dev_ok p fd" by (rule I(2) [OF Some])
  then have lt: "fd_minor fd < FBIOB_MAX_DEVICES" by (simp add: dev_ok_def)
  note out = minors_without [OF I(1) Some]
  have sub: "fs_devs s q = Some f" if "((fs_devs s)(p := None)) q = Some f" for q f
    using that by (simp split: if_splits)
  have "minors_unique ?s"
    unfolding minors_unique_cong [OF devs] using minors_inj [OF I(1) sub sub] by blast
  then have "minors_ok ?s"
    using I(1) lt unfolding minors_ok_def devs out
    by (auto simp: pci_remove_bound [OF Some] nh_fpga_put_minor_def nth_list_update)
  moreover have "bus_ok ?s"
  proof -
    have parents: "\<forall>a \<in> set (aux_dev_list fd). ad_parent a = p"
      using aux_list_parent [OF dok] by blast
    have own: "bus_of s p = aux_dev_list fd" using I(3) Some by (simp add: bus_ok_def)
    have "bus_of ?s p = []"
      using filter_fold_remove1(1) [of "aux_dev_list fd" "\<lambda>a. ad_parent a = p" "fs_bus s"] parents own
      by (simp add: bus_of_def pci_remove_bound [OF Some] fold_remove1_self)
    moreover have "bus_of ?s q = bus_of s q" if "q \<noteq> p" for q
      using filter_fold_remove1(2) [of "aux_dev_list fd" "\<lambda>a. ad_parent a = q" "fs_bus s"] parents that
      by (simp add: bus_of_def pci_remove_bound [OF Some])
    ultimately show ?thesis using I(3) by (simp add: bus_ok_def devs)
  qed
  moreover have "dev_ok q f" if "fs_devs ?s q = Some f" for q f
    using that I(2) [of q f] by (simp add: devs split: if_splits)
  ultimately show ?thesis by (simp add: fbiob_inv_def)
qed

lemma fbiob_reach_inv: "fbiob_reach s \<Longrightarrow> fbiob_inv s"
proof (induction rule: fbiob_reach.induct)
  case init
  then show ?case
    by (simp add: fbiob_inv_def minors_ok_def minors_unique_def bus_ok_def bus_of_def fbiob_sys_init_def)
qed (simp_all add: pci_probe_inv sys_ioctl_inv pci_remove_inv)

section \<open>Properties\<close>

lemma ioctl_cmds:
  "IOC_TYPE FBIOB_IOC_NEW_DEVICE = FBIOB_IOC_MAGIC" "IOC_TYPE FBIOB_IOC_DEL_DEVICE = FBIOB_IOC_MAGIC"
  "FBIOB_IOC_DEL_DEVICE \<noteq> FBIOB_IOC_NEW_DEVICE"
  by code_simp+


lemma minor_count:
  assumes "fbiob_inv s"
  shows "(\<forall>i < FBIOB_MAX_DEVICES. minor_bitmap s ! i) \<longleftrightarrow> FBIOB_MAX_DEVICES \<le> card (dom (fs_devs s))"
proof -
  note I = fbiob_invD [OF assms]
  let ?f = "\<lambda>p. fd_minor (the (fs_devs s p))"
  have inj: "inj_on ?f (dom (fs_devs s))"
    by (rule inj_onI) (auto dest: minors_inj [OF I(1)])
  have img: "?f ` dom (fs_devs s) = fd_minor ` ran (fs_devs s)"
    by (force simp: ran_def dom_def)
  have sub: "fd_minor ` ran (fs_devs s) \<subseteq> {..<FBIOB_MAX_DEVICES}"
    using I(2) by (fastforce simp: ran_def dev_ok_def)
  have card: "card (dom (fs_devs s)) = card (fd_minor ` ran (fs_devs s))"
    using card_image [OF inj] img by simp
  have "(\<forall>i < FBIOB_MAX_DEVICES. minor_bitmap s ! i) \<longleftrightarrow> {..<FBIOB_MAX_DEVICES} \<subseteq> fd_minor ` ran (fs_devs s)"
    using I(1) by (auto simp: minors_ok_def)
  also have "\<dots> \<longleftrightarrow> FBIOB_MAX_DEVICES \<le> card (fd_minor ` ran (fs_devs s))"
    using sub card_mono [of "fd_minor ` ran (fs_devs s)" "{..<FBIOB_MAX_DEVICES}"]
      card_subset_eq [of "{..<FBIOB_MAX_DEVICES}" "fd_minor ` ran (fs_devs s)"]
      card_mono [OF _ sub] finite_subset [OF sub]
    by (metis card_lessThan finite_lessThan le_antisym subset_refl)
  finally show ?thesis by (simp add: card)
qed

text \<open>Kernel services that all succeed.\<close>

definition pci_env_ok :: pci_env where
  "pci_env_ok = \<lparr>pe_alloc = True, pe_enable = None, pe_iomap = True, pe_devm_unmap = None,
     pe_dma64 = None, pe_dma32 = None, pe_vectors = None, pe_devm_vectors = None, pe_irq = irq_env_ok,
     pe_clk_name = True, pe_clk = None, pe_cdev = None, pe_device = None\<rparr>"

lemma setup_irq_ok: "\<exists>fi. nh_fpga_setup_i2c_interrupts pci_env_ok d m = Inr fi"
proof -
  have "nh_fpga_irq_init irq_env_ok (no_irq\<lparr>fi_cfg := Some cfg\<rparr>) \<noteq> Inl e" for cfg e
    using irq_init_ok [of "no_irq\<lparr>fi_cfg := Some cfg\<rparr>" cfg] by auto
  then show ?thesis
    by (auto simp: nh_fpga_setup_i2c_interrupts_def pci_env_ok_def split: option.split sum.split)
qed

text \<open>
  C15: Probing an FPGA either fails and leaves the driver exactly as it was, minor bitmap, character
  devices, PCI state and buses alike, or succeeds, and then its removal restores that state;
  with working kernel services it succeeds exactly when fewer than 16 FPGAs are bound, and fails
  with \<open>ENOSPC\<close> otherwise.
\<close>

theorem pci_probe_remove:
  assumes "fbiob_reach s" and "fs_devs s pdev = None"
  shows "(case nh_fpga_pci_probe env pdev device_id mmio_len m s of
        (Inl _, s') \<Rightarrow> s' = s
      | (Inr _, s') \<Rightarrow> nh_fpga_pci_remove pdev s' = s)
    \<and> (if card (dom (fs_devs s)) < FBIOB_MAX_DEVICES
       then fst (nh_fpga_pci_probe pci_env_ok pdev device_id mmio_len m s) = Inr ()
       else fst (nh_fpga_pci_probe pci_env_ok pdev device_id mmio_len m s) = Inl ENOSPC)"
proof
  have inv: "fbiob_inv s" by (rule fbiob_reach_inv [OF assms(1)])
  note U = unbound [OF inv assms(2)]
  have undo: "nh_fpga_pci_remove pdev (pci_bound pdev device_id mmio_len minor fi s) = s"
    if "minor < FBIOB_MAX_DEVICES" "\<not> minor_bitmap s ! minor" for minor fi
  proof -
    have "(fs_devs s)(pdev := None) = fs_devs s" by (rule fun_upd_idem) (rule assms(2))
    moreover have "insert pdev (fs_enabled s) - {pdev} = fs_enabled s" using U(1) by auto
    moreover have "insert minor (fs_cdevs s) - {minor} = fs_cdevs s" using U(4) that(2) by auto
    ultimately show ?thesis
      using put_get_minor [OF that] by (simp add: pci_remove_bound pci_bound_def)
  qed
  from pci_probe_cases [OF U(3,1,4), of env device_id mmio_len m] undo
  show "case nh_fpga_pci_probe env pdev device_id mmio_len m s of
        (Inl _, s') \<Rightarrow> s' = s
      | (Inr _, s') \<Rightarrow> nh_fpga_pci_remove pdev s' = s"
    by auto
  obtain fi where fi: "nh_fpga_setup_i2c_interrupts pci_env_ok device_id m = Inr fi"
    using setup_irq_ok by blast
  show "if card (dom (fs_devs s)) < FBIOB_MAX_DEVICES
       then fst (nh_fpga_pci_probe pci_env_ok pdev device_id mmio_len m s) = Inr ()
       else fst (nh_fpga_pci_probe pci_env_ok pdev device_id mmio_len m s) = Inl ENOSPC"
  proof (cases "nh_fpga_get_minor (minor_bitmap s)")
    case (Pair r bm)
    then show ?thesis
      using get_minor_full [OF U(3)] minor_count [OF inv] get_minor_Inl [of "minor_bitmap s" _ bm] fi
      by (cases r) (auto simp: nh_fpga_pci_probe_def Let_def not_le pci_env_ok_def)
  qed
qed

lemma remove1_append_fresh: "a \<notin> set xs \<Longrightarrow> remove1 a (xs @ [a]) = xs"
  by (induction xs) auto

lemma unlink_first_append:
  "\<not> list_ex P xs \<Longrightarrow> P a \<Longrightarrow> unlink_first P (xs @ [a]) = (Some a, xs)"
  by (induction xs) auto

text \<open>A creation that succeeded, spelt out.\<close>

lemma sys_new_Inr:
  assumes "fs_devs s p = Some fd" and "sys_ioctl env p FBIOB_IOC_NEW_DEVICE (Some d) s = (Inr (), s')"
  shows "\<not> offsets_bad fd (terminate_id d)
    \<and> \<not> list_ex (same_aux_id (ax_id (terminate_id d))) (aux_dev_list fd)
    \<and> s' = s\<lparr>fs_devs := (fs_devs s)(p := Some (fd\<lparr>aux_dev_list := aux_dev_list fd @ [aux_dev_for fd (terminate_id d)]\<rparr>)),
            fs_bus := fs_bus s @ [aux_dev_for fd (terminate_id d)]\<rparr>"
  using assms
  by (auto simp: sys_ioctl_def fbiob_ioctl_def ioctl_cmds nh_fpga_create_aux_device_def Let_def
      split: if_splits option.splits)

text \<open>
  C16: Creating an auxiliary device over the character device and deleting it again under the same
  name and id restores the driver's state exactly, whatever else exists; while it exists, a
  second creation under that name and id is refused with \<open>EEXIST\<close>, after its deletion a second
  deletion with \<open>ENODEV\<close>. Names are compared as C strings, so bytes after the terminator do not
  matter.
\<close>

theorem aux_new_then_delete:
  assumes "fbiob_reach s" and "fs_devs s p = Some fd"
    and "sys_ioctl env p FBIOB_IOC_NEW_DEVICE (Some d) s = (Inr (), s')"
    and "ax_id (terminate_id d') = ax_id (terminate_id d)"
  shows "sys_ioctl env' p FBIOB_IOC_DEL_DEVICE (Some d') s' = (Inr (), s)
    \<and> fst (sys_ioctl env' p FBIOB_IOC_NEW_DEVICE (Some d) s') = Inl EEXIST
    \<and> sys_ioctl env' p FBIOB_IOC_DEL_DEVICE (Some d') s = (Inl ENODEV, s)"
proof -
  note I = fbiob_invD [OF fbiob_reach_inv [OF assms(1)]]
  from sys_new_Inr [OF assms(2,3)] have N: "\<not> offsets_bad fd (terminate_id d)"
    "\<not> list_ex (same_aux_id (ax_id (terminate_id d))) (aux_dev_list fd)"
    and s': "s' = s\<lparr>fs_devs := (fs_devs s)(p := Some (fd\<lparr>aux_dev_list := aux_dev_list fd @ [aux_dev_for fd (terminate_id d)]\<rparr>)),
            fs_bus := fs_bus s @ [aux_dev_for fd (terminate_id d)]\<rparr>" by blast+
  let ?a = "aux_dev_for fd (terminate_id d)"
  have same: "same_aux_id (ax_id (terminate_id d)) ?a"
    by (simp add: same_aux_id_def aux_dev_for_def)
  have del: "unlink_first (same_aux_id (ax_id (terminate_id d))) (aux_dev_list fd @ [?a]) = (Some ?a, aux_dev_list fd)"
    by (rule unlink_first_append [OF N(2) same])
  have "?a \<notin> set (fs_bus s)"
  proof
    assume "?a \<in> set (fs_bus s)"
    moreover have "ad_parent ?a = p" using I(2) [OF assms(2)] by (simp add: aux_dev_for_def dev_ok_def)
    ultimately have "?a \<in> set (bus_of s p)" by (simp add: bus_of_def)
    then have "?a \<in> set (aux_dev_list fd)" using I(3) assms(2) by (simp add: bus_ok_def)
    with N(2) same show False by (auto simp: list_ex_iff)
  qed
  then have bus: "remove1 ?a (fs_bus s @ [?a]) = fs_bus s" by (rule remove1_append_fresh)
  have devs: "(fs_devs s)(p := Some fd) = fs_devs s" by (rule fun_upd_idem) (rule assms(2))
  have "sys_ioctl env' p FBIOB_IOC_DEL_DEVICE (Some d') s' = (Inr (), s)"
    unfolding s'
    by (simp add: sys_ioctl_def fbiob_ioctl_def ioctl_cmds nh_fpga_remove_aux_device_def assms(4) del bus devs)
  moreover have "fst (sys_ioctl env' p FBIOB_IOC_NEW_DEVICE (Some d) s') = Inl EEXIST"
    unfolding s' using N(1) same
    by (simp add: sys_ioctl_def fbiob_ioctl_def ioctl_cmds nh_fpga_create_aux_device_def Let_def
        offsets_bad_def)
  moreover have "sys_ioctl env' p FBIOB_IOC_DEL_DEVICE (Some d') s = (Inl ENODEV, s)"
  proof (cases "unlink_first (same_aux_id (ax_id (terminate_id d))) (aux_dev_list fd)")
    case (Pair x ys)
    with N(2) unlink_first_None [of "same_aux_id (ax_id (terminate_id d))" "aux_dev_list fd"]
    have "x = None" by (simp add: list_ex_iff)
    with Pair show ?thesis
      by (simp add: sys_ioctl_def fbiob_ioctl_def ioctl_cmds nh_fpga_remove_aux_device_def assms(2,4) devs)
  qed
  ultimately show ?thesis by blast
qed

definition aux_env_ok :: aux_env where
  "aux_env_ok = \<lparr>ae_alloc = True, ae_init = None, ae_add = None\<rparr>"


section \<open>Witnesses\<close>

definition one_fpga_sys :: fbiob_sys where
  "one_fpga_sys = snd (nh_fpga_pci_probe pci_env_ok 3 NH_FPGA_DEVICE_M4340NHP 0x100000
     \<lparr>regs = \<lambda>_. 0, wlog = []\<rparr> fbiob_sys_init)"

lemma one_fpga_devs:
  "\<exists>fi. fs_devs one_fpga_sys 3 = Some \<lparr>fd_pdev = 3, fd_device_id = NH_FPGA_DEVICE_M4340NHP,
     fd_mmio_len = 0x100000, fd_minor = 0, aux_dev_list = [], fd_irq = fi\<rparr>"
proof -
  obtain fi where fi: "nh_fpga_setup_i2c_interrupts pci_env_ok NH_FPGA_DEVICE_M4340NHP \<lparr>regs = \<lambda>_. 0, wlog = []\<rparr> = Inr fi"
    using setup_irq_ok by blast
  have m0: "nh_fpga_get_minor (replicate FBIOB_MAX_DEVICES False) =
      (Inr 0, (replicate FBIOB_MAX_DEVICES False)[0 := True])"
    by (simp add: nh_fpga_get_minor_def find_first_zero_bit_def Let_def FBIOB_MAX_DEVICES_def)
  show ?thesis
    using fi m0 by (simp add: one_fpga_sys_def nh_fpga_pci_probe_def fbiob_sys_init_def Let_def pci_env_ok_def)
qed

lemma one_fpga:
  "\<exists>s fi. fbiob_reach s \<and> fs_devs s 3 = Some \<lparr>fd_pdev = 3, fd_device_id = NH_FPGA_DEVICE_M4340NHP,
     fd_mmio_len = 0x100000, fd_minor = 0, aux_dev_list = [], fd_irq = fi\<rparr>"
proof -
  have "fbiob_reach one_fpga_sys"
    unfolding one_fpga_sys_def by (rule fbiob_reach.probe [OF fbiob_reach.init]) (simp add: fbiob_sys_init_def)
  with one_fpga_devs show ?thesis by blast
qed

definition fbiob_wit_data :: fbiob_aux_data where
  "fbiob_wit_data = \<lparr>ax_id = \<lparr>aux_name = ''fan_ctrl'', aux_id = 1\<rparr>, ax_csr_offset = 0x2000,
     ax_iobuf_offset = FBIOB_INVALID_OFFSET, ax_words = [5]\<rparr>"

lemma fbiob_wit_offsets: "fd_mmio_len fd = 0x100000 \<Longrightarrow> \<not> offsets_bad fd (terminate_id fbiob_wit_data)"
  by (simp add: offsets_bad_def terminate_id_def fbiob_wit_data_def)


theorem pci_probe_remove_witness:
  "fst (nh_fpga_pci_probe pci_env_ok 3 NH_FPGA_DEVICE_CF2 0x80000 \<lparr>regs = \<lambda>_. 0, wlog = []\<rparr> fbiob_sys_init)
    = Inr ()"
  using pci_probe_remove [OF fbiob_reach.init, where pdev = 3 and env = pci_env_ok
      and device_id = NH_FPGA_DEVICE_CF2 and mmio_len = "0x80000" and m = "\<lparr>regs = \<lambda>_. 0, wlog = []\<rparr>"]
  by (simp add: fbiob_sys_init_def FBIOB_MAX_DEVICES_def)

theorem aux_new_then_delete_witness:
  "\<exists>s s'. sys_ioctl aux_env_ok 3 FBIOB_IOC_NEW_DEVICE (Some fbiob_wit_data) s = (Inr (), s')
    \<and> sys_ioctl aux_env_ok 3 FBIOB_IOC_DEL_DEVICE (Some fbiob_wit_data) s' = (Inr (), s)"
proof -
  obtain s fi where s: "fbiob_reach s" "fs_devs s 3 = Some \<lparr>fd_pdev = 3, fd_device_id = NH_FPGA_DEVICE_M4340NHP,
     fd_mmio_len = 0x100000, fd_minor = 0, aux_dev_list = [], fd_irq = fi\<rparr>"
    using one_fpga by blast
  obtain s' where s': "sys_ioctl aux_env_ok 3 FBIOB_IOC_NEW_DEVICE (Some fbiob_wit_data) s = (Inr (), s')"
    using s(2) fbiob_wit_offsets
    by (simp add: sys_ioctl_def fbiob_ioctl_def ioctl_cmds nh_fpga_create_aux_device_def Let_def aux_env_ok_def)
  from aux_new_then_delete [OF s(1,2) s' refl, of aux_env_ok] s' show ?thesis by blast
qed


end
