(* ===== verification/Fbiob_Files.thy ===== *)
theory Fbiob_Files
  imports Fbiob_Props
begin

text \<open>
  The character device of \<open>kmods/nh_fpga_fbiob_main.c\<close> from the side of its open files.
  \<open>fbiob_open\<close> stores a pointer to the driver data of the FPGA in the file. The driver data belongs
  to devres and is freed when the driver is unbound, but the file may live on: deleting a character
  device takes it from new openers only.
\<close>

section \<open>State\<close>

text \<open>
  \<open>ff_made\<close> counts the driver data structures that probe has allocated for a device; the last one
  is live while the device is bound. A file's \<open>private_data\<close> is a structure: the device and the
  structure's number. \<open>ff_fault\<close>: a structure that has been freed was accessed.
\<close>

record fbiob_files =
  ff_sys :: fbiob_sys
  ff_made :: "pci_id \<Rightarrow> nat"
  ff_open :: "nat \<Rightarrow> (pci_id \<times> nat) option"
  ff_fault :: bool

definition fbiob_files_init :: fbiob_files where
  "fbiob_files_init = \<lparr>ff_sys = fbiob_sys_init, ff_made = (\<lambda>_. 0), ff_open = (\<lambda>_. None), ff_fault = False\<rparr>"

definition data_live :: "fbiob_files \<Rightarrow> pci_id \<times> nat \<Rightarrow> bool" where
  "data_live s d = (fs_devs (ff_sys s) (fst d) \<noteq> None \<and> ff_made s (fst d) = snd d)"

section \<open>File operations\<close>

definition fbiob_open :: "nat \<Rightarrow> pci_id \<Rightarrow> fbiob_files \<Rightarrow> unit result \<times> fbiob_files" where
  "fbiob_open f pdev s = (Inr (), s\<lparr>ff_open := (ff_open s)(f := Some (pdev, ff_made s pdev))\<rparr>)"

definition fbiob_release :: "nat \<Rightarrow> fbiob_files \<Rightarrow> unit result \<times> fbiob_files" where
  "fbiob_release f s = (Inr (), s\<lparr>ff_open := (ff_open s)(f := None)\<rparr>)"

text \<open>
  \<open>fbiob_ioctl\<close> with the file's \<open>private_data\<close>. A command that is none of the driver's is refused
  before anything is accessed; the two others go through the pointer in every case.
\<close>

definition file_ioctl ::
    "aux_env \<Rightarrow> pci_id \<times> nat \<Rightarrow> u32 \<Rightarrow> fbiob_aux_data option \<Rightarrow> fbiob_files \<Rightarrow> unit result \<times> fbiob_files" where
  "file_ioctl env d cmd arg s =
     (if IOC_TYPE cmd \<noteq> FBIOB_IOC_MAGIC \<or> cmd \<noteq> FBIOB_IOC_NEW_DEVICE \<and> cmd \<noteq> FBIOB_IOC_DEL_DEVICE
      then (Inl ENOTTY, s)
      else if \<not> data_live s d then (Inl EIO, s\<lparr>ff_fault := True\<rparr>)
      else (case sys_ioctl env (fst d) cmd arg (ff_sys s) of (r, sys) \<Rightarrow> (r, s\<lparr>ff_sys := sys\<rparr>)))"

section \<open>Runs\<close>

text \<open>
  Probe allocates a new structure. A file is opened while the device is bound. With \<open>careful\<close> a
  device is removed only when no file of it is open.
\<close>

definition files_of :: "fbiob_files \<Rightarrow> pci_id \<Rightarrow> nat set" where
  "files_of s p = {f. \<exists>g. ff_open s f = Some (p, g)}"

inductive files_step :: "bool \<Rightarrow> fbiob_files \<Rightarrow> fbiob_files \<Rightarrow> bool"
  for careful where
  f_probe: "fs_devs (ff_sys s) p = None \<Longrightarrow>
    files_step careful s (s\<lparr>ff_sys := snd (nh_fpga_pci_probe env p device_id len m (ff_sys s)),
                            ff_made := (ff_made s)(p := ff_made s p + 1)\<rparr>)"
| f_open: "fs_devs (ff_sys s) p \<noteq> None \<Longrightarrow> ff_open s f = None \<Longrightarrow> files_step careful s (snd (fbiob_open f p s))"
| f_ioctl: "ff_open s f = Some d \<Longrightarrow> files_step careful s (snd (file_ioctl env d cmd arg s))"
| f_release: "files_step careful s (snd (fbiob_release f s))"
| f_remove: "careful \<longrightarrow> files_of s p = {} \<Longrightarrow>
    files_step careful s (s\<lparr>ff_sys := nh_fpga_pci_remove p (ff_sys s)\<rparr>)"

inductive_cases files_stepE: "files_step careful s t"

abbreviation files_reach :: "bool \<Rightarrow> fbiob_files \<Rightarrow> bool" where
  "files_reach careful s \<equiv> (files_step careful)\<^sup>*\<^sup>* fbiob_files_init s"

section \<open>Which devices are bound\<close>

lemma probe_devs:
  assumes "p \<noteq> q"
  shows "fs_devs (snd (nh_fpga_pci_probe env p device_id len m s)) q = fs_devs s q"
  using assms
  by (auto simp: nh_fpga_pci_probe_def Let_def err_put_minor_def err_disable_device_def err_del_cdev_def
      split: prod.split sum.split option.split)

lemma remove_devs: "fs_devs (nh_fpga_pci_remove p s) q = (if q = p then None else fs_devs s q)"
  by (auto simp: nh_fpga_pci_remove_def pci_remove_rest_def pci_remove_aux_def split: option.split)

lemma sys_ioctl_devs: "fs_devs (snd (sys_ioctl env p cmd arg s)) q = None \<longleftrightarrow> fs_devs s q = None"
  by (auto simp: sys_ioctl_def split: option.split prod.split)

lemma file_ioctl_frame:
  "ff_open (snd (file_ioctl env d cmd arg s)) = ff_open s" "ff_made (snd (file_ioctl env d cmd arg s)) = ff_made s"
  "fs_devs (ff_sys (snd (file_ioctl env d cmd arg s))) q = None \<longleftrightarrow> fs_devs (ff_sys s) q = None"
  using sys_ioctl_devs [of env "fst d" cmd arg "ff_sys s" q]
  by (auto simp: file_ioctl_def split: prod.split)

lemmas files_frame = probe_devs remove_devs file_ioctl_frame fbiob_open_def fbiob_release_def


section \<open>Without an open file nothing is left behind\<close>

lemma files_step_sys:
  assumes "files_step careful s t" and "fbiob_reach (ff_sys s)"
  shows "fbiob_reach (ff_sys t)"
  using assms
proof cases
  case (f_ioctl f d env cmd arg)
  then show ?thesis
    using assms(2) fbiob_reach.ioctl [OF assms(2), of env "fst d" cmd arg]
    by (auto simp: file_ioctl_def split: prod.split)
qed (auto simp: files_frame intro: fbiob_reach.intros)

lemma files_reach_sys: "files_reach careful s \<Longrightarrow> fbiob_reach (ff_sys s)"
  by (induction rule: rtranclp_induct) (auto simp: fbiob_files_init_def intro: fbiob_reach.init files_step_sys)

definition files_ok :: "fbiob_files \<Rightarrow> bool" where
  "files_ok s = (\<not> ff_fault s \<and> (\<forall>f d. ff_open s f = Some d \<longrightarrow> data_live s d))"

lemma files_step_ok:
  assumes "files_step True s t" and "files_ok s"
  shows "files_ok t"
  using assms(1)
proof cases
  case (f_ioctl f d env cmd arg)
  with assms(2) have l: "data_live s d" and n: "\<not> ff_fault s" by (auto simp only: files_ok_def)
  then have "\<not> ff_fault t" using f_ioctl(1) by (auto simp: file_ioctl_def split: prod.split)
  with assms(2) f_ioctl(1) show ?thesis
    using file_ioctl_frame [of env d cmd arg s] by (simp add: files_ok_def data_live_def)
qed (use assms(2) in \<open>fastforce simp: files_ok_def data_live_def files_frame files_of_def split: if_splits\<close>)+

text \<open>
  C21: If a device is unbound only while no file of it is open, then whatever order probes, opens,
  ioctls, closes and removals come in, no ioctl ever goes through driver data that has been freed,
  and every open file leads to the live data of a bound device.
\<close>

theorem files_closed_no_uaf:
  assumes "files_reach True s"
  shows "\<not> ff_fault s \<and> (\<forall>f p g. ff_open s f = Some (p, g) \<longrightarrow> fs_devs (ff_sys s) p \<noteq> None \<and> ff_made s p = g)"
proof -
  from assms have "files_ok s"
    by (induction rule: rtranclp_induct) (simp add: fbiob_files_init_def files_ok_def, rule files_step_ok)
  then show ?thesis by (auto simp: files_ok_def data_live_def)
qed

section \<open>A file that outlives its device\<close>

text \<open>Structure \<open>g\<close> of the device has been freed, and stays freed.\<close>

definition data_freed :: "fbiob_files \<Rightarrow> pci_id \<Rightarrow> nat \<Rightarrow> bool" where
  "data_freed s p g = (g < ff_made s p \<or> g = ff_made s p \<and> fs_devs (ff_sys s) p = None)"

lemma files_step_freed: "files_step careful s t \<Longrightarrow> data_freed s p g \<Longrightarrow> data_freed t p g"
  by (erule files_stepE) (auto simp: data_freed_def files_frame)

lemma files_reach_made:
  assumes "files_reach careful s" and "ff_open s f = Some (p, g)"
  shows "g \<le> ff_made s p"
proof -
  have "\<forall>f p g. ff_open s f = Some (p, g) \<longrightarrow> g \<le> ff_made s p"
    using assms(1)
  proof (induction rule: rtranclp_induct)
    case (step s t)
    from step.hyps(2) step.IH show ?case
      by cases (auto simp: files_frame le_SucI split: if_splits)
  qed (simp add: fbiob_files_init_def)
  with assms(2) show ?thesis by blast
qed

text \<open>
  C22: Nothing keeps a device from being unbound while a file of it is open, and the file then holds
  a pointer to freed memory: from then on every NEW_DEVICE or DEL_DEVICE ioctl on it, whatever
  happens in between (the device may be bound again), accesses driver data that has been freed.
\<close>

theorem ioctl_after_remove_faults:
  assumes r: "files_reach False s" and f: "ff_open s f = Some (p, g)"
    and u: "(files_step False)\<^sup>*\<^sup>* (s\<lparr>ff_sys := nh_fpga_pci_remove p (ff_sys s)\<rparr>) u"
    and cmd: "cmd = FBIOB_IOC_NEW_DEVICE \<or> cmd = FBIOB_IOC_DEL_DEVICE"
  shows "ff_fault (snd (file_ioctl env (p, g) cmd arg u))"
proof -
  from u have "data_freed u p g"
  proof (induction rule: rtranclp_induct)
    case base
    with files_reach_made [OF r f] show ?case by (auto simp: data_freed_def remove_devs)
  qed (rule files_step_freed)
  then have "\<not> data_live u (p, g)" by (auto simp: data_freed_def data_live_def)
  moreover have "IOC_TYPE cmd = FBIOB_IOC_MAGIC" using cmd by (auto simp: ioctl_cmds)
  ultimately show ?thesis using cmd by (auto simp: file_ioctl_def)
qed


section \<open>Witnesses\<close>

definition one_file :: fbiob_files where
  "one_file = \<lparr>ff_sys = one_fpga_sys, ff_made = (\<lambda>_. 0)(3 := 1), ff_open = (\<lambda>_. None)(7 := Some (3, 1)), ff_fault = False\<rparr>"

lemma one_file_reach: "files_reach careful one_file"
proof -
  let ?s = "fbiob_files_init\<lparr>ff_sys := one_fpga_sys, ff_made := (ff_made fbiob_files_init)(3 := ff_made fbiob_files_init 3 + 1)\<rparr>"
  have "fs_devs (ff_sys fbiob_files_init) 3 = None" by (simp add: fbiob_files_init_def fbiob_sys_init_def)
  from f_probe [OF this, of careful pci_env_ok NH_FPGA_DEVICE_M4340NHP "0x100000" "\<lparr>regs = \<lambda>_. 0, wlog = []\<rparr>"]
  have 1: "files_step careful fbiob_files_init ?s" by (simp add: one_fpga_sys_def fbiob_files_init_def)
  have "files_step careful ?s (snd (fbiob_open 7 3 ?s))"
    using one_fpga_devs by (intro f_open) (auto simp: fbiob_files_init_def)
  moreover have "snd (fbiob_open 7 3 ?s) = one_file" by (simp add: fbiob_open_def one_file_def fbiob_files_init_def)
  ultimately show ?thesis using 1 by (metis converse_rtranclp_into_rtranclp r_into_rtranclp)
qed

theorem files_closed_no_uaf_witness:
  "files_reach True one_file \<and> ff_open one_file 7 = Some (3, 1) \<and> fs_devs (ff_sys one_file) 3 \<noteq> None"
proof -
  have o: "ff_open one_file 7 = Some (3, 1)" by (simp add: one_file_def)
  with files_closed_no_uaf [OF one_file_reach] one_file_reach show ?thesis by blast
qed

theorem ioctl_after_remove_faults_witness:
  "\<not> ff_fault one_file
   \<and> ff_fault (snd (file_ioctl aux_env_ok (3, 1) FBIOB_IOC_NEW_DEVICE (Some fbiob_wit_data)
       (one_file\<lparr>ff_sys := nh_fpga_pci_remove 3 (ff_sys one_file)\<rparr>)))"
  using ioctl_after_remove_faults [OF one_file_reach, of 7 3 1] by (simp add: one_file_def)

end
