(* ===== verification/I2c_Main.thy ===== *)
theory I2c_Main
  imports I2c_Mux Fbiob
begin

text \<open>
  \<open>kmods/nh_fpga_i2c_main.c\<close>: the driver of the I2C master controllers. For each auxiliary device
  it registers a child platform device for the Xilinx I2C driver and, through a notifier on the
  I2C bus, renames the adapters, creates the compatibility symlinks and the mux client.

  Kernel services are the parameter \<open>i2c_env\<close>. Auxiliary devices, clients and adapters are named
  by numbers; the place of a device in the device tree is the list of its ancestors.
\<close>

definition NH_FPGA_I2C_BLOCK_BASE :: u32 where "NH_FPGA_I2C_BLOCK_BASE = 0x40000"
definition NH_FPGA_I2C_MASTER_STRIDE :: u32 where "NH_FPGA_I2C_MASTER_STRIDE = 0x200"

definition BP4F_XIIC_PDEV_NAME :: string where "BP4F_XIIC_PDEV_NAME = ''bp4f-xiic-i2c''"

section \<open>State\<close>

text \<open>The child platform device: its resources and its software node's \<open>clock-frequency\<close>.\<close>

record xiic_pdev =
  xp_id :: u32
  xp_mem_start :: nat
  xp_mem_size :: nat
  xp_irq :: s32
  xp_clock_frequency :: "u32 option"

record nh_fpga_i2c =
  mux_client :: "nat option"
  i2c_mux_reg :: "addr option"
  num_mux_channels :: s32
  mux_pdata :: fpga_mux_platform_data
  ic_pdev :: "xiic_pdev option"
  ic_clk :: "string option"
  master_bus_num :: "nat option"

text \<open>
  \<open>nh_fpga_xiic_pdev_id\<close>, the driver data and the symlinks of every auxiliary device, the clock
  lookups and the platform devices registered.
\<close>

record i2c_sys =
  pdev_counter :: u32
  i2c_drvdata :: "nat \<Rightarrow> nh_fpga_i2c option"
  aux_links :: "nat \<Rightarrow> string set"
  clk_lookups :: "string set"
  xiic_pdevs :: "xiic_pdev set"

definition i2c_sys_init :: i2c_sys where
  "i2c_sys_init = \<lparr>pdev_counter = 0, i2c_drvdata = (\<lambda>_. None), aux_links = (\<lambda>_. {}),
     clk_lookups = {}, xiic_pdevs = {}\<rparr>"

section \<open>Mux support\<close>

definition no_pdata :: fpga_mux_platform_data where
  "no_pdata = \<lparr>md_mux_reg = None, md_num_channels = 0, md_pdev = 0, md_logical_master = 0\<rparr>"

definition i2c_new :: nh_fpga_i2c where
  "i2c_new = \<lparr>mux_client = None, i2c_mux_reg = None, num_mux_channels = 0, mux_pdata = no_pdata,
     ic_pdev = None, ic_clk = None, master_bus_num = None\<rparr>"

definition configure_mux_support :: "pci_id \<Rightarrow> u16 \<Rightarrow> u32 \<Rightarrow> nh_fpga_i2c \<Rightarrow> nh_fpga_i2c" where
  "configure_mux_support pdev device_id csr_offset i2c =
     (let i2c = i2c\<lparr>num_mux_channels := 0, i2c_mux_reg := None, mux_client := None\<rparr>
      in if csr_offset < NH_FPGA_I2C_BLOCK_BASE then i2c
         else if (csr_offset - NH_FPGA_I2C_BLOCK_BASE) mod NH_FPGA_I2C_MASTER_STRIDE \<noteq> 0 then i2c
         else
           let logical_master = (csr_offset - NH_FPGA_I2C_BLOCK_BASE) div NH_FPGA_I2C_MASTER_STRIDE
           in case nh_get_platform device_id of
                None \<Rightarrow> i2c
              | Some cfg \<Rightarrow>
                (case mux_cfg cfg of
                   None \<Rightarrow> i2c
                 | Some tab \<Rightarrow>
                   (case find (\<lambda>r. mc_logical_master r = logical_master) (take (unat (mux_count cfg)) tab) of
                      None \<Rightarrow> i2c
                    | Some r \<Rightarrow>
                        i2c\<lparr>num_mux_channels := num_channels r, i2c_mux_reg := Some (unat (reg_offset r)),
                            mux_pdata := \<lparr>md_mux_reg = Some (unat (reg_offset r)),
                              md_num_channels = num_channels r, md_pdev = pdev,
                              md_logical_master = ucast logical_master\<rparr>\<rparr>)))"

section \<open>Probe\<close>

record i2c_env =
  ip_alloc :: bool
  ip_clkdev :: bool
  ip_pdev_alloc :: bool
  ip_add_resources :: "errno option"
  ip_swnode :: "errno option"
  ip_pdev_add :: "errno option"

definition clk_alias :: "u32 \<Rightarrow> string" where
  "clk_alias pdev_id = BP4F_XIIC_PDEV_NAME @ ''.'' @ dec_int (sint pdev_id)"

text \<open>The child device: its memory window in BAR 0, its interrupt, and the bus frequency asked for.\<close>

definition xiic_pdev_for :: "nat \<Rightarrow> nh_fpga_pci_dev \<Rightarrow> fbiob_aux_data \<Rightarrow> u32 \<Rightarrow> s32 \<Rightarrow> xiic_pdev" where
  "xiic_pdev_for bar0 fd info pdev_id virq =
     \<lparr>xp_id = pdev_id, xp_mem_start = bar0 + unat (ax_csr_offset info),
      xp_mem_size = unat (i2c_csr_channel_size (the (fi_cfg (fd_irq fd)))), xp_irq = virq,
      xp_clock_frequency = (if i2c_bus_freq_hz info \<noteq> 0 then Some (i2c_bus_freq_hz info) else None)\<rparr>"

text \<open>
  \<open>fd\<close> is the parent FPGA, \<open>bar0\<close> the bus address of its BAR 0. The notifier may run from the
  moment the platform device is added; it is modelled as a step of its own.
\<close>

definition nh_fpga_i2c_probe ::
    "i2c_env \<Rightarrow> (nat \<Rightarrow> u8 \<Rightarrow> s32 result) \<Rightarrow> nat \<Rightarrow> nh_fpga_pci_dev \<Rightarrow> nat \<Rightarrow> nh_fpga_aux_dev \<Rightarrow> i2c_sys \<Rightarrow>
     unit result \<times> i2c_sys" where
  "nh_fpga_i2c_probe env get_virq bar0 fd aux adev s =
     (if \<not> ip_alloc env then (Inl ENOMEM, s)
      else
        let csr_offset = ax_csr_offset (dev_info adev);
            i2c = configure_mux_support (fd_pdev fd) (fd_device_id fd) csr_offset i2c_new
        in case nh_fpga_resolve_master_irq_clk get_virq (fd_irq fd) csr_offset of
             Inl e \<Rightarrow> (Inl e, s)
           | Inr (virq, clk_hw) \<Rightarrow>
               let pdev_id = pdev_counter s + 1;
                   s = s\<lparr>pdev_counter := pdev_id\<rparr>
               in if \<not> ip_clkdev env then (Inl ENOMEM, s)
                  else if \<not> ip_pdev_alloc env then (Inl ENOMEM, s)
                  else
                    (case ip_add_resources env of
                       Some e \<Rightarrow> (Inl e, s)
                     | None \<Rightarrow>
                         let freq = i2c_bus_freq_hz (dev_info adev);
                             swnode = (if freq \<noteq> 0 then ip_swnode env else None)
                         in case swnode of
                              Some e \<Rightarrow> (Inl e, s)
                            | None \<Rightarrow>
                              (case ip_pdev_add env of
                                 Some e \<Rightarrow> (Inl e, s\<lparr>i2c_drvdata := (i2c_drvdata s)(aux := None)\<rparr>)
                               | None \<Rightarrow>
                                   let pd = xiic_pdev_for bar0 fd (dev_info adev) pdev_id virq
                                   in (Inr (),
                                       s\<lparr>clk_lookups := insert (clk_alias pdev_id) (clk_lookups s),
                                         xiic_pdevs := insert pd (xiic_pdevs s),
                                         i2c_drvdata := (i2c_drvdata s)(aux := Some
                                           (i2c\<lparr>ic_pdev := Some pd, ic_clk := Some (clk_alias pdev_id)\<rparr>))\<rparr>))))"

section \<open>The bus notifier\<close>

text \<open>An ancestor of a device: the auxiliary device it is when our driver is bound to it, and
  the platform device it is.\<close>

record dev_node =
  nd_aux :: "nat option"
  nd_pdev :: "xiic_pdev option"

definition nh_fpga_i2c_find_owning_aux :: "dev_node list \<Rightarrow> nat \<Rightarrow> nat option" where
  "nh_fpga_i2c_find_owning_aux path max_depth =
     (case find (\<lambda>n. nd_aux n \<noteq> None) (take max_depth path) of None \<Rightarrow> None | Some n \<Rightarrow> nd_aux n)"

fun strstr :: "string \<Rightarrow> string \<Rightarrow> string option" where
  "strstr [] pat = (if pat = [] then Some [] else None)"
| "strstr (c # s) pat = (if take (length pat) (c # s) = pat then Some (c # s) else strstr s pat)"

text \<open>\<open>sscanf\<close> with the format \<open>i2c-%*d-mux (chan_id %d)\<close>.\<close>

definition scan_mux_name :: "string \<Rightarrow> s32 option" where
  "scan_mux_name s =
     (if take 4 s \<noteq> ''i2c-'' then None
      else
        let r = drop 4 s;
            r = (if r \<noteq> [] \<and> hd r = CHR ''-'' then tl r else r)
        in if takeWhile is_digit r = [] then None
           else sscanf_d ''-mux (chan_id '' (dropWhile is_digit r))"

definition nh_fpga_i2c_chan_id :: "string \<Rightarrow> s32" where
  "nh_fpga_i2c_chan_id name =
     (case Option.bind (strstr name '' Channel #'') (sscanf_d '' Channel #'') of
        Some i \<Rightarrow> i
      | None \<Rightarrow> (case scan_mux_name name of Some i \<Rightarrow> i | None \<Rightarrow> -1))"

definition i2c_link :: "nat \<Rightarrow> string" where
  "i2c_link nr = snprintf_n 16 (''i2c-'' @ dec nr)"

definition master_adapter_name :: "string \<Rightarrow> u32 \<Rightarrow> string" where
  "master_adapter_name pci_name i =
     snprintf_n adapter_name_size (''FPGA '' @ pci_name @ '' I2C Adapter #'' @ dec_int (sint i))"

datatype notify_result = NOTIFY_DONE | NOTIFY_OK

definition add_link :: "nat \<Rightarrow> string \<Rightarrow> errno option \<Rightarrow> i2c_sys \<Rightarrow> i2c_sys" where
  "add_link aux name r s =
     (case r of
        None \<Rightarrow> s\<lparr>aux_links := (aux_links s)(aux := insert name (aux_links s aux))\<rparr>
      | Some _ \<Rightarrow> s)"

definition set_drvdata :: "nat \<Rightarrow> nh_fpga_i2c option \<Rightarrow> i2c_sys \<Rightarrow> i2c_sys" where
  "set_drvdata aux d s = s\<lparr>i2c_drvdata := (i2c_drvdata s)(aux := d)\<rparr>"

definition del_link :: "nat \<Rightarrow> string \<Rightarrow> i2c_sys \<Rightarrow> i2c_sys" where
  "del_link aux name s = s\<lparr>aux_links := (aux_links s)(aux := aux_links s aux - {name})\<rparr>"

text \<open>The \<open>i2c->pdev == to_platform_device(dev->parent)\<close> test; \<open>None\<close> is the null pointer.\<close>

definition is_pdev_of :: "dev_node \<Rightarrow> nh_fpga_i2c \<Rightarrow> bool" where
  "is_pdev_of parent i2c = (ic_pdev i2c \<noteq> None \<and> ic_pdev i2c = nd_pdev parent)"

text \<open>A device on the I2C bus, by what \<open>i2c_verify_client\<close> and \<open>i2c_verify_adapter\<close> say it is.\<close>

datatype i2c_dev = Client nat | Adapter i2c_adapter

datatype bus_action = BUS_NOTIFY_ADD_DEVICE | BUS_NOTIFY_DEL_DEVICE | BUS_NOTIFY_OTHER

text \<open>Something on the bus goes away; \<open>path\<close> are the ancestors of the device, nearest first.\<close>

definition nh_fpga_i2c_bus_del :: "dev_node list \<Rightarrow> i2c_dev \<Rightarrow> i2c_sys \<Rightarrow> notify_result \<times> i2c_sys" where
  "nh_fpga_i2c_bus_del path dev s =
     (case dev of
        Client client \<Rightarrow>
          (case nh_fpga_i2c_find_owning_aux path 3 of
             None \<Rightarrow> (NOTIFY_DONE, s)
           | Some aux \<Rightarrow>
               (case i2c_drvdata s aux of
                  None \<Rightarrow> (NOTIFY_DONE, s)
                | Some i2c \<Rightarrow>
                    if mux_client i2c \<noteq> Some client then (NOTIFY_DONE, s)
                    else (NOTIFY_OK, set_drvdata aux (Some (i2c\<lparr>mux_client := None\<rparr>)) s)))
      | Adapter adap \<Rightarrow>
          if path = [] then (NOTIFY_DONE, s)
          else
            case nh_fpga_i2c_find_owning_aux (tl path) 1 of
              Some aux \<Rightarrow>
                (case i2c_drvdata s aux of
                   None \<Rightarrow> (NOTIFY_DONE, s)
                 | Some i2c \<Rightarrow>
                     if \<not> is_pdev_of (hd path) i2c \<or> master_bus_num i2c \<noteq> Some (ad_nr adap)
                     then (NOTIFY_DONE, s)
                     else (NOTIFY_OK, set_drvdata aux (Some (i2c\<lparr>master_bus_num := None\<rparr>))
                            (del_link aux (i2c_link (ad_nr adap)) s)))
            | None \<Rightarrow>
                (case nh_fpga_i2c_find_owning_aux path 4 of
                   None \<Rightarrow> (NOTIFY_DONE, s)
                 | Some aux \<Rightarrow>
                     if i2c_drvdata s aux = None then (NOTIFY_DONE, s)
                     else
                       let chan_id = nh_fpga_i2c_chan_id (ad_name adap)
                       in if sint chan_id < 0 then (NOTIFY_DONE, s)
                          else (NOTIFY_OK, del_link aux (channel_name (unat chan_id)) s)))"

text \<open>
  The notifier. \<open>link_result\<close> and \<open>client_result\<close> are what \<open>sysfs_create_link\<close> and
  \<open>i2c_new_client_device\<close> answer, \<open>master_name\<close> the name it gives the master adapter of an
  auxiliary device. The result holds the device, whose adapter name may have changed.
\<close>

definition nh_fpga_i2c_bus_notify ::
    "errno option \<Rightarrow> nat result \<Rightarrow> (nat \<Rightarrow> string) \<Rightarrow> bus_action \<Rightarrow> dev_node list \<Rightarrow> i2c_dev \<Rightarrow> i2c_sys \<Rightarrow>
     notify_result \<times> i2c_dev \<times> i2c_sys" where
  "nh_fpga_i2c_bus_notify link_result client_result master_name action path dev s =
     (case action of
        BUS_NOTIFY_DEL_DEVICE \<Rightarrow> (case nh_fpga_i2c_bus_del path dev s of (r, s') \<Rightarrow> (r, dev, s'))
      | BUS_NOTIFY_OTHER \<Rightarrow> (NOTIFY_DONE, dev, s)
      | BUS_NOTIFY_ADD_DEVICE \<Rightarrow>
        (case dev of
           Client _ \<Rightarrow> (NOTIFY_DONE, dev, s)
         | Adapter adap \<Rightarrow>
             if path = [] then (NOTIFY_DONE, dev, s)
             else
               case nh_fpga_i2c_find_owning_aux (tl path) 1 of
                 Some aux \<Rightarrow>
                   (case i2c_drvdata s aux of
                      None \<Rightarrow> (NOTIFY_DONE, dev, s)
                    | Some i2c \<Rightarrow>
                        if \<not> is_pdev_of (hd path) i2c then (NOTIFY_DONE, dev, s)
                        else
                          let adap = adap\<lparr>ad_name := master_name aux\<rparr>;
                              s = add_link aux (i2c_link (ad_nr adap)) link_result s;
                              i2c = i2c\<lparr>master_bus_num := Some (ad_nr adap)\<rparr>;
                              i2c = (if 0 < sint (num_mux_channels i2c) \<and> mux_client i2c = None
                                     then (case client_result of
                                             Inl _ \<Rightarrow> i2c
                                           | Inr c \<Rightarrow> i2c\<lparr>mux_client := Some c\<rparr>)
                                     else i2c)
                          in (NOTIFY_OK, Adapter adap, set_drvdata aux (Some i2c) s))
               | None \<Rightarrow>
                   (case nh_fpga_i2c_find_owning_aux path 4 of
                      None \<Rightarrow> (NOTIFY_DONE, dev, s)
                    | Some aux \<Rightarrow>
                        if i2c_drvdata s aux = None then (NOTIFY_DONE, dev, s)
                        else
                          let chan_id = nh_fpga_i2c_chan_id (ad_name adap)
                          in if sint chan_id < 0 then (NOTIFY_DONE, dev, s)
                             else (NOTIFY_OK, dev,
                                   add_link aux (channel_name (unat chan_id)) link_result s))))"

section \<open>Remove\<close>

text \<open>
  Removing the mux client and the platform device makes the notifier run for what they own; the
  links it would drop are dropped here already.
\<close>

definition nh_fpga_i2c_remove :: "nat \<Rightarrow> i2c_sys \<Rightarrow> i2c_sys" where
  "nh_fpga_i2c_remove aux s =
     (case i2c_drvdata s aux of
        None \<Rightarrow> s
      | Some i2c \<Rightarrow>
          let ls = aux_links s aux - set (map channel_name [0..<unat (num_mux_channels i2c)]);
              ls = (case master_bus_num i2c of None \<Rightarrow> ls | Some nr \<Rightarrow> ls - {i2c_link nr})
          in s\<lparr>aux_links := (aux_links s)(aux := ls),
               xiic_pdevs := (case ic_pdev i2c of None \<Rightarrow> xiic_pdevs s | Some pd \<Rightarrow> xiic_pdevs s - {pd}),
               clk_lookups := (case ic_clk i2c of None \<Rightarrow> clk_lookups s | Some c \<Rightarrow> clk_lookups s - {c}),
               i2c_drvdata := (i2c_drvdata s)(aux := None)\<rparr>)"

definition nh_fpga_i2c_aux_id_table :: "string list" where
  "nh_fpga_i2c_aux_id_table = [''fbiob_pci.i2c_master'', ''fbiob_pci.i2c_master_ext'']"

end
