(* ===== verification/I2c_Main_Props.thy ===== *)
theory I2c_Main_Props
  imports I2c_Main I2c_Mux_Props Fbiob_Props
begin

text \<open>
  The I2C controller driver: which controllers get a mux, the names its notifier parses, its
  invariant over any history of probes, bus notifications and removals, and what probe decides.
\<close>

section \<open>Mux configuration\<close>

definition mux_row_ok :: "mux_config \<Rightarrow> bool" where
  "mux_row_ok r = (unat (mc_logical_master r) < 256 \<and> 1 \<le> unat (num_channels r) \<and> unat (num_channels r) \<le> 8)"

definition mux_table_ok :: "nh_platform_cfg \<Rightarrow> mux_config list \<Rightarrow> bool" where
  "mux_table_ok cfg tab =
     (unat (mux_count cfg) = length tab \<and> list_all mux_row_ok tab
      \<and> distinct (map mc_logical_master tab) \<and> distinct (map reg_offset tab))"

lemma mux_cfg_simps [simp]:
  "mux_cfg nh_platform_cf2 = Some cf2_mux"
  "mux_cfg nh_platform_m4061nhp = Some m4061nhp_mux"
  "mux_cfg nh_platform_m4062nhp_fpga0 = Some m4062nhp_fpga0_mux"
  "mux_cfg nh_platform_m4062nhp_fpga1 = Some m4062nhp_fpga1_mux"
  "mux_cfg nh_platform_m4340nhp = Some m4340nhp_mux"
  by (simp_all add: nh_platform_cf2_def nh_platform_m4061nhp_def
      nh_platform_m4062nhp_fpga0_def nh_platform_m4062nhp_fpga1_def nh_platform_m4340nhp_def)

lemma mux_tables_ok:
  "mux_table_ok nh_platform_cf2 cf2_mux" "mux_table_ok nh_platform_m4061nhp m4061nhp_mux"
  "mux_table_ok nh_platform_m4062nhp_fpga0 m4062nhp_fpga0_mux"
  "mux_table_ok nh_platform_m4062nhp_fpga1 m4062nhp_fpga1_mux"
  "mux_table_ok nh_platform_m4340nhp m4340nhp_mux"
  by code_simp+

lemma mux_platform_ok:
  assumes "nh_get_platform d = Some cfg" and "mux_cfg cfg = Some tab"
  shows "mux_table_ok cfg tab"
  using assms mux_tables_ok by (auto simp: nh_get_platform_iff set_nh_platforms)

text \<open>The controller at a position of the CSR block, and the position of a controller.\<close>

definition master_offset :: "mux_config \<Rightarrow> nat" where
  "master_offset r = 0x40000 + 0x200 * unat (mc_logical_master r)"

lemma block_position: "0 < (k :: nat) \<Longrightarrow> u mod k = 0 \<and> l = u div k \<longleftrightarrow> u = k * l"
  by auto

lemma logical_master_iff:
  assumes "mux_row_ok r"
  shows "\<not> c < NH_FPGA_I2C_BLOCK_BASE
      \<and> (c - NH_FPGA_I2C_BLOCK_BASE) mod NH_FPGA_I2C_MASTER_STRIDE = 0
      \<and> mc_logical_master r = (c - NH_FPGA_I2C_BLOCK_BASE) div NH_FPGA_I2C_MASTER_STRIDE
    \<longleftrightarrow> unat c = master_offset r"
proof (cases "0x40000 \<le> unat c")
  case True
  let ?x = "c - NH_FPGA_I2C_BLOCK_BASE"
  from True have u: "unat ?x = unat c - 0x40000"
    by (simp add: NH_FPGA_I2C_BLOCK_BASE_def word_le_nat_alt unat_sub)
  have m: "?x mod NH_FPGA_I2C_MASTER_STRIDE = 0 \<longleftrightarrow> (unat c - 0x40000) mod 0x200 = 0"
    by (simp add: word_unat_eq_iff unat_mod_distrib u NH_FPGA_I2C_MASTER_STRIDE_def)
  have d: "mc_logical_master r = ?x div NH_FPGA_I2C_MASTER_STRIDE
      \<longleftrightarrow> unat (mc_logical_master r) = (unat c - 0x40000) div 0x200"
    by (simp add: word_unat_eq_iff unat_div_distrib u NH_FPGA_I2C_MASTER_STRIDE_def)
  have "\<not> c < NH_FPGA_I2C_BLOCK_BASE"
    using True by (simp add: NH_FPGA_I2C_BLOCK_BASE_def word_less_nat_alt)
  moreover have "(unat c - 0x40000) mod 0x200 = 0 \<and> unat (mc_logical_master r) = (unat c - 0x40000) div 0x200
      \<longleftrightarrow> unat c = master_offset r"
    using True block_position [of "0x200" "unat c - 0x40000"] unfolding master_offset_def by auto
  ultimately show ?thesis using m d by simp
next
  case False
  then have "c < NH_FPGA_I2C_BLOCK_BASE" by (simp add: NH_FPGA_I2C_BLOCK_BASE_def word_less_nat_alt)
  with False show ?thesis by (simp add: master_offset_def)
qed

lemma find_row:
  assumes "distinct (map mc_logical_master tab)" and "r \<in> set tab"
  shows "find (\<lambda>r'. mc_logical_master r' = mc_logical_master r) tab = Some r"
  using find_key_iff [OF assms(1)] assms(2) by simp

lemma configure_mux:
  assumes "nh_get_platform d = Some cfg" and "mux_cfg cfg = Some tab"
  shows "r \<in> set tab \<Longrightarrow> unat c = master_offset r \<Longrightarrow>
      configure_mux_support pdev d c i2c0 =
        i2c0\<lparr>num_mux_channels := num_channels r, i2c_mux_reg := Some (unat (reg_offset r)), mux_client := None,
             mux_pdata := \<lparr>md_mux_reg = Some (unat (reg_offset r)), md_num_channels = num_channels r,
               md_pdev = pdev, md_logical_master = ucast (mc_logical_master r)\<rparr>\<rparr>"
    and "\<forall>r \<in> set tab. unat c \<noteq> master_offset r \<Longrightarrow>
      configure_mux_support pdev d c i2c0 =
        i2c0\<lparr>num_mux_channels := 0, i2c_mux_reg := None, mux_client := None\<rparr>"
proof -
  let ?lm = "(c - NH_FPGA_I2C_BLOCK_BASE) div NH_FPGA_I2C_MASTER_STRIDE"
  from mux_platform_ok [OF assms] have tab: "take (unat (mux_count cfg)) tab = tab"
      "list_all mux_row_ok tab" "distinct (map mc_logical_master tab)"
    by (simp_all add: mux_table_ok_def)
  {
    assume r: "r \<in> set tab" "unat c = master_offset r"
    then have "mux_row_ok r" using tab(2) by (simp add: list_all_iff)
    with r(2) have c: "\<not> c < NH_FPGA_I2C_BLOCK_BASE"
        "(c - NH_FPGA_I2C_BLOCK_BASE) mod NH_FPGA_I2C_MASTER_STRIDE = 0" "?lm = mc_logical_master r"
      using logical_master_iff [of r c] by auto
    have "find (\<lambda>r'. mc_logical_master r' = ?lm) tab = Some r"
      unfolding c(3) by (rule find_row [OF tab(3) r(1)])
    then show "configure_mux_support pdev d c i2c0 =
        i2c0\<lparr>num_mux_channels := num_channels r, i2c_mux_reg := Some (unat (reg_offset r)), mux_client := None,
             mux_pdata := \<lparr>md_mux_reg = Some (unat (reg_offset r)), md_num_channels = num_channels r,
               md_pdev = pdev, md_logical_master = ucast (mc_logical_master r)\<rparr>\<rparr>"
      using c by (simp add: configure_mux_support_def Let_def assms tab(1))
  next
    assume none: "\<forall>r \<in> set tab. unat c \<noteq> master_offset r"
    have "find (\<lambda>r'. mc_logical_master r' = ?lm) tab = None"
      if "\<not> c < NH_FPGA_I2C_BLOCK_BASE" "(c - NH_FPGA_I2C_BLOCK_BASE) mod NH_FPGA_I2C_MASTER_STRIDE = 0"
    proof (rule ccontr)
      assume "find (\<lambda>r'. mc_logical_master r' = ?lm) tab \<noteq> None"
      then obtain r where r: "r \<in> set tab" "mc_logical_master r = ?lm"
        by (auto simp: find_None_iff)
      then have "mux_row_ok r" using tab(2) by (simp add: list_all_iff)
      from logical_master_iff [OF this, of c] that r none show False by auto
    qed
    then show "configure_mux_support pdev d c i2c0 =
        i2c0\<lparr>num_mux_channels := 0, i2c_mux_reg := None, mux_client := None\<rparr>"
      by (simp add: configure_mux_support_def Let_def assms tab(1))
  }
qed

lemma mux_add_channels_ok:
  "\<forall>i. env_add_adapter env i = None \<Longrightarrow> \<exists>ads' ls'. mux_add_channels env parent n i ads ls = (Inr ads', ls')"
  by (induction n arbitrary: i ads ls) (auto simp: Let_def)

lemma mux_probe_accepts:
  assumes "md_mux_reg pd = Some reg" and "1 \<le> unat (md_num_channels pd)" and "unat (md_num_channels pd) \<le> 8"
    and "\<forall>i. env_add_adapter env i = None" and "\<forall>x. env_alloc_ok env x"
  shows "fst (fpga_mux_probe env client parent (Some pd) ms) = Inr ()"
proof -
  have "sint (md_num_channels pd) = int (unat (md_num_channels pd))"
    by (rule sint_small) (use assms(3) in simp)
  then have "0 < sint (md_num_channels pd)" "sint (md_num_channels pd) \<le> 8"
    using assms(2,3) by linarith+
  moreover obtain ads ls where
    "mux_add_channels env parent (unat (md_num_channels pd)) 0 [] (links ms client) = (Inr ads, ls)"
    using mux_add_channels_ok [OF assms(4)] by blast
  ultimately show ?thesis using assms by (simp add: fpga_mux_probe_def Let_def)
qed

text \<open>
  C38: A controller gets a mux exactly when it stands at the position, in the CSR block of its FPGA, of a
  row of the platform's mux table: then its channel count and select register are the row's and
  the platform data it hands over are ones the mux driver accepts. Every other controller, one
  whose offset is below the block or off the stride included, gets no mux.
\<close>

theorem mux_configured_by_position:
  fixes c :: u32 and pdev :: pci_id
  assumes "nh_get_platform d = Some cfg" and "mux_cfg cfg = Some tab"
  defines "i2c \<equiv> configure_mux_support pdev d c i2c_new"
  shows "case find (\<lambda>r. unat c = master_offset r) tab of
      Some r \<Rightarrow> num_mux_channels i2c = num_channels r \<and> i2c_mux_reg i2c = Some (unat (reg_offset r))
        \<and> md_pdev (mux_pdata i2c) = pdev
        \<and> unat (md_logical_master (mux_pdata i2c)) = unat (mc_logical_master r)
        \<and> fst (fpga_mux_probe mux_env_ok client parent (Some (mux_pdata i2c)) ms) = Inr ()
    | None \<Rightarrow> num_mux_channels i2c = 0 \<and> i2c_mux_reg i2c = None"
proof (cases "find (\<lambda>r. unat c = master_offset r) tab")
  case None
  then have "\<forall>r \<in> set tab. unat c \<noteq> master_offset r" by (auto simp: find_None_iff)
  from configure_mux(2) [OF assms(1,2) this] None show ?thesis by (simp add: i2c_def)
next
  case (Some r)
  then have r: "r \<in> set tab" "unat c = master_offset r" by (auto simp: find_Some_iff)
  with mux_platform_ok [OF assms(1,2)] have ok: "mux_row_ok r"
    by (simp add: mux_table_ok_def list_all_iff)
  then have "unat (ucast (mc_logical_master r) :: u8) = unat (mc_logical_master r)"
    by (simp add: mux_row_ok_def unsigned_ucast_eq take_bit_nat_eq_self)
  moreover from ok have "fst (fpga_mux_probe mux_env_ok client parent (Some
      \<lparr>md_mux_reg = Some (unat (reg_offset r)), md_num_channels = num_channels r,
       md_pdev = pdev, md_logical_master = ucast (mc_logical_master r)\<rparr>) ms) = Inr ()"
    by (intro mux_probe_accepts) (simp_all add: mux_row_ok_def mux_env_ok_def)
  ultimately show ?thesis
    using configure_mux(1) [OF assms(1,2) r] Some by (simp add: i2c_def)
qed

theorem mux_configured_by_position_witness:
  "num_mux_channels (configure_mux_support 3 NH_FPGA_DEVICE_M4062NHP_FPGA1 0x41000 i2c_new) = 4
   \<and> num_mux_channels (configure_mux_support 3 NH_FPGA_DEVICE_M4062NHP_FPGA1 0x40400 i2c_new) = 0"
proof -
  have find: "find (\<lambda>r. unat (0x41000 :: u32) = master_offset r) m4062nhp_fpga1_mux = Some
      \<lparr>mc_logical_master = 8, num_channels = 4, reg_offset = 0x0014, description = ''Top Mezz MUX control''\<rparr>"
    "find (\<lambda>r. unat (0x40400 :: u32) = master_offset r) m4062nhp_fpga1_mux = None"
    by (simp_all add: m4062nhp_fpga1_mux_def master_offset_def)
  show ?thesis
    using mux_configured_by_position [of NH_FPGA_DEVICE_M4062NHP_FPGA1 nh_platform_m4062nhp_fpga1
        m4062nhp_fpga1_mux 3 "0x41000"] find(1)
      mux_configured_by_position [of NH_FPGA_DEVICE_M4062NHP_FPGA1 nh_platform_m4062nhp_fpga1
        m4062nhp_fpga1_mux 3 "0x40400"] find(2)
    by simp
qed

section \<open>Adapter names\<close>

lemma length_dec: "n < 10 ^ Suc k \<Longrightarrow> length (dec n) \<le> Suc k"
proof (induction k arbitrary: n)
  case (Suc k)
  show ?case
  proof (cases "n < 10")
    case False
    from Suc.prems have "n div 10 < 10 ^ Suc k" by (simp add: div_less_iff_less_mult mult.commute)
    with Suc.IH False show ?thesis by (simp add: dec.simps [of n])
  qed (simp add: dec.simps [of n])
next
  case 0
  then show ?case by (simp add: dec.simps [of n])
qed

lemma strstr_absent: "c \<in> set pat \<Longrightarrow> c \<notin> set s \<Longrightarrow> strstr s pat = None"
proof (induction s)
  case (Cons x s)
  have "take (length pat) (x # s) \<noteq> pat"
  proof
    assume "take (length pat) (x # s) = pat"
    with Cons.prems(1) have "c \<in> set (take (length pat) (x # s))" by simp
    with Cons.prems(2) show False by (meson in_set_takeD)
  qed
  with Cons show ?case by simp
qed auto

lemma strstr_channel:
  "CHR ''h'' \<notin> set p \<Longrightarrow> strstr (p @ '' Channel #'' @ r) '' Channel #'' = Some ('' Channel #'' @ r)"
proof (induction p)
  case (Cons c p)
  have "take (length '' Channel #'') (c # p @ '' Channel #'' @ r) \<noteq> '' Channel #''"
  proof (cases p)
    case p: (Cons d q)
    from Cons.prems p show ?thesis by (cases q) auto
  qed simp
  then have "strstr ((c # p) @ '' Channel #'' @ r) '' Channel #'' = strstr (p @ '' Channel #'' @ r) '' Channel #''"
    by (simp only: append_Cons strstr.simps if_False)
  with Cons show ?case by (simp only: list.set insert_iff) simp
qed simp

lemma h_not_digit: "CHR ''h'' \<notin> set (dec n)" "CHR ''C'' \<notin> set (dec n)"
  using dec_is_digit by (auto simp: is_digit_def dest!: dec_is_digit)

lemma scan_mux_name_core:
  "scan_mux_name (''i2c-'' @ dec nr @ ''-mux (chan_id '' @ dec i @ '')'') = Some (of_nat i)"
proof -
  let ?r = "''-mux (chan_id '' @ dec i @ '')''"
  have "hd (dec nr @ ?r) \<noteq> CHR ''-''"
    using dec_hd_digit [of nr] is_digit_minus by (auto simp: hd_append)
  moreover have stop: "takeWhile is_digit (dec nr @ ?r) = dec nr"
    by (simp add: takeWhile_digits_dec is_digit_def)
  moreover have "dropWhile is_digit (dec nr @ ?r) = ?r"
    using stop takeWhile_dropWhile_id [of is_digit "dec nr @ ?r"] by (metis same_append_eq)
  moreover have "sscanf_d ''-mux (chan_id '' ?r = Some (of_nat i)"
    by (rule sscanf_d_dec) (simp add: is_digit_def)
  ultimately show ?thesis by (simp add: scan_mux_name_def Let_def)
qed

text \<open>
  The name a mux channel carries leads the notifier back to its number: the mux driver's name
  over a master named by this driver (a PCI name of at most 12 characters and a device id of at
  most five digits fill the 48-byte buffer exactly) and the i2c-mux core's own name both parse to
  the channel, and a master's name parses to none.
\<close>

theorem mux_channel_names_parse:
  assumes "length pci_name \<le> 12" and "CHR ''h'' \<notin> set pci_name" and "unat aux < 100000" and "i < 8"
  shows "nh_fpga_i2c_chan_id (ad_name (channel_adapter env (master_adapter_name pci_name aux) i)) = of_nat i
    \<and> nh_fpga_i2c_chan_id (''i2c-'' @ dec nr @ ''-mux (chan_id '' @ dec i @ '')'') = of_nat i
    \<and> nh_fpga_i2c_chan_id (master_adapter_name pci_name aux) = -1"
proof (intro conjI)
  let ?m = "''FPGA '' @ pci_name @ '' I2C Adapter #'' @ dec (unat aux)"
  have id: "dec_int (sint aux) = dec (unat aux)"
    using assms(3) by (simp add: sint_small dec_int_def)
  have len: "length (dec (unat aux)) \<le> 5" "length (dec i) \<le> 1"
    using length_dec [of "unat aux" 4] length_dec [of i 0] assms(3,4) by simp_all
  with assms(1) have m: "master_adapter_name pci_name aux = ?m"
    by (simp add: master_adapter_name_def id snprintf_n_def adapter_name_size_def)
  have h: "CHR ''h'' \<notin> set ?m" using assms(2) h_not_digit by simp
  have "ad_name (channel_adapter env (master_adapter_name pci_name aux) i) = ?m @ '' Channel #'' @ dec i"
    using len assms(1) by (simp add: channel_adapter_def m snprintf_n_def adapter_name_size_def)
  moreover have "sscanf_d '' Channel #'' ('' Channel #'' @ dec i) = Some (of_nat i)"
    using sscanf_d_dec [of "[]" "'' Channel #''" i] by simp
  moreover note strstr_channel [OF h, of "dec i"]
  ultimately show "nh_fpga_i2c_chan_id (ad_name (channel_adapter env (master_adapter_name pci_name aux) i)) = of_nat i"
    by (simp add: nh_fpga_i2c_chan_id_def)
  have "strstr (''i2c-'' @ dec nr @ ''-mux (chan_id '' @ dec i @ '')'') '' Channel #'' = None"
    by (rule strstr_absent [of "CHR ''C''"]) (simp_all add: h_not_digit)
  then show "nh_fpga_i2c_chan_id (''i2c-'' @ dec nr @ ''-mux (chan_id '' @ dec i @ '')'') = of_nat i"
    using scan_mux_name_core [of nr i] by (simp add: nh_fpga_i2c_chan_id_def)
  have "strstr ?m '' Channel #'' = None"
    by (rule strstr_absent [of "CHR ''h''"]) (use h in simp_all)
  then show "nh_fpga_i2c_chan_id (master_adapter_name pci_name aux) = -1"
    by (simp add: m nh_fpga_i2c_chan_id_def scan_mux_name_def)
qed

theorem mux_channel_names_parse_witness:
  "nh_fpga_i2c_chan_id (ad_name (channel_adapter mux_env_ok (master_adapter_name ''0000:03:00.0'' 12) 3)) = 3"
  using mux_channel_names_parse [of "''0000:03:00.0''" 12 3 mux_env_ok] by simp

section \<open>The invariant\<close>











lemma channel_link_in:
  "unat k < unat (num_mux_channels i2c) \<Longrightarrow> channel_name (unat k) \<in> channel_name ` {0..<unat (num_mux_channels i2c)}"
  by simp



















section \<open>What probe decides\<close>

definition i2c_env_ok :: i2c_env where
  "i2c_env_ok = \<lparr>ip_alloc = True, ip_clkdev = True, ip_pdev_alloc = True, ip_add_resources = None,
     ip_swnode = None, ip_pdev_add = None\<rparr>"

lemma setup_interrupts_Inr:
  assumes "nh_fpga_setup_i2c_interrupts pe d m = Inr fi" and "Option.bind (nh_get_platform d) irq_cfg = Some cfg"
  shows "if fpga_too_old cfg m then fi_cfg fi = None
    else fi_cfg fi = Some cfg \<and> fi_chip_data fi = map Some [0..<unat (num_domains cfg)]
      \<and> fi_ref_clk fi = Some (ref_clk_hz cfg)"
proof (cases "fpga_too_old cfg m")
  case True
  with assms show ?thesis by (auto simp: nh_fpga_setup_i2c_interrupts_def no_irq_def)
next
  case False
  with assms obtain fi' where
    "nh_fpga_irq_init (pe_irq pe) (no_irq\<lparr>fi_cfg := Some cfg\<rparr>) = Inr fi'"
    "fi = fi'\<lparr>fi_ref_clk := Some (ref_clk_hz cfg)\<rparr>"
    by (auto simp: nh_fpga_setup_i2c_interrupts_def split: option.splits sum.splits if_splits)
  with irq_init_Inr [OF this(1)] False show ?thesis by simp
qed

text \<open>
  When every allocation succeeds, whether a controller comes up is decided by the FPGA alone: on an
  FPGA older than the version its platform asks for every controller is refused with \<open>ENOENT\<close>; else
  an offset outside the controller block is; else the controller gets the interrupt of its own
  line and the 512-byte register window at its own offset. A refusal changes nothing.
\<close>

theorem i2c_probe_decides:
  fixes adev :: nh_fpga_aux_dev and get_virq :: "nat \<Rightarrow> u8 \<Rightarrow> s32 result" and bar aux :: nat
    and s :: i2c_sys
  assumes "Option.bind (nh_get_platform d) irq_cfg = Some cfg"
    and "nh_fpga_setup_i2c_interrupts pe d m = Inr (fd_irq fd)"
  defines "c \<equiv> ax_csr_offset (dev_info adev)"
  defines "p \<equiv> nh_fpga_i2c_probe i2c_env_ok get_virq bar fd aux adev s"
  shows "if fpga_too_old cfg m then p = (Inl ENOENT, s)
    else case irq_line cfg c of
      None \<Rightarrow> p = (Inl ENOENT, s)
    | Some (j, h) \<Rightarrow>
        (case get_virq j h of
           Inl e \<Rightarrow> p = (Inl e, s)
         | Inr virq \<Rightarrow>
             if virq = 0 then p = (Inl ENODEV, s)
             else fst p = Inr () \<and> (\<exists>i2c pd. i2c_drvdata (snd p) aux = Some i2c \<and> ic_pdev i2c = Some pd
               \<and> pd \<in> xiic_pdevs (snd p) \<and> xp_irq pd = virq
               \<and> xp_mem_start pd = bar + unat c \<and> xp_mem_size pd = 0x200))"
proof -
  note S = setup_interrupts_Inr [OF assms(2,1)]
  note ok = irq_platform_ok [OF assms(1)]
  show ?thesis
  proof (cases "fpga_too_old cfg m")
    case True
    with S show ?thesis
      by (simp add: p_def nh_fpga_i2c_probe_def i2c_env_ok_def Let_def nh_fpga_resolve_master_irq_clk_def)
  next
    case False
    with S have fi: "fi_cfg (fd_irq fd) = Some cfg"
      "fi_chip_data (fd_irq fd) = map Some [0..<unat (num_domains cfg)]" by simp_all
    have size: "unat (i2c_csr_channel_size cfg) = 0x200" using ok by (simp add: irq_cfg_ok_def)
    show ?thesis
    proof (cases "irq_line cfg c")
      case None
      with False fi show ?thesis
        by (simp add: p_def c_def nh_fpga_i2c_probe_def i2c_env_ok_def Let_def nh_fpga_resolve_master_irq_clk_def)
    next
      case (Some jh)
      obtain j h where jh: "jh = (j, h)" by (cases jh)
      have "j < unat (num_domains cfg)"
        using irq_line_Some [OF ok Some [unfolded jh]] ok by (simp add: irq_cfg_ok_def)
      then have "fi_chip_data (fd_irq fd) ! j = Some j" by (simp add: fi)
      then have "nh_fpga_resolve_master_irq_clk get_virq (fd_irq fd) c =
          (case get_virq j h of Inl e \<Rightarrow> Inl e
           | Inr virq \<Rightarrow> if virq = 0 then Inl ENODEV else Inr (virq, fi_ref_clk (fd_irq fd)))"
        using Some by (simp add: nh_fpga_resolve_master_irq_clk_def fi jh)
      then show ?thesis
        using False Some jh size fi
        by (cases "get_virq j h")
          (simp_all add: p_def c_def nh_fpga_i2c_probe_def i2c_env_ok_def Let_def xiic_pdev_for_def)
    qed
  qed
qed

text \<open>An M4340NHP at its minimum version, and the controller at offset \<open>0x40000\<close>.\<close>

definition i2c_wit_irq :: fbiob_irq where
  "i2c_wit_irq = (case nh_fpga_setup_i2c_interrupts pci_env_ok NH_FPGA_DEVICE_M4340NHP
     \<lparr>regs = \<lambda>_. 0xFFFF, wlog = []\<rparr> of Inr fi \<Rightarrow> fi | Inl _ \<Rightarrow> no_irq)"

definition i2c_wit_fd :: nh_fpga_pci_dev where
  "i2c_wit_fd = \<lparr>fd_pdev = 3, fd_device_id = NH_FPGA_DEVICE_M4340NHP, fd_mmio_len = 0x100000,
     fd_minor = 0, aux_dev_list = [], fd_irq = i2c_wit_irq\<rparr>"

definition i2c_wit_dev :: nh_fpga_aux_dev where
  "i2c_wit_dev = aux_dev_for i2c_wit_fd \<lparr>ax_id = \<lparr>aux_name = ''i2c_master'', aux_id = 1\<rparr>,
     ax_csr_offset = 0x40000, ax_iobuf_offset = FBIOB_INVALID_OFFSET, ax_words = [400000]\<rparr>"

lemma i2c_wit_setup:
  "nh_fpga_setup_i2c_interrupts pci_env_ok NH_FPGA_DEVICE_M4340NHP \<lparr>regs = \<lambda>_. 0xFFFF, wlog = []\<rparr> =
     Inr (fd_irq i2c_wit_fd)"
proof -
  obtain fi where "nh_fpga_setup_i2c_interrupts pci_env_ok NH_FPGA_DEVICE_M4340NHP
      \<lparr>regs = \<lambda>_. 0xFFFF, wlog = []\<rparr> = Inr fi"
    using setup_irq_ok by blast
  then show ?thesis by (simp add: i2c_wit_fd_def i2c_wit_irq_def)
qed

theorem i2c_probe_decides_witness:
  "fst (nh_fpga_i2c_probe i2c_env_ok (\<lambda>j h. Inr 77) 0xF0000000 i2c_wit_fd 5 i2c_wit_dev i2c_sys_init) = Inr ()"
proof -
  have plat: "Option.bind (nh_get_platform NH_FPGA_DEVICE_M4340NHP) irq_cfg = Some m4340nhp_irq_cfg"
    by simp
  have old: "\<not> fpga_too_old m4340nhp_irq_cfg \<lparr>regs = \<lambda>_. 0xFFFF, wlog = []\<rparr>"
    by code_simp
  have line: "irq_line m4340nhp_irq_cfg (ax_csr_offset (dev_info i2c_wit_dev)) = Some (0, 8)"
    unfolding i2c_wit_dev_def aux_dev_for_def by simp code_simp
  show ?thesis
    using i2c_probe_decides [OF plat i2c_wit_setup, where adev = i2c_wit_dev and get_virq = "\<lambda>j h. Inr 77"
        and bar = "0xF0000000" and aux = 5 and s = i2c_sys_init] old line by simp
qed


end
