(* ===== verification/Xiic.thy ===== *)
theory Xiic
  imports I2c_Mux
begin

text \<open>
  \<open>kmods/backports/bp4f_i2c_xiic.c\<close>: the interrupt-driven driver of the Xilinx AXI I2C controllers.

  The controller is the parameter \<open>hw\<close>: what an access of a width and byte order at an address
  returns and how it changes the state of type \<open>'h\<close> of the hardware. The messages of a transfer are
  an array owned by the caller; \<open>tx_msg\<close> and \<open>rx_msg\<close> are pointers into it, so they are indices
  that may denote the same message. A buffer access outside a message's buffer, and any buffer access
  or write of a field through a null or stale pointer, sets \<open>mem_fault\<close>; a field read through such a
  pointer yields that of an empty message. Debug output is not modelled.
\<close>

section \<open>Registers and masks\<close>

definition DYNAMIC_MODE_READ_BROKEN_BIT :: u32 where "DYNAMIC_MODE_READ_BROKEN_BIT = 1"
definition SMBUS_BLOCK_READ_MIN_LEN :: nat where "SMBUS_BLOCK_READ_MIN_LEN = 3"
definition I2C_SMBUS_BLOCK_MAX :: nat where "I2C_SMBUS_BLOCK_MAX = 32"

definition XIIC_CR_REG_OFFSET :: nat where "XIIC_CR_REG_OFFSET = 0x100"
definition XIIC_SR_REG_OFFSET :: nat where "XIIC_SR_REG_OFFSET = 0x104"
definition XIIC_DTR_REG_OFFSET :: nat where "XIIC_DTR_REG_OFFSET = 0x108"
definition XIIC_DRR_REG_OFFSET :: nat where "XIIC_DRR_REG_OFFSET = 0x10C"
definition XIIC_TFO_REG_OFFSET :: nat where "XIIC_TFO_REG_OFFSET = 0x114"
definition XIIC_RFO_REG_OFFSET :: nat where "XIIC_RFO_REG_OFFSET = 0x118"
definition XIIC_RFD_REG_OFFSET :: nat where "XIIC_RFD_REG_OFFSET = 0x120"
definition XIIC_TSUSTA_REG_OFFSET :: nat where "XIIC_TSUSTA_REG_OFFSET = 0x128"
definition XIIC_TSUSTO_REG_OFFSET :: nat where "XIIC_TSUSTO_REG_OFFSET = 0x12C"
definition XIIC_THDSTA_REG_OFFSET :: nat where "XIIC_THDSTA_REG_OFFSET = 0x130"
definition XIIC_TSUDAT_REG_OFFSET :: nat where "XIIC_TSUDAT_REG_OFFSET = 0x134"
definition XIIC_TBUF_REG_OFFSET :: nat where "XIIC_TBUF_REG_OFFSET = 0x138"
definition XIIC_THIGH_REG_OFFSET :: nat where "XIIC_THIGH_REG_OFFSET = 0x13C"
definition XIIC_TLOW_REG_OFFSET :: nat where "XIIC_TLOW_REG_OFFSET = 0x140"
definition XIIC_THDDAT_REG_OFFSET :: nat where "XIIC_THDDAT_REG_OFFSET = 0x144"
definition XIIC_DGIER_OFFSET :: nat where "XIIC_DGIER_OFFSET = 0x1C"
definition XIIC_IISR_OFFSET :: nat where "XIIC_IISR_OFFSET = 0x20"
definition XIIC_IIER_OFFSET :: nat where "XIIC_IIER_OFFSET = 0x28"
definition XIIC_RESETR_OFFSET :: nat where "XIIC_RESETR_OFFSET = 0x40"

lemmas xiic_offsets =
  XIIC_CR_REG_OFFSET_def XIIC_SR_REG_OFFSET_def XIIC_DTR_REG_OFFSET_def XIIC_DRR_REG_OFFSET_def
  XIIC_TFO_REG_OFFSET_def XIIC_RFO_REG_OFFSET_def XIIC_RFD_REG_OFFSET_def
  XIIC_TSUSTA_REG_OFFSET_def XIIC_TSUSTO_REG_OFFSET_def XIIC_THDSTA_REG_OFFSET_def
  XIIC_TSUDAT_REG_OFFSET_def XIIC_TBUF_REG_OFFSET_def XIIC_THIGH_REG_OFFSET_def
  XIIC_TLOW_REG_OFFSET_def XIIC_THDDAT_REG_OFFSET_def XIIC_DGIER_OFFSET_def XIIC_IISR_OFFSET_def
  XIIC_IIER_OFFSET_def XIIC_RESETR_OFFSET_def

definition XIIC_CR_ENABLE_DEVICE_MASK :: u8 where "XIIC_CR_ENABLE_DEVICE_MASK = 0x01"
definition XIIC_CR_TX_FIFO_RESET_MASK :: u8 where "XIIC_CR_TX_FIFO_RESET_MASK = 0x02"
definition XIIC_CR_MSMS_MASK :: u8 where "XIIC_CR_MSMS_MASK = 0x04"
definition XIIC_CR_DIR_IS_TX_MASK :: u8 where "XIIC_CR_DIR_IS_TX_MASK = 0x08"
definition XIIC_CR_NO_ACK_MASK :: u8 where "XIIC_CR_NO_ACK_MASK = 0x10"
definition XIIC_CR_REPEATED_START_MASK :: u8 where "XIIC_CR_REPEATED_START_MASK = 0x20"
definition XIIC_SR_BUS_BUSY_MASK :: u8 where "XIIC_SR_BUS_BUSY_MASK = 0x04"
definition XIIC_SR_RX_FIFO_EMPTY_MASK :: u8 where "XIIC_SR_RX_FIFO_EMPTY_MASK = 0x40"
definition XIIC_SR_TX_FIFO_EMPTY_MASK :: u8 where "XIIC_SR_TX_FIFO_EMPTY_MASK = 0x80"

definition XIIC_INTR_ARB_LOST_MASK :: u32 where "XIIC_INTR_ARB_LOST_MASK = 0x01"
definition XIIC_INTR_TX_ERROR_MASK :: u32 where "XIIC_INTR_TX_ERROR_MASK = 0x02"
definition XIIC_INTR_TX_EMPTY_MASK :: u32 where "XIIC_INTR_TX_EMPTY_MASK = 0x04"
definition XIIC_INTR_RX_FULL_MASK :: u32 where "XIIC_INTR_RX_FULL_MASK = 0x08"
definition XIIC_INTR_BNB_MASK :: u32 where "XIIC_INTR_BNB_MASK = 0x10"
definition XIIC_INTR_TX_HALF_MASK :: u32 where "XIIC_INTR_TX_HALF_MASK = 0x80"

lemmas xiic_intr_masks =
  XIIC_INTR_ARB_LOST_MASK_def XIIC_INTR_TX_ERROR_MASK_def XIIC_INTR_TX_EMPTY_MASK_def
  XIIC_INTR_RX_FULL_MASK_def XIIC_INTR_BNB_MASK_def XIIC_INTR_TX_HALF_MASK_def

definition IIC_RX_FIFO_DEPTH :: nat where "IIC_RX_FIFO_DEPTH = 16"
definition IIC_TX_FIFO_DEPTH :: nat where "IIC_TX_FIFO_DEPTH = 16"
definition XIIC_TX_DYN_START_MASK :: u16 where "XIIC_TX_DYN_START_MASK = 0x0100"
definition XIIC_TX_DYN_STOP_MASK :: u16 where "XIIC_TX_DYN_STOP_MASK = 0x0200"
definition MAX_READ_LENGTH_DYNAMIC :: nat where "MAX_READ_LENGTH_DYNAMIC = 255"
definition XIIC_RESET_MASK :: u32 where "XIIC_RESET_MASK = 0xA"
definition XIIC_GINTR_ENABLE_MASK :: u32 where "XIIC_GINTR_ENABLE_MASK = 0x80000000"

section \<open>State\<close>

datatype xilinx_i2c_state = STATE_DONE | STATE_ERROR | STATE_START
datatype xiic_endian = LITTLE | BIG

datatype mmio_op = Op8 | Op16 | Op16be | Op32 | Op32be

text \<open>
  The controller: reads, writes, and the number of times a polling loop that starts in a state
  finds its one second deadline not yet passed.
\<close>

record 'h xiic_hw =
  hw_read :: "mmio_op \<Rightarrow> addr \<Rightarrow> 'h \<Rightarrow> u32 \<times> 'h"
  hw_write :: "mmio_op \<Rightarrow> addr \<Rightarrow> u32 \<Rightarrow> 'h \<Rightarrow> 'h"
  hw_polls :: "'h \<Rightarrow> nat"

record 'h xiic_i2c =
  xi_base :: addr
  tx_msg :: "nat option"
  tx_pos :: u32
  nmsgs :: u32
  rx_msg :: "nat option"
  rx_pos :: int
  endianness :: xiic_endian
  xi_state :: xilinx_i2c_state
  singlemaster :: bool
  dynamic :: bool
  prev_msg_tx :: bool
  quirks :: u32
  smbus_block_read :: bool
  smbus_actual_len :: u32
  input_clk :: u64
  i2c_clk :: u32
  completed :: bool
  xi_msgs :: "i2c_msg list"
  mem_fault :: bool
  xi_hw :: 'h

section \<open>Register access\<close>

definition xiic_setreg8 :: "'h xiic_hw \<Rightarrow> nat \<Rightarrow> u8 \<Rightarrow> 'h xiic_i2c \<Rightarrow> 'h xiic_i2c" where
  "xiic_setreg8 hw reg value s =
     (case endianness s of
        LITTLE \<Rightarrow> s\<lparr>xi_hw := hw_write hw Op8 (xi_base s + reg) (ucast value) (xi_hw s)\<rparr>
      | BIG \<Rightarrow> s\<lparr>xi_hw := hw_write hw Op8 (xi_base s + reg + 3) (ucast value) (xi_hw s)\<rparr>)"

definition xiic_getreg8 :: "'h xiic_hw \<Rightarrow> nat \<Rightarrow> 'h xiic_i2c \<Rightarrow> u8 \<times> 'h xiic_i2c" where
  "xiic_getreg8 hw reg s =
     (case (case endianness s of
              LITTLE \<Rightarrow> hw_read hw Op8 (xi_base s + reg) (xi_hw s)
            | BIG \<Rightarrow> hw_read hw Op8 (xi_base s + reg + 3) (xi_hw s)) of
        (v, h) \<Rightarrow> (ucast v, s\<lparr>xi_hw := h\<rparr>))"

definition xiic_setreg16 :: "'h xiic_hw \<Rightarrow> nat \<Rightarrow> u16 \<Rightarrow> 'h xiic_i2c \<Rightarrow> 'h xiic_i2c" where
  "xiic_setreg16 hw reg value s =
     (case endianness s of
        LITTLE \<Rightarrow> s\<lparr>xi_hw := hw_write hw Op16 (xi_base s + reg) (ucast value) (xi_hw s)\<rparr>
      | BIG \<Rightarrow> s\<lparr>xi_hw := hw_write hw Op16be (xi_base s + reg + 2) (ucast value) (xi_hw s)\<rparr>)"

definition op32 :: "xiic_endian \<Rightarrow> mmio_op" where
  "op32 e = (case e of LITTLE \<Rightarrow> Op32 | BIG \<Rightarrow> Op32be)"

definition xiic_setreg32 :: "'h xiic_hw \<Rightarrow> nat \<Rightarrow> u32 \<Rightarrow> 'h xiic_i2c \<Rightarrow> 'h xiic_i2c" where
  "xiic_setreg32 hw reg value s =
     s\<lparr>xi_hw := hw_write hw (op32 (endianness s)) (xi_base s + reg) value (xi_hw s)\<rparr>"

definition xiic_getreg32 :: "'h xiic_hw \<Rightarrow> nat \<Rightarrow> 'h xiic_i2c \<Rightarrow> u32 \<times> 'h xiic_i2c" where
  "xiic_getreg32 hw reg s =
     (case hw_read hw (op32 (endianness s)) (xi_base s + reg) (xi_hw s) of (v, h) \<Rightarrow> (v, s\<lparr>xi_hw := h\<rparr>))"

definition xiic_irq_dis :: "'h xiic_hw \<Rightarrow> u32 \<Rightarrow> 'h xiic_i2c \<Rightarrow> 'h xiic_i2c" where
  "xiic_irq_dis hw m s =
     (case xiic_getreg32 hw XIIC_IIER_OFFSET s of
        (ier, s) \<Rightarrow> xiic_setreg32 hw XIIC_IIER_OFFSET (ier AND NOT m) s)"

definition xiic_irq_en :: "'h xiic_hw \<Rightarrow> u32 \<Rightarrow> 'h xiic_i2c \<Rightarrow> 'h xiic_i2c" where
  "xiic_irq_en hw m s =
     (case xiic_getreg32 hw XIIC_IIER_OFFSET s of
        (ier, s) \<Rightarrow> xiic_setreg32 hw XIIC_IIER_OFFSET (ier OR m) s)"

definition xiic_irq_clr :: "'h xiic_hw \<Rightarrow> u32 \<Rightarrow> 'h xiic_i2c \<Rightarrow> 'h xiic_i2c" where
  "xiic_irq_clr hw m s =
     (case xiic_getreg32 hw XIIC_IISR_OFFSET s of
        (isr, s) \<Rightarrow> xiic_setreg32 hw XIIC_IISR_OFFSET (isr AND m) s)"

definition xiic_irq_clr_en :: "'h xiic_hw \<Rightarrow> u32 \<Rightarrow> 'h xiic_i2c \<Rightarrow> 'h xiic_i2c" where
  "xiic_irq_clr_en hw m s = xiic_irq_en hw m (xiic_irq_clr hw m s)"

text \<open>A read-modify-write of the control register.\<close>

definition cr_update :: "'h xiic_hw \<Rightarrow> (u8 \<Rightarrow> u8) \<Rightarrow> 'h xiic_i2c \<Rightarrow> 'h xiic_i2c" where
  "cr_update hw f s =
     (case xiic_getreg8 hw XIIC_CR_REG_OFFSET s of (cr, s) \<Rightarrow> xiic_setreg8 hw XIIC_CR_REG_OFFSET (f cr) s)"

section \<open>Polling loops\<close>

fun clear_rx_fifo_loop :: "'h xiic_hw \<Rightarrow> nat \<Rightarrow> 'h xiic_i2c \<Rightarrow> unit result \<times> 'h xiic_i2c" where
  "clear_rx_fifo_loop hw n s =
     (case xiic_getreg8 hw XIIC_SR_REG_OFFSET s of
        (sr, s) \<Rightarrow>
          if sr AND XIIC_SR_RX_FIFO_EMPTY_MASK \<noteq> 0 then (Inr (), s)
          else
            (case xiic_getreg8 hw XIIC_DRR_REG_OFFSET s of
               (_, s) \<Rightarrow> (case n of 0 \<Rightarrow> (Inl ETIMEDOUT, s) | Suc n \<Rightarrow> clear_rx_fifo_loop hw n s)))"

declare clear_rx_fifo_loop.simps [simp del]

definition xiic_clear_rx_fifo :: "'h xiic_hw \<Rightarrow> 'h xiic_i2c \<Rightarrow> unit result \<times> 'h xiic_i2c" where
  "xiic_clear_rx_fifo hw s = clear_rx_fifo_loop hw (hw_polls hw (xi_hw s)) s"

fun wait_tx_empty_loop :: "'h xiic_hw \<Rightarrow> nat \<Rightarrow> 'h xiic_i2c \<Rightarrow> unit result \<times> 'h xiic_i2c" where
  "wait_tx_empty_loop hw n s =
     (case xiic_getreg32 hw XIIC_IISR_OFFSET s of
        (isr, s) \<Rightarrow>
          if (ucast isr :: u8) AND ucast XIIC_INTR_TX_EMPTY_MASK \<noteq> 0 then (Inr (), s)
          else (case n of 0 \<Rightarrow> (Inl ETIMEDOUT, s) | Suc n \<Rightarrow> wait_tx_empty_loop hw n s))"

declare wait_tx_empty_loop.simps [simp del]

definition xiic_wait_tx_empty :: "'h xiic_hw \<Rightarrow> 'h xiic_i2c \<Rightarrow> unit result \<times> 'h xiic_i2c" where
  "xiic_wait_tx_empty hw s = wait_tx_empty_loop hw (hw_polls hw (xi_hw s)) s"

section \<open>Clock setup and initialisation\<close>

record timing_regs =
  tsusta :: u32
  tsusto :: u32
  thdsta :: u32
  tsudat :: u32
  tbuf :: u32

definition timing_reg_values :: "timing_regs list" where
  "timing_reg_values = [
     \<lparr>tsusta = 5700, tsusto = 5000, thdsta = 4300, tsudat = 550, tbuf = 5000\<rparr>,
     \<lparr>tsusta = 900, tsusto = 900, thdsta = 900, tsudat = 400, tbuf = 1600\<rparr>,
     \<lparr>tsusta = 380, tsusto = 380, thdsta = 380, tsudat = 170, tbuf = 620\<rparr>]"

definition I2C_MAX_STANDARD_MODE_FREQ :: u32 where "I2C_MAX_STANDARD_MODE_FREQ = 100000"
definition I2C_MAX_FAST_MODE_FREQ :: u32 where "I2C_MAX_FAST_MODE_FREQ = 400000"
definition I2C_MAX_FAST_MODE_PLUS_FREQ :: u32 where "I2C_MAX_FAST_MODE_PLUS_FREQ = 1000000"

definition DIV_ROUND_UP :: "u64 \<Rightarrow> u64 \<Rightarrow> u64" where
  "DIV_ROUND_UP n d = (n + d - 1) div d"

definition scl_index :: "u32 \<Rightarrow> nat option" where
  "scl_index freq =
     (if freq = I2C_MAX_FAST_MODE_PLUS_FREQ then Some 2
      else if freq = I2C_MAX_FAST_MODE_FREQ then Some 1
      else if freq = I2C_MAX_STANDARD_MODE_FREQ then Some 0
      else None)"

text \<open>The timing registers in the order they are written, with their values.\<close>

definition timing_writes :: "u32 \<Rightarrow> u32 \<Rightarrow> timing_regs \<Rightarrow> (nat \<times> u32) list" where
  "timing_writes thigh clk_in_mhz t =
     [(XIIC_THIGH_REG_OFFSET, thigh - 1),
      (XIIC_TLOW_REG_OFFSET, thigh - 1),
      (XIIC_TSUSTA_REG_OFFSET, tsusta t * clk_in_mhz div 1000 - 1),
      (XIIC_TSUSTO_REG_OFFSET, tsusto t * clk_in_mhz div 1000 - 1),
      (XIIC_THDSTA_REG_OFFSET, thdsta t * clk_in_mhz div 1000 - 1),
      (XIIC_TSUDAT_REG_OFFSET, tsudat t * clk_in_mhz div 1000 - 1),
      (XIIC_TBUF_REG_OFFSET, tbuf t * clk_in_mhz div 1000 - 1),
      (XIIC_THDDAT_REG_OFFSET, 1)]"

definition write_regs :: "'h xiic_hw \<Rightarrow> (nat \<times> u32) list \<Rightarrow> 'h xiic_i2c \<Rightarrow> 'h xiic_i2c" where
  "write_regs hw ws s = fold (\<lambda>(reg, v). xiic_setreg32 hw reg v) ws s"

definition xiic_setclk :: "'h xiic_hw \<Rightarrow> 'h xiic_i2c \<Rightarrow> unit result \<times> 'h xiic_i2c" where
  "xiic_setclk hw s =
     (if i2c_clk s = 0 \<or> input_clk s = 0 then (Inr (), s)
      else
        let clk_in_mhz = ucast (DIV_ROUND_UP (input_clk s) 1000000) :: u32
        in case scl_index (i2c_clk s) of
             None \<Rightarrow> (Inl EINVAL, s)
           | Some index \<Rightarrow>
               let reg_val = ucast (DIV_ROUND_UP (input_clk s) (ucast (2 * i2c_clk s)) - 7) :: u32
               in if reg_val = 0 then (Inl EINVAL, s)
                  else (Inr (), write_regs hw (timing_writes reg_val clk_in_mhz (timing_reg_values ! index)) s))"

definition xiic_reinit :: "'h xiic_hw \<Rightarrow> 'h xiic_i2c \<Rightarrow> unit result \<times> 'h xiic_i2c" where
  "xiic_reinit hw s =
     (let s = xiic_setreg32 hw XIIC_RESETR_OFFSET XIIC_RESET_MASK s
      in case xiic_setclk hw s of
           (Inl e, s) \<Rightarrow> (Inl e, s)
         | (Inr _, s) \<Rightarrow>
             let s = xiic_setreg8 hw XIIC_RFD_REG_OFFSET (of_nat (IIC_RX_FIFO_DEPTH - 1)) s;
                 s = xiic_setreg8 hw XIIC_CR_REG_OFFSET XIIC_CR_TX_FIFO_RESET_MASK s;
                 s = xiic_setreg8 hw XIIC_CR_REG_OFFSET XIIC_CR_ENABLE_DEVICE_MASK s
             in case xiic_clear_rx_fifo hw s of
                  (Inl e, s) \<Rightarrow> (Inl e, s)
                | (Inr _, s) \<Rightarrow>
                    let s = xiic_setreg32 hw XIIC_DGIER_OFFSET XIIC_GINTR_ENABLE_MASK s;
                        s = xiic_irq_clr_en hw XIIC_INTR_ARB_LOST_MASK s
                    in (Inr (), s))"

definition xiic_deinit :: "'h xiic_hw \<Rightarrow> 'h xiic_i2c \<Rightarrow> 'h xiic_i2c" where
  "xiic_deinit hw s =
     cr_update hw (\<lambda>cr. cr AND NOT XIIC_CR_ENABLE_DEVICE_MASK)
       (xiic_setreg32 hw XIIC_RESETR_OFFSET XIIC_RESET_MASK s)"

section \<open>Messages\<close>

text \<open>
  A message through a pointer. An access through a pointer that is null or stale is a fault: each
  block that goes through a pointer begins with \<open>deref\<close>, which records it, and a write records it
  by itself. (\<open>msg_at\<close> answers an empty message there.)
\<close>

definition msg_at :: "nat option \<Rightarrow> 'h xiic_i2c \<Rightarrow> i2c_msg" where
  "msg_at p s = (case p of
      Some k \<Rightarrow> if k < length (xi_msgs s) then xi_msgs s ! k else \<lparr>im_addr = 0, im_flags = 0, im_len = 0, im_buf = []\<rparr>
    | None \<Rightarrow> \<lparr>im_addr = 0, im_flags = 0, im_len = 0, im_buf = []\<rparr>)"

definition upd_msg :: "nat option \<Rightarrow> (i2c_msg \<Rightarrow> i2c_msg) \<Rightarrow> 'h xiic_i2c \<Rightarrow> 'h xiic_i2c" where
  "upd_msg p f s = (case p of
      Some k \<Rightarrow> if k < length (xi_msgs s) then s\<lparr>xi_msgs := (xi_msgs s)[k := f (xi_msgs s ! k)]\<rparr>
               else s\<lparr>mem_fault := True\<rparr>
    | None \<Rightarrow> s\<lparr>mem_fault := True\<rparr>)"

definition deref :: "nat option \<Rightarrow> 'h xiic_i2c \<Rightarrow> 'h xiic_i2c" where
  "deref p s = (case p of
      Some k \<Rightarrow> if k < length (xi_msgs s) then s else s\<lparr>mem_fault := True\<rparr>
    | None \<Rightarrow> s\<lparr>mem_fault := True\<rparr>)"

text \<open>\<open>xiic_tx_space\<close> and \<open>xiic_rx_space\<close>: \<open>tx_pos\<close> is unsigned, \<open>rx_pos\<close> an \<open>int\<close>.\<close>

definition xiic_tx_space :: "'h xiic_i2c \<Rightarrow> u32" where
  "xiic_tx_space s = ucast (im_len (msg_at (tx_msg s) s)) - tx_pos s"

definition xiic_rx_space :: "'h xiic_i2c \<Rightarrow> int" where
  "xiic_rx_space s = int (unat (im_len (msg_at (rx_msg s) s))) - rx_pos s"

text \<open>\<open>rx_msg->buf[rx_pos++] = v\<close> and \<open>tx_msg->buf[tx_pos++]\<close>.\<close>

definition rx_store :: "u8 \<Rightarrow> 'h xiic_i2c \<Rightarrow> 'h xiic_i2c" where
  "rx_store v s =
     (if 0 \<le> rx_pos s \<and> nat (rx_pos s) < length (im_buf (msg_at (rx_msg s) s))
      then upd_msg (rx_msg s) (\<lambda>m. m\<lparr>im_buf := (im_buf m)[nat (rx_pos s) := v]\<rparr>) s
      else s\<lparr>mem_fault := True\<rparr>)\<lparr>rx_pos := rx_pos s + 1\<rparr>"

definition tx_load :: "'h xiic_i2c \<Rightarrow> u8 \<times> 'h xiic_i2c" where
  "tx_load s =
     (let buf = im_buf (msg_at (tx_msg s) s)
      in if unat (tx_pos s) < length buf then (buf ! unat (tx_pos s), s\<lparr>tx_pos := tx_pos s + 1\<rparr>)
         else (0, s\<lparr>mem_fault := True, tx_pos := tx_pos s + 1\<rparr>))"

definition msg_flag :: "u16 \<Rightarrow> i2c_msg \<Rightarrow> bool" where
  "msg_flag f m = (im_flags m AND f \<noteq> 0)"

section \<open>Receiving\<close>

definition xiic_smbus_block_read_setup :: "'h xiic_hw \<Rightarrow> 'h xiic_i2c \<Rightarrow> 'h xiic_i2c" where
  "xiic_smbus_block_read_setup hw s =
     (let s = upd_msg (rx_msg s) (\<lambda>m. m\<lparr>im_flags := im_flags m AND NOT I2C_M_RECV_LEN\<rparr>) s;
          s = s\<lparr>smbus_block_read := True\<rparr>
      in case xiic_getreg8 hw XIIC_DRR_REG_OFFSET s of
           (rxmsg_len, s) \<Rightarrow>
             let s = rx_store rxmsg_len s;
                 n = ucast rxmsg_len :: u32
             in if unat rxmsg_len \<le> I2C_SMBUS_BLOCK_MAX then
                  let pec_len = ucast (im_len (msg_at (rx_msg s) s)) - 1 :: u32;
                      len = n + 1 + pec_len;
                      set_len = \<lambda>l. upd_msg (rx_msg s) (\<lambda>m. m\<lparr>im_len := l\<rparr>);
                      (rfd_set, s) =
                        (if n + pec_len > of_nat IIC_RX_FIFO_DEPTH
                         then (of_nat (IIC_RX_FIFO_DEPTH - 1), set_len (ucast len) s)
                         else if 1 + n + pec_len < of_nat SMBUS_BLOCK_READ_MIN_LEN
                         then (0, (set_len (of_nat SMBUS_BLOCK_READ_MIN_LEN) s)\<lparr>smbus_actual_len := 1 + n + pec_len\<rparr>)
                         else (ucast (n + pec_len - 2), set_len (ucast len) s))
                  in xiic_setreg8 hw XIIC_RFD_REG_OFFSET rfd_set s
                else
                  (upd_msg (tx_msg s) (\<lambda>m. m\<lparr>im_len := 3\<rparr>) s)\<lparr>smbus_block_read := False\<rparr>)"

definition xiic_smbus_trim_len :: "'h xiic_i2c \<Rightarrow> 'h xiic_i2c" where
  "xiic_smbus_trim_len s =
     (if rx_msg s \<noteq> None \<and> smbus_actual_len s \<noteq> 0
      then upd_msg (rx_msg s) (\<lambda>m. m\<lparr>im_len := ucast (smbus_actual_len s)\<rparr>) s
      else s)"

fun read_fifo :: "'h xiic_hw \<Rightarrow> nat \<Rightarrow> 'h xiic_i2c \<Rightarrow> 'h xiic_i2c" where
  "read_fifo hw 0 s = s"
| "read_fifo hw (Suc n) s =
     (case xiic_getreg8 hw XIIC_DRR_REG_OFFSET s of (v, s) \<Rightarrow> read_fifo hw n (rx_store v s))"

text \<open>How many bytes a standard mode read takes from the FIFO, and what it does to the control
  register first.\<close>

definition std_chunk :: "'h xiic_hw \<Rightarrow> u8 \<Rightarrow> u32 \<Rightarrow> 'h xiic_i2c \<Rightarrow> u8 \<times> 'h xiic_i2c" where
  "std_chunk hw bytes_in_fifo bytes_rem s =
     (if bytes_rem > of_nat IIC_RX_FIFO_DEPTH then (bytes_in_fifo, s)
      else if bytes_rem > 1 then (ucast (bytes_rem - 1), s)
      else if bytes_rem = 1 then
        let s = cr_update hw (\<lambda>cr. cr OR XIIC_CR_NO_ACK_MASK) s in (1, s)
      else
        let s = (if nmsgs s = 1 then cr_update hw (\<lambda>cr. cr AND NOT XIIC_CR_MSMS_MASK) s else s);
            s = cr_update hw (\<lambda>cr. cr AND NOT XIIC_CR_NO_ACK_MASK) s
        in (bytes_in_fifo, s))"

definition xiic_read_rx :: "'h xiic_hw \<Rightarrow> 'h xiic_i2c \<Rightarrow> 'h xiic_i2c" where
  "xiic_read_rx hw s =
     (case xiic_getreg8 hw XIIC_RFO_REG_OFFSET s of
        (rfo, s) \<Rightarrow>
          let s = deref (rx_msg s) s;
              bytes_in_fifo = rfo + 1;
              bytes_in_fifo = (if int (unat bytes_in_fifo) > xiic_rx_space s
                               then word_of_int (xiic_rx_space s) else bytes_in_fifo)
          in if \<not> dynamic s then
               let bytes_rem = word_of_int (xiic_rx_space s - int (unat bytes_in_fifo)) :: u32
               in if msg_flag I2C_M_RECV_LEN (msg_at (rx_msg s) s) then xiic_smbus_block_read_setup hw s
                  else (case std_chunk hw bytes_in_fifo bytes_rem s of
                          (bytes_to_read, s) \<Rightarrow> read_fifo hw (unat bytes_to_read) s)
             else
               let s = read_fifo hw (unat bytes_in_fifo) s;
                   bytes = min (word_of_int (xiic_rx_space s)) (of_nat IIC_RX_FIFO_DEPTH) - 1 :: u8
               in xiic_setreg8 hw XIIC_RFD_REG_OFFSET bytes s)"

section \<open>Sending\<close>

definition xiic_tx_fifo_space :: "'h xiic_hw \<Rightarrow> 'h xiic_i2c \<Rightarrow> int \<times> 'h xiic_i2c" where
  "xiic_tx_fifo_space hw s =
     (case xiic_getreg8 hw XIIC_TFO_REG_OFFSET s of
        (tfo, s) \<Rightarrow> (int IIC_TX_FIFO_DEPTH - int (unat tfo) - 1, s))"

text \<open>The loop \<open>while (len--)\<close>, which returns when the FIFO does not drain before a STOP.\<close>

fun fill_fifo :: "'h xiic_hw \<Rightarrow> nat \<Rightarrow> 'h xiic_i2c \<Rightarrow> 'h xiic_i2c" where
  "fill_fifo hw 0 s = s"
| "fill_fifo hw (Suc n) s =
     (case tx_load s of
        (b, s) \<Rightarrow>
          let data = ucast b :: u16
          in if xiic_tx_space s = 0 \<and> nmsgs s = 1 then
               if dynamic s
               then
                 let s = xiic_setreg16 hw XIIC_DTR_REG_OFFSET (data OR XIIC_TX_DYN_STOP_MASK) s
                 in fill_fifo hw n s
               else
                 (case xiic_wait_tx_empty hw s of
                    (Inl _, s) \<Rightarrow> s
                  | (Inr _, s) \<Rightarrow>
                      let s = cr_update hw (\<lambda>cr. cr AND NOT XIIC_CR_MSMS_MASK) s;
                          s = xiic_setreg16 hw XIIC_DTR_REG_OFFSET data s
                      in fill_fifo hw n s)
             else let s = xiic_setreg16 hw XIIC_DTR_REG_OFFSET data s in fill_fifo hw n s)"

definition fill_count :: "int \<Rightarrow> u32 \<Rightarrow> nat" where
  "fill_count space tx_space =
     (let fifo_space = word_of_int space :: u8;
          len = (if sint tx_space > int (unat fifo_space) then ucast fifo_space else tx_space) :: s32
      in unat len)"

definition xiic_fill_tx_fifo :: "'h xiic_hw \<Rightarrow> 'h xiic_i2c \<Rightarrow> 'h xiic_i2c" where
  "xiic_fill_tx_fifo hw s =
     (case xiic_tx_fifo_space hw s of
        (space, s) \<Rightarrow>
          let s = deref (tx_msg s) s
          in fill_fifo hw (fill_count space (xiic_tx_space s)) s)"

section \<open>Starting a message\<close>

definition i2c_8bit_addr_from_msg :: "i2c_msg \<Rightarrow> u8" where
  "i2c_8bit_addr_from_msg m =
     ucast (push_bit 1 (im_addr m)) OR (if msg_flag I2C_M_RD m then 1 else 0)"

text \<open>The end of \<open>xiic_start_recv\<close>, common to both modes.\<close>

definition start_recv_end :: "'h xiic_hw \<Rightarrow> i2c_msg \<Rightarrow> 'h xiic_i2c \<Rightarrow> 'h xiic_i2c" where
  "start_recv_end hw msg s =
     (let s = (if nmsgs s = 1 then xiic_irq_clr_en hw XIIC_INTR_BNB_MASK s else s);
          s = s\<lparr>tx_pos := ucast (im_len msg)\<rparr>;
          s = xiic_setreg32 hw XIIC_DGIER_OFFSET XIIC_GINTR_ENABLE_MASK s
      in s\<lparr>prev_msg_tx := False\<rparr>)"

definition xiic_start_recv :: "'h xiic_hw \<Rightarrow> 'h xiic_i2c \<Rightarrow> 'h xiic_i2c" where
  "xiic_start_recv hw s =
     (let s = s\<lparr>rx_msg := tx_msg s, smbus_actual_len := 0\<rparr>;
          msg = msg_at (tx_msg s) s;
          s = xiic_irq_dis hw (XIIC_INTR_TX_HALF_MASK OR XIIC_INTR_TX_EMPTY_MASK) s;
          rx_watermark = im_len msg
      in if dynamic s then
           let s = xiic_irq_clr_en hw (XIIC_INTR_RX_FULL_MASK OR XIIC_INTR_TX_ERROR_MASK) s;
               bytes = min (ucast rx_watermark) (of_nat IIC_RX_FIFO_DEPTH) :: u8;
               bytes = (if rx_watermark > 0 then bytes - 1 else bytes);
               s = xiic_setreg8 hw XIIC_RFD_REG_OFFSET bytes s;
               s = xiic_setreg16 hw XIIC_DTR_REG_OFFSET
                     (ucast (i2c_8bit_addr_from_msg msg) OR XIIC_TX_DYN_START_MASK) s;
               v = (if nmsgs s = 1 then XIIC_TX_DYN_STOP_MASK else 0) OR im_len msg;
               s = xiic_setreg16 hw XIIC_DTR_REG_OFFSET v s;
               s = xiic_irq_clr_en hw XIIC_INTR_BNB_MASK s
           in start_recv_end hw msg s
         else
           (case (if prev_msg_tx s then xiic_wait_tx_empty hw s else (Inr (), s)) of
              (Inl _, s) \<Rightarrow> s
            | (Inr _, s) \<Rightarrow>
              (case xiic_getreg8 hw XIIC_CR_REG_OFFSET s of
                 (cr, s) \<Rightarrow>
                   let cr = (if rx_watermark = 1 \<and> \<not> msg_flag I2C_M_RECV_LEN (msg_at (rx_msg s) s)
                             then cr OR XIIC_CR_NO_ACK_MASK else cr);
                       rfd_set = (if unat rx_watermark > IIC_RX_FIFO_DEPTH then of_nat (IIC_RX_FIFO_DEPTH - 1)
                                  else if rx_watermark = 1 then 0
                                  else if rx_watermark = 0 then 0
                                  else ucast (rx_watermark - 2)) :: u8;
                       s = (if cr AND XIIC_CR_MSMS_MASK \<noteq> 0
                            then xiic_setreg8 hw XIIC_CR_REG_OFFSET
                                   ((cr OR XIIC_CR_REPEATED_START_MASK) AND NOT XIIC_CR_DIR_IS_TX_MASK) s
                            else s);
                       s = xiic_setreg8 hw XIIC_RFD_REG_OFFSET rfd_set s;
                       s = xiic_irq_clr_en hw (XIIC_INTR_RX_FULL_MASK OR XIIC_INTR_TX_ERROR_MASK) s;
                       s = xiic_setreg16 hw XIIC_DTR_REG_OFFSET (ucast (i2c_8bit_addr_from_msg msg)) s;
                       s = (if cr AND XIIC_CR_MSMS_MASK = 0
                            then xiic_setreg8 hw XIIC_CR_REG_OFFSET
                                   ((cr OR XIIC_CR_MSMS_MASK) AND NOT XIIC_CR_DIR_IS_TX_MASK) s
                            else s)
                   in start_recv_end hw msg s)))"

definition xiic_start_send :: "'h xiic_hw \<Rightarrow> 'h xiic_i2c \<Rightarrow> 'h xiic_i2c" where
  "xiic_start_send hw s =
     (let msg = msg_at (tx_msg s) s
      in if dynamic s then
           let data = ucast (i2c_8bit_addr_from_msg msg) OR XIIC_TX_DYN_START_MASK;
               data = (if nmsgs s = 1 \<and> im_len msg = 0 then data OR XIIC_TX_DYN_STOP_MASK else data);
               s = xiic_setreg16 hw XIIC_DTR_REG_OFFSET data s;
               s = xiic_irq_clr_en hw
                     (XIIC_INTR_TX_EMPTY_MASK OR XIIC_INTR_TX_ERROR_MASK OR XIIC_INTR_BNB_MASK
                      OR (if nmsgs s > 1 \<or> xiic_tx_space s \<noteq> 0 then XIIC_INTR_TX_HALF_MASK else 0)) s
           in (let s = xiic_fill_tx_fifo hw s in s\<lparr>prev_msg_tx := True\<rparr>)
         else
           (case (if prev_msg_tx s then xiic_wait_tx_empty hw s else (Inr (), s)) of
              (Inl _, s) \<Rightarrow> s
            | (Inr _, s) \<Rightarrow>
              (case xiic_getreg8 hw XIIC_CR_REG_OFFSET s of
                 (cr, s) \<Rightarrow>
                   let s = (if cr AND XIIC_CR_MSMS_MASK \<noteq> 0
                            then xiic_setreg8 hw XIIC_CR_REG_OFFSET
                                   ((cr OR XIIC_CR_REPEATED_START_MASK OR XIIC_CR_DIR_IS_TX_MASK)
                                    AND NOT XIIC_CR_NO_ACK_MASK) s
                            else s);
                       s = xiic_setreg16 hw XIIC_DTR_REG_OFFSET (ucast (i2c_8bit_addr_from_msg msg)) s;
                       s = xiic_fill_tx_fifo hw s;
                       s = (if cr AND XIIC_CR_MSMS_MASK = 0
                            then cr_update hw (\<lambda>cr. cr OR XIIC_CR_MSMS_MASK OR XIIC_CR_DIR_IS_TX_MASK) s
                            else s);
                       s = xiic_irq_clr_en hw
                             (XIIC_INTR_TX_EMPTY_MASK OR XIIC_INTR_TX_ERROR_MASK OR XIIC_INTR_BNB_MASK) s
                   in s\<lparr>prev_msg_tx := True\<rparr>)))"

text \<open>\<open>__xiic_start_xfer\<close>, which starts the message at \<open>tx_msg\<close>.\<close>

definition xiic_start_msg :: "'h xiic_hw \<Rightarrow> 'h xiic_i2c \<Rightarrow> 'h xiic_i2c" where
  "xiic_start_msg hw s =
     (case xiic_tx_fifo_space hw s of
        (_, s) \<Rightarrow>
          if tx_msg s = None then s
          else
            let s = s\<lparr>rx_pos := 0, tx_pos := 0, xi_state := STATE_START\<rparr>;
                s = deref (tx_msg s) s
            in if msg_flag I2C_M_RD (msg_at (tx_msg s) s) then xiic_start_recv hw s
               else xiic_start_send hw s)"

section \<open>The interrupt handler\<close>

definition xiic_wakeup :: "xilinx_i2c_state \<Rightarrow> 'h xiic_i2c \<Rightarrow> 'h xiic_i2c" where
  "xiic_wakeup code s =
     s\<lparr>tx_msg := None, rx_msg := None, nmsgs := 0, xi_state := code, completed := True\<rparr>"

text \<open>The handler's local variables: \<open>clr\<close>, \<open>xfer_more\<close>, and the wakeup request with its code.
  The blocks of the handler say in their first component whether they jump to \<open>out\<close>.\<close>

record isr_vars =
  v_clr :: u32
  v_more :: bool
  v_wake :: "xilinx_i2c_state option"

definition isr_start :: isr_vars where
  "isr_start = \<lparr>v_clr = 0, v_more = False, v_wake = None\<rparr>"

text \<open>A transmit error whose message is already complete in the receive FIFO is a completion.\<close>

definition rx_salvage :: "'h xiic_hw \<Rightarrow> u32 \<Rightarrow> 'h xiic_i2c \<Rightarrow> bool \<times> 'h xiic_i2c" where
  "rx_salvage hw pend s =
     (if rx_msg s = None \<or> pend AND XIIC_INTR_ARB_LOST_MASK \<noteq> 0 then (False, s)
      else
        (case xiic_getreg8 hw XIIC_SR_REG_OFFSET s of
           (sr, s) \<Rightarrow>
             if sr AND XIIC_SR_RX_FIFO_EMPTY_MASK \<noteq> 0 then (False, s)
             else
               (case xiic_getreg8 hw XIIC_RFO_REG_OFFSET s of
                  (rfo, s) \<Rightarrow>
                    let s = deref (rx_msg s) s;
                        in_fifo = ucast rfo + 1 :: u32;
                        space = word_of_int (xiic_rx_space s) :: u32
                    in (space \<noteq> 0 \<and> in_fifo \<ge> space, s))))"

definition isr_error :: "'h xiic_hw \<Rightarrow> isr_vars \<Rightarrow> 'h xiic_i2c \<Rightarrow> isr_vars \<times> 'h xiic_i2c" where
  "isr_error hw v s =
     (case xiic_reinit hw s of
        (_, s) \<Rightarrow>
          (if rx_msg s \<noteq> None \<or> tx_msg s \<noteq> None then v\<lparr>v_wake := Some STATE_ERROR\<rparr> else v, s))"

definition isr_rx :: "'h xiic_hw \<Rightarrow> u32 \<Rightarrow> u32 \<Rightarrow> isr_vars \<Rightarrow> 'h xiic_i2c \<Rightarrow> bool \<times> isr_vars \<times> 'h xiic_i2c" where
  "isr_rx hw isr pend v s =
     (if pend AND XIIC_INTR_RX_FULL_MASK = 0 then (False, v, s)
      else
        let v = v\<lparr>v_clr := v_clr v OR XIIC_INTR_RX_FULL_MASK\<rparr>
        in if rx_msg s = None then (True, v, snd (xiic_clear_rx_fifo hw s))
           else
             let s = xiic_read_rx hw s
             in if xiic_rx_space s = 0 then
                  let s = (xiic_smbus_trim_len s)\<lparr>rx_msg := None\<rparr>;
                      v = v\<lparr>v_clr := v_clr v OR (isr AND XIIC_INTR_TX_ERROR_MASK)\<rparr>
                  in if nmsgs s > 1
                     then (False, v\<lparr>v_more := True\<rparr>, s\<lparr>nmsgs := nmsgs s - 1, tx_msg := map_option Suc (tx_msg s)\<rparr>)
                     else (False, v, s)
                else (False, v, s))"

definition isr_tx :: "'h xiic_hw \<Rightarrow> u32 \<Rightarrow> isr_vars \<Rightarrow> 'h xiic_i2c \<Rightarrow> bool \<times> isr_vars \<times> 'h xiic_i2c" where
  "isr_tx hw pend v s =
     (let ev = pend AND (XIIC_INTR_TX_EMPTY_MASK OR XIIC_INTR_TX_HALF_MASK)
      in if ev = 0 then (False, v, s)
         else
           let v = v\<lparr>v_clr := v_clr v OR ev\<rparr>
           in if tx_msg s = None then (True, v, s)
              else
                let s = deref (tx_msg s) s
                in if xiic_tx_space s \<noteq> 0 then (False, v, xiic_fill_tx_fifo hw s)
                   else if nmsgs s > 1 \<and> pend AND XIIC_INTR_TX_EMPTY_MASK \<noteq> 0
                   then (False, v\<lparr>v_more := True\<rparr>, s\<lparr>nmsgs := nmsgs s - 1, tx_msg := map_option Suc (tx_msg s)\<rparr>)
                   else (False, v, xiic_irq_dis hw XIIC_INTR_TX_HALF_MASK s))"

definition isr_bnb :: "'h xiic_hw \<Rightarrow> u32 \<Rightarrow> isr_vars \<Rightarrow> 'h xiic_i2c \<Rightarrow> isr_vars \<times> 'h xiic_i2c" where
  "isr_bnb hw pend v s =
     (if pend AND XIIC_INTR_BNB_MASK = 0 then (v, s)
      else
        let v = v\<lparr>v_clr := v_clr v OR XIIC_INTR_BNB_MASK\<rparr>;
            s = xiic_irq_dis hw XIIC_INTR_BNB_MASK s;
            s = (if tx_msg s \<noteq> None \<and> smbus_block_read s
                 then (deref (tx_msg s) s)\<lparr>smbus_block_read := False, tx_pos := ucast (im_len (msg_at (tx_msg s) s))\<rparr>
                 else s)
        in if tx_msg s = None then (v, s)
           else if nmsgs s = 1 \<and> rx_msg s = None
           then let s = deref (tx_msg s) s
                in (v\<lparr>v_wake := Some (if xiic_tx_space s = 0 then STATE_DONE else STATE_ERROR)\<rparr>, s)
           else (v\<lparr>v_wake := Some STATE_ERROR\<rparr>, s))"

definition isr_out :: "'h xiic_hw \<Rightarrow> bool \<Rightarrow> isr_vars \<Rightarrow> 'h xiic_i2c \<Rightarrow> 'h xiic_i2c" where
  "isr_out hw rx_done_no_rx_full v s =
     (let clr = (if rx_done_no_rx_full then v_clr v AND NOT XIIC_INTR_RX_FULL_MASK else v_clr v);
          s = xiic_setreg32 hw XIIC_IISR_OFFSET clr s;
          s = (if v_more v then xiic_start_msg hw s else s)
      in case v_wake v of None \<Rightarrow> s | Some code \<Rightarrow> xiic_wakeup code s)"

text \<open>From the label \<open>rx_complete\<close> to the end.\<close>

definition isr_events :: "'h xiic_hw \<Rightarrow> bool \<Rightarrow> u32 \<Rightarrow> u32 \<Rightarrow> isr_vars \<Rightarrow> 'h xiic_i2c \<Rightarrow> 'h xiic_i2c" where
  "isr_events hw no_rx_full isr pend v s =
     (case isr_rx hw isr pend v s of
        (True, v, s) \<Rightarrow> isr_out hw no_rx_full v s
      | (False, v, s) \<Rightarrow>
        (case isr_tx hw pend v s of
           (True, v, s) \<Rightarrow> isr_out hw no_rx_full v s
         | (False, v, s) \<Rightarrow> (case isr_bnb hw pend v s of (v, s) \<Rightarrow> isr_out hw no_rx_full v s)))"

definition xiic_process :: "'h xiic_hw \<Rightarrow> 'h xiic_i2c \<Rightarrow> 'h xiic_i2c" where
  "xiic_process hw s =
     (case xiic_getreg32 hw XIIC_IISR_OFFSET s of
        (isr, s) \<Rightarrow>
        (case xiic_getreg32 hw XIIC_IIER_OFFSET s of
           (ier, s) \<Rightarrow>
             let pend = isr AND ier
             in if pend AND XIIC_INTR_ARB_LOST_MASK \<noteq> 0
                   \<or> pend AND XIIC_INTR_TX_ERROR_MASK \<noteq> 0 \<and> pend AND XIIC_INTR_RX_FULL_MASK = 0
                then
                  (case rx_salvage hw pend s of
                     (True, s) \<Rightarrow>
                       isr_events hw (isr AND XIIC_INTR_RX_FULL_MASK = 0) isr (pend OR XIIC_INTR_RX_FULL_MASK)
                         (isr_start\<lparr>v_clr := XIIC_INTR_TX_ERROR_MASK\<rparr>) s
                   | (False, s) \<Rightarrow> (case isr_error hw isr_start s of (v, s) \<Rightarrow> isr_out hw False v s))
                else isr_events hw False isr pend isr_start s))"

section \<open>Transfers\<close>

definition xiic_bus_busy :: "'h xiic_hw \<Rightarrow> 'h xiic_i2c \<Rightarrow> unit result \<times> 'h xiic_i2c" where
  "xiic_bus_busy hw s =
     (case xiic_getreg8 hw XIIC_SR_REG_OFFSET s of
        (sr, s) \<Rightarrow> (if sr AND XIIC_SR_BUS_BUSY_MASK \<noteq> 0 then Inl EBUSY else Inr (), s))"

fun wait_not_busy_loop :: "'h xiic_hw \<Rightarrow> nat \<Rightarrow> 'h xiic_i2c \<Rightarrow> unit result \<times> 'h xiic_i2c" where
  "wait_not_busy_loop hw 0 s = xiic_bus_busy hw s"
| "wait_not_busy_loop hw (Suc tries) s =
     (case xiic_bus_busy hw s of
        (Inr _, s) \<Rightarrow> (Inr (), s)
      | (Inl _, s) \<Rightarrow> wait_not_busy_loop hw tries s)"

definition xiic_wait_not_busy :: "'h xiic_hw \<Rightarrow> 'h xiic_i2c \<Rightarrow> unit result \<times> 'h xiic_i2c" where
  "xiic_wait_not_busy hw s = wait_not_busy_loop hw 3 s"

text \<open>The messages that dynamic mode cannot handle, and the scan over a transfer.\<close>

definition needs_standard :: "u32 \<Rightarrow> i2c_msg \<Rightarrow> bool" where
  "needs_standard q m =
     (let broken_read = (q AND DYNAMIC_MODE_READ_BROKEN_BIT \<noteq> 0 \<and> msg_flag I2C_M_RD m);
          max_read_len = (msg_flag I2C_M_RD m \<and> unat (im_len m) > MAX_READ_LENGTH_DYNAMIC);
          smbus_blk_read = msg_flag I2C_M_RECV_LEN m
      in broken_read \<or> max_read_len \<or> smbus_blk_read)"

fun scan_dynamic :: "u32 \<Rightarrow> i2c_msg list \<Rightarrow> bool" where
  "scan_dynamic q [] = True"
| "scan_dynamic q (m # ms) = (if needs_standard q m then False else scan_dynamic q ms)"

text \<open>The controller is made available: in a multi-master system the bus must be free, if need be
  after a reset.\<close>

definition acquire_bus :: "'h xiic_hw \<Rightarrow> 'h xiic_i2c \<Rightarrow> unit result \<times> 'h xiic_i2c" where
  "acquire_bus hw s =
     (if singlemaster s then (Inr (), s)
      else
        (case xiic_wait_not_busy hw s of
           (Inr _, s) \<Rightarrow> (Inr (), s)
         | (Inl _, s) \<Rightarrow>
           (case xiic_reinit hw s of
              (Inl e, s) \<Rightarrow> (Inl e, s)
            | (Inr _, s) \<Rightarrow> xiic_wait_not_busy hw s)))"

definition xiic_start_xfer :: "'h xiic_hw \<Rightarrow> i2c_msg list \<Rightarrow> 'h xiic_i2c \<Rightarrow> unit result \<times> 'h xiic_i2c" where
  "xiic_start_xfer hw ms s =
     (if tx_msg s \<noteq> None \<or> rx_msg s \<noteq> None then (Inl EBUSY, s)
      else
        (case acquire_bus hw s of
           (Inl e, s) \<Rightarrow> (Inl e, s)
         | (Inr _, s) \<Rightarrow>
             let s = s\<lparr>xi_msgs := ms, tx_msg := Some 0, rx_msg := None, nmsgs := of_nat (length ms),
                       completed := False, dynamic := scan_dynamic (quirks s) ms, prev_msg_tx := False\<rparr>
             in case xiic_reinit hw s of
                  (Inl e, s) \<Rightarrow> (Inl e, s)
                | (Inr _, s) \<Rightarrow> (Inr (), xiic_start_msg hw s)))"

text \<open>
  \<open>xiic_xfer\<close> up to the wait, and after it. \<open>resume\<close> is what \<open>pm_runtime_resume_and_get\<close> answers,
  \<open>timeout\<close> whether the wait timed out.
\<close>

definition xiic_xfer_begin ::
    "'h xiic_hw \<Rightarrow> errno option \<Rightarrow> i2c_msg list \<Rightarrow> 'h xiic_i2c \<Rightarrow> unit result \<times> 'h xiic_i2c" where
  "xiic_xfer_begin hw resume ms s =
     (case resume of Some e \<Rightarrow> (Inl e, s) | None \<Rightarrow> xiic_start_xfer hw ms s)"

definition xiic_xfer_end :: "bool \<Rightarrow> nat \<Rightarrow> 'h xiic_i2c \<Rightarrow> nat result \<times> 'h xiic_i2c" where
  "xiic_xfer_end timeout num s =
     (if timeout then (Inl ETIMEDOUT, s\<lparr>tx_msg := None, rx_msg := None, nmsgs := 0\<rparr>)
      else (if xi_state s = STATE_DONE then Inr num else Inl EIO, s))"

section \<open>Probe and removal\<close>

text \<open>
  What probe finds in the device's OF node (\<open>None\<close>: the device has none), and what the kernel
  answers.
\<close>

record xiic_of =
  of_compatible :: string
  of_clock_frequency :: "u32 option"
  of_single_master :: bool

record xiic_env =
  xe_alloc :: bool
  xe_ioremap :: "errno option"
  xe_irq :: "errno option"
  xe_clk :: "u64 result"
  xe_request_irq :: "errno option"
  xe_add_adapter :: "errno option"

definition of_quirks :: "xiic_of option \<Rightarrow> u32" where
  "of_quirks node =
     (case node of
        Some n \<Rightarrow> if of_compatible n = ''xlnx,xps-iic-2.00.a'' then DYNAMIC_MODE_READ_BROKEN_BIT else 0
      | None \<Rightarrow> 0)"

definition of_scl :: "xiic_of option \<Rightarrow> u32" where
  "of_scl node =
     (case Option.bind node of_clock_frequency of
        Some f \<Rightarrow> if f > I2C_MAX_FAST_MODE_PLUS_FREQ then 0 else f
      | None \<Rightarrow> 0)"

definition xiic_new :: "addr \<Rightarrow> xiic_of option \<Rightarrow> u64 \<Rightarrow> 'h \<Rightarrow> 'h xiic_i2c" where
  "xiic_new b node clk h =
     \<lparr>xi_base = b, tx_msg = None, tx_pos = 0, nmsgs = 0, rx_msg = None, rx_pos = 0,
      endianness = LITTLE, xi_state = STATE_DONE,
      singlemaster = (case node of Some n \<Rightarrow> of_single_master n | None \<Rightarrow> False),
      dynamic = False, prev_msg_tx = False, quirks = of_quirks node, smbus_block_read = False,
      smbus_actual_len = 0, input_clk = clk, i2c_clk = of_scl node, completed = False,
      xi_msgs = [], mem_fault = False, xi_hw = h\<rparr>"

definition detect_endianness :: "'h xiic_hw \<Rightarrow> 'h xiic_i2c \<Rightarrow> 'h xiic_i2c" where
  "detect_endianness hw s =
     (let s = xiic_setreg32 hw XIIC_CR_REG_OFFSET (ucast XIIC_CR_TX_FIFO_RESET_MASK) (s\<lparr>endianness := LITTLE\<rparr>)
      in case xiic_getreg32 hw XIIC_SR_REG_OFFSET s of
           (sr, s) \<Rightarrow> if sr AND ucast XIIC_SR_TX_FIFO_EMPTY_MASK = 0 then s\<lparr>endianness := BIG\<rparr> else s)"

definition xiic_i2c_probe ::
    "'h xiic_hw \<Rightarrow> xiic_env \<Rightarrow> addr \<Rightarrow> xiic_of option \<Rightarrow> 'h \<Rightarrow> 'h xiic_i2c result \<times> 'h" where
  "xiic_i2c_probe hw env b node h =
     (if \<not> xe_alloc env then (Inl ENOMEM, h)
      else
        case (xe_ioremap env, xe_irq env, xe_clk env) of
          (Some e, _, _) \<Rightarrow> (Inl e, h)
        | (None, Some e, _) \<Rightarrow> (Inl e, h)
        | (None, None, Inl e) \<Rightarrow> (Inl e, h)
        | (None, None, Inr clk) \<Rightarrow>
            (case xe_request_irq env of
               Some e \<Rightarrow> (Inl e, h)
             | None \<Rightarrow>
                 let s = detect_endianness hw (xiic_new b node clk h)
                 in case xiic_reinit hw s of
                      (Inl e, s) \<Rightarrow> (Inl e, xi_hw s)
                    | (Inr _, s) \<Rightarrow>
                        (case xe_add_adapter env of
                           Some e \<Rightarrow> (Inl e, xi_hw (xiic_deinit hw s))
                         | None \<Rightarrow> (Inr s, xi_hw s))))"

text \<open>\<open>resume\<close> is what \<open>pm_runtime_get_sync\<close> answers.\<close>

definition xiic_i2c_remove :: "'h xiic_hw \<Rightarrow> errno option \<Rightarrow> 'h xiic_i2c \<Rightarrow> 'h xiic_i2c" where
  "xiic_i2c_remove hw resume s = (case resume of Some _ \<Rightarrow> s | None \<Rightarrow> xiic_deinit hw s)"

end
