(* ===== verification/Xiic_Frame.thy ===== *)
theory Xiic_Frame
  imports Xiic
begin

text \<open>
  What each operation of the Xilinx I2C driver leaves alone. Most of them touch the controller only;
  the lemmas give their result as the old driver state with another hardware state, and the
  contents of the interrupt enable register, which decides which events the handler can see.
\<close>

section \<open>The interrupt enable register\<close>

text \<open>
  The documented behaviour of the controller the driver relies on: the interrupt enable register
  holds what was last written to it, until a reset clears it.
\<close>

definition ier_latched :: "'h xiic_hw \<Rightarrow> ('h \<Rightarrow> u32) \<Rightarrow> addr \<Rightarrow> xiic_endian \<Rightarrow> bool" where
  "ier_latched hw ier b e =
     ((\<forall>opn a h. ier (snd (hw_read hw opn a h)) = ier h)
      \<and> (\<forall>h. fst (hw_read hw (op32 e) (b + XIIC_IIER_OFFSET) h) = ier h)
      \<and> (\<forall>v h. ier (hw_write hw (op32 e) (b + XIIC_IIER_OFFSET) v h) = v)
      \<and> (\<forall>h. ier (hw_write hw (op32 e) (b + XIIC_RESETR_OFFSET) XIIC_RESET_MASK h) = 0)
      \<and> (\<forall>opn a v h. a \<noteq> b + XIIC_IIER_OFFSET \<longrightarrow> a \<noteq> b + XIIC_RESETR_OFFSET \<longrightarrow>
           ier (hw_write hw opn a v h) = ier h))"

definition latched :: "'h xiic_hw \<Rightarrow> ('h \<Rightarrow> u32) \<Rightarrow> 'h xiic_i2c \<Rightarrow> bool" where
  "latched hw ier s = ier_latched hw ier (xi_base s) (endianness s)"

lemma latched_simps [simp]:
  "latched hw ier (s\<lparr>xi_hw := h\<rparr>) = latched hw ier s"
  "latched hw ier (s\<lparr>tx_pos := p\<rparr>) = latched hw ier s"
  "latched hw ier (s\<lparr>rx_pos := q\<rparr>) = latched hw ier s"
  "latched hw ier (s\<lparr>tx_msg := t\<rparr>) = latched hw ier s"
  "latched hw ier (s\<lparr>rx_msg := t\<rparr>) = latched hw ier s"
  "latched hw ier (s\<lparr>nmsgs := n\<rparr>) = latched hw ier s"
  "latched hw ier (s\<lparr>xi_msgs := ms\<rparr>) = latched hw ier s"
  "latched hw ier (s\<lparr>xi_state := st\<rparr>) = latched hw ier s"
  "latched hw ier (s\<lparr>dynamic := d\<rparr>) = latched hw ier s"
  "latched hw ier (s\<lparr>prev_msg_tx := d\<rparr>) = latched hw ier s"
  "latched hw ier (s\<lparr>completed := d\<rparr>) = latched hw ier s"
  "latched hw ier (s\<lparr>mem_fault := d\<rparr>) = latched hw ier s"
  "latched hw ier (s\<lparr>smbus_block_read := d\<rparr>) = latched hw ier s"
  "latched hw ier (s\<lparr>smbus_actual_len := w\<rparr>) = latched hw ier s"
  by (simp_all add: latched_def)

section \<open>Postconditions\<close>

text \<open>
  \<open>post ier Q t\<close> says that the result \<open>t\<close> satisfies \<open>Q\<close>. The rules below step over the first
  hardware access of \<open>t\<close>: what follows must satisfy \<open>Q\<close> from the same driver state with another
  hardware state \<open>h\<close>, of which only the interrupt enable register \<open>ier h\<close> is known.
\<close>

definition post :: "('h \<Rightarrow> u32) \<Rightarrow> ('a \<Rightarrow> bool) \<Rightarrow> 'a \<Rightarrow> bool" where
  "post ier Q t = Q t"

definition hw_res :: "('h \<Rightarrow> u32) \<Rightarrow> ('a \<Rightarrow> u32) \<Rightarrow> 'h xiic_i2c \<Rightarrow> 'a \<times> 'h xiic_i2c \<Rightarrow> bool" where
  "hw_res ier w s r = (\<exists>h. snd r = s\<lparr>xi_hw := h\<rparr> \<and> ier h = w (fst r))"

definition hw_upd :: "('h \<Rightarrow> u32) \<Rightarrow> u32 \<Rightarrow> 'h xiic_i2c \<Rightarrow> 'h xiic_i2c \<Rightarrow> bool" where
  "hw_upd ier w s s' = (\<exists>h. s' = s\<lparr>xi_hw := h\<rparr> \<and> ier h = w)"

abbreviation quiet :: "('h \<Rightarrow> u32) \<Rightarrow> 'h xiic_i2c \<Rightarrow> 'h xiic_i2c \<Rightarrow> bool" where
  "quiet ier s s' \<equiv> hw_upd ier (ier (xi_hw s)) s s'"

abbreviation quiet_res :: "('h \<Rightarrow> u32) \<Rightarrow> 'h xiic_i2c \<Rightarrow> 'a \<times> 'h xiic_i2c \<Rightarrow> bool" where
  "quiet_res ier s r \<equiv> hw_res ier (\<lambda>_. ier (xi_hw s)) s r"

lemma postI: "Q t \<Longrightarrow> post ier Q t"
  by (simp add: post_def)

lemma postD: "post ier Q t \<Longrightarrow> Q t"
  by (simp add: post_def)

lemma hw_upd_post: "post ier (hw_upd ier w s) t \<Longrightarrow> hw_upd ier w s t"
  by (simp add: post_def)

lemma hw_res_post: "post ier (hw_res ier w s) t \<Longrightarrow> hw_res ier w s t"
  by (simp add: post_def)

lemma post_if: "(b \<Longrightarrow> post ier Q x) \<Longrightarrow> (\<not> b \<Longrightarrow> post ier Q y) \<Longrightarrow> post ier Q (if b then x else y)"
  by simp

lemma post_let: "post ier Q (F t) \<Longrightarrow> post ier Q (Let t F)"
  by (simp add: Let_def)

lemma post_let_if:
  "(b \<Longrightarrow> post ier Q (Let x F)) \<Longrightarrow> (\<not> b \<Longrightarrow> post ier Q (Let y F)) \<Longrightarrow> post ier Q (Let (if b then x else y) F)"
  by simp

lemma post_sum:
  "(\<And>e. r = Inl e \<Longrightarrow> post ier Q (f e)) \<Longrightarrow> (\<And>u. r = Inr u \<Longrightarrow> post ier Q (g u)) \<Longrightarrow>
   post ier Q (case r of Inl e \<Rightarrow> f e | Inr u \<Rightarrow> g u)"
  by (simp split: sum.split)

lemma post_pair_if:
  "(b \<Longrightarrow> post ier Q (case_prod F x)) \<Longrightarrow> (\<not> b \<Longrightarrow> post ier Q (case_prod F y)) \<Longrightarrow>
   post ier Q (case_prod F (if b then x else y))"
  by simp

lemma post_pair: "post ier Q (F v s) \<Longrightarrow> post ier Q (case_prod F (v, s))"
  by simp

lemmas post_rules = post_let_if post_if post_sum post_pair_if post_pair

lemma post_upd:
  "(\<And>h. ier h = w \<Longrightarrow> post ier Q (F (s\<lparr>xi_hw := h\<rparr>))) \<Longrightarrow> hw_upd ier w s t \<Longrightarrow> post ier Q (Let t F)"
  by (auto simp: hw_upd_def)

lemma post_res:
  "(\<And>v h. ier h = w v \<Longrightarrow> post ier Q (F v (s\<lparr>xi_hw := h\<rparr>))) \<Longrightarrow> hw_res ier w s t \<Longrightarrow>
   post ier Q (case_prod F t)"
  by (auto simp: hw_res_def split: prod.split)

lemma post_upd_tail:
  "(\<And>h. ier h = w \<Longrightarrow> post ier Q (s\<lparr>xi_hw := h\<rparr>)) \<Longrightarrow> hw_upd ier w s t \<Longrightarrow> post ier Q t"
  by (auto simp: hw_upd_def)

lemma post_res_tail:
  "(\<And>v h. ier h = w v \<Longrightarrow> post ier Q (v, s\<lparr>xi_hw := h\<rparr>)) \<Longrightarrow> hw_res ier w s t \<Longrightarrow> post ier Q t"
  by (cases t) (auto simp: hw_res_def)

lemma hw_upd_self [simp]: "hw_upd ier w s (s\<lparr>xi_hw := h\<rparr>) \<longleftrightarrow> ier h = w"
  by (auto simp: hw_upd_def dest: arg_cong [where f = xi_hw])

lemma hw_upd_same [simp]: "hw_upd ier w s s \<longleftrightarrow> ier (xi_hw s) = w"
  using hw_upd_self [of ier w s "xi_hw s"] by (simp del: hw_upd_self)

lemma hw_res_self [simp]: "hw_res ier w s (v, s\<lparr>xi_hw := h\<rparr>) \<longleftrightarrow> ier h = w v"
  by (auto simp: hw_res_def dest: arg_cong [where f = xi_hw])

lemma hw_res_same [simp]: "hw_res ier w s (v, s) \<longleftrightarrow> ier (xi_hw s) = w v"
  using hw_res_self [of ier w s v "xi_hw s"] by (simp del: hw_res_self)

lemma hw_upd_chain [simp]: "hw_upd ier w (s\<lparr>xi_hw := h\<rparr>) t \<longleftrightarrow> hw_upd ier w s t"
  by (simp add: hw_upd_def)

lemma hw_res_chain [simp]: "hw_res ier w (s\<lparr>xi_hw := h\<rparr>) t \<longleftrightarrow> hw_res ier w s t"
  by (simp add: hw_res_def)

section \<open>Register access\<close>

lemma getreg8_hw: "latched hw ier s \<Longrightarrow> quiet_res ier s (xiic_getreg8 hw reg s)"
  by (auto simp: latched_def ier_latched_def xiic_getreg8_def hw_res_def split: xiic_endian.split prod.split)
    (metis snd_conv)+

lemma getreg32_hw: "latched hw ier s \<Longrightarrow> quiet_res ier s (xiic_getreg32 hw reg s)"
  by (auto simp: latched_def ier_latched_def xiic_getreg32_def hw_res_def split: prod.split) (metis snd_conv)

lemma setreg8_hw: "latched hw ier s \<Longrightarrow> 0x100 \<le> reg \<Longrightarrow> quiet ier s (xiic_setreg8 hw reg v s)"
  by (auto simp: latched_def ier_latched_def xiic_setreg8_def hw_upd_def xiic_offsets split: xiic_endian.split)

lemma setreg16_hw: "latched hw ier s \<Longrightarrow> 0x100 \<le> reg \<Longrightarrow> quiet ier s (xiic_setreg16 hw reg v s)"
  by (auto simp: latched_def ier_latched_def xiic_setreg16_def hw_upd_def xiic_offsets split: xiic_endian.split)

lemma setreg32_hw:
  "latched hw ier s \<Longrightarrow> reg \<noteq> XIIC_IIER_OFFSET \<Longrightarrow> reg \<noteq> XIIC_RESETR_OFFSET \<Longrightarrow> quiet ier s (xiic_setreg32 hw reg v s)"
  by (auto simp: latched_def ier_latched_def xiic_setreg32_def hw_upd_def)

lemma setreg32_ier: "latched hw ier s \<Longrightarrow> hw_upd ier v s (xiic_setreg32 hw XIIC_IIER_OFFSET v s)"
  by (auto simp: latched_def ier_latched_def xiic_setreg32_def hw_upd_def)

lemma setreg32_reset: "latched hw ier s \<Longrightarrow> hw_upd ier 0 s (xiic_setreg32 hw XIIC_RESETR_OFFSET XIIC_RESET_MASK s)"
  by (auto simp: latched_def ier_latched_def xiic_setreg32_def hw_upd_def)

lemma getreg32_ier:
  assumes "latched hw ier s"
  shows "hw_res ier (\<lambda>v. v) s (xiic_getreg32 hw XIIC_IIER_OFFSET s)"
    and "fst (xiic_getreg32 hw XIIC_IIER_OFFSET s) = ier (xi_hw s)"
proof -
  have 1: "ier (snd (hw_read hw (op32 (endianness s)) (xi_base s + XIIC_IIER_OFFSET) (xi_hw s))) = ier (xi_hw s)"
    and 2: "fst (hw_read hw (op32 (endianness s)) (xi_base s + XIIC_IIER_OFFSET) (xi_hw s)) = ier (xi_hw s)"
    using assms by (simp_all add: latched_def ier_latched_def)
  then show "hw_res ier (\<lambda>v. v) s (xiic_getreg32 hw XIIC_IIER_OFFSET s)"
    by (auto simp: hw_res_def xiic_getreg32_def split: prod.splits)
  from 2 show "fst (xiic_getreg32 hw XIIC_IIER_OFFSET s) = ier (xi_hw s)"
    by (auto simp: xiic_getreg32_def split: prod.splits)
qed

lemma xiic_offsets_apart [simp]:
  "0x100 \<le> XIIC_CR_REG_OFFSET" "0x100 \<le> XIIC_DTR_REG_OFFSET" "0x100 \<le> XIIC_RFD_REG_OFFSET"
  "XIIC_IISR_OFFSET \<noteq> XIIC_IIER_OFFSET" "XIIC_IISR_OFFSET \<noteq> XIIC_RESETR_OFFSET"
  "XIIC_DGIER_OFFSET \<noteq> XIIC_IIER_OFFSET" "XIIC_DGIER_OFFSET \<noteq> XIIC_RESETR_OFFSET"
  by (simp_all add: xiic_offsets)

text \<open>The steps over one access: the condition on the hardware comes last.\<close>

lemmas access_rules =
  post_res [OF _ getreg8_hw] post_res [OF _ getreg32_hw] post_upd [OF _ setreg8_hw] post_upd [OF _ setreg16_hw]
  post_upd [OF _ setreg32_hw]
  post_upd_tail [OF _ setreg8_hw] post_upd_tail [OF _ setreg16_hw] post_upd_tail [OF _ setreg32_hw]

lemma irq_dis_hw:
  assumes "latched hw ier s"
  shows "hw_upd ier (ier (xi_hw s) AND NOT m) s (xiic_irq_dis hw m s)"
  using getreg32_ier [OF assms] assms setreg32_ier [of hw ier "s\<lparr>xi_hw := h\<rparr>" for h]
  by (auto simp: xiic_irq_dis_def hw_res_def split: prod.split)

lemma irq_en_hw:
  assumes "latched hw ier s"
  shows "hw_upd ier (ier (xi_hw s) OR m) s (xiic_irq_en hw m s)"
  using getreg32_ier [OF assms] assms setreg32_ier [of hw ier "s\<lparr>xi_hw := h\<rparr>" for h]
  by (auto simp: xiic_irq_en_def hw_res_def split: prod.split)

lemma irq_clr_hw: "latched hw ier s \<Longrightarrow> quiet ier s (xiic_irq_clr hw m s)"
  unfolding xiic_irq_clr_def
  by (rule hw_upd_post) (rule access_rules | simp add: post_def)+

lemma irq_clr_en_hw:
  assumes "latched hw ier s"
  shows "hw_upd ier (ier (xi_hw s) OR m) s (xiic_irq_clr_en hw m s)"
proof -
  obtain h where h: "xiic_irq_clr hw m s = s\<lparr>xi_hw := h\<rparr>" "ier h = ier (xi_hw s)"
    using irq_clr_hw [OF assms] by (auto simp: hw_upd_def)
  with irq_en_hw [of hw ier "s\<lparr>xi_hw := h\<rparr>" m] assms show ?thesis by (simp add: xiic_irq_clr_en_def)
qed

lemma cr_update_hw: "latched hw ier s \<Longrightarrow> quiet ier s (cr_update hw f s)"
  unfolding cr_update_def
  by (rule hw_upd_post) (rule access_rules | simp add: post_def)+

section \<open>Loops and initialisation\<close>

lemma clear_rx_fifo_loop_hw: "latched hw ier s \<Longrightarrow> quiet_res ier s (clear_rx_fifo_loop hw n s)"
proof (induction n arbitrary: s)
  case 0
  show ?case
    by (rule hw_res_post, subst clear_rx_fifo_loop.simps, unfold nat.case) (rule access_rules post_rules | simp add: 0 post_def)+
next
  case (Suc n)
  show ?case
    by (rule hw_res_post, subst clear_rx_fifo_loop.simps, unfold nat.case)
      (rule access_rules post_rules post_res_tail [OF _ Suc.IH] | simp add: Suc.prems post_def)+
qed

lemma clear_rx_fifo_hw: "latched hw ier s \<Longrightarrow> quiet_res ier s (xiic_clear_rx_fifo hw s)"
  unfolding xiic_clear_rx_fifo_def by (rule clear_rx_fifo_loop_hw)

lemma wait_tx_empty_loop_hw: "latched hw ier s \<Longrightarrow> quiet_res ier s (wait_tx_empty_loop hw n s)"
proof (induction n arbitrary: s)
  case 0
  show ?case
    by (rule hw_res_post, subst wait_tx_empty_loop.simps, unfold nat.case) (rule access_rules post_rules | simp add: 0 post_def)+
next
  case (Suc n)
  show ?case
    by (rule hw_res_post, subst wait_tx_empty_loop.simps, unfold nat.case)
      (rule access_rules post_rules post_res_tail [OF _ Suc.IH] | simp add: Suc.prems post_def)+
qed

lemma wait_tx_empty_hw: "latched hw ier s \<Longrightarrow> quiet_res ier s (xiic_wait_tx_empty hw s)"
  unfolding xiic_wait_tx_empty_def by (rule wait_tx_empty_loop_hw)

lemma write_regs_hw:
  "latched hw ier s \<Longrightarrow> list_all (\<lambda>(reg, v). 0x100 \<le> reg) ws \<Longrightarrow> quiet ier s (write_regs hw ws s)"
proof (induction ws arbitrary: s)
  case (Cons w ws)
  obtain reg v where w: "w = (reg, v)" by (cases w)
  with Cons.prems have "reg \<noteq> XIIC_IIER_OFFSET" "reg \<noteq> XIIC_RESETR_OFFSET" by (auto simp: xiic_offsets)
  then obtain h where h: "xiic_setreg32 hw reg v s = s\<lparr>xi_hw := h\<rparr>" "ier h = ier (xi_hw s)"
    using setreg32_hw [OF Cons.prems(1)] by (auto simp: hw_upd_def)
  with Cons.IH [of "s\<lparr>xi_hw := h\<rparr>"] Cons.prems w show ?case by (simp add: write_regs_def)
qed (simp add: write_regs_def)

lemma setclk_hw: "latched hw ier s \<Longrightarrow> quiet_res ier s (xiic_setclk hw s)"
proof -
  assume L: "latched hw ier s"
  have "list_all (\<lambda>(reg, v). 0x100 \<le> reg) (timing_writes a b t)" for a b t
    by (simp add: timing_writes_def xiic_offsets)
  from write_regs_hw [OF L this] show ?thesis
    by (auto simp: xiic_setclk_def Let_def hw_res_def hw_upd_def split: option.split) (metis hw_upd_def hw_upd_same)+
qed

text \<open>After a reset only a lost arbitration interrupts; after a failed one, nothing does.\<close>

definition reinit_ier :: "unit result \<Rightarrow> u32" where
  "reinit_ier r = (case r of Inl _ \<Rightarrow> 0 | Inr _ \<Rightarrow> XIIC_INTR_ARB_LOST_MASK)"

lemma reinit_hw:
  assumes "latched hw ier s"
  shows "hw_res ier reinit_ier s (xiic_reinit hw s)"
  unfolding xiic_reinit_def
  by (rule hw_res_post)
    (rule post_upd [OF _ setreg32_reset] post_res [OF _ setclk_hw] post_res [OF _ clear_rx_fifo_hw]
      post_upd [OF _ irq_clr_en_hw] access_rules post_rules | simp add: assms post_def reinit_ier_def)+

lemma deinit_hw:
  assumes "latched hw ier s"
  shows "hw_upd ier 0 s (xiic_deinit hw s)"
proof -
  obtain h where "xiic_setreg32 hw XIIC_RESETR_OFFSET XIIC_RESET_MASK s = s\<lparr>xi_hw := h\<rparr>" "ier h = 0"
    using setreg32_reset [OF assms] by (auto simp: hw_upd_def)
  with cr_update_hw [of hw ier "s\<lparr>xi_hw := h\<rparr>"] assms show ?thesis by (simp add: xiic_deinit_def)
qed

lemma tx_fifo_space_hw: "latched hw ier s \<Longrightarrow> quiet_res ier s (xiic_tx_fifo_space hw s)"
  unfolding xiic_tx_fifo_space_def by (rule hw_res_post) (rule access_rules | simp add: post_def)+

lemma bus_busy_hw: "latched hw ier s \<Longrightarrow> quiet_res ier s (xiic_bus_busy hw s)"
  unfolding xiic_bus_busy_def by (rule hw_res_post) (rule access_rules | simp add: post_def)+

lemma wait_not_busy_loop_hw: "latched hw ier s \<Longrightarrow> quiet_res ier s (wait_not_busy_loop hw n s)"
proof (induction n arbitrary: s)
  case 0
  then show ?case by (simp add: bus_busy_hw)
next
  case (Suc n)
  show ?case
    by (rule hw_res_post, subst wait_not_busy_loop.simps)
      (rule post_res [OF _ bus_busy_hw] post_rules post_res_tail [OF _ Suc.IH] | simp add: Suc.prems post_def)+
qed

lemma wait_not_busy_hw: "latched hw ier s \<Longrightarrow> quiet_res ier s (xiic_wait_not_busy hw s)"
  unfolding xiic_wait_not_busy_def by (rule wait_not_busy_loop_hw)

lemma deref_valid [simp]: "p = Some k \<Longrightarrow> k < length (xi_msgs s) \<Longrightarrow> deref p s = s"
  by (simp add: deref_def)

text \<open>A pointer that is null or leads to a message of the transfer.\<close>

definition rx_valid :: "'h xiic_i2c \<Rightarrow> bool" where
  "rx_valid s = (\<forall>k. rx_msg s = Some k \<longrightarrow> k < length (xi_msgs s))"

lemma rx_valid_hw [simp]: "rx_valid (s\<lparr>xi_hw := h\<rparr>) = rx_valid s"
  by (simp add: rx_valid_def)

lemma rx_salvage_hw:
  assumes L: "latched hw ier s" and V: "rx_valid s"
  shows "quiet_res ier s (rx_salvage hw pend s)"
proof -
  have d: "deref (rx_msg s) (s\<lparr>xi_hw := h\<rparr>) = s\<lparr>xi_hw := h\<rparr>" if "rx_msg s \<noteq> None" for h
    using V that by (auto simp: rx_valid_def)
  show ?thesis
    unfolding rx_salvage_def
    by (rule hw_res_post) (rule access_rules post_rules | simp add: L d post_def Let_def)+
qed

text \<open>The steps over the driver's own operations.\<close>

lemmas op_rules =
  post_upd [OF _ irq_dis_hw] post_upd [OF _ irq_clr_en_hw] post_upd [OF _ cr_update_hw]
  post_res [OF _ clear_rx_fifo_hw] post_res [OF _ wait_tx_empty_hw] post_res [OF _ reinit_hw]
  post_res [OF _ tx_fifo_space_hw] post_res [OF _ wait_not_busy_hw]
  access_rules post_rules

end
