(* ===== verification/Xiic_Inv.thy ===== *)
theory Xiic_Inv
  imports Xiic_Frame
begin

text \<open>
  The invariant of the Xilinx I2C driver between calls and interrupts: the message pointers stay in
  the caller's array, the positions stay in the messages and the messages in their buffers, and
  while a message is being received the transmit interrupts are off.
\<close>

section \<open>Messages\<close>

text \<open>
  What the I2C core promises about a message: its buffer holds its length, and for a block read
  at least 32 more bytes, as the SMBus length byte may ask for.
\<close>

definition msg_ok :: "i2c_msg \<Rightarrow> bool" where
  "msg_ok m =
     (if msg_flag I2C_M_RECV_LEN m
      then 1 \<le> unat (im_len m) \<and> unat (im_len m) + I2C_SMBUS_BLOCK_MAX \<le> length (im_buf m) \<and> length (im_buf m) < 2 ^ 16
      else unat (im_len m) \<le> length (im_buf m))"

lemma msg_ok_fits: "msg_ok m \<Longrightarrow> unat (im_len m) \<le> length (im_buf m)"
  by (simp add: msg_ok_def split: if_splits)

lemma msg_at_Some [simp]: "k < length (xi_msgs s) \<Longrightarrow> msg_at (Some k) s = xi_msgs s ! k"
  by (simp add: msg_at_def)

lemma upd_msg_Some [simp]:
  "k < length (xi_msgs s) \<Longrightarrow> upd_msg (Some k) f s = s\<lparr>xi_msgs := (xi_msgs s)[k := f (xi_msgs s ! k)]\<rparr>"
  by (simp add: upd_msg_def)

lemma rd_not_recv_len: "msg_flag I2C_M_RD (m\<lparr>im_flags := im_flags m AND NOT I2C_M_RECV_LEN\<rparr>) = msg_flag I2C_M_RD m"
  "\<not> msg_flag I2C_M_RECV_LEN (m\<lparr>im_flags := im_flags m AND NOT I2C_M_RECV_LEN\<rparr>)"
proof -
  have "(w AND NOT I2C_M_RECV_LEN) AND I2C_M_RD = w AND I2C_M_RD" "(w AND NOT I2C_M_RECV_LEN) AND I2C_M_RECV_LEN = 0" for w :: u16
    by (simp_all add: I2C_M_RECV_LEN_def I2C_M_RD_def and.assoc)
  then show "msg_flag I2C_M_RD (m\<lparr>im_flags := im_flags m AND NOT I2C_M_RECV_LEN\<rparr>) = msg_flag I2C_M_RD m"
    "\<not> msg_flag I2C_M_RECV_LEN (m\<lparr>im_flags := im_flags m AND NOT I2C_M_RECV_LEN\<rparr>)"
    by (simp_all add: msg_flag_def)
qed

lemma msg_flag_simps [simp]:
  "msg_flag f (m\<lparr>im_buf := b\<rparr>) = msg_flag f m" "msg_flag f (m\<lparr>im_len := l\<rparr>) = msg_flag f m"
  by (simp_all add: msg_flag_def)

section \<open>Reading the FIFO\<close>

text \<open>The next \<open>n\<close> bytes the receive FIFO delivers, and the hardware after them.\<close>

fun fifo_bytes :: "'h xiic_hw \<Rightarrow> nat \<Rightarrow> 'h xiic_i2c \<Rightarrow> u8 list \<times> 'h" where
  "fifo_bytes hw 0 s = ([], xi_hw s)"
| "fifo_bytes hw (Suc n) s =
     (case xiic_getreg8 hw XIIC_DRR_REG_OFFSET s of
        (v, s) \<Rightarrow> (case fifo_bytes hw n s of (vs, h) \<Rightarrow> (v # vs, h)))"

definition put_bytes :: "nat \<Rightarrow> 'a list \<Rightarrow> 'a list \<Rightarrow> 'a list" where
  "put_bytes p vs buf = take p buf @ vs @ drop (p + length vs) buf"

lemma length_put_bytes: "p + length vs \<le> length buf \<Longrightarrow> length (put_bytes p vs buf) = length buf"
  by (simp add: put_bytes_def)

lemma put_bytes_Cons:
  "p < length buf \<Longrightarrow> put_bytes (Suc p) vs (buf[p := v]) = put_bytes p (v # vs) buf"
  by (simp add: put_bytes_def take_Suc_conv_app_nth)

lemma getreg8_frame:
  "xiic_getreg8 hw reg (s\<lparr>xi_msgs := M, rx_pos := p\<rparr>) =
     (fst (xiic_getreg8 hw reg s), s\<lparr>xi_hw := xi_hw (snd (xiic_getreg8 hw reg s)), xi_msgs := M, rx_pos := p\<rparr>)"
  by (simp add: xiic_getreg8_def split: xiic_endian.split prod.split)

lemma getreg8_same:
  "xi_base s' = xi_base s \<Longrightarrow> endianness s' = endianness s \<Longrightarrow> xi_hw s' = xi_hw s \<Longrightarrow>
   fst (xiic_getreg8 hw reg s') = fst (xiic_getreg8 hw reg s)"
  by (simp add: xiic_getreg8_def split: xiic_endian.split prod.split)

lemma getreg8_form: "\<exists>v h. xiic_getreg8 hw reg s = (v, s\<lparr>xi_hw := h\<rparr>)"
  by (auto simp: xiic_getreg8_def split: xiic_endian.split prod.split)

lemma fifo_bytes_frame: "fifo_bytes hw n (s\<lparr>xi_msgs := M, rx_pos := p\<rparr>) = fifo_bytes hw n s"
proof (induction n arbitrary: s)
  case (Suc n)
  obtain v h where g: "xiic_getreg8 hw XIIC_DRR_REG_OFFSET s = (v, s\<lparr>xi_hw := h\<rparr>)" using getreg8_form [of hw XIIC_DRR_REG_OFFSET s] by blast
  with Suc.IH [of "s\<lparr>xi_hw := h\<rparr>"] show ?case by (simp add: getreg8_frame)
qed simp

lemma fifo_bytes_length: "length (fst (fifo_bytes hw n s)) = n"
  by (induction n arbitrary: s) (auto split: prod.split, metis fst_conv)

lemma fifo_bytes_ier: "latched hw ier s \<Longrightarrow> ier (snd (fifo_bytes hw n s)) = ier (xi_hw s)"
proof (induction n arbitrary: s)
  case (Suc n)
  obtain v h where g: "xiic_getreg8 hw XIIC_DRR_REG_OFFSET s = (v, s\<lparr>xi_hw := h\<rparr>)" using getreg8_form [of hw XIIC_DRR_REG_OFFSET s] by blast
  with getreg8_hw [OF Suc.prems, of XIIC_DRR_REG_OFFSET] have "ier h = ier (xi_hw s)" by simp
  with Suc.IH [of "s\<lparr>xi_hw := h\<rparr>"] Suc.prems g show ?case by (simp split: prod.split) (metis snd_conv)
qed simp

lemma read_fifo_eq:
  assumes "rx_msg s = Some k" and "k < length (xi_msgs s)" and "0 \<le> rx_pos s"
    and "nat (rx_pos s) + n \<le> length (im_buf (xi_msgs s ! k))"
  shows "read_fifo hw n s =
    s\<lparr>xi_msgs := (xi_msgs s)[k := (xi_msgs s ! k)\<lparr>im_buf := put_bytes (nat (rx_pos s)) (fst (fifo_bytes hw n s)) (im_buf (xi_msgs s ! k))\<rparr>],
      rx_pos := rx_pos s + int n, xi_hw := snd (fifo_bytes hw n s)\<rparr>"
  using assms
proof (induction n arbitrary: s)
  case 0
  then show ?case by (simp add: put_bytes_def)
next
  case (Suc n)
  obtain v h where g: "xiic_getreg8 hw XIIC_DRR_REG_OFFSET s = (v, s\<lparr>xi_hw := h\<rparr>)" using getreg8_form [of hw XIIC_DRR_REG_OFFSET s] by blast
  let ?m = "xi_msgs s ! k" and ?p = "nat (rx_pos s)"
  let ?M = "(xi_msgs s)[k := ?m\<lparr>im_buf := (im_buf ?m)[?p := v]\<rparr>]"
  let ?s = "(s\<lparr>xi_hw := h\<rparr>)\<lparr>xi_msgs := ?M, rx_pos := rx_pos s + 1\<rparr>"
  have st: "rx_store v (s\<lparr>xi_hw := h\<rparr>) = ?s"
    using Suc.prems by (simp add: rx_store_def)
  have pos: "nat (rx_pos s + 1) = Suc ?p" using Suc.prems(3) by simp
  obtain vs h' where fb: "fifo_bytes hw n (s\<lparr>xi_hw := h\<rparr>) = (vs, h')" by fastforce
  then have fb': "fifo_bytes hw n ?s = (vs, h')" by (simp only: fifo_bytes_frame)
  have "read_fifo hw (Suc n) s = read_fifo hw n ?s" by (simp only: read_fifo.simps g prod.case st)
  also have "\<dots> = ?s\<lparr>xi_msgs := (xi_msgs ?s)[k := (xi_msgs ?s ! k)\<lparr>im_buf := put_bytes (nat (rx_pos ?s)) vs (im_buf (xi_msgs ?s ! k))\<rparr>],
      rx_pos := rx_pos ?s + int n, xi_hw := h'\<rparr>"
    using Suc.IH [of ?s] Suc.prems fb' by simp
  also have "\<dots> = s\<lparr>xi_msgs := (xi_msgs s)[k := ?m\<lparr>im_buf := put_bytes ?p (v # vs) (im_buf ?m)\<rparr>],
      rx_pos := rx_pos s + int (Suc n), xi_hw := h'\<rparr>"
    using Suc.prems put_bytes_Cons [of ?p "im_buf ?m" vs v] by (simp add: pos)
  finally show ?case using g fb by simp
qed

section \<open>Receiving keeps the positions in range\<close>

definition rx_ok :: "'h xiic_i2c \<Rightarrow> nat \<Rightarrow> bool" where
  "rx_ok s k =
     (if msg_flag I2C_M_RECV_LEN (xi_msgs s ! k) then rx_pos s = 0 \<and> msg_ok (xi_msgs s ! k) \<and> \<not> dynamic s
      else 0 \<le> rx_pos s \<and> rx_pos s \<le> int (unat (im_len (xi_msgs s ! k)))
           \<and> unat (im_len (xi_msgs s ! k)) \<le> length (im_buf (xi_msgs s ! k)))"

lemma rx_ok_hw [simp]: "rx_ok (s\<lparr>xi_hw := h\<rparr>) k = rx_ok s k"
  by (simp add: rx_ok_def)

text \<open>\<open>rx_frame ier s s'\<close>: pointers, mode, transmit position and fault flag are unchanged.
  \<open>keeps ier k s s'\<close>: and the only message changed is \<open>k\<close>.\<close>

definition rx_frame :: "('h \<Rightarrow> u32) \<Rightarrow> 'h xiic_i2c \<Rightarrow> 'h xiic_i2c \<Rightarrow> bool" where
  "rx_frame ier s s' =
     (xi_base s' = xi_base s \<and> endianness s' = endianness s \<and> tx_msg s' = tx_msg s \<and> rx_msg s' = rx_msg s
      \<and> nmsgs s' = nmsgs s \<and> tx_pos s' = tx_pos s \<and> dynamic s' = dynamic s \<and> mem_fault s' = mem_fault s
      \<and> completed s' = completed s
      \<and> ier (xi_hw s') = ier (xi_hw s))"

definition keeps :: "('h \<Rightarrow> u32) \<Rightarrow> nat \<Rightarrow> 'h xiic_i2c \<Rightarrow> 'h xiic_i2c \<Rightarrow> bool" where
  "keeps ier k s s' =
     (rx_frame ier s s'
      \<and> length (xi_msgs s') = length (xi_msgs s) \<and> (\<forall>j. j \<noteq> k \<longrightarrow> xi_msgs s' ! j = xi_msgs s ! j)
      \<and> msg_flag I2C_M_RD (xi_msgs s' ! k) = msg_flag I2C_M_RD (xi_msgs s ! k)
      \<and> (msg_flag I2C_M_RECV_LEN (xi_msgs s' ! k) \<longrightarrow> msg_flag I2C_M_RECV_LEN (xi_msgs s ! k)))"

lemma keeps_latched: "keeps ier k s s' \<Longrightarrow> latched hw ier s' = latched hw ier s"
  by (simp add: keeps_def rx_frame_def latched_def)

lemma chunk_bound:
  assumes "0 \<le> space" and "b = (if int (unat (w :: u8)) > space then word_of_int space else w)"
  shows "int (unat b) \<le> space"
proof (cases "int (unat w) > space")
  case True
  moreover have "int (unat w) < 256" using unsigned_less [of w, where ?'a = int] by simp
  ultimately have "take_bit 8 space = space" using assms(1) by (simp add: take_bit_int_eq_self_iff)
  with True assms show ?thesis by (simp add: unsigned_of_int)
qed (use assms in simp)

lemma rem_unat:
  assumes "0 \<le> r" and "r < 2 ^ 32"
  shows "int (unat (word_of_int r :: u32)) = r"
  using assms by (simp add: unsigned_of_int take_bit_int_eq_self_iff)

lemma std_chunk_hw:
  assumes "latched hw ier s"
  shows "post ier (\<lambda>(n, s'). (n = b \<or> 1 \<le> unat r \<and> unat n \<le> unat r) \<and> quiet ier s s') (std_chunk hw b r s)"
proof -
  have sub: "unat (ucast (r - 1) :: u8) \<le> unat r" if "\<not> r > of_nat IIC_RX_FIFO_DEPTH" "r > 1"
  proof -
    have "1 < unat r" using that(2) by (simp add: word_less_nat_alt)
    moreover have "unat r \<le> 16" using that(1) by (simp add: word_less_nat_alt IIC_RX_FIFO_DEPTH_def)
    moreover have "unat (r - 1) = unat r - 1" using unat_sub [of 1 r] that(2) by simp
    ultimately show ?thesis by (simp add: unsigned_ucast_eq take_bit_nat_eq_self)
  qed
  show ?thesis
    unfolding std_chunk_def
    by (rule op_rules post_let | simp add: assms post_def sub | simp add: post_def word_less_nat_alt)+
qed

lemma u16_of_small: "unat (w :: u32) < 2 ^ 16 \<Longrightarrow> unat (ucast w :: u16) = unat w"
  by (simp add: unsigned_ucast_eq take_bit_nat_eq_self)

text \<open>What a valid length byte \<open>n\<close> makes of a block read with \<open>e\<close> extra bytes asked for.\<close>

definition block_len :: "nat \<Rightarrow> nat \<Rightarrow> nat" where
  "block_len n len = (if n + len < SMBUS_BLOCK_READ_MIN_LEN then SMBUS_BLOCK_READ_MIN_LEN else n + len)"

lemma block_len_bounds:
  "1 \<le> len \<Longrightarrow> n \<le> I2C_SMBUS_BLOCK_MAX \<Longrightarrow> len + I2C_SMBUS_BLOCK_MAX \<le> k \<Longrightarrow>
   1 \<le> block_len n len \<and> block_len n len \<le> k \<and> n + len \<le> block_len n len"
  by (simp add: block_len_def SMBUS_BLOCK_READ_MIN_LEN_def I2C_SMBUS_BLOCK_MAX_def)

text \<open>The message after the length byte was read: the byte is stored first, the flag is cleared and
  the length is the real one, or 3 when the byte is out of range.\<close>

definition block_msg :: "u8 \<Rightarrow> i2c_msg \<Rightarrow> i2c_msg" where
  "block_msg n m =
     m\<lparr>im_flags := im_flags m AND NOT I2C_M_RECV_LEN,
       im_buf := (im_buf m)[0 := n],
       im_len := (if unat n \<le> I2C_SMBUS_BLOCK_MAX then of_nat (block_len (unat n) (unat (im_len m))) else 3)\<rparr>"

text \<open>The unsigned arithmetic of the setup does not wrap around.\<close>

lemma block_words:
  fixes l :: u16 and n :: u8
  assumes "1 \<le> unat l" and t: "t = unat n + unat l"
  defines "c \<equiv> ucast l - 1 :: u32" and "n' \<equiv> ucast n :: u32"
  shows "1 + n' + c = of_nat t" and "n' + 1 + c = of_nat t"
    and "(ucast (of_nat t :: u32) :: u16) = of_nat t"
    and "n' + c > of_nat IIC_RX_FIFO_DEPTH \<longleftrightarrow> 17 < t"
    and "of_nat t < (of_nat SMBUS_BLOCK_READ_MIN_LEN :: u32) \<longleftrightarrow> t < SMBUS_BLOCK_READ_MIN_LEN"
proof -
  have b: "unat l < 2 ^ 16" "unat n < 2 ^ 8"
    using unsigned_less [of l, where ?'a = nat] unsigned_less [of n, where ?'a = nat] by simp_all
  have ul: "unat (ucast l :: u32) = unat l" using b by (simp add: unsigned_ucast_eq take_bit_nat_eq_self)
  have c: "unat c = unat l - 1" using unat_sub [of 1 "ucast l :: u32"] assms(1) ul
    by (simp add: word_le_nat_alt c_def)
  have n: "unat n' = unat n" by (simp add: n'_def)
  have t32: "t < 2 ^ 32" using b t by simp
  then have sum: "unat (of_nat t :: u32) = t" by (simp add: unat_of_nat)
  have nc: "unat (n' + c) = t - 1" using c n assms(1) b t by (simp add: unat_word_ariths)
  have full: "unat (1 + (n' + c)) = t" using nc assms(1) b t by (simp add: unat_word_ariths(1))
  with sum show "1 + n' + c = of_nat t" "n' + 1 + c = of_nat t"
    by (simp_all add: word_unat_eq_iff add.assoc add.left_commute [of n'])
  show "(ucast (of_nat t :: u32) :: u16) = of_nat t"
    using sum by (simp add: word_unat_eq_iff unsigned_ucast_eq unat_of_nat take_bit_eq_mod)
  show "n' + c > of_nat IIC_RX_FIFO_DEPTH \<longleftrightarrow> 17 < t"
    using assms(1) t by (simp add: word_less_nat_alt nc IIC_RX_FIFO_DEPTH_def) linarith
  show "of_nat t < (of_nat SMBUS_BLOCK_READ_MIN_LEN :: u32) \<longleftrightarrow> t < SMBUS_BLOCK_READ_MIN_LEN"
    by (simp only: word_less_nat_alt sum) (simp add: SMBUS_BLOCK_READ_MIN_LEN_def)
qed

text \<open>What the setup of a block read does to the driver when the length byte is \<open>n\<close>.\<close>

definition block_set :: "('h \<Rightarrow> u32) \<Rightarrow> nat \<Rightarrow> u8 \<Rightarrow> 'h xiic_i2c \<Rightarrow> 'h xiic_i2c \<Rightarrow> bool" where
  "block_set ier k n s s' =
     (let t = unat n + unat (im_len (xi_msgs s ! k))
      in rx_frame ier s s' \<and> rx_pos s' = 1
         \<and> xi_msgs s' = (xi_msgs s)[k := block_msg n (xi_msgs s ! k)]
         \<and> smbus_block_read s' = (unat n \<le> I2C_SMBUS_BLOCK_MAX)
         \<and> smbus_actual_len s' =
             (if unat n \<le> I2C_SMBUS_BLOCK_MAX \<and> t < SMBUS_BLOCK_READ_MIN_LEN then of_nat t else smbus_actual_len s))"

lemma smbus_setup:
  assumes L: "latched hw ier s" and p: "rx_msg s = Some k" "tx_msg s = Some k" "k < length (xi_msgs s)"
    and m: "msg_flag I2C_M_RECV_LEN (xi_msgs s ! k)" "msg_ok (xi_msgs s ! k)" "rx_pos s = 0"
  shows "block_set ier k (fst (xiic_getreg8 hw XIIC_DRR_REG_OFFSET s)) s (xiic_smbus_block_read_setup hw s)"
proof -
  let ?m = "xi_msgs s ! k" and ?max = "I2C_SMBUS_BLOCK_MAX"
  let ?m1 = "?m\<lparr>im_flags := im_flags ?m AND NOT I2C_M_RECV_LEN\<rparr>"
  let ?s1 = "s\<lparr>xi_msgs := (xi_msgs s)[k := ?m1], smbus_block_read := True\<rparr>"
  from m have len: "1 \<le> unat (im_len ?m)" "unat (im_len ?m) + ?max \<le> length (im_buf ?m)" "length (im_buf ?m) < 2 ^ 16"
    by (simp_all add: msg_ok_def)
  then have buf: "im_buf ?m \<noteq> []" by auto
  obtain n h where g: "xiic_getreg8 hw XIIC_DRR_REG_OFFSET ?s1 = (n, ?s1\<lparr>xi_hw := h\<rparr>)" "ier h = ier (xi_hw s)"
    using getreg8_hw [of hw ier ?s1 XIIC_DRR_REG_OFFSET] L by (cases "xiic_getreg8 hw XIIC_DRR_REG_OFFSET ?s1") (auto simp: hw_res_def)
  have n: "fst (xiic_getreg8 hw XIIC_DRR_REG_OFFSET s) = n"
    using arg_cong [OF g(1), of fst] getreg8_same [of ?s1 s hw XIIC_DRR_REG_OFFSET] by simp
  let ?m2 = "?m1\<lparr>im_buf := (im_buf ?m)[0 := n]\<rparr>"
  let ?s2 = "s\<lparr>xi_msgs := (xi_msgs s)[k := ?m2], rx_pos := 1, smbus_block_read := True, xi_hw := h\<rparr>"
  have st: "rx_store n (?s1\<lparr>xi_hw := h\<rparr>) = ?s2"
    using p m(3) buf by (simp add: rx_store_def)
  let ?l = "unat (im_len ?m)"
  define t where "t = unat n + ?l"
  note W = block_words [OF len(1) t_def]
  have t3: "t < SMBUS_BLOCK_READ_MIN_LEN \<Longrightarrow> \<not> 17 < t" by (simp add: SMBUS_BLOCK_READ_MIN_LEN_def)
  show ?thesis
  proof (cases "unat n \<le> ?max")
    case True
    let ?s3 = "?s2\<lparr>xi_msgs := (xi_msgs s)[k := block_msg n ?m],
      smbus_actual_len := if t < SMBUS_BLOCK_READ_MIN_LEN then of_nat t else smbus_actual_len s\<rparr>"
    have bm: "block_msg n ?m = ?m2\<lparr>im_len := of_nat (if t < SMBUS_BLOCK_READ_MIN_LEN then SMBUS_BLOCK_READ_MIN_LEN else t)\<rparr>"
      using True by (simp add: block_msg_def block_len_def t_def)
    obtain v where v: "xiic_smbus_block_read_setup hw s = xiic_setreg8 hw XIIC_RFD_REG_OFFSET v ?s3"
      using p True t3 unfolding bm
      by (cases "t < SMBUS_BLOCK_READ_MIN_LEN"; cases "17 < t")
        (simp_all add: xiic_smbus_block_read_setup_def Let_def g(1) st W)
    obtain h' where h': "xiic_setreg8 hw XIIC_RFD_REG_OFFSET v ?s3 = ?s3\<lparr>xi_hw := h'\<rparr>" "ier h' = ier h"
      using setreg8_hw [of hw ier ?s3 XIIC_RFD_REG_OFFSET v] L by (auto simp: hw_upd_def)
    have "block_set ier k n s (?s3\<lparr>xi_hw := h'\<rparr>)"
      using True h'(2) g(2) by (simp add: block_set_def rx_frame_def t_def [symmetric] Let_def)
    with v h' n show ?thesis by simp
  next
    case False
    then have "block_set ier k n s (xiic_smbus_block_read_setup hw s)"
      using p g(2)
      by (simp add: xiic_smbus_block_read_setup_def Let_def g(1) st block_msg_def rx_frame_def block_set_def)
    then show ?thesis by (simp only: n)
  qed
qed

lemma keeps_refl_hw: "ier h = ier (xi_hw s) \<Longrightarrow> keeps ier k s (s\<lparr>xi_hw := h\<rparr>)"
  by (simp add: keeps_def rx_frame_def)

lemma keeps_trans: "keeps ier k s s' \<Longrightarrow> keeps ier k s' s'' \<Longrightarrow> keeps ier k s s''"
  by (simp add: keeps_def rx_frame_def)

lemma block_set_keeps:
  assumes b: "block_set ier k n s s'" and m: "msg_flag I2C_M_RECV_LEN (xi_msgs s ! k)" "rx_ok s k"
    and k: "k < length (xi_msgs s)"
  shows "keeps ier k s s' \<and> rx_ok s' k"
proof -
  let ?m = "xi_msgs s ! k" and ?m' = "block_msg n (xi_msgs s ! k)"
  from m have len: "1 \<le> unat (im_len ?m)" "unat (im_len ?m) + I2C_SMBUS_BLOCK_MAX \<le> length (im_buf ?m)" "length (im_buf ?m) < 2 ^ 16"
    by (simp_all add: rx_ok_def msg_ok_def)
  have flags: "msg_flag I2C_M_RD ?m' = msg_flag I2C_M_RD ?m" "\<not> msg_flag I2C_M_RECV_LEN ?m'"
    using rd_not_recv_len [of ?m] by (simp_all add: block_msg_def)
  have len': "1 \<le> unat (im_len ?m') \<and> unat (im_len ?m') \<le> length (im_buf ?m')"
  proof (cases "unat n \<le> I2C_SMBUS_BLOCK_MAX")
    case True
    note B = block_len_bounds [OF len(1) True len(2)]
    with len(3) have "unat (of_nat (block_len (unat n) (unat (im_len ?m))) :: u16) = block_len (unat n) (unat (im_len ?m))"
      by (simp add: unat_of_nat)
    with B True show ?thesis by (simp add: block_msg_def)
  next
    case False
    with len show ?thesis by (simp add: block_msg_def I2C_SMBUS_BLOCK_MAX_def)
  qed
  then have "1 \<le> int (unat (im_len ?m'))" by linarith
  with len' b flags k show ?thesis by (simp add: block_set_def keeps_def rx_ok_def rx_frame_def Let_def)
qed

lemma read_fifo_keeps:
  assumes L: "latched hw ier s" and p: "rx_msg s = Some k" "k < length (xi_msgs s)" "rx_ok s k"
    and m: "\<not> msg_flag I2C_M_RECV_LEN (xi_msgs s ! k)" and n: "int n \<le> xiic_rx_space s"
  shows "keeps ier k s (read_fifo hw n s) \<and> rx_ok (read_fifo hw n s) k"
proof -
  let ?m = "xi_msgs s ! k"
  from p m n have b: "0 \<le> rx_pos s" "rx_pos s + int n \<le> int (unat (im_len ?m))" "unat (im_len ?m) \<le> length (im_buf ?m)"
    by (simp_all add: rx_ok_def xiic_rx_space_def)
  then have fit: "nat (rx_pos s) + n \<le> length (im_buf ?m)" by linarith
  with b p have "length (put_bytes (nat (rx_pos s)) (fst (fifo_bytes hw n s)) (im_buf ?m)) = length (im_buf ?m)"
    by (intro length_put_bytes) (simp add: fifo_bytes_length)
  with b p m fifo_bytes_ier [OF L, of n] show ?thesis
    by (simp add: read_fifo_eq [OF p(1,2) b(1) fit] keeps_def rx_frame_def rx_ok_def)
qed

lemma rx_space_range:
  assumes "rx_msg s = Some k" "k < length (xi_msgs s)" "rx_ok s k"
  shows "0 \<le> xiic_rx_space s" and "xiic_rx_space s < 2 ^ 16"
proof -
  have "int (unat (im_len (xi_msgs s ! k))) < 2 ^ 16" using unsigned_less [of "im_len (xi_msgs s ! k)", where ?'a = int] by simp
  with assms show "0 \<le> xiic_rx_space s" "xiic_rx_space s < 2 ^ 16"
    by (simp_all add: xiic_rx_space_def rx_ok_def split: if_splits)
qed

lemma rx_space_hw [simp]: "xiic_rx_space (s\<lparr>xi_hw := h\<rparr>) = xiic_rx_space s"
  by (simp add: xiic_rx_space_def msg_at_def split: option.split)

lemma msg_at_hw [simp]: "msg_at p (s\<lparr>xi_hw := h\<rparr>) = msg_at p s"
  by (simp add: msg_at_def split: option.split)

text \<open>One receive interrupt keeps the read inside the buffer and touches no other message.\<close>

lemma read_rx_keeps:
  assumes L: "latched hw ier s" and p: "rx_msg s = Some k" "tx_msg s = Some k" "k < length (xi_msgs s)" "rx_ok s k"
  shows "keeps ier k s (xiic_read_rx hw s) \<and> rx_ok (xiic_read_rx hw s) k"
proof -
  obtain rfo h where g: "xiic_getreg8 hw XIIC_RFO_REG_OFFSET s = (rfo, s\<lparr>xi_hw := h\<rparr>)" and h: "ier h = ier (xi_hw s)"
    using getreg8_hw [OF L, of XIIC_RFO_REG_OFFSET] by (cases "xiic_getreg8 hw XIIC_RFO_REG_OFFSET s") (auto simp: hw_res_def)
  let ?s = "s\<lparr>xi_hw := h\<rparr>" and ?sp = "xiic_rx_space s"
  note range = rx_space_range [OF p(1,3,4)]
  define b where "b = (if int (unat (rfo + 1)) > ?sp then word_of_int ?sp else rfo + 1)"
  have b: "int (unat b) \<le> ?sp" by (rule chunk_bound [OF range(1) b_def])
  have L': "latched hw ier ?s" using L by simp
  have d: "deref (rx_msg ?s) ?s = ?s" using p by simp
  have s: "keeps ier k s ?s" by (rule keeps_refl_hw [of ier h s]) (rule h)
  consider (block) "\<not> dynamic s" "msg_flag I2C_M_RECV_LEN (xi_msgs s ! k)"
    | (std) "\<not> dynamic s" "\<not> msg_flag I2C_M_RECV_LEN (xi_msgs s ! k)"
    | (dyn) "dynamic s" "\<not> msg_flag I2C_M_RECV_LEN (xi_msgs s ! k)"
    using p by (auto simp: rx_ok_def)
  then show ?thesis
  proof cases
    case block
    obtain n where "block_set ier k n ?s (xiic_smbus_block_read_setup hw ?s)"
      using smbus_setup [of hw ier ?s k] p block L' by (auto simp: rx_ok_def)
    from block_set_keeps [OF this] p block keeps_trans [OF s] show ?thesis
      by (simp add: xiic_read_rx_def g Let_def)
  next
    case std
    let ?r = "word_of_int (?sp - int (unat b)) :: u32"
    have r: "int (unat ?r) = ?sp - int (unat b)" proof (rule rem_unat)
      have "?sp - int (unat b) \<le> ?sp" by simp
      then show "?sp - int (unat b) < 2 ^ 32" by (rule le_less_trans) (use range(2) in simp)
    qed (use b in simp)
    obtain n h' where c: "std_chunk hw b ?r ?s = (n, s\<lparr>xi_hw := h'\<rparr>)" and h': "ier h' = ier (xi_hw s)"
      and n: "n = b \<or> unat n \<le> unat ?r"
      using std_chunk_hw [OF L', of b ?r] h by (cases "std_chunk hw b ?r ?s") (auto simp: post_def hw_upd_def)
    have "int (unat n) \<le> ?sp"
    proof (cases "n = b")
      case False
      with n have "int (unat n) \<le> int (unat ?r)" by (simp only: of_nat_le_iff) blast
      with r show ?thesis by linarith
    qed (use b in simp)
    then have "keeps ier k (s\<lparr>xi_hw := h'\<rparr>) (read_fifo hw (unat n) (s\<lparr>xi_hw := h'\<rparr>))
        \<and> rx_ok (read_fifo hw (unat n) (s\<lparr>xi_hw := h'\<rparr>)) k"
      by (intro read_fifo_keeps) (use L p std in simp_all)
    moreover have "xiic_read_rx hw s = read_fifo hw (unat n) (s\<lparr>xi_hw := h'\<rparr>)"
      unfolding xiic_read_rx_def g prod.case Let_def d rx_space_hw msg_at_hw b_def [symmetric] c
      using std p by simp
    ultimately show ?thesis using keeps_trans [OF keeps_refl_hw [of ier h' s k]] h' by simp
  next
    case dyn
    let ?s' = "read_fifo hw (unat b) ?s"
    have K: "keeps ier k ?s ?s' \<and> rx_ok ?s' k" by (intro read_fifo_keeps) (use L p dyn b in simp_all)
    then have "latched hw ier ?s'" using keeps_latched L' by blast
    obtain v where v: "xiic_read_rx hw s = xiic_setreg8 hw XIIC_RFD_REG_OFFSET v ?s'"
      unfolding xiic_read_rx_def g prod.case Let_def d rx_space_hw msg_at_hw b_def [symmetric]
      using dyn p by simp
    obtain h' where "xiic_setreg8 hw XIIC_RFD_REG_OFFSET v ?s' = ?s'\<lparr>xi_hw := h'\<rparr>" "ier h' = ier (xi_hw ?s')"
      using setreg8_hw [OF \<open>latched hw ier ?s'\<close>, of XIIC_RFD_REG_OFFSET v] by (auto simp: hw_upd_def)
    with v K keeps_trans [OF s] keeps_trans [OF _ keeps_refl_hw [of ier h' ?s']] show ?thesis by auto
  qed
qed

section \<open>Sending keeps the position in the message\<close>

text \<open>\<open>sent ier k s s'\<close>: only the transmit position and the hardware changed, and the position is at
  most the length of message \<open>k\<close>.\<close>

definition sent :: "('h \<Rightarrow> u32) \<Rightarrow> nat \<Rightarrow> 'h xiic_i2c \<Rightarrow> 'h xiic_i2c \<Rightarrow> bool" where
  "sent ier k s s' =
     (\<exists>p h. s' = s\<lparr>tx_pos := p, xi_hw := h\<rparr> \<and> ier h = ier (xi_hw s)
        \<and> unat p \<le> unat (im_len (xi_msgs s ! k)))"

lemma sent_trans: "sent ier k s s' \<Longrightarrow> sent ier k s' s'' \<Longrightarrow> sent ier k s s''"
  by (simp add: sent_def, elim exE conjE, simp) blast

lemma sent_hw: "ier h = ier (xi_hw s) \<Longrightarrow> unat p \<le> unat (im_len (xi_msgs s ! k)) \<Longrightarrow> sent ier k s (s\<lparr>tx_pos := p, xi_hw := h\<rparr>)"
  by (auto simp: sent_def)

lemma fill_fifo_sent:
  assumes "latched hw ier s" "tx_msg s = Some k" "k < length (xi_msgs s)"
    and "unat (tx_pos s) + n \<le> unat (im_len (xi_msgs s ! k))" and "unat (im_len (xi_msgs s ! k)) \<le> length (im_buf (xi_msgs s ! k))"
  shows "sent ier k s (fill_fifo hw n s)"
  using assms
proof (induction n arbitrary: s)
  case 0
  then show ?case using sent_hw [of ier "xi_hw s" s "tx_pos s" k] by simp
next
  case (Suc n)
  have L: "unat (im_len (xi_msgs s ! k)) < 2 ^ 16" using unsigned_less [of "im_len (xi_msgs s ! k)", where ?'a = nat] by simp
  with Suc.prems(4) have pos: "unat (tx_pos s + 1) = Suc (unat (tx_pos s))"
    by (simp add: unat_word_ariths)
  let ?b = "im_buf (xi_msgs s ! k) ! unat (tx_pos s)" and ?s = "s\<lparr>tx_pos := tx_pos s + 1\<rparr>"
  have ld: "tx_load s = (?b, ?s)" using Suc.prems by (simp add: tx_load_def)
  have L: "latched hw ier (s\<lparr>tx_pos := tx_pos s + 1, xi_hw := h\<rparr>)" for h using Suc.prems(1) by simp
  have stop: "sent ier k s (s\<lparr>tx_pos := tx_pos s + 1, xi_hw := h\<rparr>)" if "ier h = ier (xi_hw s)" for h
    using that Suc.prems pos by (intro sent_hw) simp_all
  have go: "sent ier k s (fill_fifo hw n (s\<lparr>tx_pos := tx_pos s + 1, xi_hw := h\<rparr>))" if "ier h = ier (xi_hw s)" for h
  proof (rule sent_trans [OF stop [OF that]])
    show "sent ier k (s\<lparr>tx_pos := tx_pos s + 1, xi_hw := h\<rparr>) (fill_fifo hw n (s\<lparr>tx_pos := tx_pos s + 1, xi_hw := h\<rparr>))"
      using Suc.prems pos L by (intro Suc.IH) simp_all
  qed
  have "post ier (sent ier k s) (fill_fifo hw (Suc n) s)"
    unfolding fill_fifo.simps ld prod.case
    by (rule op_rules post_let go stop | rule postI | simp add: Suc.prems)+
  then show ?case by (rule postD)
qed

lemma fill_count_le:
  assumes "unat w < 2 ^ 31"
  shows "fill_count space w \<le> unat w"
proof -
  let ?f = "word_of_int space :: u8"
  note s = sint_small [OF assms]
  show ?thesis
  proof (cases "unat ?f < unat w")
    case True
    then have "fill_count space w = unat (ucast ?f :: u32)"
      unfolding fill_count_def Let_def s of_nat_less_iff by (simp only: if_True)
    also have "\<dots> = unat ?f" by simp
    finally show ?thesis using True by simp
  next
    case False
    then show ?thesis unfolding fill_count_def Let_def s of_nat_less_iff by (simp only: if_False)
  qed
qed

end
