(* ===== verification/Xiic_State.thy ===== *)
theory Xiic_State
  imports Xiic_Inv
begin

text \<open>
  The invariant of the Xilinx I2C driver's state, and the proof that starting a message, serving an
  interrupt and starting or ending a transfer keep it.
\<close>

section \<open>The invariant\<close>

text \<open>No transmit event can reach the handler.\<close>

definition tx_off :: "u32 \<Rightarrow> bool" where
  "tx_off w = (w AND (XIIC_INTR_TX_EMPTY_MASK OR XIIC_INTR_TX_HALF_MASK) = 0)"

lemma tx_off_simps [simp]:
  "tx_off 0"
  "tx_off (w AND NOT XIIC_INTR_TX_HALF_MASK AND NOT XIIC_INTR_TX_EMPTY_MASK)"
  "tx_off (w OR XIIC_INTR_BNB_MASK) = tx_off w"
  "tx_off (w OR (XIIC_INTR_RX_FULL_MASK OR XIIC_INTR_TX_ERROR_MASK)) = tx_off w"
  "tx_off w \<Longrightarrow> tx_off (w AND m)"
proof -
  have d: "(w OR x) AND m = (w AND m) OR (x AND m)" for w x m :: u32 by (simp add: bit.conj_disj_distrib2)
  show "tx_off (w AND NOT XIIC_INTR_TX_HALF_MASK AND NOT XIIC_INTR_TX_EMPTY_MASK)"
    by (simp add: tx_off_def xiic_intr_masks and.assoc)
  show "tx_off (w OR XIIC_INTR_BNB_MASK) = tx_off w"
    "tx_off (w OR (XIIC_INTR_RX_FULL_MASK OR XIIC_INTR_TX_ERROR_MASK)) = tx_off w"
    unfolding tx_off_def d by (simp_all add: xiic_intr_masks)
  show "tx_off w \<Longrightarrow> tx_off (w AND m)"
    using and.assoc [of m w "XIIC_INTR_TX_EMPTY_MASK OR XIIC_INTR_TX_HALF_MASK"] by (simp add: tx_off_def and.commute [of w m])
qed (simp add: tx_off_def)

text \<open>\<open>active s k\<close>: message \<open>k\<close> is the current one, and the ones after it have not been touched.\<close>

definition active :: "'h xiic_i2c \<Rightarrow> nat \<Rightarrow> bool" where
  "active s k =
     (\<not> completed s \<and> k < length (xi_msgs s) \<and> 1 \<le> unat (nmsgs s) \<and> k + unat (nmsgs s) = length (xi_msgs s)
      \<and> (\<forall>j. k < j \<longrightarrow> j < length (xi_msgs s) \<longrightarrow> msg_ok (xi_msgs s ! j))
      \<and> (dynamic s \<longrightarrow> (\<forall>j. k \<le> j \<longrightarrow> j < length (xi_msgs s) \<longrightarrow> \<not> msg_flag I2C_M_RECV_LEN (xi_msgs s ! j))))"

text \<open>Message \<open>k\<close> is about to be started.\<close>

definition ready :: "'h xiic_i2c \<Rightarrow> nat \<Rightarrow> bool" where
  "ready s k = (tx_msg s = Some k \<and> rx_msg s = None \<and> active s k \<and> msg_ok (xi_msgs s ! k) \<and> \<not> mem_fault s)"

text \<open>Message \<open>k\<close> has been started.\<close>

definition started :: "('h \<Rightarrow> u32) \<Rightarrow> 'h xiic_i2c \<Rightarrow> nat \<Rightarrow> bool" where
  "started ier s k =
     (if msg_flag I2C_M_RD (xi_msgs s ! k)
      then tx_off (ier (xi_hw s)) \<and> (rx_msg s = None \<or> rx_msg s = Some k \<and> rx_ok s k)
      else rx_msg s = None \<and> unat (tx_pos s) \<le> unat (im_len (xi_msgs s ! k))
           \<and> unat (im_len (xi_msgs s ! k)) \<le> length (im_buf (xi_msgs s ! k)))"

definition xinv :: "'h xiic_hw \<Rightarrow> ('h \<Rightarrow> u32) \<Rightarrow> 'h xiic_i2c \<Rightarrow> bool" where
  "xinv hw ier s =
     (latched hw ier s \<and> \<not> mem_fault s
      \<and> (case tx_msg s of
           None \<Rightarrow> rx_msg s = None
         | Some k \<Rightarrow> active s k \<and> (rx_msg s = None \<and> ier (xi_hw s) = 0 \<or> started ier s k)))"

lemma xinv_idle: "latched hw ier s \<Longrightarrow> tx_msg s = None \<Longrightarrow> rx_msg s = None \<Longrightarrow> \<not> mem_fault s \<Longrightarrow> xinv hw ier s"
  by (simp add: xinv_def)

lemma xinv_started: "latched hw ier s \<Longrightarrow> tx_msg s = Some k \<Longrightarrow> active s k \<Longrightarrow> started ier s k \<Longrightarrow> \<not> mem_fault s \<Longrightarrow> xinv hw ier s"
  by (simp add: xinv_def)

lemma active_upds [simp]:
  "active (s\<lparr>xi_hw := h\<rparr>) k = active s k" "active (s\<lparr>tx_pos := p\<rparr>) k = active s k"
  "active (s\<lparr>rx_pos := r\<rparr>) k = active s k" "active (s\<lparr>rx_msg := t\<rparr>) k = active s k"
  "active (s\<lparr>tx_msg := t\<rparr>) k = active s k" "active (s\<lparr>xi_state := st\<rparr>) k = active s k"
  "active (s\<lparr>prev_msg_tx := b\<rparr>) k = active s k" "active (s\<lparr>smbus_actual_len := w\<rparr>) k = active s k"
  "active (s\<lparr>smbus_block_read := b\<rparr>) k = active s k"
  by (simp_all add: active_def)

lemma rx_ok_upds [simp]:
  "rx_ok (s\<lparr>tx_pos := p\<rparr>) k = rx_ok s k" "rx_ok (s\<lparr>rx_msg := t\<rparr>) k = rx_ok s k"
  "rx_ok (s\<lparr>prev_msg_tx := b\<rparr>) k = rx_ok s k" "rx_ok (s\<lparr>smbus_actual_len := w\<rparr>) k = rx_ok s k"
  "rx_ok (s\<lparr>smbus_block_read := b\<rparr>) k = rx_ok s k"
  by (simp_all add: rx_ok_def)

text \<open>The next message becomes the current one.\<close>

lemma active_Suc:
  assumes "active s k" and "nmsgs s > 1"
  shows "active (s\<lparr>nmsgs := nmsgs s - 1\<rparr>) (Suc k)" and "Suc k < length (xi_msgs s)" and "msg_ok (xi_msgs s ! Suc k)"
proof -
  have n: "1 < unat (nmsgs s)" using assms(2) by (simp add: word_less_nat_alt)
  then have "unat (nmsgs s - 1) = unat (nmsgs s) - 1" using unat_sub [of 1 "nmsgs s"] assms(2) by simp
  with n assms(1) show "active (s\<lparr>nmsgs := nmsgs s - 1\<rparr>) (Suc k)" "Suc k < length (xi_msgs s)" "msg_ok (xi_msgs s ! Suc k)"
    by (auto simp: active_def)
qed

lemma active_keeps:
  assumes "active s k" and "keeps ier k s s'"
  shows "active s' k"
proof -
  from assms(2) have "xi_msgs s' ! j = xi_msgs s ! j" if "k < j" for j using that by (simp add: keeps_def)
  moreover from assms(2) have "length (xi_msgs s') = length (xi_msgs s)" "nmsgs s' = nmsgs s" "dynamic s' = dynamic s" "completed s' = completed s"
      "msg_flag I2C_M_RECV_LEN (xi_msgs s' ! k) \<longrightarrow> msg_flag I2C_M_RECV_LEN (xi_msgs s ! k)"
    by (simp_all add: keeps_def rx_frame_def)
  ultimately show ?thesis using assms(1) unfolding active_def by (metis le_neq_implies_less)
qed

section \<open>Starting a message\<close>

lemma fill_tx_fifo_sent:
  assumes L: "latched hw ier s" and k: "tx_msg s = Some k" "k < length (xi_msgs s)"
    and p: "unat (tx_pos s) \<le> unat (im_len (xi_msgs s ! k))" "unat (im_len (xi_msgs s ! k)) \<le> length (im_buf (xi_msgs s ! k))"
  shows "sent ier k s (xiic_fill_tx_fifo hw s)"
proof -
  obtain sp h where g: "xiic_tx_fifo_space hw s = (sp, s\<lparr>xi_hw := h\<rparr>)" and h: "ier h = ier (xi_hw s)"
    using tx_fifo_space_hw [OF L] by (cases "xiic_tx_fifo_space hw s") (auto simp: hw_res_def)
  let ?len = "im_len (xi_msgs s ! k)" and ?s = "s\<lparr>xi_hw := h\<rparr>"
  have l: "unat ?len < 2 ^ 16" using unsigned_less [of ?len, where ?'a = nat] by simp
  have u: "unat (ucast ?len :: u32) = unat ?len" using l by (simp add: unsigned_ucast_eq take_bit_nat_eq_self)
  have "unat (xiic_tx_space ?s) = unat ?len - unat (tx_pos s)"
    using unat_sub [of "tx_pos s" "ucast ?len"] p(1) k by (simp add: xiic_tx_space_def word_le_nat_alt u)
  moreover from this l have "fill_count sp (xiic_tx_space ?s) \<le> unat (xiic_tx_space ?s)" by (intro fill_count_le) simp
  ultimately have "sent ier k ?s (fill_fifo hw (fill_count sp (xiic_tx_space ?s)) ?s)"
    by (intro fill_fifo_sent) (use L k p in simp_all)
  then have "sent ier k s (fill_fifo hw (fill_count sp (xiic_tx_space ?s)) ?s)" using h by (simp add: sent_def)
  then show ?thesis using k by (simp add: xiic_fill_tx_fifo_def g Let_def)
qed

text \<open>The step over \<open>xiic_fill_tx_fifo\<close> for a message of which nothing has been sent.\<close>

lemma fill_step:
  assumes L: "latched hw ier s" and k: "tx_msg s = Some k" "k < length (xi_msgs s)" "tx_pos s = 0"
    and fits: "unat (im_len (xi_msgs s ! k)) \<le> length (im_buf (xi_msgs s ! k))"
    and Q: "\<And>p h'. unat p \<le> unat (im_len (xi_msgs s ! k)) \<Longrightarrow> post ier Q (F (s\<lparr>tx_pos := p, xi_hw := h'\<rparr>))"
    and t: "t = s\<lparr>xi_hw := xi_hw t\<rparr>"
  shows "post ier Q (Let (xiic_fill_tx_fifo hw t) F)"
proof -
  have "sent ier k (s\<lparr>xi_hw := xi_hw t\<rparr>) (xiic_fill_tx_fifo hw (s\<lparr>xi_hw := xi_hw t\<rparr>))"
    using L k fits by (intro fill_tx_fifo_sent) simp_all
  then have "\<exists>p h'. xiic_fill_tx_fifo hw (s\<lparr>xi_hw := xi_hw t\<rparr>) = s\<lparr>tx_pos := p, xi_hw := h'\<rparr>
      \<and> unat p \<le> unat (im_len (xi_msgs s ! k))"
    by (auto simp: sent_def)
  then obtain p h' where "xiic_fill_tx_fifo hw t = s\<lparr>tx_pos := p, xi_hw := h'\<rparr>" "unat p \<le> unat (im_len (xi_msgs s ! k))"
    unfolding t [symmetric] by blast
  with Q show ?thesis by simp
qed

text \<open>A word computed from a condition is not worth a case distinction.\<close>

lemma post_let_word: "post ier Q (F w) \<Longrightarrow> post ier Q (Let (w :: 'w::len word) F)"
  by (simp add: Let_def)

text \<open>Message \<open>k\<close> is being received.\<close>

definition receiving :: "'h xiic_i2c \<Rightarrow> nat \<Rightarrow> bool" where
  "receiving s k =
     (tx_msg s = Some k \<and> rx_msg s = Some k \<and> active s k \<and> rx_ok s k \<and> \<not> mem_fault s
      \<and> msg_flag I2C_M_RD (xi_msgs s ! k))"

lemma receiving_upds [simp]:
  "receiving (s\<lparr>xi_hw := h\<rparr>) k = receiving s k" "receiving (s\<lparr>tx_pos := p\<rparr>) k = receiving s k"
  "receiving (s\<lparr>prev_msg_tx := b\<rparr>) k = receiving s k"
  by (simp_all add: receiving_def)

lemma receiving_xinv:
  "tx_off (ier h) \<Longrightarrow> latched hw ier s \<Longrightarrow> receiving s k \<Longrightarrow> post ier (xinv hw ier) (s\<lparr>xi_hw := h\<rparr>)"
  "tx_off (ier (xi_hw s)) \<Longrightarrow> latched hw ier s \<Longrightarrow> receiving s k \<Longrightarrow> post ier (xinv hw ier) (s\<lparr>prev_msg_tx := b\<rparr>)"
  by (simp_all add: post_def receiving_def xinv_def started_def)

lemma start_recv_end_xinv:
  assumes "tx_off (ier (xi_hw s))" and "latched hw ier s" and "receiving s k"
  shows "post ier (xinv hw ier) (start_recv_end hw m s)"
  unfolding start_recv_end_def
  by (rule op_rules post_let receiving_xinv [where k = k] | simp add: assms)+

lemma start_recv_xinv:
  assumes L: "latched hw ier s" and k: "tx_msg s = Some k" "active s k" "msg_ok (xi_msgs s ! k)" "\<not> mem_fault s"
    and m: "msg_flag I2C_M_RD (xi_msgs s ! k)" "rx_pos s = 0"
  shows "xinv hw ier (xiic_start_recv hw s)"
proof -
  let ?s = "s\<lparr>rx_msg := tx_msg s, smbus_actual_len := 0\<rparr>"
  have ok: "rx_ok s k" using k m msg_ok_fits [OF k(3)] by (auto simp: rx_ok_def active_def)
  obtain t where t: "t = ?s" by blast
  have R: "receiving t k" and L': "latched hw ier t" using k m ok L by (simp_all add: t receiving_def)
  have "post ier (xinv hw ier) (xiic_start_recv hw s)"
    unfolding xiic_start_recv_def t [symmetric]
    by (rule post_let)
      (rule post_let_word op_rules start_recv_end_xinv [where k = k] receiving_xinv(1) [where k = k] post_let
        | simp add: L' R flip: t split del: if_split)+
  then show ?thesis by (rule postD)
qed

lemma start_send_xinv:
  assumes L: "latched hw ier s" and k: "tx_msg s = Some k" "rx_msg s = None" "active s k" "msg_ok (xi_msgs s ! k)" "\<not> mem_fault s"
    and m: "\<not> msg_flag I2C_M_RD (xi_msgs s ! k)" "tx_pos s = 0"
  shows "xinv hw ier (xiic_start_send hw s)"
proof -
  note fits = msg_ok_fits [OF k(4)]
  have kl: "k < length (xi_msgs s)" using k(3) by (simp add: active_def)
  have fin: "post ier (xinv hw ier) (s\<lparr>tx_pos := p, xi_hw := h, prev_msg_tx := b\<rparr>)"
    if "unat p \<le> unat (im_len (xi_msgs s ! k))" for h p b
    using that k m fits L by (simp add: post_def xinv_def started_def)
  have stop: "post ier (xinv hw ier) (s\<lparr>xi_hw := h\<rparr>)" for h
    using k m fits L by (simp add: post_def xinv_def started_def)
  have "post ier (xinv hw ier) (xiic_start_send hw s)"
    unfolding xiic_start_send_def
    by (rule post_let_word fill_step [OF L k(1) kl m(2) fits] op_rules post_let fin stop | assumption | simp add: L k)+
  then show ?thesis by (rule postD)
qed

text \<open>Starting a message that is ready establishes the invariant.\<close>

lemma start_msg_xinv:
  assumes L: "latched hw ier s" and r: "ready s k"
  shows "xinv hw ier (xiic_start_msg hw s)"
proof -
  obtain sp h where g: "xiic_tx_fifo_space hw s = (sp, s\<lparr>xi_hw := h\<rparr>)"
    using tx_fifo_space_hw [OF L] by (cases "xiic_tx_fifo_space hw s") (auto simp: hw_res_def)
  let ?s = "s\<lparr>xi_hw := h, rx_pos := 0, tx_pos := 0, xi_state := STATE_START\<rparr>"
  from r L have p: "latched hw ier ?s" "tx_msg ?s = Some k" "rx_msg ?s = None" "active ?s k" "msg_ok (xi_msgs ?s ! k)"
      "\<not> mem_fault ?s" "rx_pos ?s = 0" "tx_pos ?s = 0" and k: "k < length (xi_msgs s)"
    by (simp_all add: ready_def active_def)
  show ?thesis
    using start_recv_xinv [OF p(1,2,4,5,6) _ p(7)] start_send_xinv [OF p(1-6) _ p(8)] r k
    by (cases "msg_flag I2C_M_RD (xi_msgs s ! k)") (simp_all add: xiic_start_msg_def g Let_def ready_def)
qed

section \<open>Serving an interrupt\<close>

lemma xinv_hw: "ier h = ier (xi_hw s) \<Longrightarrow> xinv hw ier (s\<lparr>xi_hw := h\<rparr>) = xinv hw ier s"
  by (cases "tx_msg s") (simp_all add: xinv_def started_def)

lemma unat_ucast16: "unat (ucast (w :: u16) :: u32) = unat w"
proof -
  have "unat w < 2 ^ 16" using unsigned_less [of w, where ?'a = nat] by simp
  then show ?thesis by (simp add: unsigned_ucast_eq take_bit_nat_eq_self)
qed

lemma keeps_receiving:
  assumes "receiving s k" and "keeps ier k s s'" and "rx_ok s' k"
  shows "receiving s' k"
  using assms active_keeps [of s k ier s'] by (simp add: receiving_def keeps_def rx_frame_def)

lemma xinv_receiving: "xinv hw ier s \<Longrightarrow> rx_msg s = Some j \<Longrightarrow> receiving s j \<and> tx_off (ier (xi_hw s))"
  by (auto simp: xinv_def started_def receiving_def split: option.splits if_splits)

lemma receiving_xinv': "latched hw ier s \<Longrightarrow> receiving s k \<Longrightarrow> tx_off (ier (xi_hw s)) \<Longrightarrow> xinv hw ier s"
  by (simp add: receiving_def xinv_def started_def)

text \<open>A message that has been received: its length may be trimmed, and nothing else changes.\<close>

lemma trim_received:
  assumes "receiving s k"
  shows "active (xiic_smbus_trim_len s) k" "nmsgs (xiic_smbus_trim_len s) = nmsgs s"
    "tx_msg (xiic_smbus_trim_len s) = Some k" "\<not> mem_fault (xiic_smbus_trim_len s)"
    "xi_hw (xiic_smbus_trim_len s) = xi_hw s" "latched hw ier (xiic_smbus_trim_len s) = latched hw ier s"
    "msg_flag I2C_M_RD (xi_msgs (xiic_smbus_trim_len s) ! k)"
proof -
  have k: "k < length (xi_msgs s)" "rx_msg s = Some k" "active s k" using assms by (simp_all add: receiving_def active_def)
  from k(3) have "active (s\<lparr>xi_msgs := (xi_msgs s)[k := (xi_msgs s ! k)\<lparr>im_len := l\<rparr>]\<rparr>) k" for l
    by (auto simp: active_def nth_list_update)
  with assms k show "active (xiic_smbus_trim_len s) k" "nmsgs (xiic_smbus_trim_len s) = nmsgs s"
    "tx_msg (xiic_smbus_trim_len s) = Some k" "\<not> mem_fault (xiic_smbus_trim_len s)"
    "xi_hw (xiic_smbus_trim_len s) = xi_hw s" "latched hw ier (xiic_smbus_trim_len s) = latched hw ier s"
    "msg_flag I2C_M_RD (xi_msgs (xiic_smbus_trim_len s) ! k)"
    by (simp_all add: xiic_smbus_trim_len_def receiving_def)
qed

text \<open>The state between two blocks of the handler: the next message is ready when \<open>xfer_more\<close> is set.\<close>

definition isr_ok :: "'h xiic_hw \<Rightarrow> ('h \<Rightarrow> u32) \<Rightarrow> isr_vars \<Rightarrow> 'h xiic_i2c \<Rightarrow> bool" where
  "isr_ok hw ier v s = (if v_more v then \<exists>k. ready s k else xinv hw ier s)"

text \<open>Transmit events are handled only if they were enabled for a message that is being sent.\<close>

definition tx_seen :: "('h \<Rightarrow> u32) \<Rightarrow> u32 \<Rightarrow> isr_vars \<Rightarrow> 'h xiic_i2c \<Rightarrow> bool" where
  "tx_seen ier pend v s = (v_more v \<or> tx_off (ier (xi_hw s)) \<longrightarrow> tx_off pend)"

lemma next_ready:
  assumes "active s k" "nmsgs s > 1" "tx_msg s = Some k" "rx_msg s = None" "\<not> mem_fault s"
  shows "ready (s\<lparr>nmsgs := nmsgs s - 1, tx_msg := map_option Suc (tx_msg s)\<rparr>) (Suc k)"
  using active_Suc [OF assms(1,2)] assms(3-5) by (simp add: ready_def)

lemma isr_rx_ok:
  assumes L: "latched hw ier s" and x: "xinv hw ier s" and v: "\<not> v_more v" "v_wake v = w" and t: "tx_seen ier pend v s"
    and e: "isr_rx hw isr pend v s = (b, v', s')"
  shows "latched hw ier s' \<and> isr_ok hw ier v' s' \<and> v_wake v' = w \<and> tx_seen ier pend v' s'"
proof (cases "rx_msg s")
  case None
  obtain r h where c: "xiic_clear_rx_fifo hw s = (r, s\<lparr>xi_hw := h\<rparr>)" "ier h = ier (xi_hw s)"
    using clear_rx_fifo_hw [OF L] by (cases "xiic_clear_rx_fifo hw s") (auto simp: hw_res_def)
  have "xinv hw ier (s\<lparr>xi_hw := h\<rparr>)" using x c(2) by (simp add: xinv_hw)
  with None e L x v t c show ?thesis
    by (auto simp: isr_rx_def isr_ok_def tx_seen_def Let_def split: if_splits)
next
  case (Some k)
  with xinv_receiving [OF x] have r: "receiving s k" and off: "tx_off (ier (xi_hw s))" by blast+
  let ?s = "xiic_read_rx hw s" and ?t = "xiic_smbus_trim_len (xiic_read_rx hw s)"
  have K: "keeps ier k s ?s" "rx_ok ?s k"
    using read_rx_keeps [OF L, of k] r by (simp_all add: receiving_def active_def)
  have r': "receiving ?s k" by (rule keeps_receiving [OF r K])
  have L': "latched hw ier ?s" using keeps_latched [OF K(1)] L by blast
  have off': "tx_off (ier (xi_hw ?s))" "tx_off pend"
    using K(1) off t by (simp_all add: keeps_def rx_frame_def tx_seen_def)
  note T = trim_received [OF r']
  have fin: "xinv hw ier (?t\<lparr>rx_msg := None\<rparr>)"
    using T off' L' by (intro xinv_started [where k = k]) (simp_all add: started_def)
  have nxt: "ready (?t\<lparr>rx_msg := None, nmsgs := nmsgs ?t - 1, tx_msg := map_option Suc (tx_msg ?t)\<rparr>) (Suc k)" if "1 < nmsgs ?t"
    using next_ready [of "?t\<lparr>rx_msg := None\<rparr>" k] that T by simp
  show ?thesis
    using e v L t x Some L' off' T fin nxt receiving_xinv' [OF L' r' off'(1)]
    by (auto simp: isr_rx_def isr_ok_def tx_seen_def Let_def split: if_splits)
qed

lemma sent_xinv:
  assumes "sent ier k s s'" "xinv hw ier s" "tx_msg s = Some k" "\<not> tx_off (ier (xi_hw s))"
  shows "xinv hw ier s' \<and> tx_seen ier pend v s' = tx_seen ier pend v s"
  using assms by (auto simp: sent_def xinv_def started_def tx_seen_def split: if_splits)

lemma isr_tx_ok:
  assumes L: "latched hw ier s" and x: "isr_ok hw ier v s" and v: "v_wake v = w" and t: "tx_seen ier pend v s"
    and e: "isr_tx hw pend v s = (b, v', s')"
  shows "latched hw ier s' \<and> isr_ok hw ier v' s' \<and> v_wake v' = w"
proof (cases "tx_off pend \<or> tx_msg s = None")
  case True
  with e L x v show ?thesis
    by (auto simp: isr_tx_def tx_off_def isr_ok_def Let_def split: if_splits)
next
  case False
  then obtain k where k: "tx_msg s = Some k" and p: "\<not> tx_off pend" by blast
  with t x have nm: "\<not> v_more v" and off: "\<not> tx_off (ier (xi_hw s))" and X: "xinv hw ier s"
    by (auto simp: tx_seen_def isr_ok_def)
  then have "started ier s k" "active s k" "\<not> mem_fault s" using k by (auto simp: xinv_def)
  with off have st: "rx_msg s = None" "\<not> msg_flag I2C_M_RD (xi_msgs s ! k)" "k < length (xi_msgs s)"
      "unat (tx_pos s) \<le> unat (im_len (xi_msgs s ! k))" "unat (im_len (xi_msgs s ! k)) \<le> length (im_buf (xi_msgs s ! k))"
    by (auto simp: started_def active_def split: if_splits)
  have F: "sent ier k s (xiic_fill_tx_fifo hw s)" by (rule fill_tx_fifo_sent) (use L k st in simp_all)
  then have L': "latched hw ier (xiic_fill_tx_fifo hw s)" using L by (auto simp: sent_def)
  have F': "xinv hw ier (xiic_fill_tx_fifo hw s)" using sent_xinv [OF F X k off] by blast
  have D: "xinv hw ier (xiic_irq_dis hw m s) \<and> latched hw ier (xiic_irq_dis hw m s)" for m
    using irq_dis_hw [OF L, of m] X k st L by (auto simp: hw_upd_def xinv_def started_def)
  have N: "ready (s\<lparr>nmsgs := nmsgs s - 1, tx_msg := map_option Suc (tx_msg s)\<rparr>) (Suc k)" if "1 < nmsgs s"
    using next_ready [of s k] that k st \<open>active s k\<close> \<open>\<not> mem_fault s\<close> by simp
  show ?thesis
    using e v nm k st p L L' F' D N by (auto simp: isr_tx_def isr_ok_def tx_off_def Let_def split: if_splits)
qed

lemma isr_ok_tx: "isr_ok hw ier v s \<Longrightarrow> tx_msg s = Some k \<Longrightarrow> k < length (xi_msgs s)"
  by (auto simp: isr_ok_def ready_def xinv_def active_def split: if_splits)

lemma isr_bnb_ok:
  assumes L: "latched hw ier s" and x: "isr_ok hw ier v s" and e: "isr_bnb hw pend v s = (v', s')"
  shows "latched hw ier s' \<and> isr_ok hw ier v' s'"
proof -
  obtain h where h: "xiic_irq_dis hw XIIC_INTR_BNB_MASK s = s\<lparr>xi_hw := h\<rparr>" "ier h = ier (xi_hw s) AND NOT XIIC_INTR_BNB_MASK"
    using irq_dis_hw [OF L] by (auto simp: hw_upd_def)
  let ?p = "ucast (im_len (msg_at (tx_msg s) s)) :: u32"
  have hw: "isr_ok hw ier v (s\<lparr>xi_hw := h\<rparr>)"
    using x h(2) by (auto simp: isr_ok_def ready_def xinv_def started_def split: option.splits if_splits)
  moreover have "isr_ok hw ier v (s\<lparr>xi_hw := h, smbus_block_read := False, tx_pos := ?p\<rparr>)" if "tx_msg s = Some k" for k
    using hw that by (auto simp: isr_ok_def ready_def xinv_def started_def active_def unat_ucast16 split: if_splits)
  moreover have "isr_ok hw ier (v\<lparr>v_clr := c, v_wake := wk\<rparr>) t = isr_ok hw ier v t" "isr_ok hw ier (v\<lparr>v_clr := c\<rparr>) t = isr_ok hw ier v t" for c wk t
    by (simp_all add: isr_ok_def)
  ultimately show ?thesis
    using e L x isr_ok_tx [OF x] by (auto simp: isr_bnb_def h(1) Let_def split: if_splits)
qed

end
