(* ===== verification/Xiic_Safe.thy ===== *)
theory Xiic_Safe
  imports Xiic_State
begin

text \<open>
  The Xilinx I2C driver as a state machine: transfers, interrupts and the controller's own progress in
  any order. The invariant holds in every reachable state, and outside a transfer no interrupt
  touches the messages of the last one.
\<close>

section \<open>The whole interrupt handler\<close>

lemma wakeup_xinv: "latched hw ier s \<Longrightarrow> \<not> mem_fault s \<Longrightarrow> xinv hw ier (xiic_wakeup code s)"
  by (simp add: xiic_wakeup_def xinv_def)

lemma xinvD: "xinv hw ier s \<Longrightarrow> latched hw ier s" "xinv hw ier s \<Longrightarrow> \<not> mem_fault s"
  by (simp_all add: xinv_def)

lemma isr_out_xinv:
  assumes L: "latched hw ier s" and x: "isr_ok hw ier v s"
  shows "xinv hw ier (isr_out hw f v s)"
proof -
  obtain h where h: "xiic_setreg32 hw XIIC_IISR_OFFSET c s = s\<lparr>xi_hw := h c\<rparr>" "ier (h c) = ier (xi_hw s)" for c
    using setreg32_hw [OF L, of XIIC_IISR_OFFSET] by (simp add: hw_upd_def) metis
  have R: "ready (s\<lparr>xi_hw := h c\<rparr>) k = ready s k" for c k by (simp add: ready_def)
  have S: "xinv hw ier (if v_more v then xiic_start_msg hw (s\<lparr>xi_hw := h c\<rparr>) else s\<lparr>xi_hw := h c\<rparr>)" for c
    using x start_msg_xinv [of hw ier "s\<lparr>xi_hw := h c\<rparr>"] L h(2) [of c] R
    by (auto simp: isr_ok_def xinv_hw)
  note W = wakeup_xinv [OF xinvD(1) [OF S] xinvD(2) [OF S]]
  show ?thesis
    using S W by (cases "v_wake v") (simp_all only: isr_out_def Let_def h(1) option.case)
qed

lemma isr_events_xinv:
  assumes L: "latched hw ier s" and x: "xinv hw ier s" "\<not> v_more v" and t: "tx_seen ier pend v s"
  shows "xinv hw ier (isr_events hw f isr pend v s)"
proof -
  obtain b1 v1 s1 where e1: "isr_rx hw isr pend v s = (b1, v1, s1)" by (metis prod.exhaust)
  obtain b2 v2 s2 where e2: "isr_tx hw pend v1 s1 = (b2, v2, s2)" by (metis prod.exhaust)
  obtain v3 s3 where e3: "isr_bnb hw pend v2 s2 = (v3, s3)" by (metis prod.exhaust)
  from isr_rx_ok [OF L x refl t e1] have 1: "latched hw ier s1" "isr_ok hw ier v1 s1" "tx_seen ier pend v1 s1" by blast+
  from isr_tx_ok [OF 1(1,2) refl 1(3) e2] have 2: "latched hw ier s2" "isr_ok hw ier v2 s2" by blast+
  from isr_bnb_ok [OF 2 e3] have 3: "latched hw ier s3" "isr_ok hw ier v3 s3" by blast+
  from isr_out_xinv [OF 1(1,2)] isr_out_xinv [OF 2] isr_out_xinv [OF 3] show ?thesis
    by (cases b1; cases b2) (simp_all add: isr_events_def e1 e2 e3)
qed

lemma tx_off_or_rx_full [simp]: "tx_off (w OR XIIC_INTR_RX_FULL_MASK) = tx_off w"
proof -
  have d: "(w OR x) AND m = (w AND m) OR (x AND m)" for x m :: u32 by (simp add: bit.conj_disj_distrib2)
  show ?thesis unfolding tx_off_def d by (simp add: xiic_intr_masks)
qed

lemma isr_error_xinv:
  assumes L: "latched hw ier s" and x: "xinv hw ier s" and e: "isr_error hw isr_start s = (v, t)"
  shows "xinv hw ier (isr_out hw f v t)"
proof -
  obtain r h where r: "xiic_reinit hw s = (r, s\<lparr>xi_hw := h\<rparr>)"
    using reinit_hw [OF L] by (cases "xiic_reinit hw s") (auto simp: hw_res_def)
  have L': "latched hw ier (s\<lparr>xi_hw := h\<rparr>)" using L by simp
  obtain h' where h': "xiic_setreg32 hw XIIC_IISR_OFFSET 0 (s\<lparr>xi_hw := h\<rparr>) = s\<lparr>xi_hw := h'\<rparr>"
    using setreg32_hw [OF L', of XIIC_IISR_OFFSET 0] by (auto simp: hw_upd_def)
  have nf: "\<not> mem_fault (s\<lparr>xi_hw := h'\<rparr>)" using x by (simp add: xinv_def)
  show ?thesis
  proof (cases "rx_msg s \<noteq> None \<or> tx_msg s \<noteq> None")
    case True
    with e r have "v = isr_start\<lparr>v_wake := Some STATE_ERROR\<rparr>" "t = s\<lparr>xi_hw := h\<rparr>" by (auto simp: isr_error_def)
    then show ?thesis using wakeup_xinv [OF _ nf] h' L by (simp add: isr_out_def isr_start_def Let_def)
  next
    case False
    with e r have "v = isr_start" "t = s\<lparr>xi_hw := h\<rparr>" by (auto simp: isr_error_def)
    then show ?thesis using False nf h' L by (simp add: isr_out_def isr_start_def Let_def xinv_idle)
  qed
qed

lemma xinv_rx_valid: "xinv hw ier s \<Longrightarrow> rx_valid s"
  by (auto simp: rx_valid_def xinv_def started_def active_def split: option.splits if_splits)

lemma process_xinv:
  assumes L: "latched hw ier s" and x: "xinv hw ier s"
  shows "xinv hw ier (xiic_process hw s)"
proof -
  obtain isr h where g: "xiic_getreg32 hw XIIC_IISR_OFFSET s = (isr, s\<lparr>xi_hw := h\<rparr>)" "ier h = ier (xi_hw s)"
    using getreg32_hw [OF L, of XIIC_IISR_OFFSET] by (cases "xiic_getreg32 hw XIIC_IISR_OFFSET s") (auto simp: hw_res_def)
  have L1: "latched hw ier (s\<lparr>xi_hw := h\<rparr>)" using L by simp
  obtain h' where g': "xiic_getreg32 hw XIIC_IIER_OFFSET (s\<lparr>xi_hw := h\<rparr>) = (ier (xi_hw s), s\<lparr>xi_hw := h'\<rparr>)"
      "ier h' = ier (xi_hw s)"
    using getreg32_ier [OF L1] g(2) by (cases "xiic_getreg32 hw XIIC_IIER_OFFSET (s\<lparr>xi_hw := h\<rparr>)") (auto simp: hw_res_def)
  let ?s = "s\<lparr>xi_hw := h'\<rparr>" and ?p = "isr AND ier (xi_hw s)"
  have L2: "latched hw ier ?s" and x2: "xinv hw ier ?s" using L x g'(2) by (simp_all add: xinv_hw)
  obtain b h3 where sv: "rx_salvage hw ?p ?s = (b, s\<lparr>xi_hw := h3\<rparr>)" "ier h3 = ier (xi_hw s)"
    using rx_salvage_hw [OF L2 xinv_rx_valid [OF x2], of ?p] g'(2) by (cases "rx_salvage hw ?p ?s") (auto simp: hw_res_def)
  have L3: "latched hw ier (s\<lparr>xi_hw := h3\<rparr>)" and x3: "xinv hw ier (s\<lparr>xi_hw := h3\<rparr>)"
    using L x sv(2) by (simp_all add: xinv_hw)
  have t: "tx_seen ier ?p isr_start ?s" "tx_seen ier (?p OR XIIC_INTR_RX_FULL_MASK) (isr_start\<lparr>v_clr := c\<rparr>) (s\<lparr>xi_hw := h3\<rparr>)" for c
    using g'(2) sv(2) by (simp_all add: tx_seen_def isr_start_def and.commute [of isr])
  have E1: "xinv hw ier (isr_events hw f isr ?p isr_start ?s)" for f
    by (rule isr_events_xinv [OF L2 x2 _ t(1)]) (simp add: isr_start_def)
  have E2: "xinv hw ier (isr_events hw f isr (?p OR XIIC_INTR_RX_FULL_MASK) (isr_start\<lparr>v_clr := c\<rparr>) (s\<lparr>xi_hw := h3\<rparr>))" for f c
    by (rule isr_events_xinv [OF L3 x3 _ t(2)]) (simp add: isr_start_def)
  obtain v u where er: "isr_error hw isr_start (s\<lparr>xi_hw := h3\<rparr>) = (v, u)" by fastforce
  note E3 = isr_error_xinv [OF L3 x3 er]
  show ?thesis
    using E1 E2 E3 by (cases b) (simp_all add: xiic_process_def g(1) g'(1) Let_def sv(1) er)
qed

section \<open>Starting and ending a transfer\<close>

lemma scan_dynamic_iff: "scan_dynamic q ms \<longleftrightarrow> (\<forall>m \<in> set ms. \<not> needs_standard q m)"
  by (induction ms) simp_all

text \<open>A transfer the I2C core hands over.\<close>

definition xfer_ok :: "i2c_msg list \<Rightarrow> bool" where
  "xfer_ok ms = (ms \<noteq> [] \<and> length ms < 2 ^ 31 \<and> (\<forall>m \<in> set ms. msg_ok m))"

text \<open>\<open>idle ier s\<close>: the driver holds no message it could touch.\<close>

definition idle :: "('h \<Rightarrow> u32) \<Rightarrow> 'h xiic_i2c \<Rightarrow> bool" where
  "idle ier s = (rx_msg s = None \<and> (tx_msg s = None \<or> ier (xi_hw s) = 0))"

lemma acquire_bus_hw:
  assumes L: "latched hw ier s"
  shows "\<exists>r h. acquire_bus hw s = (r, s\<lparr>xi_hw := h\<rparr>)"
proof -
  have "post ier (\<lambda>t. snd t = s\<lparr>xi_hw := xi_hw (snd t)\<rparr>) (acquire_bus hw s)"
    unfolding acquire_bus_def
    by (rule op_rules post_res_tail [OF _ wait_not_busy_hw] | simp add: L post_def)+
  then show ?thesis by (cases "acquire_bus hw s") (auto simp: post_def)
qed

definition xfer_state :: "i2c_msg list \<Rightarrow> 'h xiic_i2c \<Rightarrow> 'h xiic_i2c" where
  "xfer_state ms s =
     s\<lparr>xi_msgs := ms, tx_msg := Some 0, rx_msg := None, nmsgs := of_nat (length ms),
       completed := False, dynamic := scan_dynamic (quirks s) ms, prev_msg_tx := False\<rparr>"

lemma xfer_state_ready:
  assumes "xfer_ok ms" and "\<not> mem_fault s"
  shows "ready (xfer_state ms s) 0"
proof -
  have n: "unat (of_nat (length ms) :: u32) = length ms" using assms(1) by (simp add: xfer_ok_def unat_of_nat)
  have dyn: "\<not> msg_flag I2C_M_RECV_LEN (ms ! j)" if "scan_dynamic (quirks s) ms" "j < length ms" for j
    using that by (auto simp: scan_dynamic_iff needs_standard_def Let_def)
  from assms n dyn show ?thesis
    by (auto simp: ready_def xfer_state_def active_def xfer_ok_def Suc_le_eq)
qed

lemma start_xfer_cases:
  assumes L: "latched hw ier s"
  obtains (busy) "tx_msg s \<noteq> None \<or> rx_msg s \<noteq> None" "xiic_start_xfer hw ms s = (Inl EBUSY, s)"
  | (stuck) e h where "tx_msg s = None" "rx_msg s = None" "xiic_start_xfer hw ms s = (Inl e, s\<lparr>xi_hw := h\<rparr>)"
  | (failed) e h where "tx_msg s = None" "rx_msg s = None" "ier h = 0"
      "xiic_start_xfer hw ms s = (Inl e, (xfer_state ms s)\<lparr>xi_hw := h\<rparr>)"
  | (ok) h where "tx_msg s = None" "rx_msg s = None"
      "xiic_start_xfer hw ms s = (Inr (), xiic_start_msg hw ((xfer_state ms s)\<lparr>xi_hw := h\<rparr>))"
proof (cases "tx_msg s \<noteq> None \<or> rx_msg s \<noteq> None")
  case True
  then have "xiic_start_xfer hw ms s = (Inl EBUSY, s)" unfolding xiic_start_xfer_def by (rule if_P)
  with True show ?thesis by (rule busy)
next
  case False
  obtain r h where a: "acquire_bus hw s = (r, s\<lparr>xi_hw := h\<rparr>)" using acquire_bus_hw [OF L] by blast
  show ?thesis
  proof (cases r)
    case (Inl e)
    show ?thesis by (rule stuck [of e h]) (use False a Inl in \<open>simp_all add: xiic_start_xfer_def\<close>)
  next
    case (Inr u)
    let ?s = "(xfer_state ms s)\<lparr>xi_hw := h\<rparr>"
    have L': "latched hw ier ?s" using L by (simp add: xfer_state_def)
    obtain r2 h2 where b: "xiic_reinit hw ?s = (r2, (xfer_state ms s)\<lparr>xi_hw := h2\<rparr>)" "ier h2 = reinit_ier r2"
      using reinit_hw [OF L'] by (cases "xiic_reinit hw ?s") (auto simp: hw_res_def)
    have t: "(s\<lparr>xi_hw := h\<rparr>)\<lparr>xi_msgs := ms, tx_msg := Some 0, rx_msg := None, nmsgs := of_nat (length ms),
        completed := False, dynamic := scan_dynamic (quirks s) ms, prev_msg_tx := False\<rparr> = ?s"
      by (simp add: xfer_state_def)
    have st: "xiic_start_xfer hw ms s =
        (case (r2, (xfer_state ms s)\<lparr>xi_hw := h2\<rparr>) of (Inl e, s) \<Rightarrow> (Inl e, s) | (Inr _, s) \<Rightarrow> (Inr (), xiic_start_msg hw s))"
      using False a Inr b(1) t by (simp add: xiic_start_xfer_def Let_def)
    show ?thesis
    proof (cases r2)
      case (Inl e)
      show ?thesis by (rule failed [of h2 e]) (use False b Inl st in \<open>simp_all add: reinit_ier_def\<close>)
    next
      case (Inr _)
      show ?thesis by (rule ok [of h2]) (use False b Inr st in simp_all)
    qed
  qed
qed

lemma start_xfer_xinv:
  assumes x: "xinv hw ier s" and ms: "xfer_ok ms" and e: "xiic_start_xfer hw ms s = (r, s')"
  shows "xinv hw ier s' \<and> (r \<noteq> Inr () \<longrightarrow> idle ier s \<longrightarrow> idle ier s')"
proof -
  note L = xinvD(1) [OF x] and nf = xinvD(2) [OF x]
  have R: "ready ((xfer_state ms s)\<lparr>xi_hw := h\<rparr>) 0" for h
    using xfer_state_ready [OF ms nf] by (simp add: ready_def)
  have L': "latched hw ier ((xfer_state ms s)\<lparr>xi_hw := h\<rparr>)" for h using L by (simp add: xfer_state_def)
  from L show ?thesis
  proof (cases rule: start_xfer_cases [where ms = ms])
    case busy
    with e x show ?thesis by simp
  next
    case (stuck e h)
    with \<open>xiic_start_xfer hw ms s = (r, s')\<close> L nf show ?thesis by (auto simp: idle_def intro: xinv_idle)
  next
    case (failed e h)
    with \<open>xiic_start_xfer hw ms s = (r, s')\<close> R [of h] L' [of h] show ?thesis
      by (auto simp: idle_def xinv_def ready_def)
  next
    case (ok h)
    with e start_msg_xinv [OF L' R, of h] show ?thesis by auto
  qed
qed

section \<open>Outside a transfer\<close>

lemma isr_out_quiet:
  assumes "latched hw ier s" "\<not> v_more v" "v_wake v = None"
  shows "\<exists>h. isr_out hw f v s = s\<lparr>xi_hw := h\<rparr> \<and> ier h = ier (xi_hw s)"
  using setreg32_hw [OF assms(1), of XIIC_IISR_OFFSET] assms(2,3)
  by (auto simp: isr_out_def Let_def hw_upd_def)

lemma isr_events_quiet:
  assumes L: "latched hw ier s" and n: "rx_msg s = None" "tx_msg s = None" and v: "\<not> v_more v" "v_wake v = None"
  shows "\<exists>h. isr_events hw f isr pend v s = s\<lparr>xi_hw := h\<rparr>"
proof -
  obtain b c h where e1: "isr_rx hw isr pend v s = (b, v\<lparr>v_clr := c\<rparr>, s\<lparr>xi_hw := h\<rparr>)"
  proof -
    let ?b = "pend AND XIIC_INTR_RX_FULL_MASK \<noteq> 0"
    obtain r h where c: "xiic_clear_rx_fifo hw s = (r, s\<lparr>xi_hw := h\<rparr>)"
      using clear_rx_fifo_hw [OF L] by (cases "xiic_clear_rx_fifo hw s") (auto simp: hw_res_def)
    have "isr_rx hw isr pend v s =
        (?b, v\<lparr>v_clr := if ?b then v_clr v OR XIIC_INTR_RX_FULL_MASK else v_clr v\<rparr>, s\<lparr>xi_hw := if ?b then h else xi_hw s\<rparr>)"
      using n by (simp add: isr_rx_def Let_def c)
    then show ?thesis by (rule that)
  qed
  let ?s = "s\<lparr>xi_hw := h\<rparr>"
  have L1: "latched hw ier ?s" using L by simp
  obtain b2 c2 where e2: "isr_tx hw pend (v\<lparr>v_clr := c\<rparr>) ?s = (b2, v\<lparr>v_clr := c2\<rparr>, ?s)"
  proof -
    let ?ev = "pend AND (XIIC_INTR_TX_EMPTY_MASK OR XIIC_INTR_TX_HALF_MASK)"
    have "isr_tx hw pend (v\<lparr>v_clr := c\<rparr>) ?s =
        (?ev \<noteq> 0, v\<lparr>v_clr := if ?ev = 0 then c else c OR ?ev\<rparr>, ?s)"
      using n by (simp add: isr_tx_def Let_def)
    then show ?thesis by (rule that)
  qed
  obtain h3 where d: "xiic_irq_dis hw XIIC_INTR_BNB_MASK ?s = s\<lparr>xi_hw := h3\<rparr>"
    using irq_dis_hw [OF L1] by (auto simp: hw_upd_def)
  obtain c3 h4 where e3: "isr_bnb hw pend (v\<lparr>v_clr := c2\<rparr>) ?s = (v\<lparr>v_clr := c3\<rparr>, s\<lparr>xi_hw := h4\<rparr>)"
  proof -
    have "isr_bnb hw pend (v\<lparr>v_clr := c2\<rparr>) ?s =
        (v\<lparr>v_clr := if pend AND XIIC_INTR_BNB_MASK = 0 then c2 else c2 OR XIIC_INTR_BNB_MASK\<rparr>,
         s\<lparr>xi_hw := if pend AND XIIC_INTR_BNB_MASK = 0 then h else h3\<rparr>)"
      using n by (simp add: isr_bnb_def Let_def d)
    then show ?thesis by (rule that)
  qed
  have "\<exists>h'. isr_out hw f (v\<lparr>v_clr := c'\<rparr>) (s\<lparr>xi_hw := h''\<rparr>) = s\<lparr>xi_hw := h'\<rparr>" for c' h''
    using isr_out_quiet [of hw ier "s\<lparr>xi_hw := h''\<rparr>" "v\<lparr>v_clr := c'\<rparr>" f] L v by auto
  then show ?thesis by (cases b; cases b2) (simp_all add: isr_events_def e1 e2 e3)
qed

text \<open>An interrupt while the driver is idle changes the controller and nothing else.\<close>

lemma process_idle:
  assumes L: "latched hw ier s" and i: "idle ier s"
  shows "\<exists>h. xiic_process hw s = s\<lparr>xi_hw := h\<rparr> \<and> idle ier (s\<lparr>xi_hw := h\<rparr>)"
proof -
  obtain isr h where g: "xiic_getreg32 hw XIIC_IISR_OFFSET s = (isr, s\<lparr>xi_hw := h\<rparr>)" "ier h = ier (xi_hw s)"
    using getreg32_hw [OF L, of XIIC_IISR_OFFSET] by (cases "xiic_getreg32 hw XIIC_IISR_OFFSET s") (auto simp: hw_res_def)
  have L1: "latched hw ier (s\<lparr>xi_hw := h\<rparr>)" using L by simp
  obtain h' where g': "xiic_getreg32 hw XIIC_IIER_OFFSET (s\<lparr>xi_hw := h\<rparr>) = (ier (xi_hw s), s\<lparr>xi_hw := h'\<rparr>)"
      "ier h' = ier (xi_hw s)"
    using getreg32_ier [OF L1] g(2) by (cases "xiic_getreg32 hw XIIC_IIER_OFFSET (s\<lparr>xi_hw := h\<rparr>)") (auto simp: hw_res_def)
  let ?s = "s\<lparr>xi_hw := h'\<rparr>"
  have L2: "latched hw ier ?s" and rx: "rx_msg s = None" using L i by (simp_all add: idle_def)
  show ?thesis
  proof (cases "tx_msg s = None")
    case True
    obtain r h3 where r: "xiic_reinit hw ?s = (r, s\<lparr>xi_hw := h3\<rparr>)"
      using reinit_hw [OF L2] by (cases "xiic_reinit hw ?s") (auto simp: hw_res_def)
    have st: "\<not> v_more isr_start" "v_wake isr_start = None" by (simp_all add: isr_start_def)
    have er: "isr_error hw isr_start ?s = (isr_start, s\<lparr>xi_hw := h3\<rparr>)" using True rx r by (simp add: isr_error_def)
    have "\<exists>h. isr_out hw f isr_start (s\<lparr>xi_hw := h3\<rparr>) = s\<lparr>xi_hw := h\<rparr>" for f
      using isr_out_quiet [of hw ier "s\<lparr>xi_hw := h3\<rparr>" isr_start f] L st by auto
    moreover have "\<exists>h. isr_events hw f isr pend isr_start ?s = s\<lparr>xi_hw := h\<rparr>" for f pend
      using isr_events_quiet [OF L2, of isr_start f isr pend] True rx st by simp
    moreover have "rx_salvage hw pend ?s = (False, ?s)" for pend using rx by (simp add: rx_salvage_def)
    ultimately have "\<exists>h. xiic_process hw s = s\<lparr>xi_hw := h\<rparr>"
      by (simp add: xiic_process_def g(1) g'(1) Let_def er)
    with True rx show ?thesis by (auto simp: idle_def)
  next
    case False
    with i have z: "ier (xi_hw s) = 0" by (simp add: idle_def)
    have "\<exists>h. isr_out hw False isr_start ?s = s\<lparr>xi_hw := h\<rparr> \<and> ier h = 0"
      using isr_out_quiet [OF L2, of isr_start False] g'(2) z by (simp add: isr_start_def)
    then have "\<exists>h. xiic_process hw s = s\<lparr>xi_hw := h\<rparr> \<and> ier h = 0"
      by (simp add: xiic_process_def g(1) g'(1) Let_def z isr_events_def isr_rx_def isr_tx_def isr_bnb_def)
    with rx show ?thesis by (auto simp: idle_def)
  qed
qed

section \<open>The driver as a state machine\<close>

text \<open>
  A step is a transfer that begins, an interrupt, the controller changing by itself (it may do
  anything but enable an interrupt), or the end of the wait for the transfer. The flag says that a
  transfer is between its begin and its end; the I2C core starts no second one.
\<close>

inductive xiic_step :: "'h xiic_hw \<Rightarrow> ('h \<Rightarrow> u32) \<Rightarrow> bool \<times> 'h xiic_i2c \<Rightarrow> bool \<times> 'h xiic_i2c \<Rightarrow> bool"
  for hw ier where
  start: "xfer_ok ms \<Longrightarrow> xiic_xfer_begin hw resume ms s = (r, s') \<Longrightarrow> xiic_step hw ier (False, s) (r = Inr (), s')"
| interrupt: "xiic_step hw ier (fl, s) (fl, xiic_process hw s)"
| hardware: "ier h = ier (xi_hw s) \<Longrightarrow> xiic_step hw ier (fl, s) (fl, s\<lparr>xi_hw := h\<rparr>)"
| finish: "timeout \<or> completed s \<Longrightarrow> xiic_step hw ier (True, s) (False, snd (xiic_xfer_end timeout num s))"

text \<open>The states that can be reached once probe has succeeded at base \<open>b\<close> with hardware \<open>h0\<close>.\<close>

inductive xiic_reach :: "'h xiic_hw \<Rightarrow> ('h \<Rightarrow> u32) \<Rightarrow> addr \<Rightarrow> 'h \<Rightarrow> bool \<times> 'h xiic_i2c \<Rightarrow> bool"
  for hw ier b h0 where
  probed: "xiic_i2c_probe hw env b node h0 = (Inr s, h) \<Longrightarrow> xiic_reach hw ier b h0 (False, s)"
| step: "xiic_reach hw ier b h0 st \<Longrightarrow> xiic_step hw ier st st' \<Longrightarrow> xiic_reach hw ier b h0 st'"

text \<open>The byte order probe detects.\<close>

definition detected :: "'h xiic_hw \<Rightarrow> addr \<Rightarrow> 'h \<Rightarrow> xiic_endian" where
  "detected hw b h = endianness (detect_endianness hw (xiic_new b None 0 h))"

lemma detect_form:
  "\<exists>h'. detect_endianness hw (xiic_new b node clk h) =
     (xiic_new b node clk h)\<lparr>endianness := detected hw b h, xi_hw := h'\<rparr>"
  by (auto simp: detected_def detect_endianness_def xiic_new_def xiic_setreg32_def xiic_getreg32_def op32_def Let_def
      split: prod.split)

lemma probe_form:
  assumes L: "ier_latched hw ier b (detected hw b h0)" and p: "xiic_i2c_probe hw env b node h0 = (Inr s, h)"
  shows "\<exists>clk h2. s = (xiic_new b node clk h0)\<lparr>endianness := detected hw b h0, xi_hw := h2\<rparr>"
proof -
  obtain clk where "xe_clk env = Inr clk" using p by (auto simp: xiic_i2c_probe_def split: if_splits option.splits sum.splits)
  obtain h1 where d: "detect_endianness hw (xiic_new b node clk h0) =
      (xiic_new b node clk h0)\<lparr>endianness := detected hw b h0, xi_hw := h1\<rparr>" (is "_ = ?s")
    using detect_form [of hw b node clk h0] by blast
  have L': "latched hw ier ?s" using L by (simp add: latched_def xiic_new_def)
  obtain r h2 where r: "xiic_reinit hw ?s = (r, ?s\<lparr>xi_hw := h2\<rparr>)"
    using reinit_hw [OF L'] by (cases "xiic_reinit hw ?s") (auto simp: hw_res_def)
  have "s = ?s\<lparr>xi_hw := h2\<rparr>"
    using p \<open>xe_clk env = Inr clk\<close> d r
    by (auto simp: xiic_i2c_probe_def Let_def split: if_splits option.splits sum.splits)
  then show ?thesis by auto
qed

lemma probe_xinv:
  assumes L: "ier_latched hw ier b (detected hw b h0)" and p: "xiic_i2c_probe hw env b node h0 = (Inr s, h)"
  shows "xinv hw ier s \<and> idle ier s"
  using probe_form [OF assms] L by (auto simp: xinv_def latched_def idle_def xiic_new_def)

lemma xinv_completed: "xinv hw ier s \<Longrightarrow> completed s \<Longrightarrow> idle ier s"
  by (auto simp: xinv_def idle_def active_def split: option.splits)

lemma xiic_step_inv:
  assumes "xiic_step hw ier st st'" and "xinv hw ier (snd st)" and "fst st \<or> idle ier (snd st)"
  shows "xinv hw ier (snd st') \<and> (fst st' \<or> idle ier (snd st'))"
  using assms
proof (induction rule: xiic_step.induct)
  case (start ms resume s r s')
  then show ?case
    using start_xfer_xinv [of hw ier s ms r s'] by (cases resume) (auto simp: xiic_xfer_begin_def)
next
  case (interrupt fl s)
  then have x: "xinv hw ier s" and i: "fl \<or> idle ier s" by simp_all
  then show ?case using process_xinv [OF xinvD(1) [OF x] x] process_idle [OF xinvD(1) [OF x]] by auto
next
  case (hardware h s fl)
  then show ?case by (simp add: xinv_hw idle_def)
next
  case (finish timeout s num)
  then have x: "xinv hw ier s" by simp
  let ?t = "s\<lparr>tx_msg := None, rx_msg := None, nmsgs := 0\<rparr>"
  have e: "snd (xiic_xfer_end timeout num s) = (if timeout then ?t else s)" by (simp add: xiic_xfer_end_def)
  have "xinv hw ier ?t" "idle ier ?t" using xinvD [OF x] by (simp_all add: xinv_def idle_def)
  with x xinv_completed [OF x] finish(1) show ?case by (auto simp: e)
qed

lemma xiic_reach_inv:
  assumes "xiic_reach hw ier b h0 st" and L: "ier_latched hw ier b (detected hw b h0)"
  shows "xinv hw ier (snd st) \<and> (fst st \<or> idle ier (snd st))"
  using assms(1)
proof (induction rule: xiic_reach.induct)
  case (probed env node s h)
  then show ?case using probe_xinv [OF L] by simp
next
  case (step st st')
  then show ?case using xiic_step_inv by blast
qed

text \<open>
  C1: However transfers, interrupts, timeouts and the progress of the controller interleave, the
  driver never goes through a null pointer or one that has left the array of messages, never reads
  or writes outside the buffers of the messages it was given, and once a transfer
  has returned to its caller (completed, failed or timed out) an interrupt changes neither its
  messages nor the driver's state.
\<close>

theorem xiic_memory_safe:
  assumes "xiic_reach hw ier b h0 (fl, s)" and "ier_latched hw ier b (detected hw b h0)"
  shows "\<not> mem_fault s \<and> (fl \<or> (\<exists>h. xiic_process hw s = s\<lparr>xi_hw := h\<rparr>))"
proof -
  from xiic_reach_inv [OF assms] have x: "xinv hw ier s" and i: "fl \<or> idle ier s" by simp_all
  from process_idle [OF xinvD(1) [OF x]] i xinvD(2) [OF x] show ?thesis by blast
qed

end
