(* ===== verification/Xiic_Props.thy ===== *)
theory Xiic_Props
  imports Xiic_Safe
begin

text \<open>
  Properties of the Xilinx I2C driver: its clock settings, its choice of mode, what a receive
  interrupt stores, the length of a block read, the bound of the transmit loop, and what a failed
  start leaves behind.
\<close>

section \<open>A concrete controller\<close>

text \<open>
  A controller at base \<open>b\<close> that holds its interrupt enable register, whose FIFOs are empty and whose bus is
  free, or, with \<open>stuck\<close>, one whose receive FIFO never runs empty.
\<close>

definition plain_hw :: "addr \<Rightarrow> bool \<Rightarrow> u32 xiic_hw" where
  "plain_hw b stuck =
     \<lparr>hw_read = (\<lambda>opn a h. (if a = b + XIIC_IIER_OFFSET then h
                           else if a = b + XIIC_SR_REG_OFFSET then (if stuck then 0x80 else 0xC0) else 0, h)),
      hw_write = (\<lambda>opn a v h. if a = b + XIIC_IIER_OFFSET then v else if a = b + XIIC_RESETR_OFFSET then 0 else h),
      hw_polls = (\<lambda>_. 0)\<rparr>"

lemma plain_latched: "ier_latched (plain_hw b stuck) (\<lambda>h. h) b e"
  by (simp add: ier_latched_def plain_hw_def xiic_offsets)

definition plain_env :: xiic_env where
  "plain_env = \<lparr>xe_alloc = True, xe_ioremap = None, xe_irq = None, xe_clk = Inr 100000000,
     xe_request_irq = None, xe_add_adapter = None\<rparr>"

definition plain_msg :: i2c_msg where
  "plain_msg = \<lparr>im_addr = 0x50, im_flags = 0, im_len = 1, im_buf = [7]\<rparr>"

lemma plain_xfer_ok: "xfer_ok [plain_msg]"
  by (simp add: xfer_ok_def msg_ok_def plain_msg_def msg_flag_def)

text \<open>A probe that succeeds, a transfer that begins to send one byte, and the state this reaches.\<close>

lemma plain_begin:
  obtains s h t where "xiic_i2c_probe (plain_hw 0 False) plain_env 0 None 0 = (Inr s, h)"
    "xiic_xfer_begin (plain_hw 0 False) None [plain_msg] s = (Inr (), t)"
    "tx_msg t = Some 0" "xi_hw t \<noteq> 0" "\<not> msg_flag I2C_M_RD (xi_msgs t ! 0)"
proof -
  have "case fst (xiic_i2c_probe (plain_hw 0 False) plain_env 0 None 0) of
      Inr s \<Rightarrow> (case xiic_xfer_begin (plain_hw 0 False) None [plain_msg] s of
                 (r, t) \<Rightarrow> r = Inr () \<and> tx_msg t = Some 0 \<and> xi_hw t \<noteq> 0 \<and> \<not> msg_flag I2C_M_RD (xi_msgs t ! 0))
    | Inl _ \<Rightarrow> False"
    by code_simp
  with that show ?thesis
    by (cases "xiic_i2c_probe (plain_hw 0 False) plain_env 0 None 0") (auto split: sum.splits prod.splits)
qed

lemma plain_run:
  "\<exists>s. xiic_reach (plain_hw 0 False) (\<lambda>h. h) 0 0 (True, s) \<and> tx_msg s = Some 0 \<and> xi_hw s \<noteq> 0
     \<and> \<not> msg_flag I2C_M_RD (xi_msgs s ! 0)"
proof -
  obtain s h t where p: "xiic_i2c_probe (plain_hw 0 False) plain_env 0 None 0 = (Inr s, h)"
      and t: "xiic_xfer_begin (plain_hw 0 False) None [plain_msg] s = (Inr (), t)"
      and P: "tx_msg t = Some 0" "xi_hw t \<noteq> 0" "\<not> msg_flag I2C_M_RD (xi_msgs t ! 0)"
    by (rule plain_begin)
  have "xiic_reach (plain_hw 0 False) (\<lambda>h. h) 0 0 (False, s)" by (rule xiic_reach.probed [OF p])
  then have "xiic_reach (plain_hw 0 False) (\<lambda>h. h) 0 0 (Inr () = (Inr () :: unit result), t)"
    by (rule xiic_reach.step) (rule xiic_step.start [OF plain_xfer_ok t])
  with P show ?thesis by (simp only: refl) blast
qed

theorem xiic_memory_safe_witness:
  "\<exists>s. xiic_reach (plain_hw 0 False) (\<lambda>h. h) 0 0 (True, s) \<and> \<not> mem_fault s"
  using plain_run xiic_memory_safe [OF _ plain_latched] by metis

section \<open>A start that fails\<close>

text \<open>
  C11: When the controller cannot be initialised at the start of a transfer, the driver keeps the
  pointer to the caller's messages with every interrupt disabled: whatever happens afterwards, no
  transfer is ever accepted again, all are refused with EBUSY, until the driver is bound anew.
\<close>

theorem xiic_failed_start_wedges:
  assumes L: "latched hw ier s" and i: "tx_msg s = None" "rx_msg s = None"
    and f: "xiic_start_xfer hw ms s = (Inl e, s')" "tx_msg s' \<noteq> None"
    and run: "(xiic_step hw ier)\<^sup>*\<^sup>* (False, s') (fl, t)"
  shows "\<not> fl \<and> xiic_start_xfer hw ms' t = (Inl EBUSY, t)"
proof -
  define stuck where "stuck st = (\<not> fst st \<and> latched hw ier (snd st) \<and> idle ier (snd st) \<and> tx_msg (snd st) \<noteq> None)"
    for st :: "bool \<times> 'a xiic_i2c"
  have busy: "xiic_start_xfer hw ms' (snd st) = (Inl EBUSY, snd st)" if "stuck st" for st ms'
    using that by (simp add: stuck_def xiic_start_xfer_def)
  from L have "stuck (False, s')"
  proof (cases rule: start_xfer_cases [where ms = ms])
    case (failed e' h)
    with f L show ?thesis by (auto simp: stuck_def idle_def xfer_state_def)
  qed (use i f in auto)
  with run have "stuck (fl, t)"
  proof (induction rule: rtranclp_induct2)
    case (step fl1 s1 fl2 s2)
    then have st: "stuck (fl1, s1)" by blast
    note b = busy [OF st]
    from step(2) show ?case
    proof cases
      case (start ms2 resume r)
      with b [of ms2] st show ?thesis
        by (cases resume) (auto simp: xiic_xfer_begin_def stuck_def)
    next
      case interrupt
      with st process_idle [of hw ier s1] show ?thesis by (auto simp: stuck_def)
    next
      case (hardware h)
      with st show ?thesis by (auto simp: stuck_def idle_def)
    next
      case (finish timeout num)
      with st show ?thesis by (simp add: stuck_def)
    qed
  qed
  with busy [of "(fl, t)"] show ?thesis by (simp add: stuck_def)
qed

text \<open>A controller whose receive FIFO does not drain.\<close>

definition stuck_dev :: "u32 xiic_i2c" where
  "stuck_dev = (xiic_new 0 None 100000000 0)\<lparr>singlemaster := True\<rparr>"

theorem xiic_failed_start_wedges_witness:
  "\<exists>t. xiic_start_xfer (plain_hw 0 True) [plain_msg] stuck_dev = (Inl ETIMEDOUT, t)
     \<and> xiic_start_xfer (plain_hw 0 True) [plain_msg] t = (Inl EBUSY, t)"
proof -
  have e: "fst (xiic_start_xfer (plain_hw 0 True) [plain_msg] stuck_dev) = Inl ETIMEDOUT"
    and p: "tx_msg (snd (xiic_start_xfer (plain_hw 0 True) [plain_msg] stuck_dev)) = Some 0"
    by code_simp+
  obtain t where t: "xiic_start_xfer (plain_hw 0 True) [plain_msg] stuck_dev = (Inl ETIMEDOUT, t)"
    using e by (metis prod.collapse)
  have L: "latched (plain_hw 0 True) (\<lambda>h. h) stuck_dev"
    using plain_latched by (simp add: latched_def stuck_dev_def xiic_new_def)
  have "\<not> False \<and> xiic_start_xfer (plain_hw 0 True) [plain_msg] t = (Inl EBUSY, t)"
    by (rule xiic_failed_start_wedges [OF L _ _ t])
      (use p t in \<open>simp_all add: stuck_dev_def xiic_new_def\<close>)
  with t show ?thesis by blast
qed

section \<open>Clock settings\<close>

text \<open>
  The reference, over the natural numbers: for every timing register, the number of cycles of an
  input clock of \<open>f\<close> Hz and what the register's value leaves out of them.
\<close>

definition ceil_div :: "nat \<Rightarrow> nat \<Rightarrow> nat" where
  "ceil_div a b = (a + b - 1) div b"

definition mode_times :: "nat \<Rightarrow> nat list" where
  "mode_times c =
     (if c = 100000 then [5700, 5000, 4300, 550, 5000]
      else if c = 400000 then [900, 900, 900, 400, 1600]
      else [380, 380, 380, 170, 620])"

definition clock_cycles :: "nat \<Rightarrow> nat \<Rightarrow> (nat \<times> nat \<times> nat) list" where
  "clock_cycles f c =
     (let half = ceil_div f (2 * c); mhz = ceil_div f 1000000
      in [(XIIC_THIGH_REG_OFFSET, 8, half), (XIIC_TLOW_REG_OFFSET, 8, half)]
         @ map (\<lambda>(r, ns). (r, 1, ns * mhz div 1000))
             (zip [XIIC_TSUSTA_REG_OFFSET, XIIC_TSUSTO_REG_OFFSET, XIIC_THDSTA_REG_OFFSET,
                   XIIC_TSUDAT_REG_OFFSET, XIIC_TBUF_REG_OFFSET] (mode_times c))
         @ [(XIIC_THDDAT_REG_OFFSET, 0, 1)])"

lemma div_of_nat:
  assumes "a < 2 ^ LENGTH('w)" "b < 2 ^ LENGTH('w)"
  shows "(of_nat a div of_nat b :: 'w::len word) = of_nat (a div b)"
proof -
  have "a div b < 2 ^ LENGTH('w)" using assms(1) by (rule le_less_trans [OF div_le_dividend])
  with assms show ?thesis by (simp add: word_unat_eq_iff unat_div_distrib unat_of_nat)
qed

lemma div_round_up:
  assumes "f < 2 ^ 32" "0 < d" "d < 2 ^ 32"
  shows "DIV_ROUND_UP (of_nat f) (of_nat d) = of_nat (ceil_div f d)"
proof -
  have "of_nat f + of_nat d - 1 = (of_nat (f + d - 1) :: u64)" using assms(2) by (simp add: of_nat_diff)
  moreover have "(of_nat (f + d - 1) div of_nat d :: u64) = of_nat ((f + d - 1) div d)"
    by (rule div_of_nat) (use assms in simp_all)
  ultimately show ?thesis by (simp only: DIV_ROUND_UP_def ceil_div_def)
qed

lemma ucast_diff: "ucast (of_nat a - of_nat b :: u64) = (of_nat a - of_nat b :: u32)"
proof -
  have "ucast (word_of_int k :: u64) = (word_of_int k :: u32)" for k
    by (simp add: unsigned_of_int ucast_eq) (simp add: word_of_int_eq_iff take_bit_take_bit)
  from this [of "int a - int b"] show ?thesis by simp
qed

lemma ceil_div_le: "0 < b \<Longrightarrow> ceil_div a b \<le> n \<longleftrightarrow> a \<le> n * b"
proof -
  assume b: "0 < b"
  have "ceil_div a b \<le> n \<longleftrightarrow> a + b - 1 < (n + 1) * b"
    unfolding ceil_div_def using b by (metis Suc_eq_plus1 div_less_iff_less_mult less_Suc_eq_le)
  also have "\<dots> \<longleftrightarrow> a \<le> n * b" using b by (simp add: algebra_simps) linarith
  finally show ?thesis .
qed

lemma time_value:
  assumes "t \<le> 5700" "mhz \<le> 5000" "1000 \<le> t * mhz"
  shows "(of_nat t * of_nat mhz div 1000 - 1 :: u32) = of_nat (t * mhz div 1000 - 1)"
proof -
  have "t * mhz \<le> 5700 * 5000" by (rule mult_mono) (use assms in simp_all)
  then have "(of_nat (t * mhz) div of_nat 1000 :: u32) = of_nat (t * mhz div 1000)" by (intro div_of_nat) simp_all
  moreover have "1 \<le> t * mhz div 1000" using assms(3) by (simp add: less_eq_div_iff_mult_less_eq)
  ultimately show ?thesis by (simp add: of_nat_diff)
qed

lemma xiic_setclk_eq:
  assumes c: "c \<in> {100000, 400000, 1000000}" and f: "0 < f" "f < 2 ^ 32"
    and s: "i2c_clk s = of_nat c" "input_clk s = of_nat f"
  obtains i where "scl_index (i2c_clk s) = Some i" "i < 3"
    "xiic_setclk hw s =
       (if (of_nat (ceil_div f (2 * c)) - 7 :: u32) = 0 then (Inl EINVAL, s)
        else (Inr (), write_regs hw (timing_writes (of_nat (ceil_div f (2 * c)) - 7) (of_nat (ceil_div f 1000000))
                                       (timing_reg_values ! i)) s))"
    "map (\<lambda>g. g (timing_reg_values ! i)) [tsusta, tsusto, thdsta, tsudat, tbuf] = map of_nat (mode_times c)"
proof -
  have f0: "input_clk s \<noteq> 0"
  proof -
    have "unat (of_nat f :: u64) = f" using f by (simp add: unat_of_nat)
    then show ?thesis using s f by (metis less_numeral_extra(3) unat_0)
  qed
  have two: "ucast (2 * of_nat c :: u32) = (of_nat (2 * c) :: u64)" using c by auto
  have m: "ucast (of_nat (ceil_div f 1000000) :: u64) = (of_nat (ceil_div f 1000000) :: u32)"
    using ucast_diff [of "ceil_div f 1000000" 0] by simp
  have 7: "ucast (of_nat (ceil_div f (2 * c)) - 7 :: u64) = (of_nat (ceil_div f (2 * c)) - 7 :: u32)"
    using ucast_diff [of "ceil_div f (2 * c)" 7] by simp
  have d: "DIV_ROUND_UP (of_nat f) (of_nat (2 * c)) = of_nat (ceil_div f (2 * c))"
    by (rule div_round_up) (use c f in auto)
  have d6: "DIV_ROUND_UP (of_nat f) 1000000 = of_nat (ceil_div f 1000000)"
    using div_round_up [of f 1000000] f by simp
  let ?i = "if c = 100000 then 0 else if c = 400000 then 1 else 2 :: nat"
  have i: "scl_index (i2c_clk s) = Some ?i" "i2c_clk s \<noteq> 0"
    using c s by (auto simp: scl_index_def I2C_MAX_FAST_MODE_PLUS_FREQ_def I2C_MAX_FAST_MODE_FREQ_def I2C_MAX_STANDARD_MODE_FREQ_def)
  show ?thesis
  proof (rule that [of ?i])
    show "xiic_setclk hw s =
       (if (of_nat (ceil_div f (2 * c)) - 7 :: u32) = 0 then (Inl EINVAL, s)
        else (Inr (), write_regs hw (timing_writes (of_nat (ceil_div f (2 * c)) - 7) (of_nat (ceil_div f 1000000))
                                       (timing_reg_values ! ?i)) s))"
      using i f0 unfolding xiic_setclk_def s two d d6 m 7 Let_def by (simp only: if_False option.case s simp_thms)
    show "map (\<lambda>g. g (timing_reg_values ! ?i)) [tsusta, tsusto, thdsta, tsudat, tbuf] = map of_nat (mode_times c)"
      by (simp add: timing_reg_values_def mode_times_def)
  qed (use i in simp_all)
qed

text \<open>
  C28: For the three supported bus clocks, an input clock of more than 14 bus clocks is programmed
  exactly: every timing register gets its number of cycles minus what the hardware adds, nothing
  wraps around. From 12 to 14 bus clocks the setting is refused. An input clock of at most 12 bus
  clocks is too slow as well, but the check misses it: the setting is accepted and the high and low
  times are programmed with almost \<open>2 ^ 32\<close> cycles.
\<close>

theorem xiic_setclk_values:
  assumes c: "c \<in> {100000, 400000, 1000000}" and f: "0 < f" "f < 2 ^ 32"
    and s: "i2c_clk s = of_nat c" "input_clk s = of_nat f"
  shows "(14 * c < f \<longrightarrow>
            xiic_setclk hw s = (Inr (), write_regs hw (map (\<lambda>(r, b, n). (r, of_nat (n - b))) (clock_cycles f c)) s)
            \<and> (\<forall>(r, b, n) \<in> set (clock_cycles f c). b \<le> n \<and> n < 2 ^ 32))
    \<and> (12 * c < f \<and> f \<le> 14 * c \<longrightarrow> xiic_setclk hw s = (Inl EINVAL, s))
    \<and> (f \<le> 12 * c \<longrightarrow>
         (\<exists>v ws. xiic_setclk hw s = (Inr (), write_regs hw ((XIIC_THIGH_REG_OFFSET, v) # (XIIC_TLOW_REG_OFFSET, v) # ws) s)
            \<and> 2 ^ 32 - 8 < unat v))"
proof -
  define half where "half = ceil_div f (2 * c)"
  define mhz where "mhz = ceil_div f 1000000"
  from c have c0: "0 < 2 * c" by auto
  have le: "half \<le> n \<longleftrightarrow> f \<le> n * (2 * c)" for n unfolding half_def by (rule ceil_div_le [OF c0])
  obtain i where E: "xiic_setclk hw s =
      (if (of_nat half - 7 :: u32) = 0 then (Inl EINVAL, s)
       else (Inr (), write_regs hw (timing_writes (of_nat half - 7) (of_nat mhz) (timing_reg_values ! i)) s))"
    and T: "map (\<lambda>g. g (timing_reg_values ! i)) [tsusta, tsusto, thdsta, tsudat, tbuf] = map of_nat (mode_times c)"
    using xiic_setclk_eq [OF c f s, of hw] unfolding half_def mhz_def by metis
  have half: "1 \<le> half" "half < 2 ^ 32"
    using le [of 0] le [of "2 ^ 32 - 1"] f c by auto
  have mhz: "mhz \<le> 5000" "f \<le> mhz * 1000000"
    using ceil_div_le [of 1000000 f 5000] ceil_div_le [of 1000000 f mhz] f unfolding mhz_def by simp_all
  have sub: "(of_nat half - of_nat k :: u32) = of_nat (half - k)" if "k \<le> half" for k using that by (simp add: of_nat_diff)
  have A: "xiic_setclk hw s = (Inr (), write_regs hw (map (\<lambda>(r, b, n). (r, of_nat (n - b))) (clock_cycles f c)) s)
      \<and> (\<forall>(r, b, n) \<in> set (clock_cycles f c). b \<le> n \<and> n < 2 ^ 32)" if "14 * c < f"
  proof -
    have h8: "8 \<le> half" using le [of 7] that by simp
    have nz: "(of_nat half - 7 :: u32) \<noteq> 0"
    proof -
      have "unat (of_nat (half - 7) :: u32) = half - 7" using half(2) by (simp add: unat_of_nat)
      with h8 have "unat (of_nat (half - 7) :: u32) \<noteq> 0" by linarith
      then have "(of_nat (half - 7) :: u32) \<noteq> 0" by (rule contrapos_nn) simp
      with sub [of 7] h8 show ?thesis by simp
    qed
    have m: "c = 100000 \<and> 2 \<le> mhz \<or> c = 400000 \<and> 6 \<le> mhz \<or> c = 1000000 \<and> 15 \<le> mhz"
      using c that mhz(2) by auto
    have ts: "\<forall>t \<in> set (mode_times c). t \<le> 5700 \<and> 1000 \<le> t * mhz"
      using m by (auto simp: mode_times_def)
    have "length (mode_times c) = 5" by (simp add: mode_times_def)
    then obtain t1 t2 t3 t4 t5 where mt: "mode_times c = [t1, t2, t3, t4, t5]"
      by (auto simp: numeral_eq_Suc length_Suc_conv)
    have V: "(of_nat t * of_nat mhz div 1000 - 1 :: u32) = of_nat (t * mhz div 1000 - 1)" if "t \<in> set (mode_times c)" for t
      by (rule time_value) (use ts mhz that in auto)
    have W: "timing_writes (of_nat half - 7) (of_nat mhz) (timing_reg_values ! i)
        = map (\<lambda>(r, b, n). (r, of_nat (n - b))) (clock_cycles f c)"
      using T V sub [of 8] h8
      by (simp add: timing_writes_def clock_cycles_def half_def [symmetric] mhz_def [symmetric] mt)
    have B: "1 \<le> t * mhz div 1000 \<and> t * mhz div 1000 < 2 ^ 32" if "t \<in> set (mode_times c)" for t
    proof -
      have "t * mhz \<le> 5700 * 5000" by (rule mult_mono) (use ts mhz that in auto)
      then have "t * mhz div 1000 < 2 ^ 32" by (intro le_less_trans [OF div_le_dividend]) simp
      with ts that show ?thesis by (simp add: less_eq_div_iff_mult_less_eq)
    qed
    from nz W E h8 half(2) B show ?thesis
      by (simp add: clock_cycles_def half_def [symmetric] mhz_def [symmetric] mt)
  qed
  have B: "xiic_setclk hw s = (Inl EINVAL, s)" if "12 * c < f \<and> f \<le> 14 * c"
  proof -
    have "half = 7" using le [of 6] le [of 7] that by simp
    then show ?thesis by (simp add: E)
  qed
  have C: "\<exists>v ws. xiic_setclk hw s = (Inr (), write_regs hw ((XIIC_THIGH_REG_OFFSET, v) # (XIIC_TLOW_REG_OFFSET, v) # ws) s)
      \<and> 2 ^ 32 - 8 < unat v" if "f \<le> 12 * c"
  proof -
    have "half \<in> {1, 2, 3, 4, 5, 6}" using le [of 6] that half(1) by auto
    then have nz: "(of_nat half - 7 :: u32) \<noteq> 0" and v: "2 ^ 32 - 8 < unat (of_nat half - 7 - 1 :: u32)"
      by auto
    show ?thesis using nz v by (auto simp: E timing_writes_def)
  qed
  from A B C show ?thesis by blast
qed

theorem xiic_setclk_values_witness:
  "fst (xiic_setclk (plain_hw 0 False) ((xiic_new 0 None 100000000 0)\<lparr>i2c_clk := 400000\<rparr>)) = Inr ()
   \<and> hd (clock_cycles 100000000 400000) = (XIIC_THIGH_REG_OFFSET, 8, 125)"
  using xiic_setclk_values [of 400000 100000000 "(xiic_new 0 None 100000000 0)\<lparr>i2c_clk := 400000\<rparr>" "plain_hw 0 False"]
  by (simp add: xiic_new_def clock_cycles_def ceil_div_def)

section \<open>Receiving\<close>

text \<open>
  C12: The message of an SMBus block read, after its length byte \<open>n\<close> arrived and the padding the
  hardware needs was taken back: its length is the one the caller asked for plus \<open>n\<close>, and the
  length byte is the first byte of its buffer. A length byte above 32 makes it 3 bytes long and
  clears the block read mark. Neither the padded nor the final length leaves the buffer, and no
  other message changes.
\<close>

theorem xiic_block_read_length:
  assumes L: "latched hw ier s" and p: "rx_msg s = Some k" "tx_msg s = Some k" "k < length (xi_msgs s)"
    and m: "msg_flag I2C_M_RECV_LEN (xi_msgs s ! k)" "msg_ok (xi_msgs s ! k)" "rx_pos s = 0" "smbus_actual_len s = 0"
    and n: "n = fst (xiic_getreg8 hw XIIC_DRR_REG_OFFSET s)"
    and s1: "s1 = xiic_smbus_block_read_setup hw s" and s2: "s2 = xiic_smbus_trim_len s1"
    and m2: "m2 = xi_msgs s2 ! k"
  shows "unat (im_len m2) = (if unat n \<le> I2C_SMBUS_BLOCK_MAX then unat (im_len (xi_msgs s ! k)) + unat n else 3)
    \<and> im_buf m2 = (im_buf (xi_msgs s ! k))[0 := n] \<and> rx_pos s2 = 1
    \<and> smbus_block_read s2 = (unat n \<le> I2C_SMBUS_BLOCK_MAX)
    \<and> unat (im_len m2) \<le> unat (im_len (xi_msgs s1 ! k)) \<and> unat (im_len (xi_msgs s1 ! k)) \<le> length (im_buf m2)
    \<and> xi_msgs s2 = (xi_msgs s)[k := m2] \<and> mem_fault s2 = mem_fault s"
proof -
  let ?m = "xi_msgs s ! k"
  define l where "l = unat (im_len ?m)"
  define t where "t = unat n + l"
  have b: "block_set ier k n s s1" unfolding n s1 by (rule smbus_setup [OF L p m(1-3)])
  then have ms: "xi_msgs s1 = (xi_msgs s)[k := block_msg n ?m]" and rx: "rx_msg s1 = Some k" "rx_pos s1 = 1"
      "mem_fault s1 = mem_fault s" "smbus_block_read s1 = (unat n \<le> I2C_SMBUS_BLOCK_MAX)"
    and act: "smbus_actual_len s1 = (if unat n \<le> I2C_SMBUS_BLOCK_MAX \<and> t < SMBUS_BLOCK_READ_MIN_LEN then of_nat t else 0)"
    using p m(4) by (simp_all add: block_set_def rx_frame_def Let_def t_def l_def)
  have len: "1 \<le> l" "l + I2C_SMBUS_BLOCK_MAX \<le> length (im_buf ?m)" "length (im_buf ?m) < 2 ^ 16"
    using m by (simp_all add: msg_ok_def l_def)
  have k1: "k < length (xi_msgs s1)" and mk: "xi_msgs s1 ! k = block_msg n ?m" using ms p by simp_all
  show ?thesis
  proof (cases "unat n \<le> I2C_SMBUS_BLOCK_MAX \<and> t < SMBUS_BLOCK_READ_MIN_LEN")
    case True
    have act': "smbus_actual_len s1 = of_nat t" using act True by (simp only: if_True simp_thms)
    have "unat (of_nat t :: u32) = t" using True by (simp add: unat_of_nat SMBUS_BLOCK_READ_MIN_LEN_def)
    moreover have "1 \<le> t" using len(1) by (simp add: t_def)
    ultimately have nz: "(of_nat t :: u32) \<noteq> 0" by (metis unat_0 not_one_le_zero)
    have cast: "(ucast (of_nat t :: u32) :: u16) = of_nat t"
      by (rule block_words(3) [of "im_len ?m" t n]) (use len(1) in \<open>simp_all add: t_def l_def\<close>)
    have s2': "s2 = s1\<lparr>xi_msgs := (xi_msgs s)[k := (block_msg n ?m)\<lparr>im_len := of_nat t\<rparr>]\<rparr>"
      unfolding s2 xiic_smbus_trim_len_def rx(1) act' upd_msg_Some [OF k1] mk cast
      using nz by (simp add: ms)
    have "unat (of_nat t :: u16) = t" using True by (simp add: unat_of_nat SMBUS_BLOCK_READ_MIN_LEN_def)
    then have l2: "unat (im_len m2) = t" and m2': "im_buf m2 = (im_buf ?m)[0 := n]"
        "xi_msgs s2 = (xi_msgs s)[k := m2]"
      using s2' m2 p by (simp_all add: block_msg_def)
    have l1: "unat (im_len (xi_msgs s1 ! k)) = 3"
      using True by (simp add: mk block_msg_def block_len_def t_def l_def SMBUS_BLOCK_READ_MIN_LEN_def)
    have "t \<le> 3" "3 \<le> length (im_buf ?m)"
      using True len by (simp_all add: SMBUS_BLOCK_READ_MIN_LEN_def I2C_SMBUS_BLOCK_MAX_def)
    moreover have "rx_pos s2 = 1" "smbus_block_read s2 = smbus_block_read s1" "mem_fault s2 = mem_fault s1"
      using rx by (simp_all add: s2')
    moreover have "t = unat (im_len ?m) + unat n" by (simp add: t_def l_def)
    ultimately show ?thesis using l2 m2' l1 True rx by (simp only: if_True length_list_update)
  next
    case False
    then have s2': "s2 = s1" using act by (auto simp: s2 xiic_smbus_trim_len_def)
    show ?thesis
    proof (cases "unat n \<le> I2C_SMBUS_BLOCK_MAX")
      case True
      with False have "block_len (unat n) l = t" by (simp add: block_len_def t_def)
      have t: "t \<le> length (im_buf ?m)" using True len by (simp add: t_def)
      with len(3) have "unat (of_nat t :: u16) = t" by (simp add: unat_of_nat)
      with \<open>block_len (unat n) l = t\<close> True have l2: "unat (im_len (block_msg n ?m)) = t"
        by (simp add: block_msg_def l_def)
      have "t = unat (im_len ?m) + unat n" by (simp add: t_def l_def)
      with l2 t True s2' m2 mk ms rx show ?thesis by (simp add: block_msg_def [of n ?m])
    next
      case False
      with s2' m2 mk ms rx len p show ?thesis by (simp add: block_msg_def I2C_SMBUS_BLOCK_MAX_def)
    qed
  qed
qed

text \<open>A block read that has just got its first byte.\<close>

definition block_dev :: "u32 xiic_i2c" where
  "block_dev = (xiic_new 0 None 0 0)\<lparr>tx_msg := Some 0, rx_msg := Some 0, nmsgs := 1,
     xi_msgs := [\<lparr>im_addr = 0x50, im_flags = I2C_M_RD OR I2C_M_RECV_LEN, im_len = 1, im_buf = replicate 33 9\<rparr>]\<rparr>"

theorem xiic_block_read_length_witness:
  "unat (im_len (xi_msgs (xiic_smbus_trim_len (xiic_smbus_block_read_setup (plain_hw 0 False) block_dev)) ! 0)) = 1"
proof -
  have L: "latched (plain_hw 0 False) (\<lambda>h. h) block_dev"
    using plain_latched by (simp add: latched_def block_dev_def xiic_new_def)
  have f: "msg_flag I2C_M_RECV_LEN (xi_msgs block_dev ! 0)" "msg_ok (xi_msgs block_dev ! 0)"
    by (simp_all add: block_dev_def xiic_new_def msg_ok_def msg_flag_def I2C_M_RECV_LEN_def I2C_M_RD_def I2C_SMBUS_BLOCK_MAX_def)
  have n: "fst (xiic_getreg8 (plain_hw 0 False) XIIC_DRR_REG_OFFSET block_dev) = 0"
    by (simp add: xiic_getreg8_def block_dev_def xiic_new_def plain_hw_def xiic_offsets)
  have l: "unat (im_len (xi_msgs block_dev ! 0)) = 1" by (simp add: block_dev_def xiic_new_def)
  have "unat (im_len (xi_msgs (xiic_smbus_trim_len (xiic_smbus_block_read_setup (plain_hw 0 False) block_dev)) ! 0))
      = (if unat (0::u8) \<le> I2C_SMBUS_BLOCK_MAX then unat (im_len (xi_msgs block_dev ! 0)) + unat (0::u8) else 3)"
    by (rule xiic_block_read_length [OF L _ _ _ f _ _ n [symmetric] refl refl refl, THEN conjunct1])
      (simp_all add: block_dev_def xiic_new_def)
  with l show ?thesis by simp
qed

text \<open>
  The number of bytes a receive interrupt takes when the FIFO holds \<open>f\<close> and \<open>space\<close> are missing:
  in standard mode the last byte is left for a separate, not acknowledged, read.
\<close>

definition rx_chunk :: "bool \<Rightarrow> nat \<Rightarrow> nat \<Rightarrow> nat" where
  "rx_chunk dyn f space =
     (let b = min f space; r = space - b
      in if dyn \<or> r = 0 \<or> IIC_RX_FIFO_DEPTH < r then b else if r = 1 then 1 else r - 1)"

text \<open>
  C29: A receive interrupt stores the next bytes of the FIFO, in their order, at the next positions of
  the message being received, and nothing else: how many is decided by the FIFO level, the bytes
  still missing and the mode, and the position advances by that number.
\<close>

theorem xiic_read_rx_stores:
  assumes L: "latched hw ier s" and r: "receiving s k" and m: "\<not> msg_flag I2C_M_RECV_LEN (xi_msgs s ! k)"
    and n: "n = rx_chunk (dynamic s) (unat (fst (xiic_getreg8 hw XIIC_RFO_REG_OFFSET s) + 1)) (nat (xiic_rx_space s))"
  shows "\<exists>h h'. xiic_read_rx hw s =
    s\<lparr>xi_msgs := (xi_msgs s)[k := (xi_msgs s ! k)
        \<lparr>im_buf := put_bytes (nat (rx_pos s)) (fst (fifo_bytes hw n (s\<lparr>xi_hw := h\<rparr>))) (im_buf (xi_msgs s ! k))\<rparr>],
      rx_pos := rx_pos s + int n, xi_hw := h'\<rparr>
    \<and> int n \<le> xiic_rx_space s"
proof -
  let ?m = "xi_msgs s ! k" and ?sp = "xiic_rx_space s"
  have p: "rx_msg s = Some k" "tx_msg s = Some k" "k < length (xi_msgs s)" "rx_ok s k"
    using r by (simp_all add: receiving_def active_def)
  note range = rx_space_range [OF p(1,3,4)]
  obtain rfo h where g: "xiic_getreg8 hw XIIC_RFO_REG_OFFSET s = (rfo, s\<lparr>xi_hw := h\<rparr>)"
    using getreg8_form [of hw XIIC_RFO_REG_OFFSET s] by blast
  have d: "deref (rx_msg (s\<lparr>xi_hw := h\<rparr>)) (s\<lparr>xi_hw := h\<rparr>) = s\<lparr>xi_hw := h\<rparr>" using p by simp
  define b where "b = (if int (unat (rfo + 1)) > ?sp then word_of_int ?sp else rfo + 1)"
  define rem where "rem = (word_of_int (?sp - int (unat b)) :: u32)"
  have b: "unat b = min (unat (rfo + 1)) (nat ?sp)" and b': "int (unat b) \<le> ?sp"
  proof -
    show le: "int (unat b) \<le> ?sp" by (rule chunk_bound [OF range(1) b_def])
    show "unat b = min (unat (rfo + 1)) (nat ?sp)"
    proof (cases "int (unat (rfo + 1)) > ?sp")
      case True
      then have "?sp < 256" using unsigned_less [of "rfo + 1", where ?'a = int] by simp
      with range(1) have "take_bit 8 ?sp = ?sp" by (simp add: take_bit_int_eq_self_iff)
      then have "unat b = nat ?sp" using True by (simp add: b_def unsigned_of_int)
      moreover have "nat ?sp \<le> unat (rfo + 1)" using True by linarith
      ultimately show ?thesis by simp
    next
      case False
      then have "unat (rfo + 1) \<le> nat ?sp" by linarith
      with False show ?thesis by (simp only: b_def if_False min_absorb1)
    qed
  qed
  have rem: "int (unat rem) = ?sp - int (unat b)"
    unfolding rem_def
  proof (rule rem_unat)
    have "?sp - int (unat b) \<le> ?sp" by simp
    then show "?sp - int (unat b) < 2 ^ 32" by (rule le_less_trans) (use range(2) in simp)
  qed (use b' in simp)
  then have rem': "unat rem = nat ?sp - unat b" by linarith
  have store: "read_fifo hw c (s\<lparr>xi_hw := h1\<rparr>) =
      s\<lparr>xi_msgs := (xi_msgs s)[k := ?m\<lparr>im_buf := put_bytes (nat (rx_pos s)) (fst (fifo_bytes hw c (s\<lparr>xi_hw := h1\<rparr>))) (im_buf ?m)\<rparr>],
        rx_pos := rx_pos s + int c, xi_hw := snd (fifo_bytes hw c (s\<lparr>xi_hw := h1\<rparr>))\<rparr>" if "int c \<le> ?sp" for c h1
  proof -
    have pos: "0 \<le> rx_pos s" "rx_pos s + int c \<le> int (unat (im_len ?m))" "unat (im_len ?m) \<le> length (im_buf ?m)"
      using p m that by (simp_all add: rx_ok_def xiic_rx_space_def)
    then have "nat (rx_pos s) + c \<le> length (im_buf ?m)" by linarith
    with read_fifo_eq [of "s\<lparr>xi_hw := h1\<rparr>" k c hw] p pos(1) show ?thesis by simp
  qed
  have n': "n = rx_chunk (dynamic s) (unat (rfo + 1)) (nat ?sp)" using n g by simp
  show ?thesis
  proof (cases "dynamic s")
    case True
    with n' have n: "n = unat b" by (simp add: rx_chunk_def b Let_def)
    let ?s = "read_fifo hw (unat b) (s\<lparr>xi_hw := h\<rparr>)"
    obtain v where v: "xiic_read_rx hw s = xiic_setreg8 hw XIIC_RFD_REG_OFFSET v ?s"
      unfolding xiic_read_rx_def g prod.case Let_def d rx_space_hw msg_at_hw b_def [symmetric]
      using True p by simp
    have "\<exists>h'. xiic_setreg8 hw XIIC_RFD_REG_OFFSET v ?s = ?s\<lparr>xi_hw := h'\<rparr>"
      by (cases "endianness ?s") (auto simp: xiic_setreg8_def)
    then obtain h' where e: "xiic_read_rx hw s = ?s\<lparr>xi_hw := h'\<rparr>" using v by auto
    show ?thesis
      unfolding e store [OF b', of h] n by (rule exI [of _ h], rule exI [of _ h']) (use b' in simp)
  next
    case False
    obtain c h1 where c: "std_chunk hw b rem (s\<lparr>xi_hw := h\<rparr>) = (c, s\<lparr>xi_hw := h1\<rparr>)"
    proof -
      have "latched hw ier (s\<lparr>xi_hw := h\<rparr>)" using L by simp
      from that std_chunk_hw [OF this, of b rem] show ?thesis
        by (cases "std_chunk hw b rem (s\<lparr>xi_hw := h\<rparr>)") (auto simp: post_def hw_upd_def)
    qed
    have e: "xiic_read_rx hw s = read_fifo hw (unat c) (s\<lparr>xi_hw := h1\<rparr>)"
      unfolding xiic_read_rx_def g prod.case Let_def d rx_space_hw msg_at_hw b_def [symmetric] rem_def [symmetric] c
      using False p m by simp
    have "unat c = n"
    proof -
      have z: "rem = 0 \<longleftrightarrow> unat rem = 0" "rem = 1 \<longleftrightarrow> unat rem = 1" by (simp_all add: word_unat_eq_iff)
      have "c = (if 16 < unat rem \<or> rem = 0 then b else if 1 < unat rem then ucast (rem - 1) else 1)"
        using arg_cong [OF c, of fst]
        by (auto simp: std_chunk_def Let_def IIC_RX_FIFO_DEPTH_def word_less_nat_alt z split: if_splits)
      moreover have "unat (ucast (rem - 1) :: u8) = unat rem - 1" if "1 < unat rem" "\<not> 16 < unat rem"
      proof -
        have "unat (rem - 1) = unat rem - 1" using unat_sub [of 1 rem] that(1) by (simp add: word_le_nat_alt)
        with that show ?thesis by (simp add: unsigned_ucast_eq take_bit_nat_eq_self)
      qed
      ultimately show ?thesis
        unfolding n' rx_chunk_def Let_def b [symmetric] rem' [symmetric] IIC_RX_FIFO_DEPTH_def using False z by auto
    qed
    have le: "int n \<le> ?sp"
      using b b' rem' range(1) unfolding n' rx_chunk_def Let_def by (auto simp: le_nat_iff)
    from e store [OF le, of h1] \<open>unat c = n\<close> le show ?thesis by auto
  qed
qed

text \<open>A two byte read of which nothing has arrived.\<close>

definition read_dev :: "u32 xiic_i2c" where
  "read_dev = (xiic_new 0 None 0 0)\<lparr>tx_msg := Some 0, rx_msg := Some 0, nmsgs := 1,
     xi_msgs := [\<lparr>im_addr = 0x50, im_flags = I2C_M_RD, im_len = 2, im_buf = [9, 9]\<rparr>]\<rparr>"

theorem xiic_read_rx_stores_witness:
  "rx_pos (xiic_read_rx (plain_hw 0 False) read_dev) = 1 \<and> rx_chunk False 1 2 = 1"
proof -
  have L: "latched (plain_hw 0 False) (\<lambda>h. h) read_dev"
    using plain_latched by (simp add: latched_def read_dev_def xiic_new_def)
  have r: "receiving read_dev 0" and f: "\<not> msg_flag I2C_M_RECV_LEN (xi_msgs read_dev ! 0)"
    by (simp_all add: receiving_def active_def rx_ok_def read_dev_def xiic_new_def msg_flag_def I2C_M_RD_def I2C_M_RECV_LEN_def)
  have n: "rx_chunk (dynamic read_dev) (unat (fst (xiic_getreg8 (plain_hw 0 False) XIIC_RFO_REG_OFFSET read_dev) + 1))
      (nat (xiic_rx_space read_dev)) = 1"
    by (simp add: read_dev_def xiic_new_def xiic_getreg8_def plain_hw_def xiic_offsets xiic_rx_space_def msg_at_def
        rx_chunk_def IIC_RX_FIFO_DEPTH_def)
  have "rx_pos read_dev = 0" by (simp add: read_dev_def xiic_new_def)
  with xiic_read_rx_stores [OF L r f n [symmetric]] show ?thesis
    by (auto simp: rx_chunk_def IIC_RX_FIFO_DEPTH_def)
qed

section \<open>Sending\<close>

text \<open>
  C40: In a reachable state that waits to send more of a message, the loop that fills the transmit
  FIFO never starts from a negative count, which would make it run on: it takes at most as many steps
  as the FIFO has room, and no more than the message has bytes left.
\<close>

theorem xiic_fill_loop_bound:
  assumes r: "xiic_reach hw ier b h0 (fl, s)" and L: "ier_latched hw ier b (detected hw b h0)"
    and k: "tx_msg s = Some k" "ier (xi_hw s) \<noteq> 0" "\<not> msg_flag I2C_M_RD (xi_msgs s ! k)"
  shows "0 \<le> sint (xiic_tx_space s)
    \<and> fill_count room (xiic_tx_space s) \<le> unat (word_of_int room :: u8)
    \<and> unat (tx_pos s) + fill_count room (xiic_tx_space s) \<le> unat (im_len (xi_msgs s ! k))"
proof -
  from xiic_reach_inv [OF r L] have x: "xinv hw ier s" by simp
  with k have st: "unat (tx_pos s) \<le> unat (im_len (xi_msgs s ! k))" "k < length (xi_msgs s)"
    by (simp_all add: xinv_def started_def active_def)
  let ?len = "im_len (xi_msgs s ! k)" and ?w = "xiic_tx_space s"
  have w: "unat ?w = unat ?len - unat (tx_pos s)"
    using unat_sub [of "tx_pos s" "ucast ?len"] st k by (simp add: xiic_tx_space_def word_le_nat_alt unat_ucast16)
  have "unat ?len < 2 ^ 16" using unsigned_less [of ?len, where ?'a = nat] by simp
  with w have small: "unat ?w < 2 ^ 31" by simp
  note F = fill_count_le [OF small, of room]
  have s: "sint ?w = int (unat ?w)" by (rule sint_small [OF small])
  have "fill_count room ?w \<le> unat (word_of_int room :: u8)"
    unfolding fill_count_def Let_def s of_nat_less_iff by simp
  moreover have "0 \<le> sint ?w" unfolding s by (rule of_nat_0_le_iff)
  moreover have "unat (tx_pos s) + fill_count room ?w \<le> unat ?len" using F w st(1) by linarith
  ultimately show ?thesis by blast
qed

theorem xiic_fill_loop_bound_witness:
  "\<exists>s. xiic_reach (plain_hw 0 False) (\<lambda>h. h) 0 0 (True, s) \<and> fill_count 16 (xiic_tx_space s) \<le> 16"
proof -
  obtain s where s: "xiic_reach (plain_hw 0 False) (\<lambda>h. h) 0 0 (True, s)" "tx_msg s = Some 0" "xi_hw s \<noteq> 0"
      "\<not> msg_flag I2C_M_RD (xi_msgs s ! 0)"
    using plain_run by blast
  have "fill_count 16 (xiic_tx_space s) \<le> unat (word_of_int 16 :: u8)"
    using xiic_fill_loop_bound [OF s(1) plain_latched s(2-4), of 16] by blast
  with s(1) show ?thesis by auto
qed

section \<open>The choice of the mode\<close>

lemma start_msg_dynamic:
  assumes L: "latched hw ier s" and r: "ready s k"
  shows "dynamic (xiic_start_msg hw s) = dynamic s"
proof -
  obtain sp h where g: "xiic_tx_fifo_space hw s = (sp, s\<lparr>xi_hw := h\<rparr>)"
    using tx_fifo_space_hw [OF L] by (cases "xiic_tx_fifo_space hw s") (auto simp: hw_res_def)
  let ?s = "s\<lparr>xi_hw := h, rx_pos := 0, tx_pos := 0, xi_state := STATE_START\<rparr>"
  let ?Q = "\<lambda>t. dynamic t = dynamic s"
  from r have k: "tx_msg s = Some k" "k < length (xi_msgs s)" "msg_ok (xi_msgs s ! k)" by (simp_all add: ready_def active_def)
  obtain t where t: "t = ?s" by blast
  then have L': "latched hw ier t" and D: "dynamic t = dynamic s" "tx_msg t = Some k" "k < length (xi_msgs t)"
      "tx_pos t = 0" "unat (im_len (xi_msgs t ! k)) \<le> length (im_buf (xi_msgs t ! k))"
    using L k msg_ok_fits [OF k(3)] by simp_all
  have "post ier ?Q (xiic_start_recv hw t)"
    unfolding xiic_start_recv_def start_recv_end_def
    by (rule post_let_word op_rules post_let | simp add: L' split del: if_split | simp add: post_def D)+
  moreover have "post ier ?Q (xiic_start_send hw t)"
    unfolding xiic_start_send_def
    by (rule post_let_word fill_step [OF L' D(2-5)] op_rules post_let | simp add: L' split del: if_split | simp add: post_def D)+
  ultimately show ?thesis
    using r k(2) by (simp add: xiic_start_msg_def g Let_def ready_def t post_def)
qed

text \<open>
  C39: The mode a transfer is started in: the scan that stops at the first obstacle chooses dynamic
  mode exactly when no message is a block read, every read is at most 255 bytes long, so that its
  length fits the byte of the transmit register that holds it, and no read meets a controller whose
  dynamic reads are broken.
\<close>

theorem xiic_mode_choice:
  assumes L: "latched hw ier s" and m: "xfer_ok ms" "\<not> mem_fault s" and e: "xiic_start_xfer hw ms s = (Inr (), s')"
  shows "dynamic s' \<longleftrightarrow>
    (\<forall>m \<in> set ms. \<not> msg_flag I2C_M_RECV_LEN m
       \<and> (msg_flag I2C_M_RD m \<longrightarrow> im_len m AND 0xFF = im_len m \<and> quirks s AND DYNAMIC_MODE_READ_BROKEN_BIT = 0))"
proof -
  have byte: "im_len m AND 0xFF = im_len m \<longleftrightarrow> \<not> MAX_READ_LENGTH_DYNAMIC < unat (im_len m)" for m
  proof -
    have "im_len m AND 0xFF = take_bit 8 (im_len m)" by (simp add: take_bit_eq_mask mask_eq_exp_minus_1)
    then have "im_len m AND 0xFF = im_len m \<longleftrightarrow> unat (im_len m) < 2 ^ 8"
      by (simp add: word_unat_eq_iff unsigned_take_bit_eq take_bit_nat_eq_self_iff)
    then show ?thesis by (simp add: MAX_READ_LENGTH_DYNAMIC_def) linarith
  qed
  from L obtain h where h: "s' = xiic_start_msg hw ((xfer_state ms s)\<lparr>xi_hw := h\<rparr>)"
    by (cases rule: start_xfer_cases [where ms = ms]) (use e in auto)
  let ?s = "(xfer_state ms s)\<lparr>xi_hw := h\<rparr>"
  have r: "ready ?s 0" using xfer_state_ready [OF m] by (simp add: ready_def)
  have "latched hw ier ?s" using L by (simp add: xfer_state_def)
  from start_msg_dynamic [OF this r] h have "dynamic s' = scan_dynamic (quirks s) ms" by (simp add: xfer_state_def)
  then show ?thesis by (auto simp: scan_dynamic_iff needs_standard_def Let_def byte)
qed

theorem xiic_mode_choice_witness:
  "\<exists>s'. xiic_start_xfer (plain_hw 0 False) [plain_msg] stuck_dev = (Inr (), s') \<and> dynamic s'"
proof -
  have "fst (xiic_start_xfer (plain_hw 0 False) [plain_msg] stuck_dev) = Inr ()" by code_simp
  then obtain s' where s': "xiic_start_xfer (plain_hw 0 False) [plain_msg] stuck_dev = (Inr (), s')"
    by (metis prod.collapse)
  have L: "latched (plain_hw 0 False) (\<lambda>h. h) stuck_dev"
    using plain_latched by (simp add: latched_def stuck_dev_def xiic_new_def)
  have "\<not> mem_fault (stuck_dev)" by (simp add: stuck_dev_def xiic_new_def)
  from xiic_mode_choice [OF L plain_xfer_ok this s'] have "dynamic s'"
    by (simp add: plain_msg_def msg_flag_def)
  with s' show ?thesis by blast
qed

end
