(* ===== verification/I2c_Stack.thy ===== *)
theory I2c_Stack
  imports I2c_Main_Props Xiic_Props
begin

text \<open>
  The I2C controller driver and the Xilinx bus driver together: the platform device the former
  registers is the one the latter is probed with. The device comes from \<open>platform_device_alloc\<close>, so
  it has a software node at most and never an OF node.
\<close>

text \<open>
  C33: The bus frequency asked for when an I2C controller is created reaches the child platform device
  as its \<open>clock-frequency\<close>, and has no effect: the Xilinx driver reads that property from the
  device's OF node, which a platform device of this driver does not have. Whatever the frequency, the
  driver's bus clock is 0 and setting the clock writes no timing register.
\<close>

theorem i2c_bus_freq_ignored:
  fixes adev :: nh_fpga_aux_dev and pd :: xiic_pdev
  assumes p: "nh_fpga_i2c_probe env gv bar fd aux adev s = (Inr (), s')"
    and i: "i2c_drvdata s' aux = Some i2c" "ic_pdev i2c = Some pd"
    and f: "i2c_bus_freq_hz (dev_info adev) \<noteq> 0"
    and L: "ier_latched hw ier (xp_mem_start pd) (detected hw (xp_mem_start pd) h0)"
    and x: "xiic_i2c_probe hw xenv (xp_mem_start pd) None h0 = (Inr x, h)"
  shows "xp_clock_frequency pd = Some (i2c_bus_freq_hz (dev_info adev))
    \<and> i2c_clk x = 0 \<and> xiic_setclk hw x = (Inr (), x)"
proof -
  have "xp_clock_frequency pd = Some (i2c_bus_freq_hz (dev_info adev))"
    using p i f
    by (auto simp: nh_fpga_i2c_probe_def xiic_pdev_for_def Let_def split: if_splits option.splits sum.splits prod.splits)
  moreover have "i2c_clk x = 0" using probe_form [OF L x] by (auto simp: xiic_new_def of_scl_def)
  ultimately show ?thesis by (simp add: xiic_setclk_def)
qed

lemma plain_hw_sel:
  "hw_read (plain_hw b st) opn a h =
     (if a = b + XIIC_IIER_OFFSET then h else if a = b + XIIC_SR_REG_OFFSET then (if st then 0x80 else 0xC0) else 0, h)"
  "hw_write (plain_hw b st) opn a v h = (if a = b + XIIC_IIER_OFFSET then v else if a = b + XIIC_RESETR_OFFSET then 0 else h)"
  "hw_polls (plain_hw b st) h = 0"
  by (simp_all add: plain_hw_def)

lemma plain_probe_at: "\<exists>x h. xiic_i2c_probe (plain_hw b False) plain_env b None 0 = (Inr x, h)"
proof -
  obtain h' where d: "detect_endianness (plain_hw b False) (xiic_new b None 100000000 0) =
      (xiic_new b None 100000000 0)\<lparr>endianness := detected (plain_hw b False) b 0, xi_hw := h'\<rparr>" (is "_ = ?s")
    using detect_form [of "plain_hw b False" b None 100000000 0] by blast
  have e: "detected (plain_hw b False) b 0 = LITTLE"
    by (simp add: detected_def detect_endianness_def xiic_new_def xiic_setreg32_def xiic_getreg32_def op32_def plain_hw_sel
        xiic_offsets XIIC_SR_TX_FIFO_EMPTY_MASK_def XIIC_CR_TX_FIFO_RESET_MASK_def)
  have "fst (xiic_reinit (plain_hw b False) ?s) = Inr ()"
    unfolding e
    by (simp add: xiic_reinit_def xiic_setclk_def xiic_new_def of_scl_def Let_def xiic_setreg32_def xiic_setreg8_def
        xiic_clear_rx_fifo_def clear_rx_fifo_loop.simps xiic_getreg8_def plain_hw_sel xiic_offsets op32_def
        XIIC_SR_RX_FIFO_EMPTY_MASK_def)
  then show ?thesis
    by (cases "xiic_reinit (plain_hw b False) ?s") (simp add: xiic_i2c_probe_def plain_env_def d Let_def)
qed

lemma i2c_probe_wit:
  "fst (nh_fpga_i2c_probe i2c_env_ok (\<lambda>j h. Inr 77) 0xF0000000 i2c_wit_fd 5 i2c_wit_dev i2c_sys_init) = Inr ()"
proof -
  have plat: "Option.bind (nh_get_platform NH_FPGA_DEVICE_M4340NHP) irq_cfg = Some m4340nhp_irq_cfg" by simp
  have old: "\<not> fpga_too_old m4340nhp_irq_cfg \<lparr>regs = \<lambda>_. 0xFFFF, wlog = []\<rparr>" by code_simp
  have line: "irq_line m4340nhp_irq_cfg (ax_csr_offset (dev_info i2c_wit_dev)) = Some (0, 8)"
    unfolding i2c_wit_dev_def aux_dev_for_def by simp code_simp
  note ok = irq_platform_ok [OF plat]
  have "0 < length (domains m4340nhp_irq_cfg)" using irq_line_Some [OF ok line] by simp
  also have "\<dots> = unat (num_domains m4340nhp_irq_cfg)" using ok by (simp add: irq_cfg_ok_def)
  finally have "0 < unat (num_domains m4340nhp_irq_cfg)" .
  then have "nh_fpga_resolve_master_irq_clk (\<lambda>j h. Inr 77) (fd_irq i2c_wit_fd) (ax_csr_offset (dev_info i2c_wit_dev)) =
      Inr (77, fi_ref_clk (fd_irq i2c_wit_fd))"
    using setup_interrupts_Inr [OF i2c_wit_setup plat] old line by (simp add: nh_fpga_resolve_master_irq_clk_def)
  then show ?thesis by (simp add: nh_fpga_i2c_probe_def i2c_env_ok_def Let_def)
qed

theorem i2c_bus_freq_ignored_witness:
  "\<exists>x h. xiic_i2c_probe (plain_hw 0xF0040000 False) plain_env 0xF0040000 None 0 = (Inr x, h)
     \<and> i2c_bus_freq_hz (dev_info i2c_wit_dev) = 400000 \<and> i2c_clk x = 0"
proof -
  let ?p = "nh_fpga_i2c_probe i2c_env_ok (\<lambda>j h. Inr 77) 0xF0000000 i2c_wit_fd 5 i2c_wit_dev i2c_sys_init"
  have f: "i2c_bus_freq_hz (dev_info i2c_wit_dev) = 400000"
    by (simp add: i2c_wit_dev_def aux_dev_for_def i2c_bus_freq_hz_def)
  have ok: "fst ?p = Inr ()" by (rule i2c_probe_wit)
  obtain s' where p: "?p = (Inr (), s')" using ok by (metis prod.collapse)
  then obtain i2c pd where i: "i2c_drvdata s' 5 = Some i2c" "ic_pdev i2c = Some pd" "xp_mem_start pd = 0xF0040000"
    by (auto simp: nh_fpga_i2c_probe_def Let_def xiic_pdev_for_def i2c_wit_dev_def aux_dev_for_def
        split: if_splits option.splits sum.splits prod.splits)
  obtain x h where x: "xiic_i2c_probe (plain_hw 0xF0040000 False) plain_env 0xF0040000 None 0 = (Inr x, h)"
    using plain_probe_at by blast
  have L: "ier_latched (plain_hw 0xF0040000 False) (\<lambda>h. h) (xp_mem_start pd)
      (detected (plain_hw 0xF0040000 False) (xp_mem_start pd) 0)"
    unfolding i(3) by (rule plain_latched)
  have "i2c_bus_freq_hz (dev_info i2c_wit_dev) \<noteq> 0" by (simp add: f)
  moreover have "xiic_i2c_probe (plain_hw 0xF0040000 False) plain_env (xp_mem_start pd) None 0 = (Inr x, h)"
    unfolding i(3) by (rule x)
  ultimately have "i2c_clk x = 0" using i2c_bus_freq_ignored [OF p i(1,2) _ L] by blast
  with f x show ?thesis by blast
qed

end
