(* ===== verification/Xiic_Pm.thy ===== *)
theory Xiic_Pm
  imports Xiic_Props
begin

text \<open>
  Runtime power management of the Xilinx I2C driver: the callbacks that gate its clock, \<open>xiic_xfer\<close>
  and the removal with the calls they make to the kernel's runtime PM core, and the driver with its
  clock as a state machine.

  The PM core is the kernel's: it is a parameter, and what it does is a hypothesis, taken from the
  kernel's description of these functions.
\<close>

section \<open>State and callbacks\<close>

text \<open>
  The device with what the PM core keeps of it (the usage counter and whether it is active) and the
  number of times the driver has enabled its clock more often than it has disabled it.
\<close>

record 'h xiic_pm =
  pd_i2c :: "'h xiic_i2c"
  pd_usage :: nat
  pd_active :: bool
  pd_enables :: int

definition xiic_i2c_runtime_suspend :: "'h xiic_pm \<Rightarrow> unit result \<times> 'h xiic_pm" where
  "xiic_i2c_runtime_suspend p = (Inr (), p\<lparr>pd_enables := pd_enables p - 1\<rparr>)"

text \<open>\<open>enable\<close> is what \<open>clk_enable\<close> answers.\<close>

definition xiic_i2c_runtime_resume :: "errno option \<Rightarrow> 'h xiic_pm \<Rightarrow> unit result \<times> 'h xiic_pm" where
  "xiic_i2c_runtime_resume enable p =
     (case enable of
        Some e \<Rightarrow> (Inl e, p)
      | None \<Rightarrow> (Inr (), p\<lparr>pd_enables := pd_enables p + 1\<rparr>))"

section \<open>The PM core\<close>

record 'h pm_core =
  pc_resume_and_get :: "'h xiic_pm \<Rightarrow> unit result \<times> 'h xiic_pm"
  pc_put_autosuspend :: "'h xiic_pm \<Rightarrow> 'h xiic_pm"
  pc_get_sync :: "'h xiic_pm \<Rightarrow> unit result \<times> 'h xiic_pm"
  pc_put_sync :: "'h xiic_pm \<Rightarrow> 'h xiic_pm"
  pc_autosuspend :: "'h xiic_pm \<Rightarrow> 'h xiic_pm"

text \<open>
  Resuming: an active device stays as it is; a suspended one becomes active if the driver's callback
  succeeds, and stays suspended if it fails or if the core refuses to call it.
\<close>

definition pm_resumed :: "'h xiic_pm \<Rightarrow> unit result \<times> 'h xiic_pm \<Rightarrow> bool" where
  "pm_resumed p out =
     (if pd_active p then out = (Inr (), p)
      else (\<exists>e. out = (Inl e, p))
           \<or> (\<exists>enable. case xiic_i2c_runtime_resume enable p of
                (Inl e, q) \<Rightarrow> out = (Inl e, q)
              | (Inr _, q) \<Rightarrow> out = (Inr (), q\<lparr>pd_active := True\<rparr>)))"

text \<open>Suspending: only an active device that nobody uses, by the driver's callback, and not at once.\<close>

definition pm_suspended :: "'h xiic_pm \<Rightarrow> 'h xiic_pm \<Rightarrow> bool" where
  "pm_suspended p q =
     (q = p \<or> pd_usage p = 0 \<and> pd_active p \<and> q = (snd (xiic_i2c_runtime_suspend p))\<lparr>pd_active := False\<rparr>)"

text \<open>
  \<open>pm_runtime_resume_and_get\<close> holds a reference only if it succeeds, \<open>pm_runtime_get_sync\<close> also if
  it fails; \<open>pm_runtime_put_autosuspend\<close> drops one and leaves the suspending to a timer,
  \<open>pm_runtime_put_sync\<close> drops one and may suspend at once.
\<close>

definition pm_documented :: "'h pm_core \<Rightarrow> bool" where
  "pm_documented core =
     ((\<forall>p. \<exists>r q. pm_resumed p (r, q)
             \<and> pc_resume_and_get core p = (r, if is_ok r then q\<lparr>pd_usage := pd_usage q + 1\<rparr> else q))
      \<and> (\<forall>p. pc_put_autosuspend core p = p\<lparr>pd_usage := pd_usage p - 1\<rparr>)
      \<and> (\<forall>p. \<exists>r q. pm_resumed p (r, q) \<and> pc_get_sync core p = (r, q\<lparr>pd_usage := pd_usage q + 1\<rparr>))
      \<and> (\<forall>p. pm_suspended (p\<lparr>pd_usage := pd_usage p - 1\<rparr>) (pc_put_sync core p))
      \<and> (\<forall>p. pm_suspended p (pc_autosuspend core p)))"

section \<open>The driver's calls\<close>

text \<open>After probe the clock has been enabled once and the device is active and unused.\<close>

definition xiic_pm_probed :: "'h xiic_i2c \<Rightarrow> 'h xiic_pm" where
  "xiic_pm_probed s = \<lparr>pd_i2c = s, pd_usage = 0, pd_active = True, pd_enables = 1\<rparr>"

text \<open>\<open>xiic_xfer\<close> up to the wait, and after it.\<close>

definition xiic_xfer_call :: "'h pm_core \<Rightarrow> 'h xiic_hw \<Rightarrow> i2c_msg list \<Rightarrow> 'h xiic_pm \<Rightarrow> unit result \<times> 'h xiic_pm" where
  "xiic_xfer_call core hw ms p =
     (case pc_resume_and_get core p of
        (Inl e, p) \<Rightarrow> (Inl e, p)
      | (Inr _, p) \<Rightarrow>
        (case xiic_xfer_begin hw None ms (pd_i2c p) of
           (Inl e, s) \<Rightarrow> (Inl e, pc_put_autosuspend core (p\<lparr>pd_i2c := s\<rparr>))
         | (Inr _, s) \<Rightarrow> (Inr (), p\<lparr>pd_i2c := s\<rparr>)))"

definition xiic_xfer_return :: "'h pm_core \<Rightarrow> bool \<Rightarrow> nat \<Rightarrow> 'h xiic_pm \<Rightarrow> nat result \<times> 'h xiic_pm" where
  "xiic_xfer_return core timeout num p =
     (case xiic_xfer_end timeout num (pd_i2c p) of
        (r, s) \<Rightarrow> (r, pc_put_autosuspend core (p\<lparr>pd_i2c := s\<rparr>)))"




section \<open>Runs\<close>

text \<open>
  The steps of \<open>xiic_step\<close> with the calls to the PM core, and the autosuspend timer, which may
  expire at any time. The flag says that a transfer is between its begin and its end.
\<close>

inductive xiic_pm_step ::
    "'h pm_core \<Rightarrow> 'h xiic_hw \<Rightarrow> ('h \<Rightarrow> u32) \<Rightarrow> bool \<times> 'h xiic_pm \<Rightarrow> bool \<times> 'h xiic_pm \<Rightarrow> bool"
  for core hw ier where
  pm_start: "xfer_ok ms \<Longrightarrow> xiic_xfer_call core hw ms p = (r, p') \<Longrightarrow> xiic_pm_step core hw ier (False, p) (r = Inr (), p')"
| pm_interrupt: "xiic_pm_step core hw ier (fl, p) (fl, p\<lparr>pd_i2c := xiic_process hw (pd_i2c p)\<rparr>)"
| pm_hardware: "ier h = ier (xi_hw (pd_i2c p)) \<Longrightarrow>
    xiic_pm_step core hw ier (fl, p) (fl, p\<lparr>pd_i2c := (pd_i2c p)\<lparr>xi_hw := h\<rparr>\<rparr>)"
| pm_finish: "timeout \<or> completed (pd_i2c p) \<Longrightarrow>
    xiic_pm_step core hw ier (True, p) (False, snd (xiic_xfer_return core timeout num p))"
| pm_timer: "xiic_pm_step core hw ier (fl, p) (fl, pc_autosuspend core p)"

inductive xiic_pm_reach ::
    "'h pm_core \<Rightarrow> 'h xiic_hw \<Rightarrow> ('h \<Rightarrow> u32) \<Rightarrow> addr \<Rightarrow> 'h \<Rightarrow> bool \<times> 'h xiic_pm \<Rightarrow> bool"
  for core hw ier b h0 where
  pm_probed: "xiic_i2c_probe hw env b node h0 = (Inr s, h) \<Longrightarrow> xiic_pm_reach core hw ier b h0 (False, xiic_pm_probed s)"
| pm_step: "xiic_pm_reach core hw ier b h0 st \<Longrightarrow> xiic_pm_step core hw ier st st' \<Longrightarrow> xiic_pm_reach core hw ier b h0 st'"

text \<open>The clock runs exactly while the device is active, which it is throughout a transfer.\<close>

definition pm_ok :: "bool \<Rightarrow> 'h xiic_pm \<Rightarrow> bool" where
  "pm_ok fl p =
     (pd_usage p = (if fl then 1 else 0) \<and> (fl \<longrightarrow> pd_active p)
      \<and> pd_enables p = (if pd_active p then 1 else 0))"

lemma pm_resumed_cases:
  assumes "pm_resumed p (r, q)"
  obtains (failed) e where "\<not> pd_active p" "r = Inl e" "q = p"
  | (active) "pd_active p" "r = Inr ()" "q = p"
  | (resumed) "\<not> pd_active p" "r = Inr ()" "q = p\<lparr>pd_enables := pd_enables p + 1, pd_active := True\<rparr>"
  using assms that
  by (auto simp: pm_resumed_def xiic_i2c_runtime_resume_def split: if_splits option.splits)

lemma resume_and_get_cases:
  assumes "pm_documented core" and "pm_ok False p"
  obtains e where "pc_resume_and_get core p = (Inl e, p)"
  | q where "pc_resume_and_get core p = (Inr (), q)" "pm_ok True q" "pd_i2c q = pd_i2c p"
proof -
  from assms(1) obtain r q where "pm_resumed p (r, q)"
    "pc_resume_and_get core p = (r, if is_ok r then q\<lparr>pd_usage := pd_usage q + 1\<rparr> else q)"
    unfolding pm_documented_def by blast
  note eq = this(2)
  from \<open>pm_resumed p (r, q)\<close> show ?thesis
  proof (cases rule: pm_resumed_cases)
    case (failed e)
    with eq that(1) [of e] show ?thesis by simp
  qed (use eq assms(2) that(2) [of "q\<lparr>pd_usage := pd_usage q + 1\<rparr>"] in \<open>simp_all add: pm_ok_def\<close>)
qed

lemma put_autosuspend:
  assumes "pm_documented core" and "pm_ok True p"
  shows "pm_ok False (pc_put_autosuspend core (p\<lparr>pd_i2c := s\<rparr>))" "pd_i2c (pc_put_autosuspend core (p\<lparr>pd_i2c := s\<rparr>)) = s"
  using assms by (simp_all add: pm_documented_def pm_ok_def)

lemma autosuspend:
  assumes "pm_documented core" and "pm_ok fl p"
  shows "pm_ok fl (pc_autosuspend core p) \<and> pd_i2c (pc_autosuspend core p) = pd_i2c p"
proof -
  from assms(1) have "pm_suspended p (pc_autosuspend core p)" by (simp add: pm_documented_def)
  with assms(2) show ?thesis
    by (cases fl) (auto simp: pm_suspended_def pm_ok_def xiic_i2c_runtime_suspend_def)
qed

lemma xfer_call_cases:
  assumes D: "pm_documented core" and I: "pm_ok False p" and c: "xiic_xfer_call core hw ms p = (r, p')"
  shows "pm_ok (r = Inr ()) p' \<and> (\<exists>resume. xiic_xfer_begin hw resume ms (pd_i2c p) = (r, pd_i2c p'))"
  using D I
proof (cases rule: resume_and_get_cases)
  case (1 e)
  with c I have "r = Inl e" "p' = p" by (simp_all add: xiic_xfer_call_def)
  with I show ?thesis by (auto simp: xiic_xfer_begin_def intro: exI [of _ "Some e"])
next
  case (2 q)
  obtain x s where b: "xiic_xfer_begin hw None ms (pd_i2c p) = (x, s)" by fastforce
  with c 2 put_autosuspend [OF D 2(2)] have "pm_ok (r = Inr ()) p' \<and> r = x \<and> pd_i2c p' = s"
    by (cases x) (auto simp: xiic_xfer_call_def pm_ok_def)
  with b show ?thesis by blast
qed

lemma xiic_pm_step_ok:
  assumes D: "pm_documented core" and "xiic_pm_step core hw ier (fl, p) (fl', p')" and I: "pm_ok fl p"
  shows "pm_ok fl' p' \<and> (xiic_step hw ier (fl, pd_i2c p) (fl', pd_i2c p') \<or> fl' = fl \<and> pd_i2c p' = pd_i2c p)"
  using assms(2)
proof cases
  case (pm_start ms r)
  with xfer_call_cases [OF D, of p hw ms r p'] I obtain resume
    where "pm_ok (r = Inr ()) p'" "xiic_xfer_begin hw resume ms (pd_i2c p) = (r, pd_i2c p')" by auto
  with pm_start xiic_step.start [of ms hw resume "pd_i2c p" r "pd_i2c p'" ier] show ?thesis by simp
next
  case (pm_finish timeout num)
  with I put_autosuspend [OF D, of p "snd (xiic_xfer_end timeout num (pd_i2c p))"] show ?thesis
    using xiic_step.finish [of timeout "pd_i2c p" hw ier num]
    by (auto simp: xiic_xfer_return_def split: prod.split)
next
  case pm_timer
  with autosuspend [OF D I] show ?thesis by auto
qed (use I in \<open>auto simp: pm_ok_def intro: xiic_step.intros\<close>)

text \<open>
  C20: The driver with its clock refines the driver of the memory safety property: every run with
  the calls to the runtime PM core in it is one of the driver alone. In every state of it the
  references to the device are balanced (one during a transfer, none outside), the clock is enabled
  exactly once while the device is active and not at all while it is suspended, and the device is
  active throughout a transfer, so that (debug output aside) a transfer never touches a register
  without its clock.
\<close>

theorem xiic_pm_refines:
  assumes D: "pm_documented core" and "xiic_pm_reach core hw ier b h0 (fl, p)"
  shows "xiic_reach hw ier b h0 (fl, pd_i2c p)
     \<and> pd_usage p = (if fl then 1 else 0) \<and> pd_enables p = (if pd_active p then 1 else 0) \<and> (fl \<longrightarrow> pd_active p)"
proof -
  have "xiic_reach hw ier b h0 (fst st, pd_i2c (snd st)) \<and> pm_ok (fst st) (snd st)"
    if "xiic_pm_reach core hw ier b h0 st" for st
    using that
  proof (induction rule: xiic_pm_reach.induct)
    case (pm_probed env node s h)
    then show ?case by (auto simp: xiic_pm_probed_def pm_ok_def intro: xiic_reach.probed)
  next
    case (pm_step st st')
    with xiic_pm_step_ok [OF D, of hw ier "fst st" "snd st" "fst st'" "snd st'"] show ?case
      by (auto intro: xiic_reach.step)
  qed
  from this [OF assms(2)] show ?thesis by (auto simp: pm_ok_def)
qed


text \<open>A PM core that does what it is asked to, with a clock that \<open>enable\<close> answers for.\<close>

definition plain_resume :: "errno option \<Rightarrow> 'h xiic_pm \<Rightarrow> unit result \<times> 'h xiic_pm" where
  "plain_resume enable p =
     (if pd_active p then (Inr (), p)
      else case xiic_i2c_runtime_resume enable p of
        (Inl e, q) \<Rightarrow> (Inl e, q)
      | (Inr _, q) \<Rightarrow> (Inr (), q\<lparr>pd_active := True\<rparr>))"

definition plain_pm :: "errno option \<Rightarrow> 'h pm_core" where
  "plain_pm enable =
     \<lparr>pc_resume_and_get = (\<lambda>p. case plain_resume enable p of
        (r, q) \<Rightarrow> (r, if is_ok r then q\<lparr>pd_usage := pd_usage q + 1\<rparr> else q)),
      pc_put_autosuspend = (\<lambda>p. p\<lparr>pd_usage := pd_usage p - 1\<rparr>),
      pc_get_sync = (\<lambda>p. case plain_resume enable p of (r, q) \<Rightarrow> (r, q\<lparr>pd_usage := pd_usage q + 1\<rparr>)),
      pc_put_sync = (\<lambda>p. p\<lparr>pd_usage := pd_usage p - 1\<rparr>),
      pc_autosuspend = (\<lambda>p. if pd_usage p = 0 \<and> pd_active p
                            then (snd (xiic_i2c_runtime_suspend p))\<lparr>pd_active := False\<rparr> else p)\<rparr>"

lemma plain_pm_documented: "pm_documented (plain_pm enable)"
proof -
  have r: "pm_resumed p (plain_resume enable p)" for p :: "'a xiic_pm"
    by (auto simp: pm_resumed_def plain_resume_def xiic_i2c_runtime_resume_def split: option.splits)
  then have "\<exists>r q. pm_resumed p (r, q) \<and> plain_resume enable p = (r, q)" for p :: "'a xiic_pm"
    by (metis prod.collapse)
  then show ?thesis
    by (fastforce simp: pm_documented_def plain_pm_def pm_suspended_def)
qed

text \<open>The device is probed, the timer suspends it, and a transfer resumes it and sends a byte.\<close>

lemma plain_pm_run:
  "\<exists>p. xiic_pm_reach (plain_pm None) (plain_hw 0 False) (\<lambda>h. h) 0 0 (True, p)
     \<and> tx_msg (pd_i2c p) = Some 0 \<and> xi_hw (pd_i2c p) \<noteq> 0 \<and> pd_active p \<and> pd_usage p = 1"
proof -
  let ?core = "plain_pm None :: u32 pm_core"
  obtain s h t where p: "xiic_i2c_probe (plain_hw 0 False) plain_env 0 None 0 = (Inr s, h)"
      and t: "xiic_xfer_begin (plain_hw 0 False) None [plain_msg] s = (Inr (), t)" and P: "tx_msg t = Some 0" "xi_hw t \<noteq> 0"
    by (rule plain_begin)
  let ?p = "pc_autosuspend ?core (xiic_pm_probed s)"
  have "xiic_pm_reach ?core (plain_hw 0 False) (\<lambda>h. h) 0 0 (False, xiic_pm_probed s)" by (rule pm_probed [OF p])
  then have 1: "xiic_pm_reach ?core (plain_hw 0 False) (\<lambda>h. h) 0 0 (False, ?p)" by (rule pm_step) (rule pm_timer)
  have "pd_i2c ?p = s" "\<not> pd_active ?p" "pd_usage ?p = 0"
    by (simp_all add: plain_pm_def xiic_pm_probed_def xiic_i2c_runtime_suspend_def)
  then obtain q where c: "xiic_xfer_call ?core (plain_hw 0 False) [plain_msg] ?p = (Inr (), q)"
      and q: "pd_i2c q = t" "pd_active q" "pd_usage q = 1"
    using t by (auto simp: xiic_xfer_call_def plain_pm_def plain_resume_def xiic_i2c_runtime_resume_def)
  have "xiic_pm_reach ?core (plain_hw 0 False) (\<lambda>h. h) 0 0 (Inr () = (Inr () :: unit result), q)"
    by (rule pm_step [OF 1]) (rule pm_start [OF plain_xfer_ok c])
  with q P show ?thesis by auto
qed

theorem xiic_pm_refines_witness:
  "\<exists>p. xiic_pm_reach (plain_pm None) (plain_hw 0 False) (\<lambda>h. h) 0 0 (True, p)
     \<and> tx_msg (pd_i2c p) = Some 0 \<and> pd_active p \<and> pd_enables p = 1"
  using plain_pm_run xiic_pm_refines [OF plain_pm_documented] by fastforce

text \<open>
  The end of a transfer that timed out leaves the controller's interrupts enabled. The timer then
  stops the clock, and the handler of an interrupt of that transfer would read its registers without it.
\<close>

lemma xiic_timeout_leaves_irqs:
  "\<exists>p. xiic_pm_reach (plain_pm None) (plain_hw 0 False) (\<lambda>h. h) 0 0 (False, p)
     \<and> tx_msg (pd_i2c p) = None \<and> \<not> pd_active p \<and> xi_hw (pd_i2c p) \<noteq> 0"
proof -
  let ?core = "plain_pm None :: u32 pm_core"
  obtain p where R: "xiic_pm_reach ?core (plain_hw 0 False) (\<lambda>h. h) 0 0 (True, p)"
      and p: "xi_hw (pd_i2c p) \<noteq> 0" "pd_active p" "pd_usage p = 1"
    using plain_pm_run by blast
  let ?q = "snd (xiic_xfer_return ?core True 1 p)"
  have "xiic_pm_reach ?core (plain_hw 0 False) (\<lambda>h. h) 0 0 (False, ?q)"
    by (rule pm_step [OF R]) (rule pm_finish, simp)
  then have "xiic_pm_reach ?core (plain_hw 0 False) (\<lambda>h. h) 0 0 (False, pc_autosuspend ?core ?q)"
    by (rule pm_step) (rule pm_timer)
  moreover have "tx_msg (pd_i2c (pc_autosuspend ?core ?q)) = None" "\<not> pd_active (pc_autosuspend ?core ?q)"
      "xi_hw (pd_i2c (pc_autosuspend ?core ?q)) \<noteq> 0"
    using p by (simp_all add: xiic_xfer_return_def xiic_xfer_end_def plain_pm_def xiic_i2c_runtime_suspend_def)
  ultimately show ?thesis by blast
qed

section \<open>Removal\<close>



end
