(* ===== verification/Reg_Lock.thy ===== *)
theory Reg_Lock
  imports Mmio
begin

text \<open>
  Read-modify-writes under a mutex, one register access at a time. The other theories model such an
  operation as one function of the register file; here it is the sequence of accesses its critical
  section makes (\<open>rw_prog\<close>), and the tasks that run it, or wait for the mutex, take steps in any
  order. A register access does not look at the mutex: that only its owner makes one is proved.
  Between the steps everything else in the machine may change any register outside the set
  \<open>A\<close> that the mutex protects.

  The locale \<open>lock_client\<close> is the interface: an operation of a driver, given as the function
  \<open>exec\<close>, is what its critical section computes when it runs alone, and the section stays in \<open>A\<close>.
  From that, every interleaving has the effect of the operations one after the other, in the order
  in which they held the mutex (\<open>serializes\<close>), and the mutex is always given back (\<open>released\<close>).
\<close>

section \<open>Critical sections\<close>

datatype 'r rw_prog =
    Return 'r
  | Read addr "u32 \<Rightarrow> 'r rw_prog"
  | Write u32 addr "'r rw_prog"

primrec run_rw :: "'r rw_prog \<Rightarrow> mmio \<Rightarrow> 'r \<times> mmio" where
  "run_rw (Return r) m = (r, m)"
| "run_rw (Read a k) m = run_rw (k (ioread32 m a)) m"
| "run_rw (Write v a p) m = run_rw p (iowrite32 v a m)"

primrec within :: "addr set \<Rightarrow> 'r rw_prog \<Rightarrow> bool" where
  "within A (Return r) = True"
| "within A (Read a k) = (a \<in> A \<and> (\<forall>v. within A (k v)))"
| "within A (Write v a p) = (a \<in> A \<and> within A p)"

definition regs_agree :: "addr set \<Rightarrow> mmio \<Rightarrow> mmio \<Rightarrow> bool" where
  "regs_agree A m m' = (\<forall>a\<in>A. ioread32 m a = ioread32 m' a)"

lemma regs_agree_refl [simp]: "regs_agree A m m"
  by (simp add: regs_agree_def)

lemma regs_agree_sym: "regs_agree A m m' \<Longrightarrow> regs_agree A m' m"
  by (simp add: regs_agree_def)

lemma regs_agree_trans: "regs_agree A m m' \<Longrightarrow> regs_agree A m' m'' \<Longrightarrow> regs_agree A m m''"
  by (simp add: regs_agree_def)

lemma regs_agree_write: "regs_agree A m m' \<Longrightarrow> regs_agree A (iowrite32 v a m) (iowrite32 v a m')"
  by (simp add: regs_agree_def bar.rd_wr)

text \<open>A section that stays in \<open>A\<close> returns, and leaves in \<open>A\<close>, what depends on \<open>A\<close> alone.\<close>

lemma run_rw_agree:
  assumes "within A p" "regs_agree A m m'"
  shows "fst (run_rw p m) = fst (run_rw p m') \<and> regs_agree A (snd (run_rw p m)) (snd (run_rw p m'))"
  using assms
proof (induction p arbitrary: m m')
  case (Read a k)
  have "ioread32 m a = ioread32 m' a" using Read.prems by (auto simp: regs_agree_def)
  then show ?case using Read by auto
qed (auto intro: regs_agree_write)

lemma run_rw_frame: "within A p \<Longrightarrow> a \<notin> A \<Longrightarrow> ioread32 (snd (run_rw p m)) a = ioread32 m a"
  by (induction p arbitrary: m) (auto simp: bar.rd_wr)

section \<open>Tasks and the mutex\<close>

datatype ('c, 'r) task = Idle | Waiting 'c "'r rw_prog" | Inside 'c "'r rw_prog"

record ('c, 'r) lock_world =
  lw_mem :: mmio
  lw_owner :: "nat option"
  lw_task :: "nat \<Rightarrow> ('c, 'r) task"
  lw_done :: "('c \<times> 'r) list"

definition lock_init :: "mmio \<Rightarrow> ('c, 'r) lock_world" where
  "lock_init m = \<lparr>lw_mem = m, lw_owner = None, lw_task = (\<lambda>_. Idle), lw_done = []\<rparr>"

text \<open>
  A call either returns before it takes the mutex (\<open>Inl\<close>), or has a critical section. The
  finished calls are logged, in the order in which they gave the mutex back.
\<close>

inductive lock_step ::
    "('c \<Rightarrow> 'r + 'r rw_prog) \<Rightarrow> ('c \<Rightarrow> bool) \<Rightarrow> addr set \<Rightarrow>
     ('c, 'r) lock_world \<Rightarrow> ('c, 'r) lock_world \<Rightarrow> bool"
  for prog admissible A where
  ls_fail: "lw_task w t = Idle \<Longrightarrow> admissible c \<Longrightarrow> prog c = Inl r \<Longrightarrow>
     lock_step prog admissible A w w"
| ls_call: "lw_task w t = Idle \<Longrightarrow> admissible c \<Longrightarrow> prog c = Inr p \<Longrightarrow>
     lock_step prog admissible A w (w\<lparr>lw_task := (lw_task w)(t := Waiting c p)\<rparr>)"
| ls_lock: "lw_task w t = Waiting c p \<Longrightarrow> lw_owner w = None \<Longrightarrow>
     lock_step prog admissible A w
       (w\<lparr>lw_owner := Some t, lw_task := (lw_task w)(t := Inside c p)\<rparr>)"
| ls_read: "lw_task w t = Inside c (Read a k) \<Longrightarrow>
     lock_step prog admissible A w
       (w\<lparr>lw_task := (lw_task w)(t := Inside c (k (ioread32 (lw_mem w) a)))\<rparr>)"
| ls_write: "lw_task w t = Inside c (Write v a p) \<Longrightarrow>
     lock_step prog admissible A w
       (w\<lparr>lw_mem := iowrite32 v a (lw_mem w), lw_task := (lw_task w)(t := Inside c p)\<rparr>)"
| ls_unlock: "lw_task w t = Inside c (Return r) \<Longrightarrow>
     lock_step prog admissible A w
       (w\<lparr>lw_owner := None, lw_task := (lw_task w)(t := Idle), lw_done := lw_done w @ [(c, r)]\<rparr>)"
| ls_other: "regs_agree A m (lw_mem w) \<Longrightarrow> lock_step prog admissible A w (w\<lparr>lw_mem := m\<rparr>)"

inductive lock_reach ::
    "('c \<Rightarrow> 'r + 'r rw_prog) \<Rightarrow> ('c \<Rightarrow> bool) \<Rightarrow> addr set \<Rightarrow> mmio \<Rightarrow>
     ('c, 'r) lock_world \<Rightarrow> bool"
  for prog admissible A m where
  lr_init: "lock_reach prog admissible A m (lock_init m)"
| lr_step: "lock_reach prog admissible A m w \<Longrightarrow> lock_step prog admissible A w w' \<Longrightarrow>
     lock_reach prog admissible A m w'"

inductive_cases lock_stepE: "lock_step prog admissible A w w'"

text \<open>The same calls one after the other: the registers they leave and the results they return.\<close>

primrec serial :: "('c \<Rightarrow> mmio \<Rightarrow> 'r \<times> mmio) \<Rightarrow> 'c list \<Rightarrow> mmio \<Rightarrow> 'r list \<times> mmio"
where
  "serial exec [] m = ([], m)"
| "serial exec (c # cs) m =
     (let (r, m1) = exec c m; (rs, m2) = serial exec cs m1 in (r # rs, m2))"

lemma serial_Cons:
  "fst (serial exec (c # cs) m) = fst (exec c m) # fst (serial exec cs (snd (exec c m)))"
  "snd (serial exec (c # cs) m) = snd (serial exec cs (snd (exec c m)))"
  by (simp_all add: Let_def split: prod.splits)

lemma serial_snoc:
  "serial exec (cs @ [c]) m =
     (fst (serial exec cs m) @ [fst (exec c (snd (serial exec cs m)))],
      snd (exec c (snd (serial exec cs m))))"
  by (induction cs arbitrary: m) (auto simp: Let_def split: prod.splits)

section \<open>Every interleaving is serializable\<close>

locale lock_client =
  fixes prog :: "'c \<Rightarrow> 'r + 'r rw_prog"
    and exec :: "'c \<Rightarrow> mmio \<Rightarrow> 'r \<times> mmio"
    and A :: "addr set"
    and admissible :: "'c \<Rightarrow> bool"
  assumes prog_fails: "prog c = Inl r \<Longrightarrow> exec c m = (r, m)"
    and prog_runs: "prog c = Inr p \<Longrightarrow> run_rw p m = exec c m"
    and prog_within: "prog c = Inr p \<Longrightarrow> admissible c \<Longrightarrow> within A p"
begin

definition task_ok :: "mmio \<Rightarrow> ('c, 'r) lock_world \<Rightarrow> nat \<Rightarrow> bool" where
  "task_ok m w t =
     (case lw_task w t of
        Idle \<Rightarrow> lw_owner w \<noteq> Some t
      | Waiting c p \<Rightarrow> lw_owner w \<noteq> Some t \<and> admissible c \<and> prog c = Inr p
      | Inside c p \<Rightarrow>
          lw_owner w = Some t \<and> admissible c \<and> within A p \<and>
          (let m1 = snd (serial exec (map fst (lw_done w)) m) in
           fst (run_rw p (lw_mem w)) = fst (exec c m1) \<and>
           regs_agree A (snd (run_rw p (lw_mem w))) (snd (exec c m1))))"

definition lock_inv :: "mmio \<Rightarrow> ('c, 'r) lock_world \<Rightarrow> bool" where
  "lock_inv m w =
     ((\<forall>t. task_ok m w t) \<and>
      map snd (lw_done w) = fst (serial exec (map fst (lw_done w)) m) \<and>
      (lw_owner w = None \<longrightarrow>
         regs_agree A (lw_mem w) (snd (serial exec (map fst (lw_done w)) m))))"

lemma inv_init: "lock_inv m (lock_init m)"
  by (simp add: lock_inv_def lock_init_def task_ok_def)

text \<open>The owner is the only task inside; the other tasks do not see its accesses.\<close>

lemma inside_owner:
  assumes inv: "lock_inv m w" and ins: "lw_task w t = Inside c p"
  shows "lw_owner w = Some t"
proof -
  have "task_ok m w t" using inv by (simp add: lock_inv_def)
  then show ?thesis using ins by (simp add: task_ok_def)
qed

lemma others_outside:
  assumes "lock_inv m w" "lw_owner w = Some t" "t' \<noteq> t"
  shows "(\<exists>c p. lw_task w t' = Waiting c p) \<or> lw_task w t' = Idle"
  using assms inside_owner [of m w t'] by (cases "lw_task w t'") auto

lemma inv_other:
  assumes inv: "lock_inv m w" and ag: "regs_agree A m' (lw_mem w)"
  shows "lock_inv m (w\<lparr>lw_mem := m'\<rparr>)"
proof -
  have "task_ok m (w\<lparr>lw_mem := m'\<rparr>) t" for t
  proof -
    have "task_ok m w t" using inv by (simp add: lock_inv_def)
    then show ?thesis
      using run_rw_agree [OF _ ag]
      by (auto simp: task_ok_def Let_def split: task.splits intro: regs_agree_trans)
  qed
  then show ?thesis
    using inv ag by (auto simp: lock_inv_def intro: regs_agree_trans)
qed

lemma task_ok_same:
  assumes "task_ok m w t" "lw_task w' t = lw_task w t" "lw_owner w' = lw_owner w"
    "lw_mem w' = lw_mem w" "lw_done w' = lw_done w"
  shows "task_ok m w' t"
  using assms by (simp add: task_ok_def split: task.splits)

lemma inv_call:
  assumes inv: "lock_inv m w" and idle: "lw_task w t = Idle" and c: "admissible c" "prog c = Inr p"
  shows "lock_inv m (w\<lparr>lw_task := (lw_task w)(t := Waiting c p)\<rparr>)" (is "lock_inv m ?w'")
proof -
  have ok: "task_ok m w t'" for t' using inv by (simp add: lock_inv_def)
  have "task_ok m ?w' t'" for t'
  proof (cases "t' = t")
    case True
    then show ?thesis using ok [of t] idle c by (simp add: task_ok_def)
  next
    case False
    then show ?thesis by (intro task_ok_same [OF ok]) simp_all
  qed
  then show ?thesis using inv by (simp add: lock_inv_def)
qed

lemma inv_lock:
  assumes inv: "lock_inv m w" and wait: "lw_task w t = Waiting c p" and free: "lw_owner w = None"
  shows "lock_inv m (w\<lparr>lw_owner := Some t, lw_task := (lw_task w)(t := Inside c p)\<rparr>)"
proof -
  have ok: "task_ok m w t'" for t' using inv by (simp add: lock_inv_def)
  have out: "task_ok m (w\<lparr>lw_owner := Some t, lw_task := (lw_task w)(t := Inside c p)\<rparr>) t'"
    if "t' \<noteq> t" for t'
    using ok [of t'] that free by (auto simp: task_ok_def split: task.splits)
  have c: "admissible c" "prog c = Inr p" using ok [of t] wait by (auto simp: task_ok_def)
  have "regs_agree A (lw_mem w) (snd (serial exec (map fst (lw_done w)) m))"
    using inv free by (simp add: lock_inv_def)
  then have "task_ok m (w\<lparr>lw_owner := Some t, lw_task := (lw_task w)(t := Inside c p)\<rparr>) t"
    using c prog_within [OF c(2,1)] run_rw_agree [OF prog_within [OF c(2,1)]]
    by (auto simp: task_ok_def Let_def prog_runs [OF c(2)])
  with out have all: "task_ok m (w\<lparr>lw_owner := Some t, lw_task := (lw_task w)(t := Inside c p)\<rparr>) t'"
    for t' by (cases "t' = t") simp_all
  show ?thesis using all inv by (simp add: lock_inv_def)
qed

text \<open>A step inside the section: the rest computes what was still to be computed.\<close>

lemma inv_inside:
  assumes inv: "lock_inv m w" and ins: "lw_task w t = Inside c p"
    and run: "run_rw p' m' = run_rw p (lw_mem w)" and wi: "within A p \<Longrightarrow> within A p'"
  shows "lock_inv m (w\<lparr>lw_mem := m', lw_task := (lw_task w)(t := Inside c p')\<rparr>)"
proof -
  have ok: "task_ok m w t'" for t' using inv by (simp add: lock_inv_def)
  have own: "lw_owner w = Some t" by (rule inside_owner [OF inv ins])
  have "task_ok m (w\<lparr>lw_mem := m', lw_task := (lw_task w)(t := Inside c p')\<rparr>) t'" for t'
  proof (cases "t' = t")
    case True
    then show ?thesis using ok [of t] ins run wi by (auto simp: task_ok_def Let_def)
  next
    case False
    then show ?thesis
      using ok [of t'] others_outside [OF inv own False] by (auto simp: task_ok_def)
  qed
  then show ?thesis using inv own by (auto simp: lock_inv_def)
qed

lemma inv_unlock:
  assumes inv: "lock_inv m w" and ins: "lw_task w t = Inside c (Return r)"
  shows "lock_inv m
    (w\<lparr>lw_owner := None, lw_task := (lw_task w)(t := Idle), lw_done := lw_done w @ [(c, r)]\<rparr>)"
    (is "lock_inv m ?w'")
proof -
  have ok: "task_ok m w t'" for t' using inv by (simp add: lock_inv_def)
  have own: "lw_owner w = Some t" by (rule inside_owner [OF inv ins])
  have all: "task_ok m ?w' t'" for t'
    using ok [of t'] others_outside [OF inv own, of t'] by (auto simp: task_ok_def)
  have "r = fst (exec c (snd (serial exec (map fst (lw_done w)) m)))"
    and "regs_agree A (lw_mem w) (snd (exec c (snd (serial exec (map fst (lw_done w)) m))))"
    using ok [of t] ins by (simp_all add: task_ok_def Let_def)
  then show ?thesis
    using inv all by (simp add: lock_inv_def serial_snoc)
qed

lemma inv_step:
  assumes "lock_step prog admissible A w w'" "lock_inv m w"
  shows "lock_inv m w'"
  using assms
proof (induction rule: lock_step.induct)
  case (ls_read w t c a k)
  then show ?case
    using inv_inside [OF ls_read.prems ls_read.hyps, of "k (ioread32 (lw_mem w) a)" "lw_mem w"]
    by simp
next
  case (ls_write w t c v a p)
  then show ?case
    using inv_inside [OF ls_write.prems ls_write.hyps, of p "iowrite32 v a (lw_mem w)"] by simp
qed (simp_all add: inv_call inv_lock inv_unlock inv_other)

lemma inv_reach: "lock_reach prog admissible A m w \<Longrightarrow> lock_inv m w"
  by (induction rule: lock_reach.induct) (auto intro: inv_init inv_step)

lemma serializes:
  assumes "lock_reach prog admissible A m w"
  shows "map snd (lw_done w) = fst (serial exec (map fst (lw_done w)) m)"
    and "lw_owner w = None \<Longrightarrow>
      regs_agree A (lw_mem w) (snd (serial exec (map fst (lw_done w)) m))"
  using inv_reach [OF assms] by (simp_all add: lock_inv_def)

lemma exclusive:
  assumes "lock_reach prog admissible A m w" "lw_task w t = Inside c p" "lw_task w t' = Inside c' p'"
  shows "t = t'"
  using inside_owner [OF inv_reach [OF assms(1)] assms(2)]
    inside_owner [OF inv_reach [OF assms(1)] assms(3)] by simp

text \<open>The mutex comes back: the owner has only finitely many accesses left.\<close>

lemma section_runs:
  assumes "lock_reach prog admissible A m w" "lw_task w t = Inside c p"
  shows "\<exists>w'. lock_reach prog admissible A m w' \<and> lw_owner w' = None \<and>
    lw_task w' = (lw_task w)(t := Idle) \<and> lw_mem w' = snd (run_rw p (lw_mem w)) \<and>
    lw_done w' = lw_done w @ [(c, fst (run_rw p (lw_mem w)))]"
  using assms
proof (induction p arbitrary: w)
  case (Return r)
  show ?case
    by (rule exI, rule conjI, rule lr_step [OF Return(1) ls_unlock [OF Return(2)]]) simp
next
  case (Read a k)
  note s = lr_step [OF Read.prems(1) ls_read [OF Read.prems(2)]]
  show ?case
    using Read.IH [OF rangeI [of k "ioread32 (lw_mem w) a"] s]
    by (simp add: fun_upd_def cong: if_cong)
next
  case (Write v a p)
  show ?case
    using Write.IH [OF lr_step [OF Write.prems(1) ls_write [OF Write.prems(2)]]]
    by (simp add: fun_upd_def cong: if_cong)
qed

lemma owner_inside:
  assumes "lock_reach prog admissible A m w"
    and own: "lw_owner w = Some t"
  shows "\<exists>c p. lw_task w t = Inside c p"
proof -
  have "task_ok m w t" using inv_reach [OF assms(1)] by (simp add: lock_inv_def)
  then show ?thesis using own by (simp add: task_ok_def split: task.splits)
qed

lemma released:
  assumes "lock_reach prog admissible A m w"
  shows "\<exists>w'. lock_reach prog admissible A m w' \<and> lw_owner w' = None \<and>
    (\<forall>t'. lw_owner w \<noteq> Some t' \<longrightarrow> lw_task w' t' = lw_task w t')"
proof (cases "lw_owner w")
  case None
  then show ?thesis using assms by blast
next
  case (Some t)
  then obtain c p where "lw_task w t = Inside c p" using owner_inside [OF assms] by blast
  from section_runs [OF assms this] show ?thesis using Some by auto
qed

text \<open>A waiting call that gets the mutex completes with the effect the model gives it.\<close>

lemma waiting_runs:
  assumes reach: "lock_reach prog admissible A m w" and "lw_owner w = None"
    and wait: "lw_task w t = Waiting c p"
  shows "\<exists>w'. lock_reach prog admissible A m w' \<and> lw_owner w' = None \<and>
    lw_task w' = (lw_task w)(t := Idle) \<and> lw_mem w' = snd (exec c (lw_mem w)) \<and>
    lw_done w' = lw_done w @ [(c, fst (exec c (lw_mem w)))]"
proof -
  have "task_ok m w t" using inv_reach [OF reach] by (simp add: lock_inv_def)
  then have "prog c = Inr p" using wait by (simp add: task_ok_def)
  then show ?thesis
    using section_runs [OF lr_step [OF reach ls_lock [OF wait assms(2)]], of t c p]
    by (simp add: prog_runs)
qed

lemma done_admissible:
  assumes "lock_reach prog admissible A m w"
  shows "\<forall>c \<in> set (map fst (lw_done w)). admissible c"
  using assms
proof (induction rule: lock_reach.induct)
  case lr_init
  then show ?case by (simp add: lock_init_def)
next
  case (lr_step w w')
  have "task_ok m w t" for t using inv_reach [OF lr_step(1)] by (simp add: lock_inv_def)
  then have ins: "admissible c" if "lw_task w t = Inside c p" for t c p
    using \<open>task_ok m w t\<close> that by (simp add: task_ok_def)
  from lr_step(2) show ?case
    using lr_step.IH ins by (auto elim!: lock_stepE)
qed

text \<open>A protected register only ever changes by a write of the task that holds the mutex.\<close>

lemma owner_writes:
  assumes reach: "lock_reach prog admissible A m w" and step: "lock_step prog admissible A w w'"
    and a: "a \<in> A" "ioread32 (lw_mem w') a \<noteq> ioread32 (lw_mem w) a"
  shows "\<exists>t c v p. lw_owner w = Some t \<and> lw_task w t = Inside c (Write v a p)"
  using step a inside_owner [OF inv_reach [OF reach]]
  by (auto elim!: lock_stepE simp: bar.rd_wr regs_agree_def split: if_splits)

end

end
