(* ===== verification/Locked_Drivers.thy ===== *)
theory Locked_Drivers
  imports Reg_Lock Port_Led_Tables Led_Core_Props Fan_Card Xcvr_Props
begin

text \<open>
  The critical sections of the register drivers, access by access, and what their mutexes give:
  \<open>led_reg_lock\<close> of the FPGA device, which the port LED and the status LED driver share (the LEDs
  of the management port are bits of the status LED control register), the fan controller's
  \<open>lock\<close>, and \<open>xcvr_reg_lock\<close>. Each is an instance of \<open>lock_client\<close>: the sections compute the
  functions of the driver theories, so what those show of one call holds for calls of many tasks.
\<close>

definition rmw :: "(u32 \<Rightarrow> u32) \<Rightarrow> addr \<Rightarrow> 'r rw_prog \<Rightarrow> 'r rw_prog" where
  "rmw f a p = Read a (\<lambda>v. Write (f v) a p)"

lemma run_rmw [simp]: "run_rw (rmw f a p) m = run_rw p (iowrite32 (f (ioread32 m a)) a m)"
  by (simp add: rmw_def)

lemma within_rmw [simp]: "within A (rmw f a p) \<longleftrightarrow> a \<in> A \<and> within A p"
  by (auto simp: rmw_def)

section \<open>The LED drivers\<close>

datatype led_call =
    Port_led_set port_led_table port_led_dev nat
  | Led_core_get nh_led_core_controller nh_led_core_dev
  | Led_core_set nh_led_core_controller nh_led_core_dev u32
  | Led_core_blink nh_led_core_controller nh_led_core_dev nat nat

definition port_led_section :: "port_led_table \<Rightarrow> port_led_dev \<Rightarrow> nat \<Rightarrow> u32 \<Rightarrow> u32 \<Rightarrow> u32 result rw_prog"
where
  "port_led_section color_table led brightness off b =
     (if brightness \<noteq> 0 then
        (case nh_port_led_get_bit_and_offset color_table (other_color (pl_color led))
                (pl_port_num led) of
           Inl e \<Rightarrow> Return (Inl e)
         | Inr (off_offset, off_bit) \<Rightarrow>
             if off_offset = off
             then rmw (\<lambda>v. v AND NOT (BIT (unat off_bit)) OR BIT (unat b)) (unat off) (Return (Inr 0))
             else rmw (\<lambda>v. v AND NOT (BIT (unat off_bit))) (unat off_offset)
                    (rmw (\<lambda>v. v OR BIT (unat b)) (unat off) (Return (Inr 0))))
      else rmw (\<lambda>v. v AND NOT (BIT (unat b))) (unat off) (Return (Inr 0)))"

definition led_core_mask :: "nh_led_core_info \<Rightarrow> u32" where
  "led_core_mask info = push_bit (unat (color_field_width info)) 1 - 1"

definition led_core_get_section ::
    "nh_led_core_controller \<Rightarrow> nh_led_core_dev \<Rightarrow> u32 result rw_prog" where
  "led_core_get_section ctrl led =
     (let info = led_core_info ctrl led in
      Read (unat (control_offset (lc_cfg ctrl)))
        (\<lambda>v. Return (Inr (drop_bit (unat (color_offset info)) v AND led_core_mask info))))"

definition led_core_set_section ::
    "nh_led_core_controller \<Rightarrow> nh_led_core_dev \<Rightarrow> u32 \<Rightarrow> u32 result rw_prog" where
  "led_core_set_section ctrl led brightness =
     (let info = led_core_info ctrl led in
      rmw (\<lambda>v. v AND NOT (push_bit (unat (color_offset info)) (led_core_mask info))
               OR push_bit (unat (color_offset info)) (brightness AND led_core_mask info))
        (unat (control_offset (lc_cfg ctrl))) (Return (Inr 0)))"

definition led_core_blink_section ::
    "nh_led_core_controller \<Rightarrow> nh_led_core_dev \<Rightarrow> nat \<Rightarrow> nat \<Rightarrow> u32 result rw_prog" where
  "led_core_blink_section ctrl led delay_on delay_off =
     (let info = led_core_info ctrl led;
          blink_enable = (delay_on \<noteq> 0 \<or> delay_off \<noteq> 0) in
      rmw (\<lambda>v. if blink_enable then v OR BIT (unat (blink_bit info))
               else v AND NOT (BIT (unat (blink_bit info))))
        (unat (control_offset (lc_cfg ctrl))) (Return (Inr 0)))"

lemmas led_section_defs = port_led_section_def led_core_get_section_def led_core_set_section_def
  led_core_blink_section_def

fun led_prog :: "led_call \<Rightarrow> u32 result + u32 result rw_prog" where
  "led_prog (Port_led_set color_table led brightness) =
     (case nh_port_led_get_bit_and_offset color_table (pl_color led) (pl_port_num led) of
        Inl e \<Rightarrow> Inl (Inl e)
      | Inr (off, b) \<Rightarrow> Inr (port_led_section color_table led brightness off b))"
| "led_prog (Led_core_get ctrl led) = Inr (led_core_get_section ctrl led)"
| "led_prog (Led_core_set ctrl led brightness) = Inr (led_core_set_section ctrl led brightness)"
| "led_prog (Led_core_blink ctrl led delay_on delay_off) =
     Inr (led_core_blink_section ctrl led delay_on delay_off)"

text \<open>The same calls as the driver theories model them.\<close>

fun led_exec :: "led_call \<Rightarrow> mmio \<Rightarrow> u32 result \<times> mmio" where
  "led_exec (Port_led_set color_table led brightness) m =
     (let (r, m') = nh_port_led_brightness_set color_table led brightness m
      in (map_sum id (\<lambda>_. 0) r, m'))"
| "led_exec (Led_core_get ctrl led) m = (Inr (nh_led_brightness_get ctrl led m), m)"
| "led_exec (Led_core_set ctrl led brightness) m = (Inr 0, nh_led_brightness_set ctrl led brightness m)"
| "led_exec (Led_core_blink ctrl led delay_on delay_off) m =
     (Inr 0, nh_led_blink_set ctrl led delay_on delay_off m)"

text \<open>The LED registers of a platform, and the calls on the devices that the two drivers register
  there.\<close>

definition port_led_offsets :: "port_led_color_addr \<Rightarrow> u32 list" where
  "port_led_offsets c = map r_offset (take (unat (num_ranges c)) (ranges c))"

definition led_regs :: "nh_platform_cfg \<Rightarrow> addr list" where
  "led_regs cfg =
     map unat ((case port_led_cfg cfg of
                  None \<Rightarrow> []
                | Some t \<Rightarrow> port_led_offsets (t PORT_LED_BLUE) @ port_led_offsets (t PORT_LED_AMBER)) @
               (case led_core_cfg cfg of None \<Rightarrow> [] | Some c \<Rightarrow> [control_offset c]))"

fun led_call_of :: "nh_platform_cfg \<Rightarrow> led_call \<Rightarrow> bool" where
  "led_call_of cfg (Port_led_set color_table led _) =
     (port_led_cfg cfg = Some color_table \<and> pl_port_num led \<in> set (platform_led_ports cfg))"
| "led_call_of cfg (Led_core_get ctrl led) =
     (led_core_cfg cfg = Some (lc_cfg ctrl) \<and> lc_color led < unat (num_leds (lc_cfg ctrl)))"
| "led_call_of cfg (Led_core_set ctrl led _) =
     (led_core_cfg cfg = Some (lc_cfg ctrl) \<and> lc_color led < unat (num_leds (lc_cfg ctrl)))"
| "led_call_of cfg (Led_core_blink ctrl led _ _) =
     (led_core_cfg cfg = Some (lc_cfg ctrl) \<and> lc_color led < unat (num_leds (lc_cfg ctrl)))"

lemma port_led_offset_in:
  assumes "nh_port_led_get_bit_and_offset t c p = Inr (off, b)"
  shows "off \<in> set (port_led_offsets (t c))"
proof -
  obtain r where "find (range_covers p) (take (unat (num_ranges (t c))) (ranges (t c))) = Some r"
    and "off = r_offset r"
    using assms by (auto simp: nh_port_led_get_bit_and_offset_def Let_def split: option.splits)
  then show ?thesis
    by (auto simp: port_led_offsets_def find_Some_iff intro!: imageI nth_mem)
qed

lemma port_led_reg_in:
  assumes "port_led_cfg cfg = Some t" "nh_port_led_get_bit_and_offset t c p = Inr (off, b)"
  shows "unat off \<in> set (led_regs cfg)"
  using port_led_offset_in [OF assms(2)] assms(1) by (cases c) (auto simp: led_regs_def)

lemma led_core_reg_in:
  "led_core_cfg cfg = Some c \<Longrightarrow> unat (control_offset c) \<in> set (led_regs cfg)"
  by (auto simp: led_regs_def)

lemma led_prog_runs: "led_prog c = Inr p \<Longrightarrow> run_rw p m = led_exec c m"
  by (cases c)
    (auto simp: nh_port_led_brightness_set_def led_section_defs nh_led_brightness_get_def
      nh_led_brightness_set_def nh_led_blink_set_def led_core_mask_def Let_def
      split: sum.splits prod.splits if_splits)

lemma led_prog_within:
  assumes "led_prog c = Inr p" "led_call_of cfg c"
  shows "within (set (led_regs cfg)) p"
  using assms
  by (cases c)
    (auto simp: led_section_defs Let_def led_core_reg_in
      split: sum.splits prod.splits if_splits intro: port_led_reg_in)

lemma led_prog_fails: "led_prog c = Inl r \<Longrightarrow> led_exec c m = (r, m)"
  by (cases c)
    (auto simp: nh_port_led_brightness_set_def Let_def split: sum.splits prod.splits)

interpretation led_lock: lock_client led_prog led_exec "set (led_regs cfg)" "led_call_of cfg" for cfg
  by unfold_locales (simp_all add: led_prog_fails led_prog_runs led_prog_within)

section \<open>Port LEDs next to status LEDs\<close>

text \<open>The port LED bits in the control register belong to no status LED.\<close>

definition status_apart :: "port_led_table \<Rightarrow> nh_led_core_config \<Rightarrow> bool" where
  "status_apart tab c =
     list_all (\<lambda>color. list_all (\<lambda>r. r_offset r = control_offset c \<longrightarrow>
         list_all (\<lambda>p. case port_led_loc tab color (of_nat p) of
                        None \<Rightarrow> True
                      | Some (_, n) \<Rightarrow>
                          list_all (\<lambda>i. \<not> bit (color_mask i) n \<and> unat (blink_bit i) \<noteq> n) (led_info c))
           [unat (r_start_port r)..<Suc (unat (r_end_port r))])
         (take (unat (num_ranges (tab color))) (ranges (tab color))))
       [PORT_LED_BLUE, PORT_LED_AMBER]"

lemma platforms_status_apart:
  "status_apart m4061nhp_port_led m4061nhp_led_config"
  "status_apart m4062nhp_fpga0_port_led m4062nhp_fpga0_led_config"
  "status_apart m4340nhp_port_led m4340nhp_led_config"
  by code_simp+

lemma platform_status_apart:
  assumes "nh_get_platform d = Some cfg" "port_led_cfg cfg = Some tab" "led_core_cfg cfg = Some c"
  shows "status_apart tab c"
  using assms platforms_status_apart by (auto simp: nh_get_platform_iff set_nh_platforms)

lemma status_apartD:
  assumes ap: "status_apart tab c" and loc: "port_led_loc tab color p = Some (off, n)"
    and off: "off = control_offset c" and i: "i \<in> set (led_info c)"
  shows "\<not> bit (color_mask i) n" "unat (blink_bit i) \<noteq> n"
proof -
  obtain r where r: "find (range_covers p) (take (unat (num_ranges (tab color))) (ranges (tab color))) = Some r"
    "off = r_offset r"
    using loc by (auto simp: port_led_loc_Some nh_port_led_get_bit_and_offset_def Let_def
        split: option.splits)
  have mem: "r \<in> set (take (unat (num_ranges (tab color))) (ranges (tab color)))"
    using r(1) by (metis find_Some_iff nth_mem)
  have cov: "unat p \<in> set [unat (r_start_port r)..<Suc (unat (r_end_port r))]"
    using r(1) by (auto simp: find_Some_iff range_covers_def word_le_nat_alt)
  have "color \<in> set [PORT_LED_BLUE, PORT_LED_AMBER]" by (cases color) simp_all
  with ap have "list_all (\<lambda>r. r_offset r = control_offset c \<longrightarrow>
         list_all (\<lambda>p. case port_led_loc tab color (of_nat p) of
                        None \<Rightarrow> True
                      | Some (_, n) \<Rightarrow>
                          list_all (\<lambda>i. \<not> bit (color_mask i) n \<and> unat (blink_bit i) \<noteq> n) (led_info c))
           [unat (r_start_port r)..<Suc (unat (r_end_port r))])
         (take (unat (num_ranges (tab color))) (ranges (tab color)))"
    unfolding status_apart_def list_all_iff by blast
  from bspec [OF this [unfolded list_all_iff] mem] r(2) off
  have "\<forall>p \<in> set [unat (r_start_port r)..<Suc (unat (r_end_port r))].
      case port_led_loc tab color (of_nat p) of None \<Rightarrow> True
      | Some (_, n) \<Rightarrow> \<forall>i \<in> set (led_info c). \<not> bit (color_mask i) n \<and> unat (blink_bit i) \<noteq> n"
    by (simp only: list_all_iff simp_thms)
  from bspec [OF this cov] loc i show "\<not> bit (color_mask i) n" "unat (blink_bit i) \<noteq> n"
    by simp_all
qed

text \<open>The brightness writes among the calls, as commands to the abstract two-colour LEDs.\<close>

fun port_cmd :: "led_call \<Rightarrow> (u32, port_led_color) led_cmd list" where
  "port_cmd (Port_led_set _ led brightness) = [(pl_port_num led, pl_color led, brightness \<noteq> 0)]"
| "port_cmd _ = []"

lemma abs_run_append: "abs_run (cs @ ds) st = abs_run ds (abs_run cs st)"
  by (induction cs arbitrary: st) auto

lemma port_led_set_at:
  "nh_port_led_brightness_set tab led b m =
     nh_port_led_brightness_set tab (port_led_at (pl_port_num led) (pl_color led))
       (if b \<noteq> 0 then 1 else 0) m"
  by (simp add: nh_port_led_brightness_set_def split: sum.split prod.split)

lemma led_rows_mem:
  assumes "led_cfg_ok (lc_cfg ctrl)" "lc_color led < unat (num_leds (lc_cfg ctrl))"
  shows "led_core_info ctrl led \<in> set (led_info (lc_cfg ctrl))"
proof -
  have "led_type_index (lc_type ctrl) * 2 + lc_color led < 8"
    using assms led_type_index_lt [of "lc_type ctrl"] by (simp add: led_cfg_ok_def)
  then show ?thesis
    using assms(1) by (auto simp: led_core_info_def led_cfg_ok_def intro!: nth_mem)
qed

lemma status_core:
  assumes cfg: "nh_get_platform d = Some cfg" "port_led_cfg cfg = Some tab"
    and c: "led_core_cfg cfg = Some (lc_cfg ctrl)" "lc_color led < unat (num_leds (lc_cfg ctrl))"
    and loc: "port_led_loc tab color p = Some (off, n)"
  shows "(\<not> bit (color_mask (led_core_info ctrl led)) n \<and> unat (blink_bit (led_core_info ctrl led)) \<noteq> n) \<or>
    unat off \<noteq> unat (control_offset (lc_cfg ctrl))"
proof -
  have "led_cfg_ok (lc_cfg ctrl)"
    by (rule platform_led_cfg_ok [of d]) (simp add: cfg c)
  note row = led_rows_mem [OF this c(2)]
  show ?thesis
  proof (cases "off = control_offset (lc_cfg ctrl)")
    case True
    then show ?thesis
      using status_apartD [OF platform_status_apart [OF cfg c(1)] loc True row] by simp
  qed (simp add: word_unat_eq_iff)
qed

lemma leds_show_same:
  assumes "leds_show (port_led_ok k) (port_led_lit k) m st" and k: "k = (tab, ps)"
    and same: "\<And>color p off n. port_led_loc tab color p = Some (off, n) \<Longrightarrow>
      bit (ioread32 m' (unat off)) n = bit (ioread32 m (unat off)) n"
  shows "leds_show (port_led_ok k) (port_led_lit k) m' st"
proof -
  have "port_led_lit k p c m' = port_led_lit k p c m" if ok: "port_led_ok k p" for p c
  proof -
    obtain off n where loc: "port_led_loc (fst k) c p = Some (off, n)"
      using port_led_ok_locs [OF ok] by metis
    have "bit (ioread32 m' (unat off)) n = bit (ioread32 m (unat off)) n"
      using same [of c p off n] loc k by simp
    then show ?thesis by (simp only: port_led_lit_def get_bit [OF loc])
  qed
  then show ?thesis using assms(1) by (simp add: leds_show_def)
qed

text \<open>One call moves the abstract LEDs by its command; a status LED call leaves them alone.\<close>

lemma led_exec_shows:
  assumes cfg: "nh_get_platform d = Some cfg" "port_led_cfg cfg = Some tab"
    and call: "led_call_of cfg c"
    and show_st: "leds_show (port_led_ok k) (port_led_lit k) m st"
    and k: "k = (tab, platform_led_ports cfg)"
  shows "leds_show (port_led_ok k) (port_led_lit k) (snd (led_exec c m)) (abs_run (port_cmd c) st)"
proof (cases c)
  case (Port_led_set t led b)
  have t: "t = tab" "port_led_ok k (pl_port_num led)"
    using call cfg(2) platform_port_leds [OF cfg] by (simp_all add: Port_led_set k port_led_ok_def)
  have "snd (led_exec c m) = port_led_put k (pl_port_num led) (pl_color led) (b \<noteq> 0) m"
    by (simp add: Port_led_set t(1) k port_led_put_def Let_def port_led_set_at [of tab led b]
        split: prod.splits)
  then show ?thesis
    using port_led.put_shows [OF t(2) show_st] by (simp add: Port_led_set)
next
  case (Led_core_get ctrl led)
  then show ?thesis using show_st by simp
next
  case (Led_core_set ctrl led v)
  have keep: "bit (ioread32 (nh_led_brightness_set ctrl led v m) (unat off)) n = bit (ioread32 m (unat off)) n"
    if "port_led_loc tab color p = Some (off, n)" for color p off n
    using status_core [OF cfg, of ctrl led color p off n] call that
    by (intro brightness_set_other) (auto simp: Led_core_set)
  then show ?thesis
    using leds_show_same [OF show_st k, of "nh_led_brightness_set ctrl led v m"]
    by (simp add: Led_core_set)
next
  case (Led_core_blink ctrl led don doff)
  have keep: "bit (ioread32 (nh_led_blink_set ctrl led don doff m) (unat off)) n = bit (ioread32 m (unat off)) n"
    if "port_led_loc tab color p = Some (off, n)" for color p off n
    using status_core [OF cfg, of ctrl led color p off n] call that
    by (auto simp: Led_core_blink blink_set_bit)
  then show ?thesis
    using leds_show_same [OF show_st k, of "nh_led_blink_set ctrl led don doff m"]
    by (simp add: Led_core_blink)
qed

lemma serial_shows:
  assumes cfg: "nh_get_platform d = Some cfg" "port_led_cfg cfg = Some tab"
    and k: "k = (tab, platform_led_ports cfg)"
    and "\<forall>c \<in> set cs. led_call_of cfg c"
    and "leds_show (port_led_ok k) (port_led_lit k) m st"
  shows "leds_show (port_led_ok k) (port_led_lit k) (snd (serial led_exec cs m))
    (abs_run (concat (map port_cmd cs)) st)"
  using assms(4,5)
proof (induction cs arbitrary: m st)
  case (Cons c cs)
  then show ?case
    using led_exec_shows [OF cfg _ _ k, of c m st] Cons.IH [of "snd (led_exec c m)" "abs_run (port_cmd c) st"]
    by (simp add: abs_run_append serial_Cons del: serial.simps)
qed simp

lemma port_led_get_agree:
  assumes "port_led_cfg cfg = Some tab" "regs_agree (set (led_regs cfg)) m m'"
  shows "nh_port_led_brightness_get tab led m = nh_port_led_brightness_get tab led m'"
proof (cases "nh_port_led_get_bit_and_offset tab (pl_color led) (pl_port_num led)")
  case (Inr x)
  then obtain off b where x: "nh_port_led_get_bit_and_offset tab (pl_color led) (pl_port_num led) = Inr (off, b)"
    by (cases x) simp
  then have "ioread32 m (unat off) = ioread32 m' (unat off)"
    using assms port_led_reg_in [OF assms(1) x] by (simp add: regs_agree_def)
  then show ?thesis by (simp add: nh_port_led_brightness_get_def x)
qed (simp add: nh_port_led_brightness_get_def)

text \<open>
  C2: However the calls of the port LED and the status LED driver interleave on the registers of an
  FPGA, access by access and with anything else going on outside the LED registers: when no
  task holds \<open>led_reg_lock\<close>, each port shows exactly what the abstract two-colour LED shows after
  the brightness writes to the ports alone, in the order in which they held the mutex.
\<close>

theorem port_leds_interleaved:
  assumes cfg: "nh_get_platform d = Some cfg" "port_led_cfg cfg = Some tab"
    and reach: "lock_reach led_prog (led_call_of cfg) (set (led_regs cfg)) m w"
    and free: "lw_owner w = None"
    and init: "\<And>q e. q \<in> set (platform_led_ports cfg) \<Longrightarrow>
      nh_port_led_brightness_get tab (port_led_at q e) m \<noteq> 0 \<longleftrightarrow> st q = Some e"
    and p: "p \<in> set (platform_led_ports cfg)"
  shows "nh_port_led_brightness_get tab (port_led_at p c) (lw_mem w) \<noteq> 0
    \<longleftrightarrow> abs_run (concat (map port_cmd (map fst (lw_done w)))) st p = Some c"
proof -
  let ?k = "(tab, platform_led_ports cfg)"
  let ?m = "snd (serial led_exec (map fst (lw_done w)) m)"
  have ok: "port_led_ok ?k q \<longleftrightarrow> q \<in> set (platform_led_ports cfg)" for q
    by (simp add: port_led_ok_def platform_port_leds [OF cfg])
  have "leds_show (port_led_ok ?k) (port_led_lit ?k) m st"
    using init by (simp add: leds_show_def ok port_led_lit_def)
  then have "leds_show (port_led_ok ?k) (port_led_lit ?k) ?m
      (abs_run (concat (map port_cmd (map fst (lw_done w)))) st)"
    by (rule serial_shows [OF cfg refl led_lock.done_admissible [OF reach]])
  then have "nh_port_led_brightness_get tab (port_led_at p c) ?m \<noteq> 0
      \<longleftrightarrow> abs_run (concat (map port_cmd (map fst (lw_done w)))) st p = Some c"
    using p by (simp add: leds_show_def ok port_led_lit_def)
  moreover have "nh_port_led_brightness_get tab (port_led_at p c) (lw_mem w) =
      nh_port_led_brightness_get tab (port_led_at p c) ?m"
    by (rule port_led_get_agree [OF cfg(2) led_lock.serializes(2) [OF reach free]])
  ultimately show ?thesis by simp
qed

text \<open>Three tasks on the M4340NHP FPGA: two on port 65, one on the system LED next to it.\<close>

definition demo_sys_led :: nh_led_core_controller where
  "demo_sys_led = \<lparr>lc_type = NH_LED_TYPE_SYS, lc_leds = [], lc_cfg = m4340nhp_led_config\<rparr>"

definition demo_led_calls :: "nat \<Rightarrow> led_call" where
  "demo_led_calls t =
     (if t = 0 then Port_led_set m4340nhp_port_led (port_led_at 65 PORT_LED_AMBER) 1
      else if t = 1 then Led_core_blink demo_sys_led
             \<lparr>lc_name = [], lc_color = 0, lc_trigger_inited = False, blink_delay_on = 0, blink_delay_off = 0\<rparr>
             500 500
      else Port_led_set m4340nhp_port_led (port_led_at 65 PORT_LED_BLUE) 255)"

lemma port_65: "65 \<in> set m4340nhp_led_ports"
  using u32_interval [of 66 1 65] by (simp add: m4340nhp_led_ports_def)

lemma demo_led_calls_ok: "led_call_of nh_platform_m4340nhp (demo_led_calls t)"
proof -
  have "num_leds m4340nhp_led_config = 2" by (simp add: m4340nhp_led_config_def)
  then show ?thesis by (simp add: demo_led_calls_def demo_sys_led_def port_65)
qed

lemma demo_led_prog: "\<exists>p. led_prog (demo_led_calls t) = Inr p"
proof -
  have "nh_port_led_get_bit_and_offset m4340nhp_port_led PORT_LED_BLUE 65 = Inr (0x9C, 16)"
    "nh_port_led_get_bit_and_offset m4340nhp_port_led PORT_LED_AMBER 65 = Inr (0x9C, 17)"
    by code_simp+
  then show ?thesis by (simp add: demo_led_calls_def Let_def)
qed

text \<open>All three ask for the mutex before the first gets it.\<close>

lemma demo_led_run:
  "\<exists>w. lock_reach led_prog (led_call_of nh_platform_m4340nhp) (set (led_regs nh_platform_m4340nhp)) m w
     \<and> lw_owner w = None \<and> map fst (lw_done w) = map demo_led_calls [0, 1, 2]"
proof -
  let ?cfg = nh_platform_m4340nhp
  let ?reach = "lock_reach led_prog (led_call_of ?cfg) (set (led_regs ?cfg)) m"
  obtain p where p: "\<And>t. led_prog (demo_led_calls t) = Inr (p t)" using demo_led_prog by metis
  define w3 where "w3 = \<lparr>lw_mem = m, lw_owner = None, lw_task = (\<lambda>_. Idle)(0 := Waiting (demo_led_calls 0) (p 0),
    1 := Waiting (demo_led_calls 1) (p 1), 2 := Waiting (demo_led_calls 2) (p 2)), lw_done = []\<rparr>"
  have call: "?reach (w\<lparr>lw_task := (lw_task w)(t := Waiting (demo_led_calls t) (p t))\<rparr>)"
    if "?reach w" "lw_task w t = Idle" for w t
    by (rule lr_step [OF that(1) ls_call [where t = t]]) (simp_all add: that(2) demo_led_calls_ok p)
  have r3: "?reach w3"
    using call [OF call [OF call [OF lr_init, of 0], of 1], of 2] by (simp add: lock_init_def w3_def)
  obtain w4 where w4: "?reach w4" "lw_owner w4 = None" "lw_task w4 = (lw_task w3)(0 := Idle)"
    "map fst (lw_done w4) = [demo_led_calls 0]"
    using led_lock.waiting_runs [OF r3, of 0 "demo_led_calls 0" "p 0"] by (auto simp: w3_def)
  obtain w5 where w5: "?reach w5" "lw_owner w5 = None" "lw_task w5 = (lw_task w4)(1 := Idle)"
    "map fst (lw_done w5) = [demo_led_calls 0, demo_led_calls 1]"
    using led_lock.waiting_runs [OF w4(1,2), of 1 "demo_led_calls 1" "p 1"] w4(3,4)
    by (auto simp: w3_def)
  show ?thesis
    using led_lock.waiting_runs [OF w5(1,2), of 2 "demo_led_calls 2" "p 2"] w5(3,4) w4(3)
    by (auto simp: w3_def)
qed

theorem port_leds_interleaved_witness:
  "\<exists>w. lock_reach led_prog (led_call_of nh_platform_m4340nhp) (set (led_regs nh_platform_m4340nhp))
        \<lparr>regs = \<lambda>_. 0, wlog = []\<rparr> w
     \<and> map fst (lw_done w) = map demo_led_calls [0, 1, 2]
     \<and> nh_port_led_brightness_get m4340nhp_port_led (port_led_at 65 PORT_LED_BLUE) (lw_mem w) \<noteq> 0
     \<and> nh_port_led_brightness_get m4340nhp_port_led (port_led_at 65 PORT_LED_AMBER) (lw_mem w) = 0"
proof -
  let ?m = "\<lparr>regs = \<lambda>_. 0, wlog = []\<rparr> :: mmio"
  obtain w where w: "lock_reach led_prog (led_call_of nh_platform_m4340nhp)
      (set (led_regs nh_platform_m4340nhp)) ?m w" "lw_owner w = None"
    and calls: "map fst (lw_done w) = map demo_led_calls [0, 1, 2]"
    using demo_led_run by blast
  have init: "nh_port_led_brightness_get m4340nhp_port_led (port_led_at q e) ?m \<noteq> 0 \<longleftrightarrow>
      (\<lambda>_. None) q = Some e" for q e
    by (simp add: nh_port_led_brightness_get_def ioread32_def Let_def split: sum.splits prod.splits)
  have p: "65 \<in> set (platform_led_ports nh_platform_m4340nhp)"
    by (simp add: port_65)
  note shows_run = port_leds_interleaved [OF get_platforms(5) port_led_cfg_simps(2) w init p, unfolded calls]
  show ?thesis
    using w(1) calls shows_run [of PORT_LED_BLUE] shows_run [of PORT_LED_AMBER]
    by (auto simp: demo_led_calls_def)
qed

section \<open>The fan driver\<close>

datatype fan_call =
    Fan_pwm s32 int
  | Fan_led_set nh_fpga_fan_led nat
  | Fan_led_attr s32 bool bool
  | Fan_init_leds

text \<open>\<open>Inl\<close> is what a PWM write returns when it is refused before it takes the mutex.\<close>

definition fan_pwm_section ::
    "nh_fpga_fan_controller \<Rightarrow> s32 \<Rightarrow> int \<Rightarrow> unit result + unit result rw_prog" where
  "fan_pwm_section ctl channel value =
     (let cfg = ctl_cfg ctl;
          pwm_shift = ffs (pwm_mask cfg);
          max_pwm = drop_bit pwm_shift (pwm_mask cfg)
      in if num_fan_controllers cfg \<le> channel \<or> value < 0 \<or> uint max_pwm < value
         then Inl (Inl EINVAL)
         else Inr (rmw (\<lambda>v. (v AND NOT (pwm_mask cfg))
                            OR (push_bit pwm_shift (word_of_int value) AND pwm_mask cfg))
                     (unat (fan_pwm_offsets ctl ! unat channel)) (Return (Inr ()))))"

definition fan_led_section ::
    "nh_fpga_fan_controller \<Rightarrow> nh_fpga_fan_led \<Rightarrow> nat \<Rightarrow> unit result rw_prog" where
  "fan_led_section ctl led brightness =
     (let cfg = ctl_cfg ctl;
          f = fans cfg ! unat (fan_index led);
          bit_pos = (if is_good_led led then ctrl_good_led_bit f else ctrl_fail_led_bit f);
          sibling_bit = (ctrl_good_led_bit f OR ctrl_fail_led_bit f) AND NOT bit_pos
      in rmw (\<lambda>v. if brightness \<noteq> LED_OFF then (v OR bit_pos) AND NOT sibling_bit
                  else v AND NOT bit_pos)
           (unat (ctrl_offset cfg)) (Return (Inr ())))"

definition fan_led_attr_section ::
    "nh_fpga_fan_controller \<Rightarrow> s32 \<Rightarrow> bool \<Rightarrow> bool \<Rightarrow> unit result rw_prog" where
  "fan_led_attr_section ctl fan_num good_color fail_color =
     (let cfg = ctl_cfg ctl;
          f = fans cfg ! unat fan_num
      in rmw (\<lambda>v. let v = (if good_color then v OR ctrl_good_led_bit f
                           else v AND NOT (ctrl_good_led_bit f))
                  in if fail_color then v OR ctrl_fail_led_bit f
                     else v AND NOT (ctrl_fail_led_bit f))
           (unat (ctrl_offset cfg)) (Return (Inr ())))"

definition fan_init_leds_section :: "nh_fpga_fan_controller \<Rightarrow> unit result rw_prog" where
  "fan_init_leds_section ctl =
     (let cfg = ctl_cfg ctl
      in rmw (\<lambda>v. foldl (\<lambda>r i. let f = fans cfg ! i
                               in (r AND NOT (ctrl_good_led_bit f)) AND NOT (ctrl_fail_led_bit f))
                    v [0..<nat (sint (num_fan_trays ctl))])
           (unat (ctrl_offset cfg)) (Return (Inr ())))"

lemmas fan_section_defs = fan_pwm_section_def fan_led_section_def fan_led_attr_section_def
  fan_init_leds_section_def

fun fan_prog :: "nh_fpga_fan_controller \<Rightarrow> fan_call \<Rightarrow> unit result + unit result rw_prog" where
  "fan_prog ctl (Fan_pwm channel value) = fan_pwm_section ctl channel value"
| "fan_prog ctl (Fan_led_set led brightness) = Inr (fan_led_section ctl led brightness)"
| "fan_prog ctl (Fan_led_attr fan_num good_color fail_color) =
     Inr (fan_led_attr_section ctl fan_num good_color fail_color)"
| "fan_prog ctl Fan_init_leds = Inr (fan_init_leds_section ctl)"

text \<open>
  What \<open>fan_led_simple_store\<close> writes once it has read the fan's status, which it does before it
  takes the mutex.
\<close>

definition fan_led_attr_write :: "nh_fpga_fan_controller \<Rightarrow> s32 \<Rightarrow> bool \<Rightarrow> bool \<Rightarrow> mmio \<Rightarrow> mmio" where
  "fan_led_attr_write ctl fan_num good_color fail_color m =
     (let cfg = ctl_cfg ctl;
          f = fans cfg ! unat fan_num;
          reg_val = ioread32 m (unat (ctrl_offset cfg));
          new_reg_val = (if good_color then reg_val OR ctrl_good_led_bit f
                         else reg_val AND NOT (ctrl_good_led_bit f));
          new_reg_val = (if fail_color then new_reg_val OR ctrl_fail_led_bit f
                         else new_reg_val AND NOT (ctrl_fail_led_bit f))
      in iowrite32 new_reg_val (unat (ctrl_offset cfg)) m)"

fun fan_exec :: "nh_fpga_fan_controller \<Rightarrow> fan_call \<Rightarrow> mmio \<Rightarrow> unit result \<times> mmio" where
  "fan_exec ctl (Fan_pwm channel value) m = nh_fpga_fan_write_pwm ctl channel value m"
| "fan_exec ctl (Fan_led_set led brightness) m = (Inr (), nh_fpga_fan_led_set ctl led brightness m)"
| "fan_exec ctl (Fan_led_attr fan_num good_color fail_color) m =
     (Inr (), fan_led_attr_write ctl fan_num good_color fail_color m)"
| "fan_exec ctl Fan_init_leds m = (Inr (), nh_fpga_fan_init_leds ctl m)"

definition fan_regs :: "fan_card_status_addr \<Rightarrow> addr list" where
  "fan_regs c = map unat (ctrl_offset c # map pwm_offset (fans c))"

lemma fan_led_simple_store_section:
  assumes "fan_led_simple_store ctl name buf m = (Inr n, works, m')"
  shows "\<exists>fan_num led_val.
    fan_num_of ctl name = Inr fan_num \<and> kstrtoint buf = Inr led_val \<and>
    m' = fan_led_attr_write ctl fan_num (led_val = 1) (led_val = 0) m"
proof -
  obtain fan_num led_val s where cs: "fan_num_of ctl name = Inr fan_num" "kstrtoint buf = Inr led_val"
    "nh_fpga_fan_get_status_and_presence ctl fan_num m = Inr s"
    using assms by (auto simp: fan_led_simple_store_def split: sum.splits)
  have "m' = fan_led_attr_write ctl fan_num (led_val = 1) (led_val = 0) m"
    using assms unfolding fan_led_simple_store_def cs sum.case fan_led_attr_write_def Let_def prod.inject
    by metis
  then show ?thesis using cs by blast
qed

interpretation fan_lock:
  lock_client "fan_prog ctl" "fan_exec ctl" "set (fan_regs (ctl_cfg ctl))" "\<lambda>_. fan_ctl_ok ctl" for ctl
proof
  show "fan_exec ctl c m = (r, m)" if "fan_prog ctl c = Inl r" for c r m
    using that by (cases c) (auto simp: fan_pwm_section_def nh_fpga_fan_write_pwm_def Let_def split: if_splits)
  show "run_rw p m = fan_exec ctl c m" if "fan_prog ctl c = Inr p" for c p m
    using that
    by (cases c)
      (auto simp: fan_section_defs nh_fpga_fan_write_pwm_def nh_fpga_fan_led_set_def fan_led_attr_write_def
        nh_fpga_fan_init_leds_def Let_def split: if_splits)
  show "within (set (fan_regs (ctl_cfg ctl))) p" if "fan_prog ctl c = Inr p" "fan_ctl_ok ctl" for c p
    using that fan_ctl_ok_channel [OF that(2)]
    by (cases c) (auto simp: fan_section_defs fan_regs_def Let_def split: if_splits)
qed

section \<open>The transceiver driver\<close>

text \<open>
  The calls that write: the controls of the transceivers \<open>cs\<close> of one FPGA. The mutex is the
  module's, so the same holds with the controls of several FPGAs.
\<close>

type_synonym xcvr_call = "nh_xcvr_ctrl \<times> u32 \<times> u32 \<times> int"

fun xcvr_prog :: "xcvr_call \<Rightarrow> unit + unit rw_prog" where
  "xcvr_prog (ctrl, offset, b, value) =
     Inr (rmw (\<lambda>v. if value \<noteq> 0 then v OR BIT (unat b) else v AND NOT (BIT (unat b)))
            (xc_base ctrl + unat offset) (Return ()))"

fun xcvr_exec :: "xcvr_call \<Rightarrow> mmio \<Rightarrow> unit \<times> mmio" where
  "xcvr_exec (ctrl, offset, b, value) m = ((), nh_xcvr_ctrl_write_reg ctrl offset b value m)"

definition xcvr_regs :: "nh_xcvr_ctrl list \<Rightarrow> addr list" where
  "xcvr_regs cs =
     concat (map (\<lambda>c. [xc_base c + unat (reset_reg_offset (xc_group c)),
                       xc_base c + unat (lp_mode_reg_offset (xc_group c))]) cs)"

fun xcvr_call_of :: "nh_xcvr_ctrl list \<Rightarrow> xcvr_call \<Rightarrow> bool" where
  "xcvr_call_of cs (ctrl, offset, _, _) =
     (ctrl \<in> set cs \<and>
      (offset = reset_reg_offset (xc_group ctrl) \<or> offset = lp_mode_reg_offset (xc_group ctrl)))"

interpretation xcvr_lock: lock_client xcvr_prog xcvr_exec "set (xcvr_regs cs)" "xcvr_call_of cs" for cs
  by unfold_locales (auto simp: nh_xcvr_ctrl_write_reg_def xcvr_regs_def Let_def)

section \<open>The mutexes protect different registers\<close>

text \<open>
  On the FPGAs that have both, the fan driver writes no LED register: a fan call is a step of the
  rest of the machine for the LED drivers, and the other way round.
\<close>

lemma fan_led_regs_disjoint:
  assumes "nh_get_platform d = Some cfg" "fan_cfg cfg = Some f"
  shows "set (fan_regs f) \<inter> set (led_regs cfg) = {}"
proof -
  have "list_all (\<lambda>cfg. case fan_cfg cfg of None \<Rightarrow> True
      | Some f \<Rightarrow> list_all (\<lambda>a. a \<notin> set (led_regs cfg)) (fan_regs f)) nh_platforms"
    by code_simp
  then have "list_all (\<lambda>a. a \<notin> set (led_regs cfg)) (fan_regs f)"
    using assms by (auto simp: list_all_iff nh_get_platform_iff)
  then show ?thesis by (auto simp: list_all_iff)
qed

lemma fan_call_other_for_leds:
  assumes "nh_get_platform d = Some cfg" "fan_cfg cfg = Some (ctl_cfg ctl)"
    and "fan_ctl_ok ctl"
  shows "regs_agree (set (led_regs cfg)) (snd (fan_exec ctl c m)) m"
proof (cases "fan_prog ctl c")
  case (Inl r)
  then show ?thesis using fan_lock.prog_fails [OF Inl] by simp
next
  case (Inr p)
  have "a \<notin> set (fan_regs (ctl_cfg ctl))" if "a \<in> set (led_regs cfg)" for a
    using fan_led_regs_disjoint [OF assms(1,2)] that by auto
  then show ?thesis
    using run_rw_frame [OF fan_lock.prog_within [OF Inr assms(3)], of _ m] fan_lock.prog_runs [OF Inr, of m]
    by (simp add: regs_agree_def)
qed

end
