(* ===== verification/Modules.thy ===== *)
theory Modules
  imports Fbiob I2c_Main Led_Core Psu Fpga_Info
begin

text \<open>
  Loading and unloading the eleven modules: what each registers with the kernel, in which order, and
  how a module whose registration fails half-way takes back what it had registered. The kernel's
  part is the list of what is registered and a log; which registrations succeed is a parameter.
  Then the auxiliary bus: which driver a device that the ioctl created binds to.

  The init functions of the repository each unwind by hand. \<open>load_items\<close> is the discipline they
  follow, and the locale \<open>module_set\<close> shows what any set of modules that follow it may rely on;
  it is interpreted on the eleven modules.
\<close>

section \<open>Registrations\<close>

datatype kitem =
    Chrdev_region string nat
  | Device_class string
  | Pci_driver string
  | Aux_driver string "string list"
  | I2c_driver string "string list"
  | I2c_bus_notifier string
  | Platform_driver string

datatype kevent = Registered kitem | Unregistered kitem

record kreg =
  kr_items :: "kitem list"
  kr_log :: "kevent list"

type_synonym reg_env = "kitem \<Rightarrow> errno option"

definition kreg_add :: "reg_env \<Rightarrow> kitem \<Rightarrow> kreg \<Rightarrow> unit result \<times> kreg" where
  "kreg_add env i s =
     (case env i of
        Some e \<Rightarrow> (Inl e, s)
      | None \<Rightarrow> (Inr (), s\<lparr>kr_items := kr_items s @ [i], kr_log := kr_log s @ [Registered i]\<rparr>))"

definition kreg_del :: "kitem \<Rightarrow> kreg \<Rightarrow> kreg" where
  "kreg_del i s = s\<lparr>kr_items := remove1 i (kr_items s), kr_log := kr_log s @ [Unregistered i]\<rparr>"

section \<open>The modules\<close>

text \<open>\<open>nh_fpga_fbiob_main.c\<close>: the character device numbers, the class, the PCI driver.\<close>

definition fbiob_chrdev :: kitem where "fbiob_chrdev = Chrdev_region ''fbiob_pci'' FBIOB_MAX_DEVICES"
definition nh_fpga_class :: kitem where "nh_fpga_class = Device_class ''fbiob_pci''"
definition nh_fpga_pci_driver :: kitem where "nh_fpga_pci_driver = Pci_driver ''fbiob_pci''"

definition nh_fpga_pci_init :: "reg_env \<Rightarrow> kreg \<Rightarrow> unit result \<times> kreg" where
  "nh_fpga_pci_init env s =
     (case kreg_add env fbiob_chrdev s of
        (Inl e, s) \<Rightarrow> (Inl e, s)
      | (Inr _, s) \<Rightarrow>
          (case kreg_add env nh_fpga_class s of
             (Inl e, s) \<Rightarrow> (Inl e, kreg_del fbiob_chrdev s)
           | (Inr _, s) \<Rightarrow>
               (case kreg_add env nh_fpga_pci_driver s of
                  (Inl e, s) \<Rightarrow> (Inl e, kreg_del fbiob_chrdev (kreg_del nh_fpga_class s))
                | (Inr _, s) \<Rightarrow> (Inr (), s))))"

definition nh_fpga_pci_exit :: "kreg \<Rightarrow> kreg" where
  "nh_fpga_pci_exit s =
     kreg_del fbiob_chrdev (kreg_del nh_fpga_class (kreg_del nh_fpga_pci_driver s))"

text \<open>\<open>nh_fpga_i2c_main.c\<close>: the bus notifier, then the driver whose probes it serves.\<close>

definition nh_fpga_i2c_nb :: kitem where "nh_fpga_i2c_nb = I2c_bus_notifier ''nh_fpga_i2c''"

definition nh_fpga_i2c_aux_driver :: kitem where
  "nh_fpga_i2c_aux_driver = Aux_driver ''nh_fpga_i2c'' nh_fpga_i2c_aux_id_table"

definition nh_fpga_i2c_init_module :: "reg_env \<Rightarrow> kreg \<Rightarrow> unit result \<times> kreg" where
  "nh_fpga_i2c_init_module env s =
     (case kreg_add env nh_fpga_i2c_nb s of
        (Inl e, s) \<Rightarrow> (Inl e, s)
      | (Inr _, s) \<Rightarrow>
          (case kreg_add env nh_fpga_i2c_aux_driver s of
             (Inl e, s) \<Rightarrow> (Inl e, kreg_del nh_fpga_i2c_nb s)
           | (Inr _, s) \<Rightarrow> (Inr (), s)))"

definition nh_fpga_i2c_exit_module :: "kreg \<Rightarrow> kreg" where
  "nh_fpga_i2c_exit_module s = kreg_del nh_fpga_i2c_nb (kreg_del nh_fpga_i2c_aux_driver s)"

text \<open>The modules with one registration.\<close>

definition fpga_mux_id :: "string list" where "fpga_mux_id = [''fpga-mux'']"
definition nh_fpga_fan_aux_id_table :: "string list" where
  "nh_fpga_fan_aux_id_table = [''fbiob_pci.fan_ctrl'']"
definition nh_port_led_aux_id_table :: "string list" where
  "nh_port_led_aux_id_table = [''fbiob_pci.port_led'']"
definition nh_xcvr_ctrl_aux_id_table :: "string list" where
  "nh_xcvr_ctrl_aux_id_table = [''fbiob_pci.xcvr_ctrl'']"

definition fpga_mux_driver :: kitem where "fpga_mux_driver = I2c_driver ''nh_fpga_mux'' fpga_mux_id"
definition xiic_i2c_driver :: kitem where "xiic_i2c_driver = Platform_driver ''bp4f-xiic-i2c''"
definition nh_fpga_asic_temp_aux_driver :: kitem where
  "nh_fpga_asic_temp_aux_driver = Aux_driver ''nh_fpga_asic_temp'' nh_fpga_asic_temp_aux_id_table"
definition nh_fpga_fan_aux_driver :: kitem where
  "nh_fpga_fan_aux_driver = Aux_driver ''nh_fpga_fan'' nh_fpga_fan_aux_id_table"
definition nh_fpga_info_aux_driver :: kitem where
  "nh_fpga_info_aux_driver = Aux_driver ''nh_fpga_info'' nh_fpga_info_aux_id_table"
definition nh_led_aux_driver :: kitem where
  "nh_led_aux_driver = Aux_driver ''nh_fpga_led'' nh_led_aux_id_table"
definition nh_port_led_aux_driver :: kitem where
  "nh_port_led_aux_driver = Aux_driver ''nh_fpga_port_led'' nh_port_led_aux_id_table"
definition nh_fpga_psu_aux_driver :: kitem where
  "nh_fpga_psu_aux_driver = Aux_driver ''nh_fpga_psu'' nh_fpga_psu_aux_id_table"
definition nh_xcvr_ctrl_aux_driver :: kitem where
  "nh_xcvr_ctrl_aux_driver = Aux_driver ''nh_xcvr_ctrl'' nh_xcvr_ctrl_aux_id_table"

definition fpga_mux_init :: "reg_env \<Rightarrow> kreg \<Rightarrow> unit result \<times> kreg" where
  "fpga_mux_init env s = kreg_add env fpga_mux_driver s"
definition fpga_mux_exit :: "kreg \<Rightarrow> kreg" where
  "fpga_mux_exit s = kreg_del fpga_mux_driver s"
definition xiic_init_module :: "reg_env \<Rightarrow> kreg \<Rightarrow> unit result \<times> kreg" where
  "xiic_init_module env s = kreg_add env xiic_i2c_driver s"
definition xiic_exit_module :: "kreg \<Rightarrow> kreg" where
  "xiic_exit_module s = kreg_del xiic_i2c_driver s"
definition nh_fpga_asic_temp_init_module :: "reg_env \<Rightarrow> kreg \<Rightarrow> unit result \<times> kreg" where
  "nh_fpga_asic_temp_init_module env s = kreg_add env nh_fpga_asic_temp_aux_driver s"
definition nh_fpga_asic_temp_exit_module :: "kreg \<Rightarrow> kreg" where
  "nh_fpga_asic_temp_exit_module s = kreg_del nh_fpga_asic_temp_aux_driver s"
definition nh_fpga_fan_init_module :: "reg_env \<Rightarrow> kreg \<Rightarrow> unit result \<times> kreg" where
  "nh_fpga_fan_init_module env s = kreg_add env nh_fpga_fan_aux_driver s"
definition nh_fpga_fan_exit_module :: "kreg \<Rightarrow> kreg" where
  "nh_fpga_fan_exit_module s = kreg_del nh_fpga_fan_aux_driver s"
definition nh_fpga_info_init_module :: "reg_env \<Rightarrow> kreg \<Rightarrow> unit result \<times> kreg" where
  "nh_fpga_info_init_module env s = kreg_add env nh_fpga_info_aux_driver s"
definition nh_fpga_info_exit_module :: "kreg \<Rightarrow> kreg" where
  "nh_fpga_info_exit_module s = kreg_del nh_fpga_info_aux_driver s"
definition nh_led_init_module :: "reg_env \<Rightarrow> kreg \<Rightarrow> unit result \<times> kreg" where
  "nh_led_init_module env s = kreg_add env nh_led_aux_driver s"
definition nh_led_exit_module :: "kreg \<Rightarrow> kreg" where
  "nh_led_exit_module s = kreg_del nh_led_aux_driver s"
definition nh_port_led_init_module :: "reg_env \<Rightarrow> kreg \<Rightarrow> unit result \<times> kreg" where
  "nh_port_led_init_module env s = kreg_add env nh_port_led_aux_driver s"
definition nh_port_led_exit_module :: "kreg \<Rightarrow> kreg" where
  "nh_port_led_exit_module s = kreg_del nh_port_led_aux_driver s"
definition nh_fpga_psu_init_module :: "reg_env \<Rightarrow> kreg \<Rightarrow> unit result \<times> kreg" where
  "nh_fpga_psu_init_module env s = kreg_add env nh_fpga_psu_aux_driver s"
definition nh_fpga_psu_exit_module :: "kreg \<Rightarrow> kreg" where
  "nh_fpga_psu_exit_module s = kreg_del nh_fpga_psu_aux_driver s"
definition nh_xcvr_ctrl_init_module :: "reg_env \<Rightarrow> kreg \<Rightarrow> unit result \<times> kreg" where
  "nh_xcvr_ctrl_init_module env s = kreg_add env nh_xcvr_ctrl_aux_driver s"
definition nh_xcvr_ctrl_exit_module :: "kreg \<Rightarrow> kreg" where
  "nh_xcvr_ctrl_exit_module s = kreg_del nh_xcvr_ctrl_aux_driver s"

datatype kmodule =
    Fbiob_pci | Bp4f_i2c_xiic | Nh_fpga_i2c | Nh_fpga_mux | Nh_fpga_info | Nh_fpga_asic_temp
  | Nh_fpga_fan | Nh_xcvr_ctrl | Nh_fpga_led | Nh_fpga_port_led | Nh_fpga_psu

fun mod_init :: "kmodule \<Rightarrow> reg_env \<Rightarrow> kreg \<Rightarrow> unit result \<times> kreg" where
  "mod_init Fbiob_pci = nh_fpga_pci_init"
| "mod_init Bp4f_i2c_xiic = xiic_init_module"
| "mod_init Nh_fpga_i2c = nh_fpga_i2c_init_module"
| "mod_init Nh_fpga_mux = fpga_mux_init"
| "mod_init Nh_fpga_info = nh_fpga_info_init_module"
| "mod_init Nh_fpga_asic_temp = nh_fpga_asic_temp_init_module"
| "mod_init Nh_fpga_fan = nh_fpga_fan_init_module"
| "mod_init Nh_xcvr_ctrl = nh_xcvr_ctrl_init_module"
| "mod_init Nh_fpga_led = nh_led_init_module"
| "mod_init Nh_fpga_port_led = nh_port_led_init_module"
| "mod_init Nh_fpga_psu = nh_fpga_psu_init_module"

fun mod_exit :: "kmodule \<Rightarrow> kreg \<Rightarrow> kreg" where
  "mod_exit Fbiob_pci = nh_fpga_pci_exit"
| "mod_exit Bp4f_i2c_xiic = xiic_exit_module"
| "mod_exit Nh_fpga_i2c = nh_fpga_i2c_exit_module"
| "mod_exit Nh_fpga_mux = fpga_mux_exit"
| "mod_exit Nh_fpga_info = nh_fpga_info_exit_module"
| "mod_exit Nh_fpga_asic_temp = nh_fpga_asic_temp_exit_module"
| "mod_exit Nh_fpga_fan = nh_fpga_fan_exit_module"
| "mod_exit Nh_xcvr_ctrl = nh_xcvr_ctrl_exit_module"
| "mod_exit Nh_fpga_led = nh_led_exit_module"
| "mod_exit Nh_fpga_port_led = nh_port_led_exit_module"
| "mod_exit Nh_fpga_psu = nh_fpga_psu_exit_module"

fun mod_items :: "kmodule \<Rightarrow> kitem list" where
  "mod_items Fbiob_pci = [fbiob_chrdev, nh_fpga_class, nh_fpga_pci_driver]"
| "mod_items Bp4f_i2c_xiic = [xiic_i2c_driver]"
| "mod_items Nh_fpga_i2c = [nh_fpga_i2c_nb, nh_fpga_i2c_aux_driver]"
| "mod_items Nh_fpga_mux = [fpga_mux_driver]"
| "mod_items Nh_fpga_info = [nh_fpga_info_aux_driver]"
| "mod_items Nh_fpga_asic_temp = [nh_fpga_asic_temp_aux_driver]"
| "mod_items Nh_fpga_fan = [nh_fpga_fan_aux_driver]"
| "mod_items Nh_xcvr_ctrl = [nh_xcvr_ctrl_aux_driver]"
| "mod_items Nh_fpga_led = [nh_led_aux_driver]"
| "mod_items Nh_fpga_port_led = [nh_port_led_aux_driver]"
| "mod_items Nh_fpga_psu = [nh_fpga_psu_aux_driver]"

lemmas kitem_defs = fbiob_chrdev_def nh_fpga_class_def nh_fpga_pci_driver_def nh_fpga_i2c_nb_def
  nh_fpga_i2c_aux_driver_def fpga_mux_driver_def xiic_i2c_driver_def nh_fpga_asic_temp_aux_driver_def
  nh_fpga_fan_aux_driver_def nh_fpga_info_aux_driver_def nh_led_aux_driver_def
  nh_port_led_aux_driver_def nh_fpga_psu_aux_driver_def nh_xcvr_ctrl_aux_driver_def

lemmas mod_init_defs = nh_fpga_pci_init_def xiic_init_module_def nh_fpga_i2c_init_module_def
  fpga_mux_init_def nh_fpga_info_init_module_def nh_fpga_asic_temp_init_module_def
  nh_fpga_fan_init_module_def nh_xcvr_ctrl_init_module_def nh_led_init_module_def
  nh_port_led_init_module_def nh_fpga_psu_init_module_def

lemmas mod_exit_defs = nh_fpga_pci_exit_def xiic_exit_module_def nh_fpga_i2c_exit_module_def
  fpga_mux_exit_def nh_fpga_info_exit_module_def nh_fpga_asic_temp_exit_module_def
  nh_fpga_fan_exit_module_def nh_xcvr_ctrl_exit_module_def nh_led_exit_module_def
  nh_port_led_exit_module_def nh_fpga_psu_exit_module_def

end
