(* ===== verification/Module_Props.thy ===== *)
theory Module_Props
  imports Modules
begin

text \<open>
  What loading and unloading modules in any order keeps, and which driver an auxiliary device binds
  to.
\<close>

section \<open>The discipline of an init function\<close>

text \<open>Register the items one by one; if one fails, take back the earlier ones, last first.\<close>

fun load_items :: "reg_env \<Rightarrow> kitem list \<Rightarrow> kitem list \<Rightarrow> kreg \<Rightarrow> unit result \<times> kreg" where
  "load_items env [] done s = (Inr (), s)"
| "load_items env (i # is) done s =
     (case kreg_add env i s of
        (Inl e, s) \<Rightarrow> (Inl e, fold kreg_del done s)
      | (Inr _, s) \<Rightarrow> load_items env is (i # done) s)"

lemma kreg_add_cases:
  obtains e where "env i = Some e" "kreg_add env i s = (Inl e, s)"
  | "env i = None"
    "kreg_add env i s = (Inr (), s\<lparr>kr_items := kr_items s @ [i], kr_log := kr_log s @ [Registered i]\<rparr>)"
  by (cases "env i") (simp_all add: kreg_add_def)

lemma fold_kreg_del:
  "kr_log (fold kreg_del is s) = kr_log s @ map Unregistered is"
  "kr_items (fold kreg_del is s) = fold remove1 is (kr_items s)"
  by (induction "is" arbitrary: s) (simp_all add: kreg_del_def)

lemma fold_remove1_append:
  assumes "distinct (done @ rest)" "set (done @ rest) \<inter> set xs = {}"
  shows "fold remove1 done (xs @ rev done @ rest) = xs @ rest"
  using assms
proof (induction "done" arbitrary: rest)
  case (Cons i "done")
  have "remove1 i (xs @ rev done @ i # rest) = xs @ rev done @ rest"
    using Cons.prems by (auto simp: remove1_append)
  then show ?case using Cons by simp
qed simp

text \<open>
  The outcome: all items, or none and the error of the first that fails. The log shows the items
  registered in order and, after a failure, the earlier ones unregistered in reverse.
\<close>

lemma load_items_outcome:
  assumes "distinct (rev done @ is)" "set (rev done @ is) \<inter> set xs = {}"
    and "kr_items s = xs @ rev done"
  shows "case find (\<lambda>i. env i \<noteq> None) is of
      None \<Rightarrow> load_items env is done s =
        (Inr (), \<lparr>kr_items = xs @ rev done @ is, kr_log = kr_log s @ map Registered is\<rparr>)
    | Some i \<Rightarrow> (let ok = takeWhile (\<lambda>i. env i = None) is in
        load_items env is done s =
          (Inl (the (env i)), \<lparr>kr_items = xs,
             kr_log = kr_log s @ map Registered ok @ map Unregistered (rev ok @ done)\<rparr>))"
  using assms
proof (induction "is" arbitrary: "done" s)
  case Nil
  then show ?case by simp
next
  case (Cons i "is")
  show ?case
  proof (cases rule: kreg_add_cases [of env i s])
    case (1 e)
    have "fold remove1 done (xs @ rev done) = xs"
      using fold_remove1_append [of "done" "[]" xs] Cons.prems by auto
    then show ?thesis
      using 1 Cons.prems(3) by (simp add: fold_kreg_del kreg.equality)
  next
    case 2
    have "distinct (rev (i # done) @ is)" "set (rev (i # done) @ is) \<inter> set xs = {}"
      using Cons.prems(1,2) by auto
    from Cons.IH [OF this, of "s\<lparr>kr_items := kr_items s @ [i], kr_log := kr_log s @ [Registered i]\<rparr>"]
    show ?thesis
      using 2 Cons.prems(3) by (simp add: Let_def split: option.splits)
  qed
qed

lemma mod_init_load: "mod_init m env s = load_items env (mod_items m) [] s"
  by (cases m) (simp_all add: mod_init_defs split: prod.split sum.split)

lemma mod_exit_unload: "mod_exit m s = fold kreg_del (rev (mod_items m)) s"
  by (cases m) (simp_all add: mod_exit_defs)

lemma mod_items_distinct: "distinct (mod_items m)"
  by (cases m) (simp_all add: kitem_defs)

lemma mod_items_disjoint: "m \<noteq> m' \<Longrightarrow> set (mod_items m) \<inter> set (mod_items m') = {}"
  by (cases m; cases m') (simp_all add: kitem_defs)

section \<open>Loading and unloading in any order\<close>

inductive mods_reach ::
    "('m \<Rightarrow> reg_env \<Rightarrow> kreg \<Rightarrow> unit result \<times> kreg) \<Rightarrow> ('m \<Rightarrow> kreg \<Rightarrow> kreg) \<Rightarrow>
     'm list \<Rightarrow> kreg \<Rightarrow> bool"
  for init exit where
  mr_start: "mods_reach init exit [] \<lparr>kr_items = [], kr_log = []\<rparr>"
| mr_load: "mods_reach init exit ms s \<Longrightarrow> m \<notin> set ms \<Longrightarrow> init m env s = (Inr (), s') \<Longrightarrow>
     mods_reach init exit (ms @ [m]) s'"
| mr_load_fails: "mods_reach init exit ms s \<Longrightarrow> m \<notin> set ms \<Longrightarrow> init m env s = (Inl e, s') \<Longrightarrow>
     mods_reach init exit ms s'"
| mr_unload: "mods_reach init exit ms s \<Longrightarrow> m \<in> set ms \<Longrightarrow>
     mods_reach init exit (remove1 m ms) (exit m s)"

locale module_set =
  fixes init :: "'m \<Rightarrow> reg_env \<Rightarrow> kreg \<Rightarrow> unit result \<times> kreg"
    and exit :: "'m \<Rightarrow> kreg \<Rightarrow> kreg"
    and items :: "'m \<Rightarrow> kitem list"
  assumes init_loads: "init m env s = load_items env (items m) [] s"
    and exit_unloads: "exit m s = fold kreg_del (rev (items m)) s"
    and items_distinct: "distinct (items m)"
    and items_disjoint: "m \<noteq> m' \<Longrightarrow> set (items m) \<inter> set (items m') = {}"
begin

definition mods_inv :: "'m list \<Rightarrow> kreg \<Rightarrow> bool" where
  "mods_inv ms s =
     (distinct ms \<and> distinct (kr_items s) \<and> set (kr_items s) = (\<Union>m\<in>set ms. set (items m)))"

lemma fresh: "mods_inv ms s \<Longrightarrow> m \<notin> set ms \<Longrightarrow> set (items m) \<inter> set (kr_items s) = {}"
  using items_disjoint [of m] by (fastforce simp: mods_inv_def)

lemma init_ok:
  assumes inv: "mods_inv ms s" and m: "m \<notin> set ms"
  shows "init m env s = (Inr (), s') \<longleftrightarrow>
    (\<forall>i \<in> set (items m). env i = None) \<and>
    s' = \<lparr>kr_items = kr_items s @ items m, kr_log = kr_log s @ map Registered (items m)\<rparr>"
  using load_items_outcome [of "[]" "items m" "kr_items s" s env] fresh [OF inv m] items_distinct [of m]
  by (auto simp: init_loads Let_def find_None_iff find_Some_iff split: option.splits)

lemma init_fails:
  assumes inv: "mods_inv ms s" and m: "m \<notin> set ms" and r: "init m env s = (Inl e, s')"
  shows "kr_items s' = kr_items s"
  using load_items_outcome [of "[]" "items m" "kr_items s" s env] fresh [OF inv m] items_distinct [of m] r
  by (auto simp: init_loads Let_def split: option.splits)

lemma exit_items:
  assumes "mods_inv ms s" "m \<in> set ms"
  shows "distinct (kr_items (exit m s))" "set (kr_items (exit m s)) = set (kr_items s) - set (items m)"
proof -
  have "distinct (fold remove1 is xs) \<and> set (fold remove1 is xs) = set xs - set is" if "distinct xs"
    for "is" xs :: "kitem list"
    using that by (induction "is" arbitrary: xs) auto
  then show "distinct (kr_items (exit m s))" "set (kr_items (exit m s)) = set (kr_items s) - set (items m)"
    using assms(1) by (simp_all add: exit_unloads fold_kreg_del mods_inv_def)
qed

lemma inv_reach: "mods_reach init exit ms s \<Longrightarrow> mods_inv ms s"
proof (induction rule: mods_reach.induct)
  case mr_start
  then show ?case by (simp add: mods_inv_def)
next
  case (mr_load ms s m env s')
  then show ?case
    using init_ok [OF mr_load.IH mr_load.hyps(2), of env s'] fresh [OF mr_load.IH mr_load.hyps(2)]
      items_distinct [of m]
    by (auto simp: mods_inv_def)
next
  case (mr_load_fails ms s m env e s')
  then show ?case
    using init_fails [OF mr_load_fails.IH mr_load_fails.hyps(2,3)] by (simp add: mods_inv_def)
next
  case (mr_unload ms s m)
  have "(\<Union>m'\<in>set ms. set (items m')) - set (items m) = (\<Union>m'\<in>set ms - {m}. set (items m'))"
    using items_disjoint [of _ m] by blast
  then show ?case
    using mr_unload exit_items [OF mr_unload.IH mr_unload.hyps(2)] by (simp add: mods_inv_def)
qed

text \<open>Unloading right after loading restores the registrations, in reverse order.\<close>

lemma init_exit:
  assumes inv: "mods_inv ms s" and m: "m \<notin> set ms" and r: "init m env s = (Inr (), s')"
  shows "kr_items (exit m s') = kr_items s"
    and "kr_log (exit m s') = kr_log s @ map Registered (items m) @ map Unregistered (rev (items m))"
  using init_ok [OF inv m, of env s'] r fresh [OF inv m] items_distinct [of m]
    fold_remove1_append [of "rev (items m)" "[]" "kr_items s"]
  by (auto simp: exit_unloads fold_kreg_del)

end

interpretation kmods: module_set mod_init mod_exit mod_items
  by unfold_locales
    (simp_all add: mod_init_load mod_exit_unload mod_items_distinct mod_items_disjoint)

section \<open>Which driver an auxiliary device binds to\<close>

text \<open>
  The auxiliary bus names a device after the module that adds it, its name and its id, and a driver
  claims it when what precedes the last dot is one of the driver's ids. The driver's probe gets the
  id that matched.
\<close>

definition aux_dev_name :: "nh_fpga_aux_dev \<Rightarrow> string" where
  "aux_dev_name a =
     ''fbiob_pci.'' @ aux_name (ax_id (dev_info a)) @ ''.'' @ dec_int (sint (aux_id (ax_id (dev_info a))))"

definition before_last_dot :: "string \<Rightarrow> string option" where
  "before_last_dot s =
     (if CHR ''.'' \<in> set s then Some (rev (tl (dropWhile (\<lambda>c. c \<noteq> CHR ''.'') (rev s)))) else None)"

fun aux_claims :: "string \<Rightarrow> kitem \<Rightarrow> bool" where
  "aux_claims dev_name (Aux_driver _ tab) =
     (case before_last_dot dev_name of None \<Rightarrow> False | Some pre \<Rightarrow> pre \<in> set tab)"
| "aux_claims dev_name _ = False"

text \<open>The names of \<open>fbiob_aux_id\<close> that the drivers of the repository serve.\<close>

fun mod_serves :: "kmodule \<Rightarrow> string list" where
  "mod_serves Nh_fpga_i2c = [''i2c_master'', ''i2c_master_ext'']"
| "mod_serves Nh_fpga_info = [''fpga_info_iob'', ''fpga_info_dom'', ''fpga_info'']"
| "mod_serves Nh_fpga_asic_temp = [''asic_temp'']"
| "mod_serves Nh_fpga_fan = [''fan_ctrl'']"
| "mod_serves Nh_xcvr_ctrl = [''xcvr_ctrl'']"
| "mod_serves Nh_fpga_led = [''psu_led'', ''fan_led'', ''sys_led'', ''mgmt_qsfp_led'']"
| "mod_serves Nh_fpga_port_led = [''port_led'']"
| "mod_serves Nh_fpga_psu = [''psu_present'']"
| "mod_serves _ = []"

lemma dec_int_no_dot: "CHR ''.'' \<notin> set (dec_int i)"
  using dec_is_digit [of "CHR ''.''"] by (auto simp: dec_int_def is_digit_def)

lemma before_last_dot_append: "CHR ''.'' \<notin> set t \<Longrightarrow> before_last_dot (p @ ''.'' @ t) = Some p"
proof -
  assume "CHR ''.'' \<notin> set t"
  then have "dropWhile (\<lambda>c. c \<noteq> CHR ''.'') (rev t @ CHR ''.'' # rev p) = CHR ''.'' # rev p"
    by (subst dropWhile_append2) auto
  then show ?thesis by (simp add: before_last_dot_def)
qed

lemma aux_dev_prefix:
  "before_last_dot (aux_dev_name a) = Some (''fbiob_pci.'' @ aux_name (ax_id (dev_info a)))"
  using before_last_dot_append [OF dec_int_no_dot, of "''fbiob_pci.'' @ aux_name (ax_id (dev_info a))"]
  by (simp add: aux_dev_name_def)

lemma aux_claims_iff:
  "aux_claims (aux_dev_name a) (Aux_driver nm tab) \<longleftrightarrow>
     ''fbiob_pci.'' @ aux_name (ax_id (dev_info a)) \<in> set tab"
  by (simp add: aux_dev_prefix)

lemmas id_table_defs = nh_fpga_i2c_aux_id_table_def nh_fpga_info_aux_id_table_def
  nh_fpga_asic_temp_aux_id_table_def nh_fpga_fan_aux_id_table_def nh_led_aux_id_table_def
  nh_port_led_aux_id_table_def nh_fpga_psu_aux_id_table_def nh_xcvr_ctrl_aux_id_table_def

fun_cases aux_claimsE: "aux_claims dev_name i"

lemma claims_only_drivers: "aux_claims dev_name i \<Longrightarrow> \<exists>nm tab. i = Aux_driver nm tab"
  by (erule aux_claimsE) simp

text \<open>A module's items claim a device by its name; no name is served by two modules.\<close>

lemma claiming_items:
  "\<exists>i. filter (aux_claims (aux_dev_name a)) (mod_items m) =
     (if aux_name (ax_id (dev_info a)) \<in> set (mod_serves m) then [i] else [])"
  by (cases m) (simp_all add: kitem_defs aux_claims_iff id_table_defs del: aux_claims.simps(1))

lemma served_once: "nm \<in> set (mod_serves m) \<Longrightarrow> nm \<in> set (mod_serves m') \<Longrightarrow> m = m'"
  by (cases m; cases m') auto

section \<open>Loading everything\<close>

text \<open>The modules as a finite type, in the order of the \<open>Makefile\<close>.\<close>

instantiation kmodule :: enum
begin

definition enum_kmodule :: "kmodule list" where
  "enum_kmodule = [Fbiob_pci, Bp4f_i2c_xiic, Nh_fpga_i2c, Nh_fpga_mux, Nh_fpga_info, Nh_fpga_asic_temp,
     Nh_fpga_fan, Nh_xcvr_ctrl, Nh_fpga_led, Nh_fpga_port_led, Nh_fpga_psu]"

definition enum_all_kmodule :: "(kmodule \<Rightarrow> bool) \<Rightarrow> bool" where
  "enum_all_kmodule P = list_all P Enum.enum"

definition enum_ex_kmodule :: "(kmodule \<Rightarrow> bool) \<Rightarrow> bool" where
  "enum_ex_kmodule P = list_ex P Enum.enum"

instance
proof
  show univ: "(UNIV :: kmodule set) = set Enum.enum"
  proof -
    have "m \<in> set Enum.enum" for m :: kmodule by (cases m) (simp_all add: enum_kmodule_def)
    then show ?thesis by auto
  qed
  show "distinct (Enum.enum :: kmodule list)" by (simp add: enum_kmodule_def)
  show "Enum.enum_all P \<longleftrightarrow> Ball UNIV P" for P :: "kmodule \<Rightarrow> bool"
    by (simp add: enum_all_kmodule_def list_all_iff univ)
  show "Enum.enum_ex P \<longleftrightarrow> Bex UNIV P" for P :: "kmodule \<Rightarrow> bool"
    by (simp add: enum_ex_kmodule_def list_ex_iff univ)
qed

end

text \<open>With every registration succeeding, the modules load in any order and all names are served.\<close>

lemma load_modules:
  assumes "mods_reach mod_init mod_exit ms s" "distinct ms'" "set ms' \<inter> set ms = {}"
  shows "\<exists>s'. mods_reach mod_init mod_exit (ms @ ms') s' \<and>
    kr_items s' = kr_items s @ concat (map mod_items ms')"
  using assms
proof (induction ms' arbitrary: ms s)
  case Nil
  then show ?case by auto
next
  case (Cons m ms')
  let ?s = "\<lparr>kr_items = kr_items s @ mod_items m, kr_log = kr_log s @ map Registered (mod_items m)\<rparr>"
  have "mod_init m (\<lambda>_. None) s = (Inr (), ?s)"
    using kmods.init_ok [OF kmods.inv_reach [OF Cons.prems(1)], of m "\<lambda>_. None"] Cons.prems(3) by simp
  then have "mods_reach mod_init mod_exit (ms @ [m]) ?s"
    using Cons.prems by (intro mr_load [where env = "\<lambda>_. None"]) auto
  from Cons.IH [OF this] Cons.prems show ?case by auto
qed

lemma boot:
  "\<exists>s. mods_reach mod_init mod_exit Enum.enum s \<and> kr_items s = concat (map mod_items Enum.enum)"
  using load_modules [OF mr_start, of Enum.enum] by (simp add: enum_distinct)

section \<open>Properties\<close>

text \<open>
  C17: Whatever was loaded and unloaded before, loading a module registers all its items in order, or
  fails with the error of the first registration that fails and has then taken back exactly what it
  had registered, last first; and unloading it takes everything back in reverse.
\<close>

theorem module_load_unload:
  assumes reach: "mods_reach mod_init mod_exit ms s" and m: "m \<notin> set ms"
    and load: "mod_init m env s = (r, s')"
  shows "case find (\<lambda>i. env i \<noteq> None) (mod_items m) of
      Some i \<Rightarrow> (let ok = takeWhile (\<lambda>i. env i = None) (mod_items m) in
        r = Inl (the (env i)) \<and> kr_items s' = kr_items s \<and>
        kr_log s' = kr_log s @ map Registered ok @ map Unregistered (rev ok))
    | None \<Rightarrow>
        r = Inr () \<and> kr_items s' = kr_items s @ mod_items m \<and>
        kr_items (mod_exit m s') = kr_items s \<and>
        kr_log (mod_exit m s') =
          kr_log s @ map Registered (mod_items m) @ map Unregistered (rev (mod_items m))"
proof -
  note inv = kmods.inv_reach [OF reach]
  have out: "case find (\<lambda>i. env i \<noteq> None) (mod_items m) of
      None \<Rightarrow> (r, s') = (Inr (), \<lparr>kr_items = kr_items s @ mod_items m,
        kr_log = kr_log s @ map Registered (mod_items m)\<rparr>)
    | Some i \<Rightarrow> (let ok = takeWhile (\<lambda>i. env i = None) (mod_items m) in
        (r, s') = (Inl (the (env i)), \<lparr>kr_items = kr_items s,
             kr_log = kr_log s @ map Registered ok @ map Unregistered (rev ok)\<rparr>))"
    using load_items_outcome [of "[]" "mod_items m" "kr_items s" s env] kmods.fresh [OF inv m]
      mod_items_distinct [of m] load by (simp add: mod_init_load Let_def split: option.splits)
  show ?thesis
  proof (cases "find (\<lambda>i. env i \<noteq> None) (mod_items m)")
    case None
    with out have "r = Inr ()" "kr_items s' = kr_items s @ mod_items m" by simp_all
    moreover from this have "mod_init m env s = (Inr (), s')" using load by simp
    ultimately show ?thesis using None kmods.init_exit [OF inv m] by simp
  next
    case (Some i)
    with out show ?thesis by (simp add: Let_def)
  qed
qed

theorem module_load_unload_witness:
  "let env = (\<lambda>i. if i = nh_fpga_class then Some ENOMEM else None);
       (r, s) = mod_init Fbiob_pci env \<lparr>kr_items = [], kr_log = []\<rparr>
   in r = Inl ENOMEM \<and> kr_items s = [] \<and>
      kr_log s = [Registered fbiob_chrdev, Unregistered fbiob_chrdev]"
proof -
  let ?env = "\<lambda>i. if i = nh_fpga_class then Some ENOMEM else None"
  obtain r s where rs: "mod_init Fbiob_pci ?env \<lparr>kr_items = [], kr_log = []\<rparr> = (r, s)"
    by (cases "mod_init Fbiob_pci ?env \<lparr>kr_items = [], kr_log = []\<rparr>")
  have ne: "fbiob_chrdev \<noteq> nh_fpga_class" by (simp add: kitem_defs)
  show ?thesis
    using module_load_unload [OF mr_start _ rs] ne
    by (simp add: rs Let_def del: mod_init.simps)
qed

text \<open>
  C18: After any loading and unloading of modules, an auxiliary device that the ioctl creates is claimed
  by exactly one driver when a module that serves its name is loaded, and by none otherwise.
\<close>

theorem aux_device_binding:
  assumes reach: "mods_reach mod_init mod_exit ms s"
  shows "length (filter (aux_claims (aux_dev_name a)) (kr_items s)) =
    (if \<exists>m \<in> set ms. aux_name (ax_id (dev_info a)) \<in> set (mod_serves m) then 1 else 0)"
proof -
  let ?P = "aux_claims (aux_dev_name a)" and ?nm = "aux_name (ax_id (dev_info a))"
  from kmods.inv_reach [OF reach] have d: "distinct (kr_items s)"
    and items: "set (kr_items s) = (\<Union>m\<in>set ms. set (mod_items m))"
    by (simp_all add: kmods.mods_inv_def)
  have serving: "?nm \<in> set (mod_serves m)" if "i \<in> set (filter ?P (mod_items m))" for i m
    using claiming_items [of a m] that by (cases "?nm \<in> set (mod_serves m)") auto
  have "set (filter ?P (kr_items s)) = (\<Union>m\<in>set ms. set (filter ?P (mod_items m)))"
    using items by auto
  also have "\<dots> = (\<Union>m\<in>{m \<in> set ms. ?nm \<in> set (mod_serves m)}. set (filter ?P (mod_items m)))"
    using serving by blast
  finally have claims: "set (filter ?P (kr_items s)) = \<dots>" .
  have "card (set (filter ?P (kr_items s))) = (if \<exists>m \<in> set ms. ?nm \<in> set (mod_serves m) then 1 else 0)"
  proof (cases "\<exists>m \<in> set ms. ?nm \<in> set (mod_serves m)")
    case True
    then obtain m where m: "m \<in> set ms" "?nm \<in> set (mod_serves m)" by blast
    then have "{m \<in> set ms. ?nm \<in> set (mod_serves m)} = {m}" using served_once by blast
    moreover obtain i where "filter ?P (mod_items m) = [i]" using claiming_items [of a m] m by auto
    ultimately show ?thesis unfolding claims using True by simp
  next
    case False
    then have none: "{m \<in> set ms. ?nm \<in> set (mod_serves m)} = {}" by blast
    show ?thesis unfolding claims none using False by auto
  qed
  then show ?thesis using d by (simp add: distinct_card flip: set_filter)
qed

theorem aux_device_binding_witness:
  "\<exists>s. mods_reach mod_init mod_exit Enum.enum s \<and>
     length (filter (aux_claims (aux_dev_name
       \<lparr>ad_parent = 0, dev_info = \<lparr>ax_id = \<lparr>aux_name = ''sys_led'', aux_id = 1\<rparr>, ax_csr_offset = 0,
          ax_iobuf_offset = 0, ax_words = []\<rparr>, csr_base = 0, iobuf_base = None\<rparr>)) (kr_items s)) = 1"
proof -
  obtain s where s: "mods_reach mod_init mod_exit Enum.enum s" using boot by blast
  have "Nh_fpga_led \<in> set Enum.enum" by (simp add: enum_kmodule_def)
  then show ?thesis using s aux_device_binding [OF s] by force
qed

end
