(* ===== verification/Aux_Stack.thy ===== *)
theory Aux_Stack
  imports Fbiob_Props Xcvr_Props
begin

text \<open>
  From the ioctl to the registers: a transceiver control that user space creates through the
  character device of its FPGA, the probe that the auxiliary bus runs for it, and the register its
  attribute writes. The ioctl checks that the device's registers start inside BAR0, not that they
  end there.
\<close>

lemma xcvr_port_1_probe:
  "nh_xcvr_ctrl_probe kenv_ok NH_FPGA_DEVICE_M4340NHP base 1 =
     Inr [\<lparr>xd_attrs = xcvr_attr_names 1, xd_drvdata = None\<rparr>,
          \<lparr>xd_attrs = xcvr_attr_names 1,
           xd_drvdata = Some (xcvr_ctrl_for base 1 1 (m4340nhp_xcvr_groups ! 0))\<rparr>]"
proof -
  have acc: "xcvr_accepts NH_FPGA_DEVICE_M4340NHP 1"
    unfolding xcvr_accepts_def get_platforms option.case
    by (simp add: platform_xcvr_ports_def device_id_defs)
  have slot: "xcvr_ctrl_slot_for_port (Some m4340nhp_xcvr) 1 = 1"
    by (simp add: xcvr_ctrl_slot_for_port_def m4340nhp_xcvr_def)
  have grp: "xcvr_ctrl_find_port_group (Some m4340nhp_xcvr) 1 = Some (m4340nhp_xcvr_groups ! 0)"
    by (simp add: xcvr_ctrl_find_port_group_def xcvr_tab_groups m4340nhp_xcvr_groups_def group_covers_def)
  obtain sts where sts: "nh_xcvr_ctrl_probe kenv_ok NH_FPGA_DEVICE_M4340NHP base 1 = Inr sts"
    using xcvr_probe_ok [OF acc] by blast
  from xcvr_probe_Inr [OF sts] show ?thesis
    using sts grp by (auto simp: slot)
qed

text \<open>Where the low-power attribute of a port of the first group writes: four bytes past the base.\<close>

lemma low_power_write:
  "xcvr_low_power_store (xcvr_ctrl_for base 1 1 (m4340nhp_xcvr_groups ! 0)) ''1'' m =
     (Inr 1, xcvr_ctrl_for base 1 1 (m4340nhp_xcvr_groups ! 0),
      iowrite32 (ioread32 m (base + 4) OR 1) (base + 4) m)"
proof -
  have "kstrtoint ''1'' = Inr 1" by code_simp
  then show ?thesis
    by (simp add: xcvr_low_power_store_def nh_xcvr_ctrl_write_reg_def xcvr_ctrl_for_def Let_def
        m4340nhp_xcvr_groups_def BIT_def)
qed

lemma unat_word_of_nat_u32: "n < 2 ^ 32 \<Longrightarrow> unat (word_of_nat n :: u32) = n"
  by (simp add: unat_of_nat take_bit_nat_eq_self)

definition last_word_data :: "u64 \<Rightarrow> u32 \<Rightarrow> fbiob_aux_data" where
  "last_word_data len i =
     \<lparr>ax_id = \<lparr>aux_name = ''xcvr_ctrl'', aux_id = i\<rparr>, ax_csr_offset = word_of_nat (unat len - 4),
      ax_iobuf_offset = FBIOB_INVALID_OFFSET, ax_words = [1]\<rparr>"

lemma last_word_terminated: "terminate_id (last_word_data len i) = last_word_data len i"
  by (simp add: terminate_id_def terminate_name_def last_word_data_def NAME_MAX_def)

text \<open>
  C25: On an M4340NHP FPGA whose BAR0 is shorter than 4 GiB, the ioctl accepts a transceiver control
  whose registers start in the last word of the BAR; the driver's probe accepts the device, and
  writing its low-power attribute writes the word just behind the BAR.
\<close>

theorem ioctl_csr_offset_overrun:
  assumes fd: "fs_devs s p = Some fd" "fd_device_id fd = NH_FPGA_DEVICE_M4340NHP"
    and len: "4 \<le> unat (fd_mmio_len fd)" "unat (fd_mmio_len fd) < 2 ^ 32"
    and fresh: "\<not> list_ex (same_aux_id \<lparr>aux_name = ''xcvr_ctrl'', aux_id = i\<rparr>) (aux_dev_list fd)"
  shows "\<exists>s' a sts ctrl m' v.
    sys_ioctl aux_env_ok p FBIOB_IOC_NEW_DEVICE (Some (last_word_data (fd_mmio_len fd) i)) s = (Inr (), s') \<and>
    a \<in> set (fs_bus s') \<and>
    nh_xcvr_ctrl_probe kenv_ok (fd_device_id fd) (csr_base a) (xcvr_data_port_num (dev_info a)) = Inr sts \<and>
    xd_drvdata (last sts) = Some ctrl \<and>
    xcvr_low_power_store ctrl ''1'' m = (Inr 1, ctrl, m') \<and>
    wlog m' = wlog m @ [(unat (fd_mmio_len fd), v)]"
proof -
  let ?d = "last_word_data (fd_mmio_len fd) i"
  let ?a = "aux_dev_for fd ?d"
  have csr: "unat (ax_csr_offset ?d) = unat (fd_mmio_len fd) - 4"
    unfolding last_word_data_def fbiob_aux_data.select_convs
    by (rule unat_word_of_nat_u32) (use len in linarith)
  have base: "csr_base ?a = unat (fd_mmio_len fd) - 4" by (simp add: aux_dev_for_def csr)
  have "\<not> offsets_bad fd ?d"
    using len by (simp add: offsets_bad_def csr) (simp add: last_word_data_def)
  moreover have "\<not> list_ex (same_aux_id (ax_id ?d)) (aux_dev_list fd)"
    using fresh by (simp add: last_word_data_def)
  ultimately have io: "\<exists>s'. sys_ioctl aux_env_ok p FBIOB_IOC_NEW_DEVICE (Some ?d) s = (Inr (), s') \<and>
      ?a \<in> set (fs_bus s')"
    using fd(1)
    by (simp add: sys_ioctl_def fbiob_ioctl_def ioctl_cmds nh_fpga_create_aux_device_def Let_def
        aux_env_ok_def last_word_terminated)
  have port: "xcvr_data_port_num (dev_info ?a) = 1"
    by (simp add: xcvr_data_port_num_def aux_dev_for_def last_word_data_def)
  obtain s' where s': "sys_ioctl aux_env_ok p FBIOB_IOC_NEW_DEVICE (Some ?d) s = (Inr (), s')"
    "?a \<in> set (fs_bus s')" using io by blast
  have "csr_base ?a + 4 = unat (fd_mmio_len fd)" using base len by simp
  then have wlog: "wlog (iowrite32 v (csr_base ?a + 4) m) = wlog m @ [(unat (fd_mmio_len fd), v)]" for v
    by simp
  show ?thesis
    by (rule exI, rule exI [of _ ?a], intro exI conjI, rule s'(1), rule s'(2),
        unfold fd(2) port, rule xcvr_port_1_probe, simp, rule low_power_write, rule wlog)
qed

theorem ioctl_csr_offset_overrun_witness:
  "\<exists>s s' a sts ctrl m'. fbiob_reach s \<and>
     sys_ioctl aux_env_ok 3 FBIOB_IOC_NEW_DEVICE (Some (last_word_data 0x100000 1)) s = (Inr (), s') \<and>
     a \<in> set (fs_bus s') \<and>
     nh_xcvr_ctrl_probe kenv_ok NH_FPGA_DEVICE_M4340NHP (csr_base a) (xcvr_data_port_num (dev_info a)) = Inr sts \<and>
     xd_drvdata (last sts) = Some ctrl \<and>
     snd (snd (xcvr_low_power_store ctrl ''1'' \<lparr>regs = \<lambda>_. 0, wlog = []\<rparr>)) = m' \<and>
     map fst (wlog m') = [0x100000]"
proof -
  obtain s fi where s: "fbiob_reach s" "fs_devs s 3 = Some \<lparr>fd_pdev = 3, fd_device_id = NH_FPGA_DEVICE_M4340NHP,
     fd_mmio_len = 0x100000, fd_minor = 0, aux_dev_list = [], fd_irq = fi\<rparr>" (is "_ = Some ?fd")
    using one_fpga by blast
  from ioctl_csr_offset_overrun [OF s(2), of 1 "\<lparr>regs = \<lambda>_. 0, wlog = []\<rparr>"]
  obtain s' a sts ctrl m' v where
    "sys_ioctl aux_env_ok 3 FBIOB_IOC_NEW_DEVICE (Some (last_word_data 0x100000 1)) s = (Inr (), s')"
    "a \<in> set (fs_bus s')"
    "nh_xcvr_ctrl_probe kenv_ok NH_FPGA_DEVICE_M4340NHP (csr_base a) (xcvr_data_port_num (dev_info a)) = Inr sts"
    "xd_drvdata (last sts) = Some ctrl"
    "xcvr_low_power_store ctrl ''1'' \<lparr>regs = \<lambda>_. 0, wlog = []\<rparr> = (Inr 1, ctrl, m')"
    "wlog m' = [(0x100000, v)]"
    by auto
  with s(1) show ?thesis
    by (intro exI [of _ s] exI [of _ s'] exI [of _ a] exI [of _ sts] exI [of _ ctrl] exI [of _ m'] conjI)
      simp_all
qed

end
