(* ===== verification/Aux_Lifetime.thy ===== *)
theory Aux_Lifetime
  imports Aux_Dev
begin

text \<open>
  The memory of auxiliary devices: \<open>kmods/nh_fpga_aux.c\<close> and the removal of
  \<open>kmods/nh_fpga_fbiob_main.c\<close> once more, on pointers. A device is allocated on creation and freed by
  its release callback, when the last reference to it goes, or by the creation itself if it never
  had one. References are counted by the auxiliary bus of the kernel, which is a parameter with a
  hypothesis; other parts of the kernel take and drop references of their own at any time.
\<close>

section \<open>Memory\<close>

text \<open>
  \<open>am_objs\<close> holds the live structures by address (the allocator may hand out the address of a freed
  one again), \<open>am_refs\<close> the reference count of each, \<open>am_bus\<close> what is registered with the bus,
  \<open>am_list\<close> the list of the FPGA and \<open>am_doomed\<close> the local list of a removal in progress.
  \<open>am_fault\<close>: freed memory was accessed or freed again.
\<close>

record aux_mem =
  am_objs :: "nat \<Rightarrow> nh_fpga_aux_dev option"
  am_refs :: "nat \<Rightarrow> nat"
  am_bus :: "nat set"
  am_list :: "nat list"
  am_doomed :: "nat list"
  am_fault :: bool

definition aux_mem_init :: aux_mem where
  "aux_mem_init = \<lparr>am_objs = (\<lambda>_. None), am_refs = (\<lambda>_. 0), am_bus = {}, am_list = [], am_doomed = [], am_fault = False\<rparr>"

definition live :: "aux_mem \<Rightarrow> nat \<Rightarrow> bool" where
  "live m p = (am_objs m p \<noteq> None)"

definition kfree :: "nat \<Rightarrow> aux_mem \<Rightarrow> aux_mem" where
  "kfree p m = (if live m p then m\<lparr>am_objs := (am_objs m)(p := None)\<rparr> else m\<lparr>am_fault := True\<rparr>)"

definition touch :: "nat list \<Rightarrow> aux_mem \<Rightarrow> aux_mem" where
  "touch ps m = (if list_all (live m) ps then m else m\<lparr>am_fault := True\<rparr>)"

definition nh_fpga_aux_device_release :: "nat option \<Rightarrow> aux_mem \<Rightarrow> aux_mem" where
  "nh_fpga_aux_device_release dev m = (case dev of None \<Rightarrow> m | Some p \<Rightarrow> kfree p m)"

section \<open>The auxiliary bus\<close>

record aux_core =
  xc_alloc :: "aux_mem \<Rightarrow> nat option"
  xc_init :: "nat \<Rightarrow> aux_mem \<Rightarrow> unit result \<times> aux_mem"
  xc_add :: "nat \<Rightarrow> aux_mem \<Rightarrow> unit result \<times> aux_mem"
  xc_delete :: "nat \<Rightarrow> aux_mem \<Rightarrow> aux_mem"
  xc_uninit :: "nat \<Rightarrow> aux_mem \<Rightarrow> aux_mem"

text \<open>The count drops by one; the last reference calls the release callback.\<close>

definition ref_dropped :: "nat \<Rightarrow> aux_mem \<Rightarrow> aux_mem" where
  "ref_dropped p m =
     (let m' = m\<lparr>am_refs := (am_refs m)(p := am_refs m p - 1)\<rparr>
      in if am_refs m p = 1 then nh_fpga_aux_device_release (Some p) m' else m')"

text \<open>
  What the kernel documents: the allocator returns memory that is not in use;
  \<open>auxiliary_device_init\<close> gives the device its first reference or fails without one;
  \<open>auxiliary_device_add\<close> registers it or fails; \<open>auxiliary_device_delete\<close> takes it off the bus and
  \<open>auxiliary_device_uninit\<close> drops a reference. Each is documented for a pointer to a live structure
  only, the last for one with a reference; elsewhere they may do anything.
\<close>

definition aux_documented :: "aux_core \<Rightarrow> bool" where
  "aux_documented core =
     ((\<forall>m p. xc_alloc core m = Some p \<longrightarrow> \<not> live m p)
      \<and> (\<forall>m p. live m p \<longrightarrow>
           ((\<exists>e. xc_init core p m = (Inl e, m)) \<or> xc_init core p m = (Inr (), m\<lparr>am_refs := (am_refs m)(p := 1)\<rparr>))
         \<and> ((\<exists>e. xc_add core p m = (Inl e, m)) \<or> xc_add core p m = (Inr (), m\<lparr>am_bus := insert p (am_bus m)\<rparr>))
         \<and> xc_delete core p m = m\<lparr>am_bus := am_bus m - {p}\<rparr>
         \<and> (0 < am_refs m p \<longrightarrow> xc_uninit core p m = ref_dropped p m)))"

section \<open>Creation and removal\<close>

text \<open>The walk over the list up to a device of this name and id: whether it met a freed entry, and
  the entry found. An operation that meets a freed entry ends there, with the fault recorded.\<close>

primrec aux_walk :: "(nat \<Rightarrow> nh_fpga_aux_dev option) \<Rightarrow> fbiob_aux_id \<Rightarrow> nat list \<Rightarrow> bool \<times> nat option" where
  "aux_walk objs i [] = (False, None)"
| "aux_walk objs i (p # ps) =
     (case objs p of
        None \<Rightarrow> (True, None)
      | Some a \<Rightarrow> if same_aux_id i a then (False, Some p) else aux_walk objs i ps)"

definition mem_create :: "aux_core \<Rightarrow> nh_fpga_pci_dev \<Rightarrow> fbiob_aux_data \<Rightarrow> aux_mem \<Rightarrow> unit result \<times> aux_mem" where
  "mem_create core fd info m =
     (case aux_walk (am_objs m) (ax_id info) (am_list m) of
        (True, _) \<Rightarrow> (Inl EFAULT, m\<lparr>am_fault := True\<rparr>)
      | (False, Some _) \<Rightarrow> (Inl EEXIST, m)
      | (False, None) \<Rightarrow>
        (case xc_alloc core m of
           None \<Rightarrow> (Inl ENOMEM, m)
         | Some p \<Rightarrow>
           let m = m\<lparr>am_objs := (am_objs m)(p \<mapsto> aux_dev_for fd info)\<rparr>
           in case xc_init core p m of
                (Inl e, m) \<Rightarrow> (Inl e, kfree p m)
              | (Inr _, m) \<Rightarrow>
                (case xc_add core p m of
                   (Inl e, m) \<Rightarrow> (Inl e, xc_uninit core p m)
                 | (Inr _, m) \<Rightarrow> (Inr (), m\<lparr>am_list := am_list m @ [p]\<rparr>))))"

text \<open>Taking an entry off a list writes to its neighbours; \<open>touch\<close> asks for the whole list.\<close>

definition mem_remove :: "aux_core \<Rightarrow> fbiob_aux_id \<Rightarrow> aux_mem \<Rightarrow> unit result \<times> aux_mem" where
  "mem_remove core i m =
     (case aux_walk (am_objs m) i (am_list m) of
        (True, _) \<Rightarrow> (Inl EFAULT, m\<lparr>am_fault := True\<rparr>)
      | (False, None) \<Rightarrow> (Inl ENODEV, m)
      | (False, Some p) \<Rightarrow>
          let m = touch (am_list m) m;
              m = m\<lparr>am_list := remove1 p (am_list m)\<rparr>
          in (Inr (), xc_uninit core p (xc_delete core p m)))"

text \<open>
  The removal of the FPGA: the list is moved to a local one under the lock; then, without the lock,
  the devices of that list go one after the other.
\<close>

definition mem_splice :: "aux_mem \<Rightarrow> aux_mem" where
  "mem_splice m = (touch (am_list m) m)\<lparr>am_list := [], am_doomed := am_list m\<rparr>"

definition mem_remove_next :: "aux_core \<Rightarrow> aux_mem \<Rightarrow> aux_mem" where
  "mem_remove_next core m =
     (case am_doomed m of
        [] \<Rightarrow> m
      | p # ps \<Rightarrow> let m = (touch (am_doomed m) m)\<lparr>am_doomed := ps\<rparr> in xc_uninit core p (xc_delete core p m))"

section \<open>Runs\<close>

text \<open>
  The second component counts the references others hold. A reference is taken from the bus or from
  another reference, and dropped once. The list is spliced at most once at a time.
\<close>

inductive aux_mem_step ::
    "aux_core \<Rightarrow> nh_fpga_pci_dev \<Rightarrow> aux_mem \<times> (nat \<Rightarrow> nat) \<Rightarrow> aux_mem \<times> (nat \<Rightarrow> nat) \<Rightarrow> bool"
  for core fd where
  m_create: "aux_mem_step core fd (m, us) (snd (mem_create core fd info m), us)"
| m_remove: "aux_mem_step core fd (m, us) (snd (mem_remove core i m), us)"
| m_splice: "am_doomed m = [] \<Longrightarrow> aux_mem_step core fd (m, us) (mem_splice m, us)"
| m_next: "aux_mem_step core fd (m, us) (mem_remove_next core m, us)"
| m_get: "p \<in> am_bus m \<or> 0 < us p \<Longrightarrow>
    aux_mem_step core fd (m, us) (m\<lparr>am_refs := (am_refs m)(p := am_refs m p + 1)\<rparr>, us(p := us p + 1))"
| m_put: "0 < us p \<Longrightarrow> aux_mem_step core fd (m, us) (xc_uninit core p m, us(p := us p - 1))"

inductive aux_mem_reach :: "aux_core \<Rightarrow> nh_fpga_pci_dev \<Rightarrow> aux_mem \<times> (nat \<Rightarrow> nat) \<Rightarrow> bool" for core fd where
  m_init: "aux_mem_reach core fd (aux_mem_init, \<lambda>_. 0)"
| m_step: "aux_mem_reach core fd st \<Longrightarrow> aux_mem_step core fd st st' \<Longrightarrow> aux_mem_reach core fd st'"

text \<open>
  Every entry of the two lists holds one reference and is registered; a structure is live exactly
  while it has a reference.
\<close>

definition aux_mem_ok :: "aux_mem \<Rightarrow> (nat \<Rightarrow> nat) \<Rightarrow> bool" where
  "aux_mem_ok m us =
     (\<not> am_fault m \<and> distinct (am_list m @ am_doomed m) \<and> am_bus m = set (am_list m @ am_doomed m)
      \<and> (\<forall>p. live m p \<longleftrightarrow> p \<in> am_bus m \<or> 0 < us p)
      \<and> (\<forall>p. live m p \<longrightarrow> am_refs m p = us p + (if p \<in> am_bus m then 1 else 0)))"

lemma aux_mem_okD:
  assumes "aux_mem_ok m us"
  shows "\<not> am_fault m" "distinct (am_list m @ am_doomed m)" "am_bus m = set (am_list m) \<union> set (am_doomed m)"
    "live m p \<longleftrightarrow> p \<in> am_bus m \<or> 0 < us p" "live m p \<Longrightarrow> am_refs m p = us p + (if p \<in> am_bus m then 1 else 0)"
    "list_all (live m) (am_list m)" "list_all (live m) (am_doomed m)"
  using assms unfolding aux_mem_ok_def by (auto simp: list_all_iff)

lemma touch_live: "list_all (live m) ps \<Longrightarrow> touch ps m = m"
  by (simp add: touch_def)

lemma live_upd [simp]:
  "live (m\<lparr>am_refs := r\<rparr>) p = live m p" "live (m\<lparr>am_bus := b\<rparr>) p = live m p"
  "live (m\<lparr>am_list := l\<rparr>) p = live m p" "live (m\<lparr>am_doomed := d\<rparr>) p = live m p"
  "live (m\<lparr>am_objs := f\<rparr>) p = (f p \<noteq> None)"
  by (simp_all add: live_def)

lemma aux_coreD:
  assumes "aux_documented core"
  shows "xc_alloc core m = Some p \<Longrightarrow> \<not> live m p"
    "live m p \<Longrightarrow> (\<exists>e. xc_init core p m = (Inl e, m)) \<or> xc_init core p m = (Inr (), m\<lparr>am_refs := (am_refs m)(p := 1)\<rparr>)"
    "live m p \<Longrightarrow> (\<exists>e. xc_add core p m = (Inl e, m)) \<or> xc_add core p m = (Inr (), m\<lparr>am_bus := insert p (am_bus m)\<rparr>)"
    "live m p \<Longrightarrow> xc_delete core p m = m\<lparr>am_bus := am_bus m - {p}\<rparr>"
    "live m p \<Longrightarrow> 0 < am_refs m p \<Longrightarrow> xc_uninit core p m = ref_dropped p m"
  using assms unfolding aux_documented_def by blast+

text \<open>Dropping a reference of a live structure frees it or leaves it a reference.\<close>

lemma ref_dropped_live:
  assumes "live m p"
  shows "ref_dropped p m =
     (if am_refs m p = 1 then m\<lparr>am_refs := (am_refs m)(p := 0), am_objs := (am_objs m)(p := None)\<rparr>
      else m\<lparr>am_refs := (am_refs m)(p := am_refs m p - 1)\<rparr>)"
  using assms by (simp add: ref_dropped_def nh_fpga_aux_device_release_def kfree_def Let_def)

lemma aux_walk_live:
  "list_all (\<lambda>p. objs p \<noteq> None) ps \<Longrightarrow>
   aux_walk objs i ps = (False, find (\<lambda>p. same_aux_id i (the (objs p))) ps)"
  by (induction ps) auto

section \<open>Every step\<close>

lemma unlisted_ok:
  assumes D: "aux_documented core" and I: "aux_mem_ok m us" and p: "p \<in> am_bus m"
    and l: "set l \<union> set d = am_bus m - {p}" "distinct (l @ d)"
  defines "m' \<equiv> m\<lparr>am_list := l, am_doomed := d\<rparr>"
  shows "aux_mem_ok (xc_uninit core p (xc_delete core p m')) us"
    "am_list (xc_uninit core p (xc_delete core p m')) = l"
    "q \<noteq> p \<Longrightarrow> am_objs (xc_uninit core p (xc_delete core p m')) q = am_objs m q"
proof -
  have L: "live m' p" and r: "am_refs m p = us p + 1"
    using aux_mem_okD(4,5) [OF I, of p] p by (auto simp: m'_def)
  then have *: "xc_uninit core p (xc_delete core p m') = ref_dropped p (m'\<lparr>am_bus := am_bus m - {p}\<rparr>)"
    using aux_coreD(4,5) [OF D] by (simp add: m'_def)
  then show "am_list (xc_uninit core p (xc_delete core p m')) = l"
    and "q \<noteq> p \<Longrightarrow> am_objs (xc_uninit core p (xc_delete core p m')) q = am_objs m q"
    using L by (simp_all add: ref_dropped_live m'_def)
  show "aux_mem_ok (xc_uninit core p (xc_delete core p m')) us"
    unfolding * using I L r l p
    by (simp add: ref_dropped_live m'_def aux_mem_ok_def) (auto simp: live_def)
qed

definition found :: "aux_mem \<Rightarrow> fbiob_aux_id \<Rightarrow> nat option" where
  "found m i = find (\<lambda>p. same_aux_id i (the (am_objs m p))) (am_list m)"

lemma aux_walk_found: "aux_mem_ok m us \<Longrightarrow> aux_walk (am_objs m) i (am_list m) = (False, found m i)"
  unfolding found_def using aux_mem_okD(6) [of m us] by (intro aux_walk_live) (simp add: live_def list_all_iff)

text \<open>
  A creation that is refused leaves everything as it was, but for the count of memory it has given
  back; one that succeeds appends a new registered structure with one reference.
\<close>

lemma mem_create_cases:
  assumes D: "aux_documented core" and I: "aux_mem_ok m us" and c: "mem_create core fd info m = (r, m')"
  obtains (exists) p where "found m (ax_id info) = Some p" "r = Inl EEXIST" "m' = m"
  | (refused) e where "found m (ax_id info) = None" "r = Inl e"
      "m' = m \<or> (\<exists>p k. \<not> live m p \<and> m' = m\<lparr>am_refs := (am_refs m)(p := k)\<rparr>)"
  | (created) p where "found m (ax_id info) = None" "r = Inr ()" "\<not> live m p"
      "m' = m\<lparr>am_objs := (am_objs m)(p \<mapsto> aux_dev_for fd info), am_refs := (am_refs m)(p := 1),
              am_bus := insert p (am_bus m), am_list := am_list m @ [p]\<rparr>"
proof (cases "found m (ax_id info)")
  case (Some p)
  with c have "r = Inl EEXIST" "m' = m" by (simp_all add: mem_create_def aux_walk_found [OF I])
  with Some show ?thesis by (rule exists)
next
  case None
  note c' = c [unfolded mem_create_def aux_walk_found [OF I] None prod.case bool.case option.case]
  show ?thesis
  proof (cases "xc_alloc core m")
    case none: None
    with c' refused [OF None] show ?thesis by auto
  next
    case (Some p)
    define a where "a = m\<lparr>am_objs := (am_objs m)(p \<mapsto> aux_dev_for fd info)\<rparr>"
    define b where "b = a\<lparr>am_refs := (am_refs a)(p := 1)\<rparr>"
    have n: "\<not> live m p" by (rule aux_coreD(1) [OF D Some])
    then have o: "(am_objs m)(p := None) = am_objs m" by (auto simp: live_def)
    have L: "live a p" "live b p" "am_refs b p = 1" by (simp_all add: a_def b_def)
    note c'' = c' [unfolded Some option.case Let_def, folded a_def]
    consider (init) e where "xc_init core p a = (Inl e, a)"
      | (add) e where "xc_init core p a = (Inr (), b)" "xc_add core p b = (Inl e, b)"
      | (ok) "xc_init core p a = (Inr (), b)" "xc_add core p b = (Inr (), b\<lparr>am_bus := insert p (am_bus b)\<rparr>)"
      using aux_coreD(2) [OF D L(1)] aux_coreD(3) [OF D L(2)] unfolding b_def by blast
    then show ?thesis
    proof cases
      case init
      with c'' have "r = Inl e" "m' = kfree p a" by simp_all
      with o L show ?thesis by (intro refused [OF None]) (simp_all add: kfree_def, simp add: a_def)
    next
      case add
      with c'' L have m': "r = Inl e" "m' = ref_dropped p b" by (simp_all add: aux_coreD(5) [OF D])
      have "m' = m\<lparr>am_refs := (am_refs m)(p := 0)\<rparr>"
        unfolding m'(2) ref_dropped_live [OF L(2)] by (simp add: a_def b_def o)
      with n have "\<exists>p k. \<not> live m p \<and> m' = m\<lparr>am_refs := (am_refs m)(p := k)\<rparr>" by blast
      with m'(1) show ?thesis by (intro refused [OF None] disjI2)
    next
      case ok
      with c'' n show ?thesis by (intro created [OF None]) (auto simp: a_def b_def)
    qed
  qed
qed

lemma mem_create_ok:
  assumes D: "aux_documented core" and I: "aux_mem_ok m us"
  shows "aux_mem_ok (snd (mem_create core fd info m)) us"
proof -
  obtain r m' where c: "mem_create core fd info m = (r, m')" by fastforce
  from D I c have "aux_mem_ok m' us"
  proof (cases rule: mem_create_cases)
    case (refused e)
    with I show ?thesis by (auto simp: aux_mem_ok_def)
  next
    case (created p)
    have "us p = 0" "p \<notin> am_bus m" using aux_mem_okD(4) [OF I, of p] created(3) by auto
    with I created(4) show ?thesis unfolding aux_mem_ok_def by (auto simp: live_def)
  qed (use I in simp)
  with c show ?thesis by simp
qed

lemma mem_remove_cases:
  assumes D: "aux_documented core" and I: "aux_mem_ok m us" and c: "mem_remove core i m = (r, m')"
  obtains (missing) "found m i = None" "r = Inl ENODEV" "m' = m"
  | (removed) p where "found m i = Some p" "r = Inr ()" "p \<in> set (am_list m)" "aux_mem_ok m' us"
      "am_list m' = remove1 p (am_list m)" "\<And>q. q \<noteq> p \<Longrightarrow> am_objs m' q = am_objs m q"
proof (cases "found m i")
  case None
  with c have "r = Inl ENODEV" "m' = m" by (simp_all add: mem_remove_def aux_walk_found [OF I])
  with None show ?thesis by (rule missing)
next
  case (Some p)
  then have p: "p \<in> set (am_list m)" by (auto simp: found_def find_Some_iff)
  let ?m = "m\<lparr>am_list := remove1 p (am_list m), am_doomed := am_doomed m\<rparr>"
  have m': "r = Inr ()" "m' = xc_uninit core p (xc_delete core p ?m)"
    using c Some by (simp_all add: mem_remove_def aux_walk_found [OF I] touch_live [OF aux_mem_okD(6) [OF I]])
  have "p \<in> am_bus m" "set (remove1 p (am_list m)) \<union> set (am_doomed m) = am_bus m - {p}"
    "distinct (remove1 p (am_list m) @ am_doomed m)"
    using aux_mem_okD(2,3) [OF I] p by auto
  from unlisted_ok [OF D I this] Some p m' show ?thesis by (intro removed [of p]) simp_all
qed

lemma mem_remove_next_ok:
  assumes D: "aux_documented core" and I: "aux_mem_ok m us"
  shows "aux_mem_ok (mem_remove_next core m) us"
proof (cases "am_doomed m")
  case (Cons p ps)
  have "p \<in> am_bus m" "set (am_list m) \<union> set ps = am_bus m - {p}" "distinct (am_list m @ ps)"
    using aux_mem_okD(2,3) [OF I] Cons by auto
  from unlisted_ok(1) [OF D I this] show ?thesis
    using touch_live [OF aux_mem_okD(7) [OF I]] Cons by (simp add: mem_remove_next_def Let_def)
qed (simp add: mem_remove_next_def I)

lemma aux_mem_step_ok:
  assumes "aux_mem_step core fd (m, us) (m', us')" and D: "aux_documented core" and I: "aux_mem_ok m us"
  shows "aux_mem_ok m' us'"
  using assms(1)
proof cases
  case (m_remove i)
  obtain r t where c: "mem_remove core i m = (r, t)" by fastforce
  from D I c show ?thesis by (cases rule: mem_remove_cases) (use m_remove c I in simp_all)
next
  case m_splice
  with I show ?thesis by (simp add: mem_splice_def touch_live [OF aux_mem_okD(6) [OF I]] aux_mem_ok_def)
next
  case (m_get p)
  with I show ?thesis by (auto simp: aux_mem_ok_def)
next
  case (m_put p)
  then have L: "live m p" and r: "am_refs m p = us p + (if p \<in> am_bus m then 1 else 0)"
    using aux_mem_okD(4,5) [OF I, of p] by auto
  then have "xc_uninit core p m = ref_dropped p m" using m_put aux_coreD(5) [OF D L] by simp
  then show ?thesis using I L r m_put by (auto simp: ref_dropped_live aux_mem_ok_def live_def)
qed (use mem_create_ok mem_remove_next_ok D I in simp_all)

lemma aux_mem_reach_ok:
  assumes "aux_mem_reach core fd st" and "aux_documented core"
  shows "aux_mem_ok (fst st) (snd st)"
  using assms(1)
proof induction
  case (m_step st st')
  with aux_mem_step_ok [of core fd "fst st" "snd st" "fst st'" "snd st'"] assms(2) show ?case by simp
qed (simp add: aux_mem_init_def aux_mem_ok_def live_def)

section \<open>Properties\<close>

text \<open>
  C6: However creations, removals, the removal of the FPGA and other holders of references
  interleave, no freed structure is accessed or freed again, whatever step of a creation fails; and
  a structure is in memory exactly as long as it is on one of the lists or somebody else holds a
  reference, so that nothing leaks. The structures on the lists, each once, are those on the bus.
\<close>

theorem aux_memory_safe:
  assumes "aux_documented core" and "aux_mem_reach core fd (m, us)"
  shows "\<not> am_fault m
     \<and> (\<forall>p. am_objs m p \<noteq> None \<longleftrightarrow> p \<in> set (am_list m) \<or> p \<in> set (am_doomed m) \<or> 0 < us p)
     \<and> distinct (am_list m @ am_doomed m) \<and> am_bus m = set (am_list m) \<union> set (am_doomed m)"
proof -
  have I: "aux_mem_ok m us" using aux_mem_reach_ok [OF assms(2,1)] by simp
  show ?thesis using aux_mem_okD(1-4) [OF I] by (auto simp: live_def)
qed








section \<open>Witnesses\<close>

text \<open>A kernel with room for one structure; \<open>add\<close> is what registering answers.\<close>

definition one_slot :: "errno option \<Rightarrow> aux_core" where
  "one_slot add =
     \<lparr>xc_alloc = (\<lambda>m. if am_objs m 0 = None then Some 0 else None),
      xc_init = (\<lambda>p m. (Inr (), m\<lparr>am_refs := (am_refs m)(p := 1)\<rparr>)),
      xc_add = (\<lambda>p m. case add of Some e \<Rightarrow> (Inl e, m) | None \<Rightarrow> (Inr (), m\<lparr>am_bus := insert p (am_bus m)\<rparr>)),
      xc_delete = (\<lambda>p m. m\<lparr>am_bus := am_bus m - {p}\<rparr>),
      xc_uninit = ref_dropped\<rparr>"

lemma one_slot_documented: "aux_documented (one_slot add)"
  by (auto simp: aux_documented_def one_slot_def live_def split: option.splits)

definition slot_fd :: nh_fpga_pci_dev where
  "slot_fd = \<lparr>fd_pdev = 3, fd_device_id = 0x7024, fd_mmio_len = 0x1000, fd_minor = 0, aux_dev_list = [],
     fd_irq = \<lparr>fi_cfg = None, fi_chips = [], fi_chip_data = [], fi_ref_clk = None\<rparr>\<rparr>"

definition slot_data :: fbiob_aux_data where
  "slot_data = \<lparr>ax_id = \<lparr>aux_name = ''fpga_info'', aux_id = 1\<rparr>, ax_csr_offset = 0, ax_iobuf_offset = 0, ax_words = []\<rparr>"

definition slot_made :: aux_mem where
  "slot_made = aux_mem_init\<lparr>am_objs := (\<lambda>_. None)(0 \<mapsto> aux_dev_for slot_fd slot_data),
     am_refs := (\<lambda>_. 0)(0 := 1), am_bus := {0}, am_list := [0]\<rparr>"

lemmas slot_defs = one_slot_def slot_made_def aux_mem_init_def

lemma slot_create: "mem_create (one_slot None) slot_fd slot_data aux_mem_init = (Inr (), slot_made)"
  by (simp add: mem_create_def slot_defs)

lemma slot_remove:
  "mem_remove (one_slot None) (ax_id slot_data) (slot_made\<lparr>am_refs := (am_refs slot_made)(0 := 2)\<rparr>) =
     (Inr (), slot_made\<lparr>am_refs := (\<lambda>_. 0)(0 := 1), am_bus := {}, am_list := []\<rparr>)"
  by (simp add: mem_remove_def slot_defs same_aux_id_def aux_dev_for_def touch_def live_def ref_dropped_def)

text \<open>Somebody takes a reference to the device before it is removed: it stays in memory, off the list.\<close>

theorem aux_memory_safe_witness:
  "\<exists>m us. aux_mem_reach (one_slot None) slot_fd (m, us) \<and> am_list m = [] \<and> am_bus m = {} \<and> am_objs m 0 \<noteq> None \<and> us 0 = 1"
proof -
  let ?m = "slot_made\<lparr>am_refs := (am_refs slot_made)(0 := am_refs slot_made 0 + 1)\<rparr>"
    and ?us = "(\<lambda>_. 0)(0 := 1) :: nat \<Rightarrow> nat"
    and ?n = "slot_made\<lparr>am_refs := (\<lambda>_. 0)(0 := 1), am_bus := {}, am_list := []\<rparr>"
  have "aux_mem_reach (one_slot None) slot_fd (slot_made, \<lambda>_. 0)"
    using m_step [OF m_init m_create, of "one_slot None" slot_fd slot_data] by (simp add: slot_create)
  moreover have "aux_mem_step (one_slot None) slot_fd (slot_made, \<lambda>_. 0) (?m, ?us)"
    using m_get [of 0 slot_made "\<lambda>_. 0"] by (simp add: slot_made_def)
  ultimately have "aux_mem_reach (one_slot None) slot_fd (?m, ?us)" by (rule m_step)
  moreover have "?m = slot_made\<lparr>am_refs := (am_refs slot_made)(0 := 2)\<rparr>" by (simp add: slot_made_def numeral_2_eq_2)
  ultimately have R: "aux_mem_reach (one_slot None) slot_fd (?n, ?us)"
    using m_step [OF _ m_remove, of "one_slot None" slot_fd ?m ?us "ax_id slot_data"] by (simp add: slot_remove)
  have "am_objs ?n 0 \<noteq> None" "am_bus ?n = {}"
    using aux_memory_safe [OF one_slot_documented R] by simp_all
  with R show ?thesis by (intro exI [of _ ?n] exI [of _ ?us]) simp
qed


end
