(* ===== verification/Platform_Check.thy ===== *)
theory Platform_Check
  imports Fan_Card Port_Led_Tables Led_Core_Props Xcvr_Props Psu_Props I2c_Main_Props Fpga_Info
begin

text \<open>
  The platform descriptors as typed data: what every driver assumes of the tables it indexes, the
  assumptions that tie two tables together, and that every supported platform meets them.
\<close>

section \<open>Conformance, table by table\<close>

definition opt_ok :: "('a \<Rightarrow> bool) \<Rightarrow> 'a option \<Rightarrow> bool" where
  "opt_ok P t = (case t of None \<Rightarrow> True | Some x \<Rightarrow> P x)"

lemma opt_ok_simps [simp]: "opt_ok P None" "opt_ok P (Some x) = P x"
  by (simp_all add: opt_ok_def)

text \<open>An id table has as many entries as its length field says, and maps its indices one to one
  onto themselves.\<close>

definition id_table_ok :: "u32 list option \<Rightarrow> u32 \<Rightarrow> bool" where
  "id_table_ok tab len =
     opt_ok (\<lambda>t. length t = unat len \<and> distinct t \<and> list_all (\<lambda>x. unat x < length t) t) tab"

definition field_ok :: "u32 \<Rightarrow> u32 \<Rightarrow> bool" where
  "field_ok k s = (contiguous k \<and> ffs k = unat s)"

definition asic_table_ok :: "asic_temp_config \<Rightarrow> bool" where
  "asic_table_ok c =
     (field_ok (max_mask c) (max_shift c) \<and> field_ok (min_mask c) (min_shift c) \<and> max_mask c AND min_mask c = 0)"

definition xcvr_table_ok :: "xcvr_ctrl_config \<Rightarrow> bool" where
  "xcvr_table_ok c =
     (opt_ok (\<lambda>gs. length gs = unat (num_groups c) \<and> xcvr_groups_ok gs) (groups c)
      \<and> id_table_ok (id_to_slot c) (id_to_slot_len c))"

text \<open>No controller belongs to two interrupt domains.\<close>

definition domains_apart :: "nh_fpga_msi_domain_cfg list \<Rightarrow> bool" where
  "domains_apart ds = sorted_wrt (\<lambda>d e. sint (last_master d) < sint (first_master e)) ds"

section \<open>Conformance across tables\<close>

text \<open>A controller that has a mux has an interrupt line; the power supplies are read through a mux
  that the platform has, on channels that the mux has.\<close>

definition mux_has_irq :: "nh_fpga_irq_cfg \<Rightarrow> mux_config \<Rightarrow> bool" where
  "mux_has_irq c r = list_ex (domain_has (mc_logical_master r)) (domains c)"

definition psu_has_mux :: "mux_config list \<Rightarrow> psu_fw_cfg \<Rightarrow> bool" where
  "psu_has_mux tab fw =
     list_ex (\<lambda>r. mc_logical_master r = ucast (fw_logical_master fw)
                  \<and> opt_ok (list_all (\<lambda>c. int (unat c) < sint (num_channels r))) (mux_channels fw)) tab"

definition mux_rows :: "nh_platform_cfg \<Rightarrow> mux_config list" where
  "mux_rows p = (case mux_cfg p of None \<Rightarrow> [] | Some tab \<Rightarrow> tab)"

definition platform_ok :: "nh_platform_cfg \<Rightarrow> bool" where
  "platform_ok p =
     (opt_ok (\<lambda>c. fan_regs_ok c \<and> fan_leds_ok c) (fan_cfg p)
      \<and> opt_ok led_cfg_ok (led_core_cfg p)
      \<and> opt_ok led_table_ok (port_led_cfg p) \<and> id_table_ok (led_to_id p) (led_to_id_len p)
      \<and> opt_ok xcvr_table_ok (xcvr_cfg p)
      \<and> opt_ok (mux_table_ok p) (mux_cfg p)
      \<and> opt_ok asic_table_ok (asic_temp_cfg p)
      \<and> opt_ok (\<lambda>c. psu_table_ok c \<and> opt_ok (psu_has_mux (mux_rows p)) (fw_cfg c)) (psu_cfg p)
      \<and> opt_ok (\<lambda>c. irq_cfg_ok c \<and> domains_apart (domains c) \<and> list_all (mux_has_irq c) (mux_rows p)) (irq_cfg p))"

section \<open>The tables\<close>

lemma id_tables_ok:
  "id_table_ok None n" "id_table_ok (Some m4062nhp_led_to_id) 129" "id_table_ok (Some m4062nhp_xcvr_id_to_slot) 129"
  using m4062nhp_perms_bound m4062nhp_perms_distinct
  by (auto simp: id_table_ok_def list_all_iff word_le_nat_alt less_Suc_eq_le [of _ 128, simplified])

lemma asic_tables_ok: "asic_table_ok m4061nhp_asic_temp" "asic_table_ok m4062nhp_fpga0_asic_temp"
  by code_simp+

lemma xcvr_configs_ok:
  "xcvr_table_ok m4061nhp_xcvr" "xcvr_table_ok m4062nhp_fpga0_xcvr"
  "xcvr_table_ok m4062nhp_fpga1_xcvr" "xcvr_table_ok m4340nhp_xcvr"
proof -
  have n: "length m4061nhp_xcvr_groups = 3" "length m4062nhp_fpga0_xcvr_groups = 1"
    "length m4062nhp_fpga1_xcvr_groups = 4" "length m4340nhp_xcvr_groups = 4"
    by (simp_all add: m4061nhp_xcvr_groups_def m4062nhp_fpga0_xcvr_groups_def
        m4062nhp_fpga1_xcvr_groups_def m4340nhp_xcvr_groups_def)
  have i: "id_to_slot m4061nhp_xcvr = None" "id_to_slot m4062nhp_fpga0_xcvr = None" "id_to_slot m4340nhp_xcvr = None"
    "id_to_slot m4062nhp_fpga1_xcvr = Some m4062nhp_xcvr_id_to_slot" "id_to_slot_len m4062nhp_fpga1_xcvr = 129"
    by (simp_all add: m4061nhp_xcvr_def m4062nhp_fpga0_xcvr_def m4062nhp_fpga1_xcvr_def m4340nhp_xcvr_def)
  show "xcvr_table_ok m4061nhp_xcvr" "xcvr_table_ok m4062nhp_fpga0_xcvr"
    "xcvr_table_ok m4062nhp_fpga1_xcvr" "xcvr_table_ok m4340nhp_xcvr"
    using xcvr_tables_ok id_tables_ok by (simp_all add: xcvr_table_ok_def xcvr_tab_groups n i)
qed

lemma irq_mux_ok:
  "domains_apart (domains cf2_irq_cfg) \<and> list_all (mux_has_irq cf2_irq_cfg) cf2_mux"
  "domains_apart (domains m4061nhp_irq_cfg) \<and> list_all (mux_has_irq m4061nhp_irq_cfg) m4061nhp_mux"
  "domains_apart (domains m4062nhp_fpga0_irq_cfg) \<and> list_all (mux_has_irq m4062nhp_fpga0_irq_cfg) m4062nhp_fpga0_mux"
  "domains_apart (domains m4062nhp_fpga1_irq_cfg) \<and> list_all (mux_has_irq m4062nhp_fpga1_irq_cfg) m4062nhp_fpga1_mux"
  "domains_apart (domains m4340nhp_irq_cfg) \<and> list_all (mux_has_irq m4340nhp_irq_cfg) m4340nhp_mux"
  by code_simp+

lemma psu_mux_ok:
  "opt_ok (psu_has_mux m4061nhp_mux) (fw_cfg m4061nhp_psu)"
  "opt_ok (psu_has_mux m4062nhp_fpga0_mux) (fw_cfg m4062nhp_fpga0_psu)"
  "opt_ok (psu_has_mux m4340nhp_mux) (fw_cfg m4340nhp_psu)"
  by code_simp+


lemma other_cfg_simps [simp]:
  "fan_cfg nh_platform_cf2 = None" "fan_cfg nh_platform_m4062nhp_fpga0 = None"
  "fan_cfg nh_platform_m4061nhp = Some m4061nhp_fan" "fan_cfg nh_platform_m4062nhp_fpga1 = Some m4062nhp_fpga1_fan"
  "fan_cfg nh_platform_m4340nhp = Some m4340nhp_fan"
  "asic_temp_cfg nh_platform_cf2 = None" "asic_temp_cfg nh_platform_m4062nhp_fpga1 = None"
  "asic_temp_cfg nh_platform_m4061nhp = Some m4061nhp_asic_temp"
  "asic_temp_cfg nh_platform_m4062nhp_fpga0 = Some m4062nhp_fpga0_asic_temp"
  "asic_temp_cfg nh_platform_m4340nhp = None"
  "led_to_id nh_platform_cf2 = None" "led_to_id nh_platform_m4061nhp = None" "led_to_id nh_platform_m4340nhp = None"
  "led_to_id nh_platform_m4062nhp_fpga0 = Some m4062nhp_led_to_id" "led_to_id_len nh_platform_m4062nhp_fpga0 = 129"
  "led_to_id nh_platform_m4062nhp_fpga1 = Some m4062nhp_led_to_id" "led_to_id_len nh_platform_m4062nhp_fpga1 = 129"
  by (simp_all add: nh_platform_cf2_def nh_platform_m4061nhp_def nh_platform_m4062nhp_fpga0_def
      nh_platform_m4062nhp_fpga1_def nh_platform_m4340nhp_def)

lemmas platform_tables_ok =
  fan_tables_ok fan_tables_leds_ok led_cfgs_ok led_tables_ok id_tables_ok xcvr_configs_ok
  mux_tables_ok asic_tables_ok psu_tables_ok psu_mux_ok irq_tables_ok irq_mux_ok

text \<open>
  C23: The descriptor that any supported FPGA is given is well formed. Every array has the length its
  length field says, so that no driver's index leaves a table; bit positions lie in their registers
  and the fields of a register do not overlap; the port tables map ports one to one to slots; the
  interrupt domains are disjoint and every controller with a mux has a line in one of them; and the
  power supplies are read through a mux that the platform has, on channels that this mux has.
\<close>

theorem platform_tables_wellformed:
  assumes "nh_get_platform d = Some p"
  shows "platform_ok p"
proof -
  have "platform_ok q" if "q \<in> set nh_platforms" for q
    using that unfolding set_nh_platforms platform_ok_def
    by (auto simp: platform_tables_ok mux_rows_def)
  with assms show ?thesis by (simp add: nh_get_platform_iff)
qed

theorem platform_tables_wellformed_witness:
  "nh_get_platform 0x7024 = Some nh_platform_m4340nhp \<and> platform_ok nh_platform_m4340nhp"
proof -
  have "nh_get_platform 0x7024 = Some nh_platform_m4340nhp"
    using get_platforms(5) by (simp add: NH_FPGA_DEVICE_M4340NHP_def)
  with platform_tables_wellformed show ?thesis by blast
qed

end
