(* ===== verification/Spec2Isabelle.thy ===== *)
theory Spec2Isabelle
  imports Fan_Card Port_Led_Tables Led_Core_Props Xcvr_Props Psu_Props Mux_Teardown Fpga_Info
    Fbiob_Files I2c_Stack Xiic_Pm Locked_Drivers Module_Props Aux_Stack Aux_Lifetime Platform_Check
begin

text \<open>
  The kernel modules of the Nexthop FBOSS BSP (\<open>src/kmods\<close>).

  \<^bold>\<open>The program.\<close> A switch has one or two FPGAs on PCIe. The module \<open>fbiob_pci\<close>
  (\<open>nh_fpga_fbiob_main.c\<close>, \<open>nh_fpga_aux.c\<close>, \<open>nh_fpga_irq.c\<close>) binds to them, maps BAR0, sets up the
  interrupts of the I2C controllers and gives each FPGA a character device. Through its ioctl, user
  space creates auxiliary devices, and the other modules bind to those by name: fans
  (\<open>nh_fpga_fan_main.c\<close>), port LEDs (\<open>nh_fpga_port_led_main.c\<close>), status LEDs
  (\<open>nh_fpga_led_core_main.c\<close>, \<open>nh_fpga_led_trigger.c\<close>), transceiver signals (\<open>nh_xcvr_ctrl_main.c\<close>),
  power supplies (\<open>nh_fpga_psu_main.c\<close>), FPGA version (\<open>nh_fpga_info.c\<close>), ASIC temperature
  (\<open>nh_fpga_asic_temp_main.c\<close>) and I2C controllers (\<open>nh_fpga_i2c_main.c\<close>). The last creates the
  platform devices that the Xilinx bus driver (\<open>backports/bp4f_i2c_xiic.c\<close>) serves and, once their
  adapters appear, the muxes (\<open>nh_fpga_mux.c\<close>) through which the PSU driver reads firmware versions.
  What differs between products is in tables (\<open>platform/\<close>), looked up by PCI device id.

  \<^bold>\<open>The theories\<close>, in the order in which they build on each other:

  \<^item> \<open>BSP_Prelude\<close>: C integers as words, errno values, results (\<open>errno + 'a\<close>), \<open>BIT\<close>, \<open>GENMASK\<close>,
    \<open>__ffs\<close>, field reads and writes, decimal printing and the kernel's parsers, with their round
    trips. \<open>Kernel_Env\<close>: outcomes of kernel calls. \<open>Mmio\<close>: the register file of BAR0, the locale
    \<open>reg_file\<close> (laws of reads after writes, read-modify-writes).
  \<^item> \<open>Platform_Types\<close>, \<open>Platform_Base\<close>, \<open>Platform_<sku>\<close>, \<open>Platform\<close>: every struct and every
    table of \<open>platform/\<close>, entry by entry, and the lookup; \<open>Platform_Check\<close>: what the drivers assume of
    the tables, as a type of platform descriptors that every supported platform has.
  \<^item> \<open>Bicolor_Led\<close>: the locale of a two-colour LED, the abstract LED and the refinement lemmas;
    \<open>Fan\<close>, \<open>Fan_Led\<close>, \<open>Fan_Card\<close> and \<open>Port_Led\<close>, \<open>Port_Led_Tables\<close> are the two drivers that
    implement it. \<open>Led_Core\<close>, \<open>Led_Core_Props\<close>: the status LEDs and trigger attributes.
  \<^item> \<open>Attr_Store\<close>: the locale of writable on/off attributes; \<open>Xcvr\<close>, \<open>Xcvr_Props\<close> implement it.
  \<^item> \<open>Psu\<close>, \<open>Psu_Props\<close>, \<open>Fpga_Info\<close>: the read-only drivers.
  \<^item> \<open>Irq\<close>, \<open>Aux_Dev\<close>, \<open>Fbiob\<close>, \<open>Fbiob_Props\<close>: \<open>fbiob_pci\<close> as one state (\<open>fbiob_sys\<close>) and its
    reachable states; \<open>Aux_Lifetime\<close>: the memory and the reference counts of
    auxiliary devices; \<open>Fbiob_Files\<close>: the files open on its character devices. \<open>Aux_Stack\<close>: from the
    ioctl to a driver's register access.
  \<^item> \<open>I2c_Mux\<close>, \<open>I2c_Mux_Props\<close>, \<open>Mux_Teardown\<close>: the mux registry, sequentially and interleaved.
    \<open>I2c_Main\<close>, \<open>I2c_Main_Props\<close>: the controllers and the bus notifier.
  \<^item> \<open>Xiic\<close> (the driver), \<open>Xiic_Frame\<close> (what each operation leaves alone), \<open>Xiic_Inv\<close>,
    \<open>Xiic_State\<close> (the invariant), \<open>Xiic_Safe\<close> (the state machine), \<open>Xiic_Props\<close>;
    \<open>Xiic_Pm\<close>: the same state machine with runtime power management of the clock;
    \<open>I2c_Stack\<close>: the controller driver together with the bus driver.
  \<^item> \<open>Reg_Lock\<close>: read-modify-writes under a mutex, one register access at a time, and the locale
    \<open>lock_client\<close> that shows every interleaving serializable; \<open>Locked_Drivers\<close> interprets it on
    the LED, fan and transceiver drivers. \<open>Modules\<close>, \<open>Module_Props\<close>: module loading and the
    binding of auxiliary devices, through the locale \<open>module_set\<close>.

  \<^bold>\<open>How code becomes definitions.\<close> A struct is a \<open>record\<close>, an enum a \<open>datatype\<close>, a C integer a word
  of its width; a function keeps its name and takes the state it works on and returns it updated.
  \<open>-E\<close> returns are \<open>Inl E\<close>. A loop over an array is a recursion over the index list. A call to the
  kernel that can fail is a field of an environment record that is a parameter of the definition,
  and every theorem holds for all its values unless it names \<open>kenv_ok\<close> or the like, in which
  everything succeeds. \<open>devm_\<close> resources are released by the kernel when a probe fails or a device
  goes away, so they are not part of a failed probe's result.

  \<^bold>\<open>What is shown.\<close> Per driver: which devices its probe accepts and with which error it refuses the
  others; what each attribute reads back after a write, and that a write leaves every other signal
  alone; on the concrete tables, that no two signals share a bit. For the two-colour LEDs and the
  transceiver attributes: refinement of an abstract LED and of an abstract store, for any sequence of
  writes, and for the port LEDs for any interleaving with the status LED driver, with which they
  share a register. For \<open>fbiob_pci\<close>, the I2C controllers, the muxes and the modules: an invariant over
  every history of probes, ioctls, notifications and removals, and that removal undoes probe; for the
  structures of auxiliary devices, that none is used after it is freed, freed twice or leaked. For
  the Xilinx driver: no access outside a message buffer or through a null or stale message pointer in
  any interleaving of transfers, interrupts and timeouts (the model counts such an access as a fault
  and carries on), and a clock that runs throughout every transfer. Some theorems state what the code does where that is not what it means to do (a
  start that fails wedges the bus driver, a bus frequency that is ignored, a clock computation that
  wraps around, an ioctl in the removal window, a file that outlives its device, an unchecked end of a device's
  registers, a clock released once too often).

  \<^bold>\<open>Bounds and fuel.\<close> The polling loops of the Xilinx driver end at a deadline of one second; the
  parameter \<open>hw_polls\<close> is the number of iterations the deadline allows in a given hardware state, and
  every theorem holds for any number. Its FIFO fill loop takes as fuel the count the code computes
  before it, bounded in \<open>xiic_fill_loop_bound\<close>; the wait for an idle bus makes at most four
  polls, as the code does. Every other recursion is structural.

  \<^bold>\<open>Parameters and hypotheses.\<close> The Xilinx controller is a parameter \<open>hw\<close> (any read and write
  functions). \<open>xiic_memory_safe\<close> needs of it that the interrupt enable register is a latch that
  only the driver writes and a reset clears (\<open>ier_latched\<close>), which its data sheet documents;
  witnesses instantiate it with a concrete controller (\<open>plain_hw\<close>). The I2C core, regmap, the clock
  and the platform bus are outcomes in environment records. The kernel's runtime PM core is a
  parameter of \<open>Xiic_Pm\<close>; \<open>pm_documented\<close> states what the kernel documents of its calls (which of them
  take and drop references, and when they may call the driver's suspend and resume), and a concrete
  core, \<open>plain_pm\<close>, meets it. In the same way \<open>Aux_Lifetime\<close> has the reference counting of the auxiliary
  bus as a parameter, with \<open>aux_documented\<close> for a hypothesis and \<open>one_slot\<close> for an instance.

  \<^bold>\<open>Concurrency.\<close> What a function does under one acquisition of a lock is one step in \<open>Fbiob\<close>,
  \<open>I2c_Main\<close>, \<open>Mux_Teardown\<close> and \<open>Xiic_Safe\<close> (an interrupt handler runs to its end under the driver's
  mutex). \<open>Reg_Lock\<close> goes below that for the register drivers: single register accesses
  interleave and the mutex is a step of its own. Accesses outside the protected registers may happen
  at any time; that the fan driver only makes such accesses for the LED drivers is
  \<open>fan_led_regs_disjoint\<close>.

  \<^bold>\<open>Not modelled.\<close> Debug output; the devres bookkeeping of the kernel, but for the driver data of
  \<open>Fbiob_Files\<close> and the clock of \<open>Xiic_Pm\<close>; system sleep, for which the drivers have no callbacks; the trigger attributes of a kernel with \<open>CONFIG_LEDS_TRIGGERS\<close> (the functions are empty
  then); \<open>fbcpld-ioctl.h\<close>, which no module includes; build files, packaging, shell scripts, udev
  rules and systemd units.
\<close>

end
